(* ===== verification/Prelude.thy ===== *)
theory Prelude
  imports Main
begin

text \<open>
  What the components share: the model of the JavaScript string and array operations the
  sources use, the decimal printing of numbers, the generic transition systems and their
  invariants, and the collections of rewrite rules.

  Strings are \<open>string\<close>: byte sequences, a source literal being its UTF-8 encoding.
  The operations below (\<open>trim\<close>, \<open>split\<close>, \<open>toLowerCase\<close>, \<open>indexOf\<close>,
  \<open>slice\<close>, \<open>join\<close>) agree with JavaScript on ASCII text, which is what DNS names,
  TXT records, mail addresses and URLs are; Unicode white space and Unicode case mapping are
  not modelled.
\<close>

named_theorems js_simps \<open>rules that evaluate the string and array operations\<close>
named_theorems inv_intros \<open>preservation lemmas of the component invariants\<close>

section \<open>Characters\<close>

definition is_ws :: "char \<Rightarrow> bool" where
  "is_ws c \<longleftrightarrow> c \<in> {CHR 0x09, CHR 0x0A, CHR 0x0B, CHR 0x0C, CHR 0x0D, CHR '' ''}"

definition code_of :: "char \<Rightarrow> nat" where
  "code_of c = of_char c"

definition is_digit :: "char \<Rightarrow> bool" where
  "is_digit c \<longleftrightarrow> 48 \<le> code_of c \<and> code_of c \<le> 57"

definition is_upper :: "char \<Rightarrow> bool" where
  "is_upper c \<longleftrightarrow> 65 \<le> code_of c \<and> code_of c \<le> 90"

definition is_lower :: "char \<Rightarrow> bool" where
  "is_lower c \<longleftrightarrow> 97 \<le> code_of c \<and> code_of c \<le> 122"

definition is_alpha :: "char \<Rightarrow> bool" where
  "is_alpha c \<longleftrightarrow> is_upper c \<or> is_lower c"

text \<open>\<open>\w\<close> of a regular expression.\<close>

definition is_word :: "char \<Rightarrow> bool" where
  "is_word c \<longleftrightarrow> is_alpha c \<or> is_digit c \<or> c = CHR ''_''"

definition lower_char :: "char \<Rightarrow> char" where
  "lower_char c = (if is_upper c then char_of (code_of c + 32) else c)"

definition js_lower :: "string \<Rightarrow> string" where
  "js_lower s = map lower_char s"

lemma code_of_less [simp]: "code_of c < 256"
  by (simp add: code_of_def)

lemma code_of_char_of [simp]: "n < 256 \<Longrightarrow> code_of (char_of n) = n"
  by (simp add: code_of_def)

lemma code_of_inject: "code_of a = code_of b \<longleftrightarrow> a = b"
  by (simp add: code_of_def)

lemmas char_class_defs = is_ws_def code_of_def is_digit_def is_upper_def is_lower_def is_alpha_def
  is_word_def

lemma lower_char_not_upper [simp]: "\<not> is_upper (lower_char c)"
  by (auto simp: lower_char_def is_upper_def)

lemma lower_char_idem [simp]: "lower_char (lower_char c) = lower_char c"
  using lower_char_not_upper [of c] by (simp add: lower_char_def [of "lower_char c"])

lemma lower_char_upper: "is_upper c \<Longrightarrow> is_lower (lower_char c)"
  by (auto simp: lower_char_def is_upper_def is_lower_def)

text \<open>Only letters change under lowering.\<close>

lemma lower_char_eqD: "lower_char c = d \<Longrightarrow> \<not> is_lower d \<Longrightarrow> c = d"
  using lower_char_upper [of c] by (auto simp: lower_char_def split: if_splits)

lemma js_lower_idem [simp]: "js_lower (js_lower s) = js_lower s"
  by (simp add: js_lower_def o_def)

lemma js_lower_simps [simp]:
  "js_lower [] = []"
  "js_lower (c # s) = lower_char c # js_lower s"
  "js_lower (s @ t) = js_lower s @ js_lower t"
  "length (js_lower s) = length s"
  by (simp_all add: js_lower_def)

section \<open>String operations\<close>

definition js_trim :: "string \<Rightarrow> string" where
  "js_trim s = rev (dropWhile is_ws (rev (dropWhile is_ws s)))"

text \<open>\<open>s.replace(/\s+/g, "")\<close>.\<close>

definition strip_ws :: "string \<Rightarrow> string" where
  "strip_ws s = filter (\<lambda>c. \<not> is_ws c) s"

text \<open>\<open>s.split(c)\<close> for a one-character separator; the empty string splits into itself.\<close>

primrec js_split :: "char \<Rightarrow> string \<Rightarrow> string list" where
  "js_split c [] = [[]]"
| "js_split c (x # xs) =
     (if x = c then [] # js_split c xs
      else (case js_split c xs of [] \<Rightarrow> [[x]] | h # t \<Rightarrow> (x # h) # t))"

text \<open>\<open>s.split(/\s+/)\<close>: a separator is a maximal run of white space.\<close>

function js_split_ws :: "string \<Rightarrow> string list" where
  "js_split_ws [] = [[]]"
| "js_split_ws (x # xs) =
     (if is_ws x then [] # js_split_ws (dropWhile is_ws xs)
      else (case js_split_ws xs of [] \<Rightarrow> [[x]] | h # t \<Rightarrow> (x # h) # t))"
  by pat_completeness auto
termination
  by (relation "measure length") (auto simp: le_imp_less_Suc length_dropWhile_le)

text \<open>\<open>xs.join(sep)\<close>.\<close>

fun js_join :: "string \<Rightarrow> string list \<Rightarrow> string" where
  "js_join sep [] = []"
| "js_join sep [x] = x"
| "js_join sep (x # y # ys) = x @ sep @ js_join sep (y # ys)"

text \<open>\<open>s.indexOf(c)\<close>; \<open>None\<close> stands for \<open>-1\<close>.\<close>

primrec js_indexOf :: "char \<Rightarrow> string \<Rightarrow> nat option" where
  "js_indexOf c [] = None"
| "js_indexOf c (x # xs) = (if x = c then Some 0 else map_option Suc (js_indexOf c xs))"

definition js_startsWith :: "string \<Rightarrow> string \<Rightarrow> bool" where
  "js_startsWith s p \<longleftrightarrow> take (length p) s = p"

text \<open>\<open>s.includes(t)\<close> on strings.\<close>

primrec js_includes :: "string \<Rightarrow> string \<Rightarrow> bool" where
  "js_includes [] t \<longleftrightarrow> t = []"
| "js_includes (x # xs) t \<longleftrightarrow> js_startsWith (x # xs) t \<or> js_includes xs t"

text \<open>\<open>${n}\<close> for a non-negative integer.\<close>

fun nat_str :: "nat \<Rightarrow> string" where
  "nat_str n = (if n < 10 then [char_of (48 + n)]
                else nat_str (n div 10) @ [char_of (48 + n mod 10)])"

declare nat_str.simps [simp del]

text \<open>\<open>Number(s)\<close> on a string of decimal digits.\<close>

definition dec_val :: "string \<Rightarrow> nat" where
  "dec_val s = foldl (\<lambda>a c. 10 * a + (code_of c - 48)) 0 s"

text \<open>The non-ASCII characters of the source's messages, as their UTF-8 bytes.\<close>

definition mdash :: string where "mdash = [CHR 0xE2, CHR 0x80, CHR 0x94]"
definition bullet :: string where "bullet = [CHR 0xE2, CHR 0x80, CHR 0xA2]"
definition arrow :: string where "arrow = [CHR 0xE2, CHR 0x86, CHR 0x92]"
definition nl :: string where "nl = [CHR 0x0A]"
definition crlf :: string where "crlf = [CHR 0x0D, CHR 0x0A]"

lemmas js_eval = is_ws_def is_digit_def is_upper_def is_lower_def is_alpha_def is_word_def
  code_of_def lower_char_def js_lower_def js_trim_def strip_ws_def js_startsWith_def

section \<open>Facts about splitting and joining\<close>

lemma js_split_not_Nil [simp]: "js_split c s \<noteq> []"
  by (induction s) (auto split: list.splits)

lemma js_split_ws_not_Nil [simp]: "js_split_ws s \<noteq> []"
  by (induction s rule: js_split_ws.induct) (auto split: list.splits)

lemma js_split_absent [simp]: "c \<notin> set s \<Longrightarrow> js_split c s = [s]"
  by (induction s) auto

lemma js_split_append_sep: "c \<notin> set a \<Longrightarrow> js_split c (a @ c # b) = a # js_split c b"
  by (induction a) auto

lemma js_split_parts_absent: "p \<in> set (js_split c s) \<Longrightarrow> c \<notin> set p"
  by (induction s arbitrary: p) (fastforce split: if_splits list.splits)+

text \<open>\<open>join\<close> undoes \<open>split\<close>, and \<open>split\<close> undoes \<open>join\<close> of separator-free parts.\<close>

lemma js_join_Cons: "ys \<noteq> [] \<Longrightarrow> js_join sep (x # ys) = x @ sep @ js_join sep ys"
  by (cases ys) auto

lemma js_join_split: "js_join [c] (js_split c s) = s"
proof (induction s)
  case Nil
  then show ?case by simp
next
  case (Cons x xs)
  then show ?case
    by (cases "js_split c xs") (auto simp: js_join_Cons, (case_tac list; auto)+)
qed

lemma js_split_join:
  "xs \<noteq> [] \<Longrightarrow> (\<And>x. x \<in> set xs \<Longrightarrow> c \<notin> set x) \<Longrightarrow> js_split c (js_join [c] xs) = xs"
  by (induction "[c]" xs rule: js_join.induct) (auto simp: js_split_append_sep)

text \<open>The same for white space: \<open>tokens.join(" ")\<close> split again gives the tokens back.\<close>

definition token :: "string \<Rightarrow> bool" where
  "token t \<longleftrightarrow> t \<noteq> [] \<and> (\<forall>c \<in> set t. \<not> is_ws c)"

lemma is_ws_space [simp]: "is_ws CHR '' ''"
  by (simp add: is_ws_def)

lemma js_split_ws_token: "\<forall>c \<in> set t. \<not> is_ws c \<Longrightarrow> js_split_ws t = [t]"
  by (induction t) auto

lemma js_split_ws_append:
  "\<forall>c \<in> set a. \<not> is_ws c \<Longrightarrow> is_ws w \<Longrightarrow>
     js_split_ws (a @ w # b) = a # js_split_ws (dropWhile is_ws b)"
  by (induction a) auto

lemma dropWhile_token [simp]: "token t \<Longrightarrow> dropWhile is_ws (t @ s) = t @ s"
  by (cases t) (auto simp: token_def)

lemma dropWhile_join_tokens:
  "\<forall>x \<in> set xs. token x \<Longrightarrow> dropWhile is_ws (js_join sep xs) = js_join sep xs"
  using dropWhile_token [of _ "[]"] by (cases "(sep, xs)" rule: js_join.cases) auto

lemma js_split_ws_join:
  "xs \<noteq> [] \<Longrightarrow> \<forall>x \<in> set xs. token x \<Longrightarrow> js_split_ws (js_join '' '' xs) = xs"
proof (induction "'' ''" xs rule: js_join.induct)
  case (2 x)
  then show ?case by (auto simp: token_def js_split_ws_token)
next
  case (3 x y ys)
  then have "js_split_ws (js_join '' '' (y # ys)) = y # ys"
    and "dropWhile is_ws (js_join '' '' (y # ys)) = js_join '' '' (y # ys)"
    by (auto intro!: dropWhile_join_tokens)
  with 3 show ?case by (simp add: js_split_ws_append token_def)
qed simp

lemma js_split_ws_words:
  "p \<in> set (js_split_ws s) \<Longrightarrow> c \<in> set p \<Longrightarrow> \<not> is_ws c"
  by (induction s arbitrary: p rule: js_split_ws.induct)
     (fastforce split: if_splits list.splits)+

section \<open>Facts about trimming\<close>

lemma js_trim_token [simp]: "token t \<Longrightarrow> js_trim t = t"
  using dropWhile_token [of t "[]"] dropWhile_token [of "rev t" "[]"]
  by (simp add: js_trim_def) (simp add: token_def)

lemma strip_ws_append [simp]: "strip_ws (s @ t) = strip_ws s @ strip_ws t"
  by (simp add: strip_ws_def)

lemma strip_ws_idem [simp]: "strip_ws (strip_ws s) = strip_ws s"
  by (simp add: strip_ws_def)

lemma strip_ws_dropWhile [simp]: "strip_ws (dropWhile is_ws s) = strip_ws s"
  by (induction s) (auto simp: strip_ws_def)

lemma strip_ws_rev: "strip_ws (rev s) = rev (strip_ws s)"
  by (simp add: strip_ws_def rev_filter)

lemma strip_ws_trim [simp]: "strip_ws (js_trim s) = strip_ws s"
  by (simp add: js_trim_def strip_ws_rev)

lemma set_js_trim: "set (js_trim s) \<subseteq> set s"
  by (auto simp: js_trim_def dest!: set_dropWhileD)

text \<open>A trimmed text neither begins nor ends with white space; its words are tokens.\<close>

definition trimmed :: "string \<Rightarrow> bool" where
  "trimmed s \<longleftrightarrow> s \<noteq> [] \<and> \<not> is_ws (hd s) \<and> \<not> is_ws (last s)"

lemma trimmed_js_trim: "js_trim s \<noteq> [] \<Longrightarrow> trimmed (js_trim s)"
proof -
  assume ne: "js_trim s \<noteq> []"
  define a where "a = dropWhile is_ws s"
  define b where "b = rev (dropWhile is_ws (rev a))"
  have b: "js_trim s = b" by (simp add: js_trim_def a_def b_def)
  have "rev a = takeWhile is_ws (rev a) @ dropWhile is_ws (rev a)" by simp
  then have "a = b @ rev (takeWhile is_ws (rev a))"
    unfolding b_def by (metis rev_append rev_rev_ident)
  moreover from ne b have "b \<noteq> []" by simp
  ultimately have "hd b = hd a" "a \<noteq> []" by (metis hd_append2, metis append_is_Nil_conv)
  moreover from this have "\<not> is_ws (hd a)" unfolding a_def by (metis hd_dropWhile)
  moreover have "\<not> is_ws (last b)"
    using \<open>b \<noteq> []\<close> unfolding b_def by (metis hd_dropWhile last_rev rev_is_Nil_conv)
  ultimately show ?thesis using \<open>b \<noteq> []\<close> b by (simp add: trimmed_def)
qed

lemma trimmed_words: "trimmed s \<Longrightarrow> t \<in> set (js_split_ws s) \<Longrightarrow> token t"
proof (induction s arbitrary: t rule: length_induct)
  case (1 s)
  then obtain x xs where s: "s = x # xs" and x: "\<not> is_ws x" by (cases s) (auto simp: trimmed_def)
  consider "xs = []" | y ys where "xs = y # ys" "is_ws y" | y ys where "xs = y # ys" "\<not> is_ws y"
    by (cases xs) auto
  then show ?case
  proof cases
    case 1
    with "1.prems" s x show ?thesis by (auto simp: token_def)
  next
    case (2 y ys)
    let ?r = "dropWhile is_ws ys"
    have "\<not> is_ws (last ys)" "ys \<noteq> []"
      using "1.prems"(1) s 2 by (auto simp: trimmed_def split: if_splits)
    then have ne: "?r \<noteq> []" by (metis dropWhile_eq_Nil_conv last_in_set)
    moreover have "last ?r = last ys"
      using ne by (metis last_appendR takeWhile_dropWhile_id)
    ultimately have "trimmed ?r"
      using \<open>\<not> is_ws (last ys)\<close> hd_dropWhile [of is_ws ys] by (simp add: trimmed_def)
    moreover have "length ?r < length s" using s 2 length_dropWhile_le [of is_ws ys] by simp
    ultimately have "\<forall>t \<in> set (js_split_ws ?r). token t" using "1.IH" by blast
    with "1.prems"(2) s x 2 show ?thesis by (auto simp: token_def)
  next
    case (3 y ys)
    then have "trimmed xs" using "1.prems"(1) s by (simp add: trimmed_def)
    moreover have "length xs < length s" using s by simp
    ultimately have IH: "\<forall>t \<in> set (js_split_ws xs). token t" using "1.IH" by blast
    with "1.prems"(2) s x show ?thesis
      by (cases "js_split_ws xs") (auto simp: token_def)
  qed
qed

lemma trimmed_join_words: "trimmed s \<Longrightarrow> js_split_ws (js_join '' '' (js_split_ws s)) = js_split_ws s"
  by (rule js_split_ws_join) (auto dest: trimmed_words)

lemma js_join_Nil_iff: "x \<noteq> [] \<Longrightarrow> x \<in> set xs \<Longrightarrow> js_join sep xs \<noteq> []"
  by (induction sep xs rule: js_join.induct) auto

lemma last_join: "xs \<noteq> [] \<Longrightarrow> last xs \<noteq> [] \<Longrightarrow> last (js_join sep xs) = last (last xs)"
proof (induction sep xs rule: js_join.induct)
  case (3 sep x y ys)
  then have "js_join sep (y # ys) \<noteq> []"
    using js_join_Nil_iff [of "last (y # ys)" "y # ys"] by auto
  with 3 show ?case by (simp add: last_append)
qed simp_all

lemma trimmed_join: "xs \<noteq> [] \<Longrightarrow> \<forall>x \<in> set xs. token x \<Longrightarrow> trimmed (js_join '' '' xs)"
proof -
  assume xs: "xs \<noteq> []" "\<forall>x \<in> set xs. token x"
  then have "token (hd xs)" "token (last xs)" by auto
  moreover have "js_join '' '' xs = hd xs @ drop (length (hd xs)) (js_join '' '' xs)"
    using xs by (cases "('' '', xs)" rule: js_join.cases) auto
  moreover from this have "hd (js_join '' '' xs) = hd (hd xs)" "js_join '' '' xs \<noteq> []"
    using \<open>token (hd xs)\<close> by (metis hd_append2 token_def, metis append_is_Nil_conv token_def)
  ultimately show ?thesis
    using xs last_join [of xs "'' ''"] by (auto simp: trimmed_def token_def)
qed

lemma trimmed_js_trim_id [simp]: "trimmed s \<Longrightarrow> js_trim s = s"
proof -
  assume s: "trimmed s"
  then have "dropWhile is_ws s = s" by (cases s) (auto simp: trimmed_def)
  moreover have "dropWhile is_ws (rev s) = rev s"
    using s by (cases s rule: rev_cases) (auto simp: trimmed_def)
  ultimately show ?thesis by (simp add: js_trim_def)
qed

lemma dropWhile_stop: "\<not> P c \<Longrightarrow> dropWhile P (xs @ c # ys) = dropWhile P xs @ c # ys"
  by (induction xs) auto

text \<open>Trimming a text with a non-blank first character only touches its end.\<close>

lemma js_trim_prefix:
  "\<not> is_ws (hd a) \<Longrightarrow> a \<noteq> [] \<Longrightarrow> \<not> is_ws c \<Longrightarrow>
     js_trim (a @ c # b) = a @ c # rev (dropWhile is_ws (rev b))"
  by (cases a) (auto simp: js_trim_def dropWhile_stop [of is_ws c])

lemma strip_ws_rtrim [simp]: "strip_ws (rev (dropWhile is_ws (rev s))) = strip_ws s"
  by (metis rev_rev_ident strip_ws_dropWhile strip_ws_rev)

lemma strip_ws_nonempty: "strip_ws s \<noteq> [] \<Longrightarrow> js_trim s \<noteq> []"
  by (metis strip_ws_def filter.simps(1) strip_ws_trim)

section \<open>Facts about indexOf\<close>

lemma js_indexOf_None: "js_indexOf c s = None \<longleftrightarrow> c \<notin> set s"
  by (induction s) auto

lemma js_indexOf_append [simp]:
  "c \<notin> set a \<Longrightarrow> js_indexOf c (a @ c # b) = Some (length a)"
  by (induction a) auto

lemma js_indexOf_Some:
  "js_indexOf c s = Some i \<Longrightarrow> s = take i s @ c # drop (Suc i) s \<and> c \<notin> set (take i s)"
  by (induction s arbitrary: i) (auto split: if_splits)

section \<open>Facts about decimal numbers\<close>

lemma dec_val_snoc: "dec_val (s @ [c]) = 10 * dec_val s + (code_of c - 48)"
  by (simp add: dec_val_def)

lemma nat_str_digits: "c \<in> set (nat_str n) \<Longrightarrow> is_digit c"
proof (induction n rule: nat_str.induct)
  case (1 n)
  then show ?case
    by (cases "n < 10") (auto simp: nat_str.simps [of n] is_digit_def)
qed

lemma nat_str_not_Nil [simp]: "nat_str n \<noteq> []"
  by (subst nat_str.simps) simp

lemma dec_val_nat_str [simp]: "dec_val (nat_str n) = n"
proof (induction n rule: nat_str.induct)
  case (1 n)
  show ?case
  proof (cases "n < 10")
    case True
    then show ?thesis by (simp add: nat_str.simps [of n] dec_val_def)
  next
    case False
    with 1 show ?thesis by (simp add: nat_str.simps [of n] dec_val_snoc)
  qed
qed

lemma is_digit_not_ws: "is_digit c \<Longrightarrow> \<not> is_ws c"
  by (auto simp: is_digit_def is_ws_def code_of_def)

section \<open>Sets as lists\<close>

text \<open>\<open>[...new Set(xs)]\<close> and \<open>select distinct\<close>: first occurrences, in order.\<close>

primrec js_uniq :: "'a list \<Rightarrow> 'a list" where
  "js_uniq [] = []"
| "js_uniq (x # xs) = x # filter (\<lambda>y. y \<noteq> x) (js_uniq xs)"

lemma set_js_uniq [simp]: "set (js_uniq xs) = set xs"
  by (induction xs) auto

lemma distinct_js_uniq [simp]: "distinct (js_uniq xs)"
  by (induction xs) auto

section \<open>Sorting by a key\<close>

lemma insort_map: "map g (insort_key (\<lambda>x. f (g x)) x xs) = insort_key f (g x) (map g xs)"
  by (induction xs) auto

lemma sort_key_map: "map g (sort_key (\<lambda>x. f (g x)) xs) = sort_key f (map g xs)"
  by (induction xs) (simp_all add: insort_map)

lemma sort_key_keep: "(\<And>x. f (g x) = f x) \<Longrightarrow> sort_key f (map g xs) = map g (sort_key f xs)"
  by (simp flip: sort_key_map)

section \<open>Transition systems\<close>

text \<open>
  A machine with choice is a set of initial states and a step relation. A state is reachable
  when steps lead to it from an initial state. An invariant of the machine is a predicate that
  holds initially and that every step keeps; the locale names these two laws, and the
  components interpret it on their own machines.
\<close>

inductive reach :: "('s \<Rightarrow> bool) \<Rightarrow> ('s \<Rightarrow> 's \<Rightarrow> bool) \<Rightarrow> 's \<Rightarrow> bool"
  for init step where
  reach_init: "init s \<Longrightarrow> reach init step s"
| reach_step: "reach init step s \<Longrightarrow> step s t \<Longrightarrow> reach init step t"

locale machine_invariant =
  fixes init :: "'s \<Rightarrow> bool" and step :: "'s \<Rightarrow> 's \<Rightarrow> bool" and inv :: "'s \<Rightarrow> bool"
  assumes inv_init: "init s \<Longrightarrow> inv s"
    and inv_step: "inv s \<Longrightarrow> step s t \<Longrightarrow> inv t"
begin

lemma reach_inv: "reach init step s \<Longrightarrow> inv s"
  by (induction rule: reach.induct) (auto intro: inv_init inv_step)

lemma steps_inv: "step\<^sup>*\<^sup>* s t \<Longrightarrow> inv s \<Longrightarrow> inv t"
  by (induction rule: rtranclp_induct) (auto intro: inv_step)

end

end
