(* ===== verification/Regex.thy ===== *)
theory Regex
  imports Prelude
begin

text \<open>
  The regular expressions of the sources, with the backtracking semantics of JavaScript.
  \<open>rx_match r (p, s)\<close> lists, in the order the backtracking engine tries them, the
  positions at which a match of \<open>r\<close> from the current position can end; a position is the
  character before it (for \<open>\b\<close>) and the text that is left. The first element is the
  match JavaScript takes, so \<open>test\<close> is non-emptiness and a capture group is read off the
  first element. The relation \<open>rx_rel\<close> is the declarative reading of an expression, and
  \<open>rx_match_iff\<close> shows that the engine finds exactly its matches.
\<close>

datatype rx =
    Eps
  | Cls "char \<Rightarrow> bool"       \<comment> \<open>a character class, with the flags already applied\<close>
  | Seq rx rx
  | Alt rx rx               \<comment> \<open>left alternative first\<close>
  | Star rx                 \<comment> \<open>greedy\<close>
  | Bnd                     \<comment> \<open>\<open>\b\<close>\<close>
  | EndOf                   \<comment> \<open>\<open>$\<close>\<close>

type_synonym pos = "char option \<times> string"

fun at_boundary :: "pos \<Rightarrow> bool" where
  "at_boundary (p, s) \<longleftrightarrow>
     (case p of None \<Rightarrow> False | Some c \<Rightarrow> is_word c) \<noteq> (case s of [] \<Rightarrow> False | c # _ \<Rightarrow> is_word c)"

text \<open>
  Greedy iteration: an iteration that consumes nothing is dropped, as the language definition
  says, so the length of the remaining text bounds the iterations.
\<close>

primrec star_match :: "(pos \<Rightarrow> pos list) \<Rightarrow> nat \<Rightarrow> pos \<Rightarrow> pos list" where
  "star_match f 0 s = [s]"
| "star_match f (Suc n) s =
     concat (map (star_match f n) (filter (\<lambda>t. length (snd t) < length (snd s)) (f s))) @ [s]"

primrec rx_match :: "rx \<Rightarrow> pos \<Rightarrow> pos list" where
  "rx_match Eps s = [s]"
| "rx_match (Cls q) s =
     (case snd s of [] \<Rightarrow> [] | c # cs \<Rightarrow> if q c then [(Some c, cs)] else [])"
| "rx_match (Seq a b) s = concat (map (rx_match b) (rx_match a s))"
| "rx_match (Alt a b) s = rx_match a s @ rx_match b s"
| "rx_match (Star a) s = star_match (rx_match a) (length (snd s)) s"
| "rx_match Bnd s = (if at_boundary s then [s] else [])"
| "rx_match EndOf s = (if snd s = [] then [s] else [])"

definition Plus :: "rx \<Rightarrow> rx" where "Plus a = Seq a (Star a)"
definition Opt :: "rx \<Rightarrow> rx" where "Opt a = Alt a Eps"

text \<open>One character and a literal under the \<open>i\<close> flag.\<close>

definition ChI :: "char \<Rightarrow> rx" where
  "ChI c = Cls (\<lambda>d. lower_char d = lower_char c)"

primrec LitI :: "string \<Rightarrow> rx" where
  "LitI [] = Eps"
| "LitI (c # cs) = Seq (ChI c) (LitI cs)"

text \<open>\<open>/^r/.test(s)\<close>, \<open>/r/.test(s)\<close>, and the group of \<open>/pre(grp)/\<close> in \<open>s\<close>.\<close>

definition rx_test_start :: "rx \<Rightarrow> string \<Rightarrow> bool" where
  "rx_test_start r s \<longleftrightarrow> rx_match r (None, s) \<noteq> []"

primrec rx_search_from :: "rx \<Rightarrow> char option \<Rightarrow> string \<Rightarrow> bool" where
  "rx_search_from r p [] \<longleftrightarrow> rx_match r (p, []) \<noteq> []"
| "rx_search_from r p (c # cs) \<longleftrightarrow> rx_match r (p, c # cs) \<noteq> [] \<or> rx_search_from r (Some c) cs"

definition rx_test :: "rx \<Rightarrow> string \<Rightarrow> bool" where
  "rx_test r s \<longleftrightarrow> rx_search_from r None s"

definition group_at :: "rx \<Rightarrow> rx \<Rightarrow> pos \<Rightarrow> string list" where
  "group_at pre grp s =
     concat (map (\<lambda>t. map (\<lambda>u. take (length (snd t) - length (snd u)) (snd t)) (rx_match grp t))
       (rx_match pre s))"

primrec rx_group_from :: "rx \<Rightarrow> rx \<Rightarrow> char option \<Rightarrow> string \<Rightarrow> string option" where
  "rx_group_from pre grp p [] =
     (case group_at pre grp (p, []) of g # _ \<Rightarrow> Some g | [] \<Rightarrow> None)"
| "rx_group_from pre grp p (c # cs) =
     (case group_at pre grp (p, c # cs) of
        g # _ \<Rightarrow> Some g
      | [] \<Rightarrow> rx_group_from pre grp (Some c) cs)"

definition rx_group :: "rx \<Rightarrow> rx \<Rightarrow> string \<Rightarrow> string option" where
  "rx_group pre grp s = rx_group_from pre grp None s"

section \<open>The declarative reading\<close>

inductive rx_rel :: "rx \<Rightarrow> pos \<Rightarrow> pos \<Rightarrow> bool" where
  rel_eps: "rx_rel Eps s s"
| rel_cls: "q c \<Longrightarrow> rx_rel (Cls q) (p, c # cs) (Some c, cs)"
| rel_seq: "rx_rel a s t \<Longrightarrow> rx_rel b t u \<Longrightarrow> rx_rel (Seq a b) s u"
| rel_altl: "rx_rel a s t \<Longrightarrow> rx_rel (Alt a b) s t"
| rel_altr: "rx_rel b s t \<Longrightarrow> rx_rel (Alt a b) s t"
| rel_star0: "rx_rel (Star a) s s"
| rel_star: "rx_rel a s t \<Longrightarrow> rx_rel (Star a) t u \<Longrightarrow> rx_rel (Star a) s u"
| rel_bnd: "at_boundary s \<Longrightarrow> rx_rel Bnd s s"
| rel_end: "rx_rel EndOf (p, []) (p, [])"

inductive_cases rx_relE [elim!]:
  "rx_rel Eps s t" "rx_rel (Cls q) s t" "rx_rel (Seq a b) s t" "rx_rel (Alt a b) s t"
  "rx_rel Bnd s t" "rx_rel EndOf s t"

text \<open>A match consumes a prefix of the text; if it consumes nothing the position is unchanged.\<close>

fun consumes :: "pos \<Rightarrow> pos \<Rightarrow> bool" where
  "consumes (p, s) (q, t) \<longleftrightarrow> (\<exists>u. s = u @ t \<and> (u = [] \<longrightarrow> p = q))"

lemma consumes_refl [simp]: "consumes s s"
  by (cases s) simp

lemma consumes_trans: "consumes s t \<Longrightarrow> consumes t u \<Longrightarrow> consumes s u"
  by (cases s; cases t; cases u) force

lemma consumes_length: "consumes s t \<Longrightarrow> length (snd t) \<le> length (snd s)"
  by (cases s; cases t) auto

lemma consumes_eq: "consumes s t \<Longrightarrow> length (snd t) = length (snd s) \<Longrightarrow> t = s"
  by (cases s; cases t) auto

lemma rx_rel_consumes: "rx_rel r s t \<Longrightarrow> consumes s t"
  by (induction rule: rx_rel.induct) (auto intro: consumes_trans)

lemma star_match_sound:
  assumes "\<And>s t. t \<in> set (f s) \<Longrightarrow> rx_rel a s t"
  shows "t \<in> set (star_match f n s) \<Longrightarrow> rx_rel (Star a) s t"
  by (induction n arbitrary: s) (auto intro: rel_star0 rel_star assms)

lemma star_match_complete:
  assumes f: "\<And>s t. rx_rel a s t \<Longrightarrow> t \<in> set (f s)"
  shows "rx_rel (Star a) s t \<Longrightarrow> length (snd s) \<le> n \<Longrightarrow> t \<in> set (star_match f n s)"
proof (induction "Star a" s t arbitrary: n rule: rx_rel.induct)
  case (rel_star0 s)
  then show ?case by (cases n) auto
next
  case (rel_star s t u)
  have len: "length (snd t) \<le> length (snd s)"
    using rel_star.hyps(1) by (auto dest: rx_rel_consumes consumes_length)
  show ?case
  proof (cases "length (snd t) = length (snd s)")
    case True
    with rel_star.hyps(1) have "t = s" by (auto dest: rx_rel_consumes consumes_eq)
    with rel_star show ?thesis by simp
  next
    case False
    with len rel_star.prems obtain m where n: "n = Suc m" and m: "length (snd t) \<le> m"
      by (cases n) auto
    have "t \<in> set (filter (\<lambda>t. length (snd t) < length (snd s)) (f s))"
      using False len f [OF rel_star.hyps(1)] by simp
    with rel_star.hyps(4) [OF m] show ?thesis
      unfolding n star_match.simps set_append set_concat set_map by blast
  qed
qed

theorem rx_match_iff: "t \<in> set (rx_match r s) \<longleftrightarrow> rx_rel r s t"
proof (induction r arbitrary: s t)
  case (Cls q)
  show ?case by (cases s) (auto intro: rel_cls split: list.splits)
next
  case (Star a)
  show ?case
  proof
    assume "t \<in> set (rx_match (Star a) s)"
    then have "t \<in> set (star_match (rx_match a) (length (snd s)) s)" by simp
    then show "rx_rel (Star a) s t" by (rule star_match_sound [rotated]) (simp only: Star)
  next
    assume "rx_rel (Star a) s t"
    then have "t \<in> set (star_match (rx_match a) (length (snd s)) s)"
      by (rule star_match_complete [rotated]) (simp_all only: Star order_refl)
    then show "t \<in> set (rx_match (Star a) s)" by simp
  qed
next
  case EndOf
  show ?case by (cases s) (auto intro: rel_end)
qed (auto intro: rx_rel.intros)

lemma rx_match_Nil_iff: "rx_match r s \<noteq> [] \<longleftrightarrow> (\<exists>t. rx_rel r s t)"
proof -
  have "rx_match r s \<noteq> [] \<longleftrightarrow> (\<exists>t. t \<in> set (rx_match r s))" by (cases "rx_match r s") auto
  then show ?thesis by (simp only: rx_match_iff)
qed

lemma rx_test_start_iff: "rx_test_start r s \<longleftrightarrow> (\<exists>t. rx_rel r (None, s) t)"
  by (simp only: rx_test_start_def rx_match_Nil_iff)

section \<open>Characterisations the components use\<close>

text \<open>The position after consuming \<open>u\<close>.\<close>

definition prev_of :: "char option \<Rightarrow> string \<Rightarrow> char option" where
  "prev_of p u = (if u = [] then p else Some (last u))"

lemma prev_of_simps [simp]:
  "prev_of p [] = p"
  "prev_of p (c # u) = prev_of (Some c) u"
  "prev_of p (u @ [c]) = Some c"
  by (simp_all add: prev_of_def)

lemma prev_of_append [simp]: "prev_of (prev_of p u) v = prev_of p (u @ v)"
  by (simp add: prev_of_def)

lemma rx_rel_Cls_iff: "rx_rel (Cls q) (p, s) t \<longleftrightarrow> (\<exists>c cs. s = c # cs \<and> q c \<and> t = (Some c, cs))"
  by (auto intro: rel_cls)

lemma rx_rel_Seq_iff: "rx_rel (Seq a b) s u \<longleftrightarrow> (\<exists>t. rx_rel a s t \<and> rx_rel b t u)"
  by (auto intro: rel_seq)

lemma rx_rel_Bnd_iff: "rx_rel Bnd s t \<longleftrightarrow> t = s \<and> at_boundary s"
  by (auto intro: rel_bnd)

lemma rx_rel_End_iff: "rx_rel EndOf (p, s) t \<longleftrightarrow> s = [] \<and> t = (p, [])"
  by (auto intro: rel_end)

lemma rx_rel_Alt_iff: "rx_rel (Alt a b) s t \<longleftrightarrow> rx_rel a s t \<or> rx_rel b s t"
  by (auto intro: rel_altl rel_altr)

lemma rx_rel_Eps_iff: "rx_rel Eps s t \<longleftrightarrow> t = s"
  by (auto intro: rel_eps)

lemmas rx_rel_iffs = rx_rel_Cls_iff rx_rel_Seq_iff rx_rel_Bnd_iff rx_rel_End_iff
  rx_rel_Alt_iff rx_rel_Eps_iff

lemma rx_rel_LitI_iff:
  "rx_rel (LitI w) (p, s) t \<longleftrightarrow>
     (\<exists>u v. s = u @ v \<and> js_lower u = js_lower w \<and> t = (prev_of p u, v))"
proof (induction w arbitrary: p s)
  case Nil
  show ?case by (auto simp: rx_rel_iffs js_lower_def)
next
  case (Cons c cs)
  show ?case (is "?l \<longleftrightarrow> ?r")
  proof
    assume ?l
    then obtain d ds where "s = d # ds" "lower_char d = lower_char c"
      and "rx_rel (LitI cs) (Some d, ds) t"
      by (auto simp: rx_rel_iffs ChI_def)
    with Cons show ?r by (auto simp: Cons_eq_append_conv prev_of_def)
  next
    assume ?r
    then obtain d u v where "s = d # u @ v" "lower_char d = lower_char c"
      "js_lower u = js_lower cs" "t = (prev_of (Some d) u, v)"
      by (auto simp: js_lower_def map_eq_Cons_conv)
    with Cons show ?l by (auto simp: rx_rel_iffs ChI_def)
  qed
qed

lemma rx_search_from_iff:
  "rx_search_from r p s \<longleftrightarrow> (\<exists>a b t. s = a @ b \<and> rx_rel r (prev_of p a, b) t)"
proof (induction s arbitrary: p)
  case Nil
  then show ?case by (simp add: rx_match_Nil_iff)
next
  case (Cons c cs)
  show ?case (is "?l \<longleftrightarrow> ?r")
  proof
    assume ?l
    then consider "\<exists>t. rx_rel r (p, c # cs) t" | "rx_search_from r (Some c) cs"
      by (auto simp only: rx_search_from.simps rx_match_Nil_iff)
    then show ?r
    proof cases
      case 1
      then obtain t where "c # cs = [] @ (c # cs) \<and> rx_rel r (prev_of p [], c # cs) t" by auto
      then show ?thesis by blast
    next
      case 2
      with Cons obtain a b t where "cs = a @ b" "rx_rel r (prev_of (Some c) a, b) t" by blast
      then have "c # cs = (c # a) @ b \<and> rx_rel r (prev_of p (c # a), b) t"
        by simp
      then show ?thesis by blast
    qed
  next
    assume ?r
    then obtain a b t where ab: "c # cs = a @ b" and rel: "rx_rel r (prev_of p a, b) t" by blast
    show ?l
    proof (cases a)
      case Nil
      with ab rel have "rx_match r (p, c # cs) \<noteq> []"
        by (simp only: rx_match_Nil_iff) (auto simp only: append_Nil prev_of_simps)
      then show ?thesis by simp
    next
      case (Cons x a')
      with ab rel have "cs = a' @ b" "rx_rel r (prev_of (Some c) a', b) t"
        by auto
      with Cons.IH [of "Some c"] have "rx_search_from r (Some c) cs" by blast
      then show ?thesis by simp
    qed
  qed
qed

lemma rx_test_iff: "rx_test r s \<longleftrightarrow> (\<exists>a b t. s = a @ b \<and> rx_rel r (prev_of None a, b) t)"
  by (simp only: rx_test_def rx_search_from_iff)

text \<open>The characters a match consumes belong to the classes of the expression.\<close>

primrec rx_over :: "(char \<Rightarrow> bool) \<Rightarrow> rx \<Rightarrow> bool" where
  "rx_over P Eps \<longleftrightarrow> True"
| "rx_over P (Cls q) \<longleftrightarrow> (\<forall>c. q c \<longrightarrow> P c)"
| "rx_over P (Seq a b) \<longleftrightarrow> rx_over P a \<and> rx_over P b"
| "rx_over P (Alt a b) \<longleftrightarrow> rx_over P a \<and> rx_over P b"
| "rx_over P (Star a) \<longleftrightarrow> rx_over P a"
| "rx_over P Bnd \<longleftrightarrow> True"
| "rx_over P EndOf \<longleftrightarrow> True"

lemma rx_rel_chars:
  "rx_rel r s t \<Longrightarrow> rx_over P r \<Longrightarrow> \<exists>u. snd s = u @ snd t \<and> (\<forall>c \<in> set u. P c)"
proof (induction rule: rx_rel.induct)
  case (rel_seq a s t b u)
  then obtain x y where "snd s = x @ snd t" "\<forall>c \<in> set x. P c" "snd t = y @ snd u" "\<forall>c \<in> set y. P c"
    by auto
  then have "snd s = (x @ y) @ snd u \<and> (\<forall>c \<in> set (x @ y). P c)" by auto
  then show ?case by blast
next
  case (rel_star a s t u)
  then obtain x y where "snd s = x @ snd t" "\<forall>c \<in> set x. P c" "snd t = y @ snd u" "\<forall>c \<in> set y. P c"
    by auto
  then have "snd s = (x @ y) @ snd u \<and> (\<forall>c \<in> set (x @ y). P c)" by auto
  then show ?case by blast
qed auto

lemma rx_rel_Star_Cls_iff:
  "rx_rel (Star (Cls q)) (p, s) t \<longleftrightarrow>
     (\<exists>u v. s = u @ v \<and> (\<forall>c \<in> set u. q c) \<and> t = (prev_of p u, v))"
proof
  have "rx_rel r s0 t \<Longrightarrow> r = Star (Cls q) \<Longrightarrow>
     \<exists>u v. snd s0 = u @ v \<and> (\<forall>c \<in> set u. q c) \<and> t = (prev_of (fst s0) u, v)" for r s0
  proof (induction rule: rx_rel.induct)
    case (rel_star0 a s)
    have "snd s = [] @ snd s \<and> (\<forall>c \<in> set []. q c) \<and> s = (prev_of (fst s) [], snd s)" by simp
    then show ?case by blast
  next
    case (rel_star a s t u)
    from rel_star.hyps(1) rel_star.prems obtain c cs where
      "snd s = c # cs" "q c" "t = (Some c, cs)" by (cases s) auto
    moreover from rel_star obtain x y where
      "snd t = x @ y" "\<forall>c \<in> set x. q c" "u = (prev_of (fst t) x, y)" by auto
    ultimately have "snd s = (c # x) @ y \<and> (\<forall>c \<in> set (c # x). q c) \<and>
        u = (prev_of (fst s) (c # x), y)" by simp
    then show ?case by blast
  qed auto
  then show "rx_rel (Star (Cls q)) (p, s) t \<Longrightarrow>
     \<exists>u v. s = u @ v \<and> (\<forall>c \<in> set u. q c) \<and> t = (prev_of p u, v)" by fastforce
next
  have "\<forall>c \<in> set u. q c \<Longrightarrow> rx_rel (Star (Cls q)) (p, u @ v) (prev_of p u, v)" for u v
  proof (induction u arbitrary: p)
    case Nil
    then show ?case by (simp add: rel_star0)
  next
    case (Cons c u)
    then have "rx_rel (Cls q) (p, c # u @ v) (Some c, u @ v)" by (simp add: rel_cls)
    moreover from Cons have "rx_rel (Star (Cls q)) (Some c, u @ v) (prev_of (Some c) u, v)" by simp
    ultimately show ?case unfolding append_Cons prev_of_simps by (rule rel_star)
  qed
  then show "\<exists>u v. s = u @ v \<and> (\<forall>c \<in> set u. q c) \<and> t = (prev_of p u, v) \<Longrightarrow>
     rx_rel (Star (Cls q)) (p, s) t" by blast
qed

text \<open>A literal followed by a word boundary at the start of the text, the shape of the
  version-tag tests \<open>/^v=spf1\b/i\<close>.\<close>

definition tag_rx :: "string \<Rightarrow> rx" where
  "tag_rx w = Seq (LitI w) Bnd"

lemma tag_rx_iff:
  "w \<noteq> [] \<Longrightarrow> rx_test_start (tag_rx w) s \<longleftrightarrow>
     (\<exists>u v. s = u @ v \<and> js_lower u = js_lower w \<and> at_boundary (Some (last u), v))"
proof -
  assume w: "w \<noteq> []"
  have ne: "js_lower u = js_lower w \<Longrightarrow> u \<noteq> []" for u
    using w by (auto simp: js_lower_def)
  have "rx_test_start (tag_rx w) s \<longleftrightarrow>
      (\<exists>u v. s = u @ v \<and> js_lower u = js_lower w \<and> at_boundary (prev_of None u, v))"
    unfolding tag_rx_def rx_test_start_iff rx_rel_Seq_iff rx_rel_Bnd_iff rx_rel_LitI_iff by blast
  also have "\<dots> \<longleftrightarrow>
      (\<exists>u v. s = u @ v \<and> js_lower u = js_lower w \<and> at_boundary (Some (last u), v))"
    using ne by (metis prev_of_def)
  finally show ?thesis .
qed

end
