(* ===== verification/NetAddr.thy ===== *)
theory NetAddr
  imports Regex "HOL-Library.Word"
begin

text \<open>
  The network guards of the admin API: the private-address filters of
  \<open>deliverability.ts\<close> and \<open>alerts.ts\<close>, the host-name pattern, the bounded DNS wait
  \<open>withTimeout\<close> and the guarded fetch \<open>safeFetchText\<close>. The resolver, the HTTP
  client and the URL parser are the environment (\<open>net\<close>); a promise is the time at which
  it settles and what it settles to. The private-address filter is related to a 32-bit CIDR
  specification.
\<close>

section \<open>IPv4 addresses\<close>

text \<open>\<open>net.isIP(s) === 4\<close>: four canonical decimal octets.\<close>

definition is_octet :: "string \<Rightarrow> bool" where
  "is_octet s \<longleftrightarrow> s \<noteq> [] \<and> length s \<le> 3 \<and> list_all is_digit s \<and>
     (hd s = CHR ''0'' \<longrightarrow> length s = 1) \<and> dec_val s < 256"

definition isIPv4 :: "string \<Rightarrow> bool" where
  "isIPv4 s \<longleftrightarrow> (let ps = js_split CHR ''.'' s in length ps = 4 \<and> list_all is_octet ps)"

definition octets :: "string \<Rightarrow> nat list" where
  "octets ip = map dec_val (js_split CHR ''.'' ip)"

definition fe80_rx :: rx where
  "fe80_rx = Seq (LitI ''fe'') (Cls (\<lambda>c. c \<in> set ''89ab''))"

definition fc00_rx :: rx where
  "fc00_rx = Seq (LitI ''f'') (Cls (\<lambda>c. c \<in> set ''cd''))"

lemma startsWith_length: "js_startsWith s p \<Longrightarrow> length p \<le> length s"
  by (metis js_startsWith_def length_take min.cobounded1)

text \<open>
  The filter of \<open>deliverability.ts\<close>. The two regular expressions run on the lowered
  address, so a case-insensitive literal reads them exactly.
\<close>

function isPrivateAddr :: "string \<Rightarrow> bool" where
  "isPrivateAddr ip =
     (if isIPv4 ip then
        (let o4 = octets ip in
           if o4 ! 0 = 0 \<or> o4 ! 0 = 10 \<or> o4 ! 0 = 127 then True
           else if o4 ! 0 = 172 \<and> 16 \<le> o4 ! 1 \<and> o4 ! 1 \<le> 31 then True
           else if o4 ! 0 = 192 \<and> o4 ! 1 = 168 then True
           else if o4 ! 0 = 169 \<and> o4 ! 1 = 254 then True
           else False)
      else if js_lower ip = ''::1'' \<or> js_lower ip = ''::'' then True
      else if rx_test_start fe80_rx (js_lower ip) then True
      else if rx_test_start fc00_rx (js_lower ip) then True
      else if js_startsWith (js_lower ip) ''::ffff:'' then isPrivateAddr (drop 7 (js_lower ip))
      else False)"
  by pat_completeness auto
termination
  by (relation "measure length") (auto dest!: startsWith_length)

declare isPrivateAddr.simps [simp del]

text \<open>The copy in \<open>alerts.ts\<close>, which tests both ranges in one condition.\<close>

function alerts_isPrivateAddr :: "string \<Rightarrow> bool" where
  "alerts_isPrivateAddr ip =
     (if isIPv4 ip then
        (let o4 = octets ip in
           if o4 ! 0 = 0 \<or> o4 ! 0 = 10 \<or> o4 ! 0 = 127 then True
           else if o4 ! 0 = 172 \<and> 16 \<le> o4 ! 1 \<and> o4 ! 1 \<le> 31 then True
           else if o4 ! 0 = 192 \<and> o4 ! 1 = 168 then True
           else if o4 ! 0 = 169 \<and> o4 ! 1 = 254 then True
           else False)
      else if js_lower ip = ''::1'' \<or> js_lower ip = ''::'' then True
      else if rx_test_start fe80_rx (js_lower ip) \<or> rx_test_start fc00_rx (js_lower ip) then True
      else if js_startsWith (js_lower ip) ''::ffff:''
        then alerts_isPrivateAddr (drop 7 (js_lower ip))
      else False)"
  by pat_completeness auto
termination
  by (relation "measure length") (auto dest!: startsWith_length)

declare alerts_isPrivateAddr.simps [simp del]

section \<open>The CIDR specification\<close>

definition word_of_octets :: "nat list \<Rightarrow> 32 word" where
  "word_of_octets os = word_of_nat (foldl (\<lambda>a b. 256 * a + b) 0 os)"

definition ipv4_word :: "string \<Rightarrow> 32 word" where
  "ipv4_word ip = word_of_octets (octets ip)"

definition in_cidr :: "32 word \<Rightarrow> nat list \<times> nat \<Rightarrow> bool" where
  "in_cidr w c \<longleftrightarrow> drop_bit (32 - snd c) w = drop_bit (32 - snd c) (word_of_octets (fst c))"

text \<open>The blocks the sources name: this network, RFC 1918, loopback and link-local.\<close>

definition blocked_cidrs :: "(nat list \<times> nat) list" where
  "blocked_cidrs =
     [([0, 0, 0, 0], 8), ([10, 0, 0, 0], 8), ([127, 0, 0, 0], 8), ([172, 16, 0, 0], 12),
      ([192, 168, 0, 0], 16), ([169, 254, 0, 0], 16)]"

lemma isIPv4_octets:
  assumes "isIPv4 ip"
  obtains a b c d where "octets ip = [a, b, c, d]" "a < 256" "b < 256" "c < 256" "d < 256"
proof -
  from assms obtain w x y z where "js_split CHR ''.'' ip = [w, x, y, z]" "list_all is_octet [w, x, y, z]"
    by (auto simp: isIPv4_def Let_def length_Suc_conv numeral_eq_Suc)
  then have "octets ip = [dec_val w, dec_val x, dec_val y, dec_val z]"
    and "dec_val w < 256" "dec_val x < 256" "dec_val y < 256" "dec_val z < 256"
    by (simp_all add: octets_def is_octet_def)
  then show thesis by (rule that)
qed

lemma unat_word_of_octets:
  "a < 256 \<Longrightarrow> b < 256 \<Longrightarrow> c < 256 \<Longrightarrow> d < 256 \<Longrightarrow>
     unat (word_of_octets [a, b, c, d]) = 16777216 * a + 65536 * b + 256 * c + d"
proof -
  assume lt: "a < 256" "b < 256" "c < 256" "d < 256"
  let ?n = "16777216 * a + 65536 * b + 256 * c + d"
  have "foldl (\<lambda>a b. 256 * a + b) 0 [a, b, c, d] = ?n" by simp
  moreover have "?n < 2 ^ 32" using lt by simp
  ultimately show ?thesis
    by (simp only: word_of_octets_def unat_of_nat len_num1 len_bit0) simp
qed

lemma drop_bit_eq_iff_div:
  fixes v w :: "32 word"
  shows "drop_bit n v = drop_bit n w \<longleftrightarrow> unat v div 2 ^ n = unat w div 2 ^ n"
  unfolding word_unat_eq_iff unat_drop_bit_eq by (simp add: drop_bit_eq_div)

text \<open>The first octet, the first two octets and the first twelve bits of an address.\<close>

lemma octet_divs:
  assumes "a < 256" "b < 256" "c < 256" "d < (256::nat)"
  shows "(16777216 * a + 65536 * b + 256 * c + d) div 16777216 = a"
    and "(16777216 * a + 65536 * b + 256 * c + d) div 65536 = 256 * a + b"
    and "(16777216 * a + 65536 * b + 256 * c + d) div 1048576 = 16 * a + b div 16"
proof -
  have "16 * (b div 16) \<le> b" "b < 16 * (b div 16) + 16" by presburger+
  with assms show
    "(16777216 * a + 65536 * b + 256 * c + d) div 16777216 = a"
    "(16777216 * a + 65536 * b + 256 * c + d) div 65536 = 256 * a + b"
    "(16777216 * a + 65536 * b + 256 * c + d) div 1048576 = 16 * a + b div 16"
    by (intro div_nat_eqI; simp)+
qed

lemma mixed_radix: "y < n \<Longrightarrow> v < n \<Longrightarrow> n * x + y = n * u + v \<longleftrightarrow> x = u \<and> y = (v::nat)"
  by (metis div_mult_self4 div_less add.commute add_0 add_left_imp_eq less_nat_zero_code)

lemma in_cidr_octets:
  assumes "a < 256" "b < 256" "c < 256" "d < 256"
  shows "list_ex (in_cidr (word_of_octets [a, b, c, d])) blocked_cidrs \<longleftrightarrow>
     a = 0 \<or> a = 10 \<or> a = 127 \<or> a = 172 \<and> 16 \<le> b \<and> b \<le> 31 \<or> a = 192 \<and> b = 168 \<or> a = 169 \<and> b = 254"
proof -
  have "16 * (b div 16) \<le> b" "b < 16 * (b div 16) + 16" by presburger+
  then have "b div 16 < 16" "b div 16 = 1 \<longleftrightarrow> 16 \<le> b \<and> b \<le> 31"
    using assms(2) by auto
  then have "16 * a + b div 16 = 2753 \<longleftrightarrow> a = 172 \<and> 16 \<le> b \<and> b \<le> 31"
    and "256 * a + b = 49320 \<longleftrightarrow> a = 192 \<and> b = 168"
    and "256 * a + b = 43518 \<longleftrightarrow> a = 169 \<and> b = 254"
    using assms(2) mixed_radix [of "b div 16" 16 1 a 172] mixed_radix [of b 256 168 a 192]
      mixed_radix [of b 256 254 a 169] by simp_all
  then show ?thesis
    using assms
    by (simp add: blocked_cidrs_def in_cidr_def drop_bit_eq_iff_div unat_word_of_octets octet_divs)
qed

lemma isPrivateAddr_v4:
  assumes "isIPv4 ip"
  shows "isPrivateAddr ip \<longleftrightarrow> list_ex (in_cidr (ipv4_word ip)) blocked_cidrs"
proof -
  from assms obtain a b c d where "octets ip = [a, b, c, d]" "a < 256" "b < 256" "c < 256" "d < 256"
    by (rule isIPv4_octets)
  with assms show ?thesis
    by (simp add: isPrivateAddr.simps [of ip] ipv4_word_def in_cidr_octets Let_def)
qed

text \<open>
  C9: on every IPv4 address the filter of \<open>isPrivateAddr\<close> answers exactly whether the address,
  read as a 32-bit number, lies in one of the blocked CIDR blocks.
\<close>
theorem isPrivateAddr_cidr:
  "isIPv4 ip \<Longrightarrow> isPrivateAddr ip \<longleftrightarrow> list_ex (in_cidr (ipv4_word ip)) blocked_cidrs"
  by (rule isPrivateAddr_v4)

theorem isPrivateAddr_cidr_witness:
  "isIPv4 ''172.31.255.1'' \<and>
   (isPrivateAddr ''172.31.255.1'' \<longleftrightarrow> list_ex (in_cidr (ipv4_word ''172.31.255.1'')) blocked_cidrs)"
proof -
  have h: "isIPv4 ''172.31.255.1''" by code_simp
  show ?thesis using h isPrivateAddr_cidr [OF h] by simp
qed

lemma isPrivateAddr_copies: "alerts_isPrivateAddr ip = isPrivateAddr ip"
  by (induction ip rule: isPrivateAddr.induct)
     (simp add: isPrivateAddr.simps alerts_isPrivateAddr.simps Let_def)

text \<open>An address never starts like the IPv6 ranges and the mapped prefix at once, so the
  embedded IPv4 address decides.\<close>

lemma colon_not_range:
  "\<not> rx_test_start fe80_rx (CHR '':'' # s)" "\<not> rx_test_start fc00_rx (CHR '':'' # s)"
  by (simp_all add: rx_test_start_def fe80_rx_def fc00_rx_def ChI_def lower_char_def is_upper_def
      code_of_def)

lemma isPrivateAddr_step:
  "\<not> isIPv4 ip \<Longrightarrow> js_lower ip = ''::ffff:'' @ v \<Longrightarrow> isPrivateAddr ip = isPrivateAddr v"
  by (simp add: isPrivateAddr.simps [of ip] js_startsWith_def colon_not_range)

lemma isIPv4_chars: "isIPv4 ip \<Longrightarrow> c \<in> set ip \<Longrightarrow> is_digit c \<or> c = CHR ''.''"
proof -
  have "c \<in> set (js_join [CHR ''.''] ps) \<Longrightarrow> c = CHR ''.'' \<or> (\<exists>p \<in> set ps. c \<in> set p)" for ps
    by (induction "[CHR ''.'']" ps rule: js_join.induct) auto
  from this [of "js_split CHR ''.'' ip"] show "isIPv4 ip \<Longrightarrow> c \<in> set ip \<Longrightarrow> is_digit c \<or> c = CHR ''.''"
    by (fastforce simp: js_join_split isIPv4_def Let_def is_octet_def list_all_iff)
qed

lemma isIPv4_colon: "isIPv4 ip \<Longrightarrow> CHR '':'' \<notin> set ip"
  by (auto dest!: isIPv4_chars simp: is_digit_def code_of_def)

lemma digits_lower: "\<forall>c \<in> set s. is_digit c \<or> c = CHR ''.'' \<Longrightarrow> js_lower s = s"
  by (induction s) (auto simp: lower_char_def is_upper_def is_digit_def code_of_def)

text \<open>
  An IPv4-mapped address in dotted form, in any letter case, is filtered exactly like the
  IPv4 address it embeds.
\<close>
theorem isPrivateAddr_mapped:
  assumes "isIPv4 v4" and "js_lower pre = ''::ffff:''"
  shows "isPrivateAddr (pre @ v4) \<longleftrightarrow> list_ex (in_cidr (ipv4_word v4)) blocked_cidrs"
proof -
  have "js_lower v4 = v4" using assms(1) by (auto intro: digits_lower dest: isIPv4_chars)
  moreover have "CHR '':'' \<in> set pre"
  proof -
    from assms(2) obtain p ps where "pre = p # ps" "lower_char p = CHR '':''"
      by (auto simp: js_lower_def map_eq_Cons_conv)
    moreover have "lower_char p = CHR '':'' \<Longrightarrow> p = CHR '':''"
      by (drule lower_char_eqD) (simp_all add: is_lower_def code_of_def)
    ultimately show ?thesis by simp
  qed
  then have "\<not> isIPv4 (pre @ v4)" using isIPv4_colon [of "pre @ v4"] by auto
  ultimately show ?thesis
    using assms by (simp add: isPrivateAddr_step [of _ v4] isPrivateAddr_v4)
qed

theorem isPrivateAddr_mapped_witness:
  "isIPv4 ''127.0.0.1'' \<and> js_lower ''::FFFF:'' = ''::ffff:'' \<and>
   (isPrivateAddr (''::FFFF:'' @ ''127.0.0.1'') \<longleftrightarrow>
      list_ex (in_cidr (ipv4_word ''127.0.0.1'')) blocked_cidrs)"
proof -
  have a: "isIPv4 ''127.0.0.1''" by code_simp
  have b: "js_lower ''::FFFF:'' = ''::ffff:''" by code_simp
  show ?thesis using a b isPrivateAddr_mapped [OF a b] by blast
qed

section \<open>Host names\<close>

text \<open>
  \<open>hostnameRe = /^(?=.{1,253}$)([a-z0-9](-?[a-z0-9])*\.)+[a-z]{2,}$/i\<close>. The look-ahead bounds
  the length (the classes that follow admit no line terminator, so \<open>.\<close> excludes nothing more).
\<close>

definition alnumI :: "char \<Rightarrow> bool" where
  "alnumI c \<longleftrightarrow> is_alpha c \<or> is_digit c"

definition label_rx :: rx where
  "label_rx = Seq (Cls alnumI)
     (Seq (Star (Seq (Opt (Cls (\<lambda>c. c = CHR ''-''))) (Cls alnumI))) (Cls (\<lambda>c. c = CHR ''.'')))"

definition tld_rx :: rx where
  "tld_rx = Seq (Cls is_alpha) (Plus (Cls is_alpha))"

definition hostname_rx :: rx where
  "hostname_rx = Seq (Plus label_rx) (Seq tld_rx EndOf)"

definition hostnameRe :: "string \<Rightarrow> bool" where
  "hostnameRe s \<longleftrightarrow> 1 \<le> length s \<and> length s \<le> 253 \<and> rx_test_start hostname_rx s"

definition host_char :: "char \<Rightarrow> bool" where
  "host_char c \<longleftrightarrow> is_alpha c \<or> is_digit c \<or> c = CHR ''-'' \<or> c = CHR ''.''"

lemma hostname_over: "rx_over host_char hostname_rx"
  by (auto simp: hostname_rx_def label_rx_def tld_rx_def Plus_def Opt_def host_char_def alnumI_def)

text \<open>The text after the last label of a host name: at least two letters.\<close>

lemma hostname_tld:
  assumes "rx_test_start hostname_rx s"
  obtains pre t where "s = pre @ t" "2 \<le> length t" "\<forall>c \<in> set t. is_alpha c"
proof -
  from assms obtain x m where x: "rx_rel (Plus label_rx) (None, s) x" "rx_rel tld_rx x m" "snd m = []"
    unfolding rx_test_start_iff hostname_rx_def rx_rel_Seq_iff
    by (metis rx_rel_End_iff prod.collapse)
  from rx_rel_consumes [OF x(1)] obtain pre where pre: "s = pre @ snd x" by (cases x) auto
  have over: "rx_over is_alpha tld_rx" by (auto simp: tld_rx_def Plus_def)
  from rx_rel_chars [OF x(2) over] x(3) have "\<forall>c \<in> set (snd x). is_alpha c" by auto
  moreover from x(2) have "2 \<le> length (snd x)"
    by (cases x) (auto simp: tld_rx_def Plus_def rx_rel_iffs)
  ultimately show thesis using pre that by blast
qed

text \<open>
  A host name that \<open>hostnameRe\<close> accepts consists of letters, digits, \<open>-\<close> and \<open>.\<close> only, has
  at most 253 characters, ends in two letters and is no IPv4 literal, so nothing in it can leave
  the host part of the URL it is put into.
\<close>
theorem hostnameRe_safe:
  assumes "hostnameRe s"
  shows "list_all host_char s \<and> length s \<le> 253 \<and> \<not> isIPv4 s \<and>
    (\<exists>pre t. s = pre @ t \<and> length t = 2 \<and> list_all is_alpha t)"
proof -
  from assms have m: "rx_test_start hostname_rx s" and len: "length s \<le> 253"
    by (simp_all add: hostnameRe_def)
  from m obtain t where t: "rx_rel hostname_rx (None, s) t" by (auto simp: rx_test_start_iff)
  moreover from t have "snd t = []" by (auto simp: hostname_rx_def elim!: rx_relE)
  ultimately have chars: "list_all host_char s"
    using rx_rel_chars [OF t hostname_over] by (auto simp: list_all_iff)
  from m obtain pre u where u: "s = pre @ u" "2 \<le> length u" "\<forall>c \<in> set u. is_alpha c"
    by (rule hostname_tld)
  then have "last u \<in> set u" "last u \<in> set s" by (cases u; simp)+
  with u(3) have "\<not> isIPv4 s"
    using isIPv4_chars [of s "last u"] by (auto simp: is_alpha_def is_upper_def is_lower_def
        is_digit_def code_of_def)
  moreover have "s = (pre @ take (length u - 2) u) @ drop (length u - 2) u \<and>
      length (drop (length u - 2) u) = 2 \<and> list_all is_alpha (drop (length u - 2) u)"
    using u by (auto simp: list_all_iff dest: in_set_dropD)
  ultimately show ?thesis using chars len by blast
qed

theorem hostnameRe_safe_witness:
  "hostnameRe ''mta-sts.acme.io'' \<and> list_all host_char ''mta-sts.acme.io'' \<and>
   \<not> isIPv4 ''mta-sts.acme.io''"
proof -
  have h: "hostnameRe ''mta-sts.acme.io''" by code_simp
  show ?thesis using h hostnameRe_safe [OF h] by blast
qed

text \<open>
  The loopback address 127.0.0.1 is private in its dotted IPv4-mapped form and passes both
  filters in the hexadecimal spelling of the same address.
\<close>
lemma isPrivateAddr_hex_mapped:
  "isPrivateAddr ''::ffff:127.0.0.1'' \<and> \<not> isPrivateAddr ''::ffff:7f00:1'' \<and>
   \<not> alerts_isPrivateAddr ''::ffff:7f00:1''"
proof -
  have "isPrivateAddr ''::ffff:127.0.0.1''" by code_simp
  moreover have "\<not> isPrivateAddr ''::ffff:7f00:1''" by code_simp
  ultimately show ?thesis by (simp add: isPrivateAddr_copies)
qed

end
