(* ===== verification/Fetch.thy ===== *)
theory Fetch
  imports NetAddr "HOL-Library.Multiset"
begin

text \<open>
  The environment of the checks and the guarded fetch of \<open>deliverability.ts\<close>: resolver, HTTP
  client and URL parser are fields of \<open>net\<close>. A promise is the time in milliseconds at which
  it settles and the value or rejection it settles to, or \<open>None\<close> when it never settles.
\<close>

type_synonym 'a promise = "(nat \<times> 'a option) option"

record url =
  url_protocol :: string
  url_hostname :: string

text \<open>What a body stream delivers: chunks, then its end or a failure.\<close>

datatype read_ev = Chunk string | ReadError

record response =
  res_ok :: bool
  res_body :: "read_ev list option"

record net =
  net_resolveTxt :: "string \<Rightarrow> string list list promise"
  net_resolveMx :: "string \<Rightarrow> (nat \<times> string) list promise"
  net_lookup :: "string \<Rightarrow> string list promise"
  net_fetch :: "string \<Rightarrow> response option"
  net_parseURL :: "string \<Rightarrow> url option"

text \<open>
  \<open>withTimeout(p, ms)\<close>: the race of the promise against a timer that rejects. The result is
  the settling time and the outcome; a rejection (of either) is \<open>None\<close>.
\<close>

definition withTimeout :: "'a promise \<Rightarrow> nat \<Rightarrow> nat \<times> 'a option" where
  "withTimeout p ms = (case p of
     None \<Rightarrow> (ms, None)
   | Some (t, r) \<Rightarrow> if t < ms then (t, r) else (ms, None))"

lemma withTimeout_bounded: "fst (withTimeout p ms) \<le> ms"
  by (auto simp: withTimeout_def split: option.splits)

definition resolveTxtSafe :: "net \<Rightarrow> string \<Rightarrow> string list" where
  "resolveTxtSafe n name = (case snd (withTimeout (net_resolveTxt n name) 5000) of
     Some chunks \<Rightarrow> map concat chunks
   | None \<Rightarrow> [])"

text \<open>\<open>Array.prototype.sort\<close> is stable, as \<open>sort_key\<close> is.\<close>

definition resolveMxSafe :: "net \<Rightarrow> string \<Rightarrow> string list" where
  "resolveMxSafe n name = (case snd (withTimeout (net_resolveMx n name) 5000) of
     Some mx \<Rightarrow> map snd (sort_key fst mx)
   | None \<Rightarrow> [])"

text \<open>
  The read loop: it stops as soon as the bytes read exceed the bound (the reader is cancelled),
  and a failing read is the \<open>catch\<close> branch.
\<close>

fun read_bounded :: "nat \<Rightarrow> nat \<Rightarrow> string list \<Rightarrow> read_ev list \<Rightarrow> string option" where
  "read_bounded maxBytes got chunks [] = Some (concat chunks)"
| "read_bounded maxBytes got chunks (ReadError # evs) = None"
| "read_bounded maxBytes got chunks (Chunk v # evs) =
     (if got + length v > maxBytes then None
      else read_bounded maxBytes (got + length v) (chunks @ [v]) evs)"

text \<open>
  \<open>safeFetchText(url, maxBytes, timeoutMs)\<close>; the second component is the list of URLs
  fetched, the effect the guard controls.
\<close>

definition safeFetchText :: "net \<Rightarrow> string \<Rightarrow> nat \<Rightarrow> nat \<Rightarrow> string option \<times> string list" where
  "safeFetchText n url maxBytes timeoutMs = (case net_parseURL n url of
     None \<Rightarrow> (None, [])
   | Some u \<Rightarrow>
       if url_protocol u \<noteq> ''https:'' \<or> \<not> hostnameRe (url_hostname u) then (None, [])
       else (case snd (withTimeout (net_lookup n (url_hostname u)) timeoutMs) of
         None \<Rightarrow> (None, [])
       | Some addrs \<Rightarrow>
           if addrs = [] \<or> list_ex isPrivateAddr addrs then (None, [])
           else (case net_fetch n url of
             None \<Rightarrow> (None, [url])
           | Some res \<Rightarrow>
               if \<not> res_ok res then (None, [url])
               else (case res_body res of
                 None \<Rightarrow> (None, [url])
               | Some evs \<Rightarrow> (read_bounded maxBytes 0 [] evs, [url])))))"

abbreviation safeFetch :: "net \<Rightarrow> string \<Rightarrow> string option \<times> string list" where
  "safeFetch n url \<equiv> safeFetchText n url (64 * 1024) 5000"

text \<open>The chunks of a stream up to its end, if it does not fail.\<close>

fun stream_bytes :: "read_ev list \<Rightarrow> string option" where
  "stream_bytes [] = Some []"
| "stream_bytes (ReadError # evs) = None"
| "stream_bytes (Chunk v # evs) = map_option ((@) v) (stream_bytes evs)"

lemma read_bounded_eq:
  "got \<le> maxBytes \<Longrightarrow> read_bounded maxBytes got chunks evs =
     (case stream_bytes evs of
        None \<Rightarrow> None
      | Some b \<Rightarrow> if got + length b \<le> maxBytes then Some (concat chunks @ b) else None)"
  by (induction maxBytes got chunks evs rule: read_bounded.induct) (auto split: option.splits)


text \<open>
  What the guarded fetch returns is the complete body of the response, and at most
  \<open>maxBytes\<close> long; a body that is longer or fails yields no text at all.
\<close>
theorem safeFetchText_result:
  "fst (safeFetchText n url maxBytes timeoutMs) = Some b \<longleftrightarrow>
     snd (safeFetchText n url maxBytes timeoutMs) = [url] \<and> length b \<le> maxBytes \<and>
     (\<exists>res evs. net_fetch n url = Some res \<and> res_ok res \<and> res_body res = Some evs \<and>
        stream_bytes evs = Some b)"
  by (auto simp: safeFetchText_def read_bounded_eq split: option.splits if_splits)

lemma resolveTxtSafe_total:
  "resolveTxtSafe n name = [] \<or>
     (\<exists>t chunks. net_resolveTxt n name = Some (t, Some chunks) \<and> t < 5000 \<and>
        resolveTxtSafe n name = map concat chunks)"
  by (auto simp: resolveTxtSafe_def withTimeout_def split: option.splits if_splits)

lemma resolveMxSafe_sorted:
  "net_resolveMx n name = Some (t, Some mx) \<Longrightarrow> t < 5000 \<Longrightarrow>
     \<exists>ps. resolveMxSafe n name = map snd ps \<and> sorted (map fst ps) \<and> mset ps = mset mx"
  by (rule exI [of _ "sort_key fst mx"]) (simp add: resolveMxSafe_def withTimeout_def)

end
