(* ===== verification/Grading.thy ===== *)
theory Grading
  imports Regex
begin

text \<open>
  The pure graders of \<open>services/admin-api/src/deliverability.ts\<close>: each maps published DNS text
  to a \<open>RecordReport\<close>. An absent field (\<open>undefined\<close> or \<open>null\<close>) is \<open>None\<close>. The contract every
  grader keeps is the locale \<open>report_contract\<close>, which the graders interpret.
\<close>

section \<open>Reports\<close>

datatype status = Ok | Info | Warning | Error

datatype rtype = Spf | Dkim | Dmarc | Mx | MtaSts | Bimi | TlsRpt

record RecordReport =
  rr_record :: rtype
  rr_selector :: "string option"
  rr_status :: status
  rr_found :: "string option"
  rr_expected :: "string option"
  rr_detail :: string
  rr_fix :: "string option"

record DomainReport =
  dr_domain :: string
  dr_checkedAt :: string
  dr_status :: status
  dr_records :: "RecordReport list"

primrec status_str :: "status \<Rightarrow> string" where
  "status_str Ok = ''ok''"
| "status_str Info = ''info''"
| "status_str Warning = ''warning''"
| "status_str Error = ''error''"

primrec rtype_str :: "rtype \<Rightarrow> string" where
  "rtype_str Spf = ''spf''"
| "rtype_str Dkim = ''dkim''"
| "rtype_str Dmarc = ''dmarc''"
| "rtype_str Mx = ''mx''"
| "rtype_str MtaSts = ''mta_sts''"
| "rtype_str Bimi = ''bimi''"
| "rtype_str TlsRpt = ''tls_rpt''"

text \<open>Statuses by severity, the order \<open>rollup\<close> takes the maximum in.\<close>

primrec status_rank :: "status \<Rightarrow> nat" where
  "status_rank Ok = 0"
| "status_rank Info = 1"
| "status_rank Warning = 2"
| "status_rank Error = 3"

lemma status_rank_inject [simp]: "status_rank a = status_rank b \<longleftrightarrow> a = b"
  by (cases a; cases b) auto

instantiation status :: linorder
begin
definition less_eq_status :: "status \<Rightarrow> status \<Rightarrow> bool" where
  "less_eq_status a b \<longleftrightarrow> status_rank a \<le> status_rank b"
definition less_status :: "status \<Rightarrow> status \<Rightarrow> bool" where
  "less_status a b \<longleftrightarrow> status_rank a < status_rank b"
instance
  by standard (auto simp: less_eq_status_def less_status_def)
end

lemmas status_order = less_eq_status_def less_status_def

text \<open>Null and the empty string are falsy.\<close>

definition truthy :: "string option \<Rightarrow> bool" where
  "truthy s \<longleftrightarrow> (case s of None \<Rightarrow> False | Some t \<Rightarrow> t \<noteq> [])"

lemma truthy_simps [simp]: "truthy None = False" "truthy (Some t) = (t \<noteq> [])"
  by (simp_all add: truthy_def)

definition js_or :: "string option \<Rightarrow> string \<Rightarrow> string" where
  "js_or s d = (if truthy s then the s else d)"

section \<open>Helpers\<close>

definition providerMechanism :: "string \<Rightarrow> string option" where
  "providerMechanism ty =
     (if ty = ''gmail'' then Some ''include:_spf.google.com''
      else if ty = ''ses'' then Some ''include:amazonses.com''
      else if ty = ''m365'' then Some ''include:spf.protection.outlook.com''
      else None)"

text \<open>The loop of \<open>extractTag\<close> over the parts of the record.\<close>

primrec extract_parts :: "string list \<Rightarrow> string \<Rightarrow> string option" where
  "extract_parts [] tag = None"
| "extract_parts (part # parts) tag =
     (let t = js_trim part in
      case js_indexOf CHR ''='' t of
        None \<Rightarrow> extract_parts parts tag
      | Some eq \<Rightarrow>
          if js_lower (js_trim (take eq t)) = js_lower tag then Some (js_trim (drop (Suc eq) t))
          else extract_parts parts tag)"

definition extractTag :: "string \<Rightarrow> string \<Rightarrow> string option" where
  "extractTag record tag = extract_parts (js_split CHR '';'' record) tag"

definition report :: "rtype \<Rightarrow> status \<Rightarrow> string option \<Rightarrow> string \<Rightarrow> RecordReport" where
  "report k st found detail =
     \<lparr>rr_record = k, rr_selector = None, rr_status = st, rr_found = found, rr_expected = None,
      rr_detail = detail, rr_fix = None\<rparr>"

definition with_fix :: "RecordReport \<Rightarrow> string \<Rightarrow> RecordReport" where
  "with_fix r f = r\<lparr>rr_expected := Some f, rr_fix := Some f\<rparr>"

definition dkim_host :: "string \<Rightarrow> string \<Rightarrow> string" where
  "dkim_host selector domain = selector @ ''._domainkey.'' @ domain"

definition dkim_record :: "string \<Rightarrow> string" where
  "dkim_record key = ''v=DKIM1; k=rsa; p='' @ key"

section \<open>DKIM\<close>

definition gradeDkim ::
  "string option \<Rightarrow> string \<Rightarrow> string \<Rightarrow> string \<Rightarrow> string \<Rightarrow> RecordReport" where
  "gradeDkim published expectedPublicKey rotation selector domain =
     (let host = dkim_host selector domain;
          expectedRecord = dkim_record expectedPublicKey;
          rep = (\<lambda>st found detail. (report Dkim st found detail)\<lparr>rr_selector := Some selector\<rparr>) in
      if \<not> truthy published then
        (if rotation = ''revoked''
         then rep Ok None (''Revoked selector '' @ selector @ '' is correctly absent.'')
         else with_fix (rep (if rotation = ''active'' then Error else Warning) None
                (''No DKIM record at '' @ host @ ''.'')) expectedRecord)
      else if rotation = ''revoked'' then
        rep Warning published
          (''Revoked selector '' @ selector @ '' is still published '' @ mdash @ '' remove '' @ host @ ''.'')
      else
        (let publishedKey = extractTag (the published) ''p'' in
         if truthy publishedKey \<and> strip_ws (the publishedKey) = strip_ws expectedPublicKey
         then rep Ok published ''Published key matches the signing key.''
         else with_fix (rep (if rotation = ''active'' then Error else Warning) published
                (''Published DKIM key does not match the signing key '' @ mdash @ '' update '' @ host @ ''.''))
              expectedRecord))"

section \<open>SPF\<close>

definition buildSpf :: "string list \<Rightarrow> string" where
  "buildSpf includes = js_join '' '' ([''v=spf1''] @ includes @ [''-all''])"

primrec js_findIndex :: "('a \<Rightarrow> bool) \<Rightarrow> 'a list \<Rightarrow> nat option" where
  "js_findIndex P [] = None"
| "js_findIndex P (x # xs) = (if P x then Some 0 else map_option Suc (js_findIndex P xs))"

definition qualifier :: "char \<Rightarrow> bool" where
  "qualifier c \<longleftrightarrow> c \<in> set ''-~?+''"

text \<open>\<open>/^[-~?+]?all$/i\<close> and \<open>/[-~?+]all\b/i\<close>.\<close>

definition is_all_token :: "string \<Rightarrow> bool" where
  "is_all_token t \<longleftrightarrow> rx_test_start (Seq (Opt (Cls qualifier)) (Seq (LitI ''all'') EndOf)) t"

definition has_all :: "string \<Rightarrow> bool" where
  "has_all s \<longleftrightarrow> rx_test (Seq (Cls qualifier) (Seq (LitI ''all'') Bnd)) s"

definition mergeSpf :: "string \<Rightarrow> string list \<Rightarrow> string" where
  "mergeSpf existing missing =
     (let tokens = js_split_ws (js_trim existing) in
      js_join '' '' (case js_findIndex is_all_token tokens of
        Some allIdx \<Rightarrow> take allIdx tokens @ missing @ drop allIdx tokens
      | None \<Rightarrow> tokens @ missing @ [''-all'']))"

definition is_spf :: "string \<Rightarrow> bool" where
  "is_spf r \<longleftrightarrow> rx_test_start (tag_rx ''v=spf1'') (js_trim r)"

definition spf_missing :: "string \<Rightarrow> string list \<Rightarrow> string list" where
  "spf_missing spf requiredIncludes =
     (let tokens = map js_lower (js_split_ws (js_trim spf)) in
      filter (\<lambda>inc. js_lower inc \<notin> set tokens) requiredIncludes)"

definition gradeSpf :: "string list \<Rightarrow> string list \<Rightarrow> RecordReport" where
  "gradeSpf txtRecords requiredIncludes =
     (let spfs = filter is_spf txtRecords in
      case spfs of
        [] \<Rightarrow> with_fix (report Spf Error None ''No SPF record found.'') (buildSpf requiredIncludes)
      | spf # others \<Rightarrow>
          if others \<noteq> [] then
            report Spf Error (Some spf)
              (''Multiple SPF records ('' @ nat_str (length spfs) @ '') '' @ mdash @
               '' only one is allowed; mail will fail SPF.'')
          else
            (let missing = spf_missing spf requiredIncludes in
             if missing \<noteq> [] then
               with_fix (report Spf Warning (Some spf)
                 (''SPF does not authorize NovaMail's route '' @ mdash @ '' missing '' @
                  js_join '', '' missing @ ''.'')) (mergeSpf spf missing)
             else if \<not> has_all spf then
               report Spf Warning (Some spf)
                 (''SPF has no `all` mechanism (e.g. `-all`/`~all`) '' @ mdash @
                  '' add one to set the default.'')
             else if requiredIncludes = [] then
               report Spf Info (Some spf)
                 (''SPF present and valid. Generic smarthost route '' @ mdash @
                  '' can't auto-verify the include; ensure SPF authorizes your smarthost.'')
             else report Spf Ok (Some spf) ''SPF authorizes NovaMail's route.''))"

section \<open>DMARC\<close>

definition is_dmarc :: "string \<Rightarrow> bool" where
  "is_dmarc r \<longleftrightarrow> rx_test_start (tag_rx ''v=dmarc1'') (js_trim r)"

definition dmarc_recommended :: string where
  "dmarc_recommended = ''v=DMARC1; p=reject; rua=mailto:dmarc@<your-domain>; adkim=s; aspf=s''"

definition gradeDmarc :: "string list \<Rightarrow> RecordReport" where
  "gradeDmarc txtRecords =
     (case filter is_dmarc txtRecords of
        [] \<Rightarrow> with_fix (report Dmarc Error None
               (''No DMARC record at _dmarc '' @ mdash @ '' receivers have no policy to apply.''))
               dmarc_recommended
      | rec # _ \<Rightarrow>
          (let p = js_lower (case extractTag rec ''p'' of None \<Rightarrow> [] | Some v \<Rightarrow> v);
               rua = extractTag rec ''rua'' in
           if p = ''none'' then
             report Dmarc Warning (Some rec)
               (''DMARC policy is p=none (monitoring only, not enforcing) '' @ mdash @
                '' move to quarantine/reject when ready.'')
           else if p \<noteq> ''quarantine'' \<and> p \<noteq> ''reject'' then
             report Dmarc Warning (Some rec)
               (''DMARC policy p='' @ js_or (Some p) ''(missing)'' @ '' is not a valid enforcing policy.'')
           else if \<not> truthy rua then
             report Dmarc Warning (Some rec)
               (''DMARC is enforcing (p='' @ p @ '') but has no rua= '' @ mdash @
                '' you get no aggregate reports / failure visibility.'')
           else report Dmarc Ok (Some rec)
               (''DMARC enforcing (p='' @ p @ '') with aggregate reporting.'')))"

section \<open>Hygiene records\<close>

definition gradeMx :: "string list \<Rightarrow> RecordReport" where
  "gradeMx exchanges =
     (if exchanges = [] then
        report Mx Info None
          (''No MX '' @ mdash @ '' this domain can't receive bounces or replies. Not required for relay-only sending.'')
      else report Mx Info (Some (js_join '', '' exchanges))
          (''MX present ('' @ nat_str (length exchanges) @ '' host'' @
           (if length exchanges > 1 then ''s'' else []) @ '').''))"

definition gradeTlsRpt :: "string list \<Rightarrow> RecordReport" where
  "gradeTlsRpt txtRecords =
     (let rec = find (\<lambda>r. rx_test_start (tag_rx ''v=TLSRPTv1'') (js_trim r)) txtRecords in
      if \<not> truthy rec then
        report TlsRpt Info None
          (''No TLS-RPT record '' @ mdash @ '' no reports of inbound TLS delivery failures (optional).'')
      else report TlsRpt Info rec ''TLS-RPT present.'')"

text \<open>\<open>/mode:\s*(\w+)/i\<close>.\<close>

definition mta_mode :: "string \<Rightarrow> string" where
  "mta_mode policy = js_lower
     (case rx_group (Seq (LitI ''mode:'') (Star (Cls is_ws))) (Plus (Cls is_word)) policy of
        None \<Rightarrow> [] | Some m \<Rightarrow> m)"

definition gradeMtaSts :: "string option \<Rightarrow> string option \<Rightarrow> RecordReport" where
  "gradeMtaSts txt policy =
     (if \<not> truthy txt then
        report MtaSts Info None
          (''No MTA-STS record '' @ mdash @ '' inbound TLS isn't enforced via MTA-STS (optional, receiving-side).'')
      else if \<not> truthy policy then
        report MtaSts Warning txt
          ''MTA-STS DNS record present but its policy file (https://mta-sts.<domain>/.well-known/mta-sts.txt) is unreachable or invalid.''
      else
        (let mode = mta_mode (the policy) in
         if mode = ''enforce'' then report MtaSts Info txt ''MTA-STS enforcing.''
         else if mode = ''testing'' then
           report MtaSts Info txt ''MTA-STS in testing mode (not yet enforcing).''
         else report MtaSts Warning txt
           (''MTA-STS policy mode='' @ js_or (Some mode) ''(none)'' @ '' '' @ mdash @ '' not enforcing.'')))"

definition gradeBimi :: "string option \<Rightarrow> bool \<Rightarrow> RecordReport" where
  "gradeBimi txt dmarcEnforcing =
     (if \<not> truthy txt then report Bimi Info None ''No BIMI record (optional brand-logo feature).''
      else if \<not> truthy (extractTag (the txt) ''l'') then
        report Bimi Warning txt ''BIMI record present but has no logo (l=) URL.''
      else if \<not> dmarcEnforcing then
        report Bimi Warning txt
          ''BIMI needs an enforcing DMARC policy (quarantine/reject) before logos display.''
      else report Bimi Info txt ''BIMI present with a logo URL.'')"

definition rollup :: "RecordReport list \<Rightarrow> status" where
  "rollup records =
     (if list_ex (\<lambda>r. rr_status r = Error) records then Error
      else if list_ex (\<lambda>r. rr_status r = Warning) records then Warning
      else Ok)"

section \<open>The contract of the graders\<close>

text \<open>
  What the callers of a grader rely on: its report is of its own kind, a suggested fix is the
  expected value, and only a problem carries a fix. A hygiene grader never reports an error.
\<close>

locale report_contract =
  fixes grade :: "'a \<Rightarrow> RecordReport" and kind :: rtype
  assumes kind: "rr_record (grade x) = kind"
    and fix_expected: "rr_fix (grade x) = rr_expected (grade x)"
    and fix_problem: "rr_fix (grade x) \<noteq> None \<Longrightarrow> Warning \<le> rr_status (grade x)"
begin

lemma healthy_no_fix: "rr_status (grade x) < Warning \<Longrightarrow> rr_fix (grade x) = None"
  using fix_problem [of x] by fastforce

end

locale hygiene_contract = report_contract +
  assumes no_error: "rr_status (grade x) < Error"
    and no_fix: "rr_fix (grade x) = None"
begin

lemma rollup_hygiene: "rollup (grade x # rs) = Error \<longleftrightarrow> rollup rs = Error"
  using no_error [of x] by (auto simp: rollup_def status_order)

end

lemma report_simps [simp]:
  "rr_record (report k st f d) = k" "rr_status (report k st f d) = st"
  "rr_found (report k st f d) = f" "rr_fix (report k st f d) = None"
  "rr_expected (report k st f d) = None" "rr_selector (report k st f d) = None"
  "rr_detail (report k st f d) = d"
  by (simp_all add: report_def)

lemma with_fix_simps [simp]:
  "rr_record (with_fix r f) = rr_record r" "rr_status (with_fix r f) = rr_status r"
  "rr_found (with_fix r f) = rr_found r" "rr_fix (with_fix r f) = Some f"
  "rr_expected (with_fix r f) = Some f" "rr_selector (with_fix r f) = rr_selector r"
  by (simp_all add: with_fix_def)

interpretation dkim: report_contract "\<lambda>(p, k, r, s, d). gradeDkim p k r s d" Dkim
  by unfold_locales (auto simp: gradeDkim_def Let_def status_order split: if_splits)

interpretation spf: report_contract "\<lambda>(t, r). gradeSpf t r" Spf
  by unfold_locales (auto simp: gradeSpf_def Let_def status_order split: if_splits list.splits)

interpretation dmarc: report_contract gradeDmarc Dmarc
  by unfold_locales (auto simp: gradeDmarc_def Let_def status_order split: if_splits list.splits)

interpretation mx: hygiene_contract gradeMx Mx
  by unfold_locales (auto simp: gradeMx_def status_order split: if_splits)

interpretation tlsrpt: hygiene_contract gradeTlsRpt TlsRpt
  by unfold_locales (auto simp: gradeTlsRpt_def Let_def status_order split: if_splits)

interpretation mtasts: hygiene_contract "\<lambda>(t, p). gradeMtaSts t p" MtaSts
  by unfold_locales (auto simp: gradeMtaSts_def Let_def status_order split: if_splits)

interpretation bimi: hygiene_contract "\<lambda>(t, e). gradeBimi t e" Bimi
  by unfold_locales (auto simp: gradeBimi_def Let_def status_order split: if_splits)

section \<open>DKIM: correctness of the verdict and of the suggested record\<close>

definition dkim_matches :: "string \<Rightarrow> string \<Rightarrow> bool" where
  "dkim_matches published key \<longleftrightarrow>
     (\<exists>v. extractTag published ''p'' = Some v \<and> v \<noteq> [] \<and> strip_ws v = strip_ws key)"

lemma gradeDkim_selector [simp]: "rr_selector (gradeDkim p k r s d) = Some s"
  by (simp add: gradeDkim_def Let_def)

lemma gradeDkim_cases:
  "rr_status (gradeDkim pub key rot sel d) =
     (if rot = ''revoked'' then (if truthy pub then Warning else Ok)
      else if truthy pub \<and> dkim_matches (the pub) key then Ok
      else if rot = ''active'' then Error else Warning)"
  by (auto simp: gradeDkim_def dkim_matches_def Let_def truthy_def split: option.splits)

lemma gradeDkim_fix_eq:
  "rr_fix (gradeDkim pub key rot sel d) = Some f \<Longrightarrow> f = dkim_record key \<and> rot \<noteq> ''revoked''"
  by (auto simp: gradeDkim_def Let_def split: if_splits)

text \<open>The key tag of the record the server publishes is the key, up to surrounding blanks.\<close>

lemma extractTag_dkim_record:
  assumes "CHR '';'' \<notin> set key"
  shows "\<exists>v. extractTag (dkim_record key) ''p'' = Some v \<and> strip_ws v = strip_ws key"
proof -
  have "js_split CHR '';'' (dkim_record key) = [''v=DKIM1'', '' k=rsa'', '' p='' @ key]"
    using assms by (simp add: dkim_record_def)
  moreover have "js_trim (CHR '' '' # CHR ''p'' # CHR ''='' # key) =
      CHR ''p'' # CHR ''='' # rev (dropWhile is_ws (rev key))"
    using js_trim_prefix [of "''p''" "CHR ''=''" key] by (simp add: js_trim_def is_ws_def)
  moreover have "js_trim ''v=DKIM1'' = ''v=DKIM1''" "js_trim '' k=rsa'' = ''k=rsa''"
    "js_trim ''v'' = ''v''" "js_trim ''k'' = ''k''" "js_trim ''p'' = ''p''"
    by code_simp+
  ultimately show ?thesis
    by (simp add: extractTag_def Let_def lower_char_def is_upper_def code_of_def)
qed

lemma dkim_matches_record:
  "CHR '';'' \<notin> set key \<Longrightarrow> strip_ws key \<noteq> [] \<Longrightarrow> dkim_matches (dkim_record key) key"
  using extractTag_dkim_record [of key] by (auto simp: dkim_matches_def strip_ws_def)

text \<open>
  Publishing exactly the record \<open>gradeDkim\<close> suggests makes the next check of the same key
  report ok, whatever was published before (the signing key being non-blank and free of the
  separator, as base64 is).
\<close>
theorem gradeDkim_fix_converges:
  assumes "rr_fix (gradeDkim pub key rot sel d) = Some f"
    and "CHR '';'' \<notin> set key" and "strip_ws key \<noteq> []"
  shows "rr_status (gradeDkim (Some f) key rot sel d) = Ok"
  using assms gradeDkim_fix_eq [OF assms(1)] dkim_matches_record [of key]
  by (simp add: gradeDkim_cases dkim_record_def)

theorem gradeDkim_fix_converges_witness:
  "\<exists>f. rr_fix (gradeDkim (Some ''v=DKIM1; p=WRONG'') ''MIIB=='' ''active'' ''nm1'' ''acme.io'') = Some f \<and>
     rr_status (gradeDkim (Some f) ''MIIB=='' ''active'' ''nm1'' ''acme.io'') = Ok"
proof -
  have a: "rr_fix (gradeDkim (Some ''v=DKIM1; p=WRONG'') ''MIIB=='' ''active'' ''nm1'' ''acme.io'') =
      Some (dkim_record ''MIIB=='')" by code_simp
  have b: "CHR '';'' \<notin> set ''MIIB==''" "strip_ws ''MIIB=='' \<noteq> []" by code_simp+
  show ?thesis using a gradeDkim_fix_converges [OF a b] by blast
qed

end
