(* ===== verification/SpfDmarc.thy ===== *)
theory SpfDmarc
  imports Grading "HOL-Library.Sublist"
begin

text \<open>
  What the SPF and DMARC verdicts mean: the token view of an SPF record, the regular
  expressions \<open>is_all_token\<close>, \<open>has_all\<close> and the version tags read declaratively, and the
  correctness of the corrected record that \<open>gradeSpf\<close> hands out.
\<close>

definition words :: "string \<Rightarrow> string list" where
  "words r = js_split_ws (js_trim r)"

declare rx_relE [rule del]

section \<open>The version tag is decided by the first word\<close>

lemma hd_js_split_ws: "hd (js_split_ws s) = takeWhile (\<lambda>c. \<not> is_ws c) s"
  by (induction s rule: js_split_ws.induct) (auto split: list.splits)

lemma ws_no_letter: "is_ws c \<Longrightarrow> \<not> is_upper c \<and> \<not> is_lower c \<and> \<not> is_word c"
  unfolding is_ws_def by (elim insertE emptyE; simp; code_simp)

lemma lower_char_ws: "is_ws c \<Longrightarrow> lower_char c = lower_char d \<Longrightarrow> c = d"
proof -
  assume c: "is_ws c" and eq: "lower_char c = lower_char d"
  then have "lower_char d = c" using ws_no_letter [OF c] by (simp add: lower_char_def)
  then show ?thesis using lower_char_eqD [of d c] ws_no_letter [OF c] by simp
qed

lemma lower_nonws: "js_lower u = js_lower w \<Longrightarrow> \<forall>c \<in> set w. \<not> is_ws c \<Longrightarrow> \<forall>c \<in> set u. \<not> is_ws c"
proof (induction u arbitrary: w)
  case (Cons c u)
  then obtain d w' where "w = d # w'" "lower_char c = lower_char d" "js_lower u = js_lower w'"
    by (cases w) simp_all
  with Cons lower_char_ws [of c d] show ?case by simp blast
qed simp

lemma at_boundary_word:
  "at_boundary (p, takeWhile (\<lambda>c. \<not> is_ws c) v) = at_boundary (p, v)"
  using ws_no_letter by (cases v) simp_all

lemma tag_rx_first_word:
  assumes "w \<noteq> []" and ws: "\<forall>c \<in> set w. \<not> is_ws c"
  shows "rx_test_start (tag_rx w) s = rx_test_start (tag_rx w) (takeWhile (\<lambda>c. \<not> is_ws c) s)"
proof -
  let ?t = "takeWhile (\<lambda>c. \<not> is_ws c)"
  have "?t (u @ v) = u @ ?t v" if "js_lower u = js_lower w" for u v
    using lower_nonws [OF that ws] by (simp add: takeWhile_append2)
  moreover have "s = u @ (v @ dropWhile (\<lambda>c. \<not> is_ws c) s)" if "?t s = u @ v" for u v
    using that by (metis append.assoc takeWhile_dropWhile_id)
  moreover have "?t (v @ dropWhile (\<lambda>c. \<not> is_ws c) s) = v" if "?t s = u @ v" for u v
  proof -
    have "\<forall>c \<in> set v. \<not> is_ws c" using that by (metis Un_iff set_append set_takeWhileD)
    then have "?t (v @ dropWhile (\<lambda>c. \<not> is_ws c) s) = v @ ?t (dropWhile (\<lambda>c. \<not> is_ws c) s)"
      by (simp add: takeWhile_append2)
    then show ?thesis by (metis append.right_neutral hd_dropWhile takeWhile_eq_Nil_iff)
  qed
  ultimately show ?thesis
    unfolding tag_rx_iff [OF assms(1)] by (metis at_boundary_word)
qed

section \<open>The \<open>all\<close> mechanism\<close>

lemma boundary_after_all:
  "js_lower u = ''all'' \<Longrightarrow> at_boundary (Some (last u), v) \<longleftrightarrow> v = [] \<or> \<not> is_word (hd v)"
proof -
  assume u: "js_lower u = ''all''"
  then have "u \<noteq> []" by auto
  with u have "lower_char (last u) = CHR ''l''"
    by (metis (no_types) js_lower_def last.simps last_map list.distinct(1))
  moreover have "is_lower CHR ''l''" by code_simp
  ultimately have "is_word (last u)"
    by (metis is_alpha_def is_word_def lower_char_def)
  then show ?thesis by (cases v) simp_all
qed

lemma rx_rel_LitI_Seq_iff:
  "rx_rel (Seq (LitI w) b) (p, s) x \<longleftrightarrow>
     (\<exists>u v. s = u @ v \<and> js_lower u = js_lower w \<and> rx_rel b (prev_of p u, v) x)"
  unfolding rx_rel_Seq_iff rx_rel_LitI_iff by blast

lemma js_lower_all: "js_lower ''all'' = ''all''"
  by code_simp

lemma is_all_token_iff:
  "is_all_token t \<longleftrightarrow> js_lower t = ''all'' \<or> (\<exists>q u. t = q # u \<and> qualifier q \<and> js_lower u = ''all'')"
proof -
  have all: "(\<exists>x. rx_rel (Seq (LitI ''all'') EndOf) (p, s) x) \<longleftrightarrow> js_lower s = ''all''" for p s
    unfolding rx_rel_LitI_Seq_iff js_lower_all rx_rel_End_iff by simp
  have "is_all_token t \<longleftrightarrow> (\<exists>y. rx_rel (Alt (Cls qualifier) Eps) (None, t) y \<and>
      (\<exists>x. rx_rel (Seq (LitI ''all'') EndOf) y x))"
    unfolding is_all_token_def rx_test_start_iff Opt_def
      rx_rel_Seq_iff [of "Alt (Cls qualifier) Eps"] by blast
  also have "\<dots> \<longleftrightarrow> (\<exists>x. rx_rel (Seq (LitI ''all'') EndOf) (None, t) x) \<or>
      (\<exists>q u. t = q # u \<and> qualifier q \<and> (\<exists>x. rx_rel (Seq (LitI ''all'') EndOf) (Some q, u) x))"
    unfolding rx_rel_Alt_iff rx_rel_Cls_iff rx_rel_Eps_iff by blast
  finally show ?thesis unfolding all .
qed

lemma has_all_iff:
  "has_all s \<longleftrightarrow> (\<exists>a q u v. s = a @ q # u @ v \<and> qualifier q \<and> js_lower u = ''all'' \<and>
     (v = [] \<or> \<not> is_word (hd v)))"
proof -
  have tail: "(\<exists>x. rx_rel (Seq (LitI ''all'') Bnd) (Some q, s) x) \<longleftrightarrow>
      (\<exists>u v. s = u @ v \<and> js_lower u = ''all'' \<and> (v = [] \<or> \<not> is_word (hd v)))" for q s
  proof -
    have "at_boundary (prev_of (Some q) u, v) \<longleftrightarrow> v = [] \<or> \<not> is_word (hd v)"
      if "js_lower u = ''all''" for u v
    proof -
      from that have "u \<noteq> []" by auto
      then show ?thesis using boundary_after_all [OF that] by (simp only: prev_of_def if_False)
    qed
    then show ?thesis
      unfolding rx_rel_LitI_Seq_iff js_lower_all rx_rel_Bnd_iff by blast
  qed
  have "has_all s \<longleftrightarrow> (\<exists>a q r. s = a @ q # r \<and> qualifier q \<and>
      (\<exists>x. rx_rel (Seq (LitI ''all'') Bnd) (Some q, r) x))"
    unfolding has_all_def rx_test_iff rx_rel_Seq_iff [of "Cls qualifier"] rx_rel_Cls_iff by blast
  then show ?thesis unfolding tail by blast
qed

section \<open>The words of a joined record\<close>

lemma words_join: "xs \<noteq> [] \<Longrightarrow> \<forall>x \<in> set xs. token x \<Longrightarrow> words (js_join '' '' xs) = xs"
  by (simp add: words_def trimmed_join js_split_ws_join)

lemma join_member:
  "t \<in> set xs \<Longrightarrow> \<exists>a b. js_join '' '' xs = a @ t @ b \<and> (b = [] \<or> hd b = CHR '' '')"
proof (induction "'' ''" xs rule: js_join.induct)
  case (2 x)
  then have "js_join '' '' [x] = [] @ t @ []" by simp
  then show ?case by blast
next
  case (3 x y ys)
  show ?case
  proof (cases "t = x")
    case True
    then have "js_join '' '' (x # y # ys) = [] @ t @ ('' '' @ js_join '' '' (y # ys))" by simp
    then show ?thesis by (metis hd_append2 list.sel(1) not_Cons_self2)
  next
    case False
    with 3 obtain a b where ab: "js_join '' '' (y # ys) = a @ t @ b" "b = [] \<or> hd b = CHR '' ''" by auto
    then have "js_join '' '' (x # y # ys) = (x @ '' '' @ a) @ t @ b" by simp
    with ab(2) show ?thesis by blast
  qed
qed simp

lemma has_all_join:
  assumes "q # u \<in> set xs" "qualifier q" "js_lower u = ''all''"
  shows "has_all (js_join '' '' xs)"
proof -
  from join_member [OF assms(1)] obtain a b where
    ab: "js_join '' '' xs = a @ q # u @ b" "b = [] \<or> hd b = CHR '' ''" by auto
  moreover have "\<not> is_word CHR '' ''" by code_simp
  ultimately show ?thesis unfolding has_all_iff using assms(2,3) by metis
qed

lemma is_spf_words: "is_spf r \<Longrightarrow> words r \<noteq> [] \<and> (\<forall>t \<in> set (words r). token t)"
proof -
  assume "is_spf r"
  then have "js_trim r \<noteq> []"
    by (auto simp: is_spf_def rx_test_start_def tag_rx_def ChI_def)
  then show ?thesis by (auto simp: words_def intro: trimmed_words trimmed_js_trim)
qed

lemma is_spf_iff: "is_spf r \<longleftrightarrow> rx_test_start (tag_rx ''v=spf1'') (hd (words r))"
proof -
  have "\<forall>c \<in> set ''v=spf1''. \<not> is_ws c" by code_simp
  then show ?thesis
    using tag_rx_first_word [of "''v=spf1''" "js_trim r"]
    by (simp add: is_spf_def words_def hd_js_split_ws)
qed

text \<open>A version tag is no \<open>all\<close> mechanism, so the corrected record keeps it in front.\<close>

lemma tag_not_all: "rx_test_start (tag_rx ''v=spf1'') t \<Longrightarrow> \<not> is_all_token t"
proof -
  assume "rx_test_start (tag_rx ''v=spf1'') t"
  then obtain u v where "t = u @ v" "js_lower u = ''v=spf1''"
    by (auto simp: tag_rx_iff lower_char_def is_upper_def code_of_def)
  then obtain x s where t: "t = x # s" and x: "lower_char x = CHR ''v''"
    by (auto simp: js_lower_def map_eq_Cons_conv)
  have "\<not> qualifier x"
  proof
    assume "qualifier x"
    then have "lower_char x = x"
      by (auto simp: qualifier_def lower_char_def is_upper_def code_of_def)
    with \<open>qualifier x\<close> x show False by (simp add: qualifier_def)
  qed
  with t x show ?thesis by (auto simp: is_all_token_iff)
qed

lemma js_findIndex_Some:
  "js_findIndex P xs = Some i \<Longrightarrow> i < length xs \<and> P (xs ! i) \<and> \<not> list_ex P (take i xs)"
  by (induction xs arbitrary: i) (auto split: if_splits)

lemma js_findIndex_None: "js_findIndex P xs = None \<longleftrightarrow> \<not> list_ex P xs"
  by (induction xs) auto

lemma js_findIndex_take:
  "js_findIndex P xs = Some i \<Longrightarrow> take i xs = takeWhile (\<lambda>t. \<not> P t) xs \<and>
     drop i xs = dropWhile (\<lambda>t. \<not> P t) xs \<and> list_ex P xs"
  by (induction xs arbitrary: i) (auto split: if_splits)

lemma js_findIndex_None_take:
  "js_findIndex P xs = None \<Longrightarrow> takeWhile (\<lambda>t. \<not> P t) xs = xs"
  by (simp add: js_findIndex_None list_ex_iff)

text \<open>The words of the corrected record: the old words with the missing ones inserted.\<close>

definition merged_words :: "string \<Rightarrow> string list \<Rightarrow> string list" where
  "merged_words existing missing =
     (case js_findIndex is_all_token (words existing) of
        Some i \<Rightarrow> take i (words existing) @ missing @ drop i (words existing)
      | None \<Rightarrow> words existing @ missing @ [''-all''])"

lemma mergeSpf_join: "mergeSpf existing missing = js_join '' '' (merged_words existing missing)"
  by (simp add: mergeSpf_def merged_words_def words_def Let_def split: option.splits)

lemma token_all: "token ''-all''" and token_tag: "token ''v=spf1''"
  by code_simp+

lemma merged_words_facts:
  assumes "is_spf spf" and "\<forall>m \<in> set missing. token m"
  shows "\<forall>t \<in> set (merged_words spf missing). token t"
    and "hd (merged_words spf missing) = hd (words spf)" and "merged_words spf missing \<noteq> []"
    and "set (merged_words spf missing) \<supseteq> set (words spf) \<union> set missing"
    and "subseq (words spf) (merged_words spf missing)"
proof -
  have w: "words spf \<noteq> []" "\<forall>t \<in> set (words spf). token t" using is_spf_words [OF assms(1)] by auto
  have "\<not> is_all_token (hd (words spf))"
    using assms(1) by (auto simp: is_spf_iff dest: tag_not_all)
  then have pos: "js_findIndex is_all_token (words spf) = Some i \<Longrightarrow> 0 < i" for i
    using w(1) by (cases "words spf") (auto split: if_splits)
  have sets: "set (words spf) = set (take i (words spf)) \<union> set (drop i (words spf))" for i
    by (metis append_take_drop_id set_append)
  show "\<forall>t \<in> set (merged_words spf missing). token t"
    using w(2) assms(2) token_all sets by (auto simp: merged_words_def split: option.splits)
  show "hd (merged_words spf missing) = hd (words spf)" "merged_words spf missing \<noteq> []"
    using w(1) pos by (auto simp: merged_words_def split: option.splits)
  show "set (merged_words spf missing) \<supseteq> set (words spf) \<union> set missing"
    using sets by (auto simp: merged_words_def split: option.splits)
  have "subseq (take i xs @ drop i xs) (take i xs @ ys @ drop i xs)" for i and xs ys :: "string list"
    by (intro list_emb_append_mono subseq_order.order_refl list_emb_append2)
  then have "subseq xs (take i xs @ ys @ drop i xs)" for i and xs ys :: "string list"
    by simp
  then show "subseq (words spf) (merged_words spf missing)"
    by (auto simp: merged_words_def split: option.splits)
qed

section \<open>The verdict on a single record\<close>

lemma spf_missing_eq:
  "spf_missing r req = filter (\<lambda>m. js_lower m \<notin> js_lower ` set (words r)) req"
  by (simp add: spf_missing_def words_def Let_def)

lemma gradeSpf_single:
  "is_spf f \<Longrightarrow> rr_status (gradeSpf [f] req) =
     (if spf_missing f req \<noteq> [] \<or> \<not> has_all f then Warning else if req = [] then Info else Ok)"
  by (simp add: gradeSpf_def Let_def)

text \<open>A record made of tokens that starts with the tag, has the includes and a qualified \<open>all\<close>.\<close>

lemma gradeSpf_repaired:
  assumes ne: "ws \<noteq> []" and tok: "\<forall>t \<in> set ws. token t"
    and tag: "rx_test_start (tag_rx ''v=spf1'') (hd ws)"
    and req: "\<forall>m \<in> set req. js_lower m \<in> js_lower ` set ws"
    and all: "q # u \<in> set ws" "qualifier q" "js_lower u = ''all''"
  shows "rr_status (gradeSpf [js_join '' '' ws] req) = (if req = [] then Info else Ok)"
proof -
  have w: "words (js_join '' '' ws) = ws" using ne tok by (rule words_join)
  then have "is_spf (js_join '' '' ws)" using tag by (simp add: is_spf_iff)
  moreover have "spf_missing (js_join '' '' ws) req = []"
    using req by (simp add: spf_missing_eq w filter_empty_conv)
  ultimately show ?thesis using has_all_join [OF all] by (simp add: gradeSpf_single)
qed

lemma qualified_all: "qualifier CHR ''-''" "js_lower ''all'' = ''all''"
  by code_simp+

lemma merged_all:
  assumes "\<forall>t \<in> set (words spf). js_lower t \<noteq> ''all''"
  obtains q u where "q # u \<in> set (merged_words spf missing)" "qualifier q" "js_lower u = ''all''"
proof (cases "js_findIndex is_all_token (words spf)")
  case None
  then have "CHR ''-'' # ''all'' \<in> set (merged_words spf missing)" by (simp add: merged_words_def)
  then show ?thesis using that qualified_all by blast
next
  case (Some i)
  then have i: "i < length (words spf)" "is_all_token (words spf ! i)"
    by (auto dest: js_findIndex_Some)
  then have "words spf ! i \<in> set (words spf)" by simp
  with i assms obtain q u where qu: "words spf ! i = q # u" "qualifier q" "js_lower u = ''all''"
    unfolding is_all_token_iff by metis
  have "words spf ! i \<in> set (drop i (words spf))"
    using i(1) by (metis Cons_nth_drop_Suc list.set_intros(1))
  then have "q # u \<in> set (merged_words spf missing)"
    using Some qu(1) by (simp add: merged_words_def)
  then show ?thesis using that qu by blast
qed

lemma gradeSpf_fix_cases:
  "rr_fix (gradeSpf txts req) = Some f \<Longrightarrow>
     f = buildSpf req \<and> filter is_spf txts = [] \<or>
     (\<exists>spf. filter is_spf txts = [spf] \<and> f = mergeSpf spf (spf_missing spf req))"
  by (auto simp: gradeSpf_def Let_def split: list.splits if_splits)

lemma merged_covers:
  assumes "is_spf spf" and "\<forall>m \<in> set req. token m"
  shows "\<forall>m \<in> set req. js_lower m \<in> js_lower ` set (merged_words spf (spf_missing spf req))"
proof
  fix m assume m: "m \<in> set req"
  have "\<forall>m \<in> set (spf_missing spf req). token m" using assms(2) by (simp add: spf_missing_eq)
  from merged_words_facts(4) [OF assms(1) this]
  have sup: "set (words spf) \<union> set (spf_missing spf req) \<subseteq> set (merged_words spf (spf_missing spf req))" .
  show "js_lower m \<in> js_lower ` set (merged_words spf (spf_missing spf req))"
  proof (cases "js_lower m \<in> js_lower ` set (words spf)")
    case False
    with m have "m \<in> set (spf_missing spf req)" by (simp add: spf_missing_eq)
    with sup show ?thesis by blast
  qed (use sup in blast)
qed

section \<open>Properties\<close>

text \<open>
  C3: publishing the corrected SPF record repairs the domain. Whatever TXT records were found,
  the record \<open>gradeSpf\<close> suggests (\<open>buildSpf\<close> where there was none, \<open>mergeSpf\<close> where an include was
  missing) grades ok, or info on a route without required include, provided the required
  includes are single words and the old record has no \<open>all\<close> without a qualifier.
\<close>
theorem gradeSpf_fix_repairs:
  assumes sug: "rr_fix (gradeSpf txts req) = Some f"
    and tok: "\<forall>m \<in> set req. token m"
    and bare: "\<forall>r \<in> set txts. \<forall>t \<in> set (words r). js_lower t \<noteq> ''all''"
  shows "rr_status (gradeSpf [f] req) = (if req = [] then Info else Ok)"
  using gradeSpf_fix_cases [OF sug]
proof (elim disjE exE conjE)
  assume f: "f = buildSpf req"
  have tag: "rx_test_start (tag_rx ''v=spf1'') ''v=spf1''" by code_simp
  show ?thesis
    unfolding f buildSpf_def using tok tag qualified_all token_all token_tag
    by (intro gradeSpf_repaired) auto
next
  fix spf assume spf: "filter is_spf txts = [spf]" and f: "f = mergeSpf spf (spf_missing spf req)"
  then have "spf \<in> set (filter is_spf txts)" by simp
  then have mem: "spf \<in> set txts" and isp: "is_spf spf" by simp_all
  have miss: "\<forall>m \<in> set (spf_missing spf req). token m" using tok by (simp add: spf_missing_eq)
  from mem bare have "\<forall>t \<in> set (words spf). js_lower t \<noteq> ''all''" by blast
  then obtain q u where "q # u \<in> set (merged_words spf (spf_missing spf req))" "qualifier q" "js_lower u = ''all''"
    by (rule merged_all)
  then show ?thesis
    unfolding f mergeSpf_join
    using merged_words_facts [OF isp miss] isp merged_covers [OF isp tok]
    by (intro gradeSpf_repaired) (simp_all add: is_spf_iff)
qed

theorem gradeSpf_fix_repairs_witness:
  "rr_status (gradeSpf [''google-site-verification=x'', ''v=spf1 mx ~all''] [''include:amazonses.com'']) = Warning \<and>
   rr_status (gradeSpf [''v=spf1 mx include:amazonses.com ~all''] [''include:amazonses.com'']) = Ok"
proof
  show "rr_status (gradeSpf [''google-site-verification=x'', ''v=spf1 mx ~all''] [''include:amazonses.com'']) = Warning"
    by code_simp
  have "rr_fix (gradeSpf [''google-site-verification=x'', ''v=spf1 mx ~all''] [''include:amazonses.com'']) =
      Some ''v=spf1 mx include:amazonses.com ~all''" by code_simp
  moreover have "\<forall>m \<in> set [''include:amazonses.com'']. token m" by code_simp
  moreover have "\<forall>r \<in> set [''google-site-verification=x'', ''v=spf1 mx ~all'']. \<forall>t \<in> set (words r). js_lower t \<noteq> ''all''"
    by code_simp
  ultimately show "rr_status (gradeSpf [''v=spf1 mx include:amazonses.com ~all''] [''include:amazonses.com'']) = Ok"
    by (rule gradeSpf_fix_repairs [THEN trans]) simp
qed

text \<open>
  \<open>mergeSpf\<close> inserts the missing includes in front of the first \<open>all\<close> mechanism and keeps
  every word of the old record in its order; without one it appends the includes and \<open>-all\<close>.
\<close>
theorem mergeSpf_words:
  assumes "is_spf existing" and "\<forall>m \<in> set missing. token m"
  shows "words (mergeSpf existing missing) =
     takeWhile (\<lambda>t. \<not> is_all_token t) (words existing) @ missing @
     (if list_ex is_all_token (words existing)
      then dropWhile (\<lambda>t. \<not> is_all_token t) (words existing) else [''-all''])"
proof -
  have "words (mergeSpf existing missing) = merged_words existing missing"
    unfolding mergeSpf_join using merged_words_facts [OF assms] by (intro words_join)
  then show ?thesis
    by (auto simp: merged_words_def js_findIndex_take js_findIndex_None_take js_findIndex_None
        split: option.splits)
qed

theorem mergeSpf_words_witness:
  "words (mergeSpf ''v=spf1 MX ?ALL exp=e'' [''include:amazonses.com'']) =
     [''v=spf1'', ''MX'', ''include:amazonses.com'', ''?ALL'', ''exp=e'']"
proof -
  have "is_spf ''v=spf1 MX ?ALL exp=e''" "\<forall>m \<in> set [''include:amazonses.com'']. token m" by code_simp+
  from mergeSpf_words [OF this] show ?thesis by (rule trans) code_simp
qed

text \<open>
  C8: when an SPF verdict is ok: exactly one SPF record is published, every include the
  active route needs is one of its words (compared without case), and a qualified \<open>all\<close>
  followed by a non-word character occurs in it.
\<close>
theorem gradeSpf_Ok_iff:
  "rr_status (gradeSpf txts req) = Ok \<longleftrightarrow> req \<noteq> [] \<and>
     (\<exists>r. filter is_spf txts = [r] \<and> (\<forall>m \<in> set req. js_lower m \<in> js_lower ` set (words r)) \<and>
        (\<exists>a q u v. r = a @ q # u @ v \<and> qualifier q \<and> js_lower u = ''all'' \<and>
           (v = [] \<or> \<not> is_word (hd v))))"
  unfolding has_all_iff [symmetric]
  by (auto simp: gradeSpf_def Let_def spf_missing_eq filter_empty_conv split: list.splits if_splits)

theorem gradeSpf_Ok_iff_witness:
  "\<exists>r a q u v. filter is_spf [''x=1'', ''v=spf1 include:amazonses.com ~ALL''] = [r] \<and>
     r = a @ q # u @ v \<and> qualifier q \<and> js_lower u = ''all''"
proof -
  have "rr_status (gradeSpf [''x=1'', ''v=spf1 include:amazonses.com ~ALL''] [''include:amazonses.com'']) = Ok"
    by code_simp
  from this [unfolded gradeSpf_Ok_iff] show ?thesis by blast
qed

text \<open>
  The DMARC verdict is ok exactly when the first DMARC record found has an enforcing
  policy tag and an address for aggregate reports.
\<close>
theorem gradeDmarc_Ok_iff:
  "rr_status (gradeDmarc txts) = Ok \<longleftrightarrow>
     (\<exists>r rs p a. filter is_dmarc txts = r # rs \<and> extractTag r ''p'' = Some p \<and>
        js_lower p \<in> {''quarantine'', ''reject''} \<and> extractTag r ''rua'' = Some a \<and> a \<noteq> [])"
  by (auto simp: gradeDmarc_def Let_def truthy_def split: list.splits option.splits if_splits)

text \<open>
  The domain status is the worst record status, with informational records counting as
  ok.
\<close>
theorem rollup_worst:
  "rollup records =
     (let worst = fold max (map rr_status records) Ok in if worst < Warning then Ok else worst)"
proof -
  have "fold max ss s = (if Error \<in> insert s (set ss) then Error
      else if Warning \<in> insert s (set ss) then Warning
      else if Info \<in> insert s (set ss) then Info else Ok)" for ss s
  proof (induction ss arbitrary: s)
    case Nil
    then show ?case by (cases s) auto
  next
    case (Cons t ss)
    then show ?case by (cases s; cases t) (auto simp: max_def status_order)
  qed
  moreover have "list_ex (\<lambda>r. rr_status r = st) records \<longleftrightarrow> st \<in> set (map rr_status records)" for st
    by (auto simp: list_ex_iff)
  ultimately show ?thesis by (simp add: rollup_def status_order Let_def)
qed

end
