(* ===== verification/Checks.thy ===== *)
theory Checks
  imports Fetch SpfDmarc
begin

text \<open>
  One check of a domain (\<open>routedProviderTypes\<close> and \<open>checkDomain\<close> of \<open>deliverability.ts\<close>): the
  configuration it reads, the DNS names it asks for, the report it assembles. A table is
  \<open>None\<close> when the query on it rejects; rows are in table order, which is also how an
  \<open>order by\<close> resolves ties.
\<close>

record dkim_key =
  dk_domain :: string
  dk_selector :: string
  dk_public_key :: string
  dk_rotation :: string

record routing_rule =
  ru_sender_domain :: "string option"
  ru_provider_chain :: "string list"
  ru_priority :: int
  ru_enabled :: bool

record provider =
  pv_id :: string
  pv_type :: string
  pv_enabled :: bool

record config =
  cf_dkim_keys :: "dkim_key list option"
  cf_routing_rules :: "routing_rule list option"
  cf_providers :: "provider list option"

definition rule_ids :: "routing_rule list \<Rightarrow> string \<Rightarrow> string list" where
  "rule_ids rules domain =
     concat (map ru_provider_chain (sort_key ru_priority
       (filter (\<lambda>r. ru_sender_domain r = Some domain \<and> ru_enabled r) rules)))"

definition routedProviderTypes :: "config \<Rightarrow> string \<Rightarrow> string list option" where
  "routedProviderTypes cf domain = (case cf_routing_rules cf of
     None \<Rightarrow> None
   | Some rules \<Rightarrow> (case cf_providers cf of
       None \<Rightarrow> None
     | Some ps \<Rightarrow>
         (let ids = rule_ids rules domain in
          Some (js_uniq (map pv_type
            (if ids \<noteq> [] then filter (\<lambda>p. pv_id p \<in> set ids \<and> pv_enabled p) ps
             else filter pv_enabled ps))))))"

definition required_includes :: "string list \<Rightarrow> string list" where
  "required_includes types = js_uniq (List.map_filter providerMechanism types)"

text \<open>\<open>/p\s*=\s*(quarantine|reject)/i\<close>.\<close>

definition enforcing_rx :: rx where
  "enforcing_rx = Seq (ChI CHR ''p'') (Seq (Star (Cls is_ws)) (Seq (ChI CHR ''='')
     (Seq (Star (Cls is_ws)) (Alt (LitI ''quarantine'') (LitI ''reject'')))))"

definition dmarcEnforcing :: "string list \<Rightarrow> bool" where
  "dmarcEnforcing txts \<longleftrightarrow> list_ex (rx_test enforcing_rx) txts"

definition find_tag :: "string \<Rightarrow> string list \<Rightarrow> string option" where
  "find_tag tag txts = find (\<lambda>r. rx_test_start (tag_rx tag) (js_trim r)) txts"

definition first_txt :: "string list \<Rightarrow> string option" where
  "first_txt txts = (case txts of [] \<Rightarrow> None | t # _ \<Rightarrow> Some t)"

definition dkim_missing :: RecordReport where
  "dkim_missing = report Dkim Warning None ''No DKIM key configured in NovaMail for this domain.''"

definition domain_keys :: "dkim_key list \<Rightarrow> string \<Rightarrow> dkim_key list" where
  "domain_keys keys domain =
     filter (\<lambda>k. dk_domain k = domain \<and> dk_rotation k \<in> {''active'', ''retiring'', ''revoked''}) keys"

definition dkim_reports :: "net \<Rightarrow> dkim_key list \<Rightarrow> string \<Rightarrow> RecordReport list" where
  "dkim_reports n keys domain =
     (if keys = [] then [dkim_missing] else []) @
     map (\<lambda>k. gradeDkim (first_txt (resolveTxtSafe n (dkim_host (dk_selector k) domain)))
            (dk_public_key k) (dk_rotation k) (dk_selector k) domain) keys"

text \<open>The policy fetch of MTA-STS: its text and the URLs contacted.\<close>

definition sts_policy :: "net \<Rightarrow> string option \<Rightarrow> string \<Rightarrow> string option \<times> string list" where
  "sts_policy n stsTxt domain =
     (if truthy stsTxt then safeFetch n (''https://mta-sts.'' @ domain @ ''/.well-known/mta-sts.txt'')
      else (None, []))"

definition checkDomain :: "net \<Rightarrow> config \<Rightarrow> string \<Rightarrow> string \<Rightarrow> DomainReport option" where
  "checkDomain n cf now domain = (case cf_dkim_keys cf of
     None \<Rightarrow> None
   | Some all_keys \<Rightarrow> (case routedProviderTypes cf domain of
       None \<Rightarrow> None
     | Some types \<Rightarrow>
         (let dkims = dkim_reports n (domain_keys all_keys domain) domain;
              spf = gradeSpf (resolveTxtSafe n domain) (required_includes types);
              dmarcTxts = resolveTxtSafe n (''_dmarc.'' @ domain);
              dmarc = gradeDmarc dmarcTxts;
              mx = gradeMx (resolveMxSafe n domain);
              tlsrpt = gradeTlsRpt (resolveTxtSafe n (''_smtp._tls.'' @ domain));
              stsTxt = find_tag ''v=STSv1'' (resolveTxtSafe n (''_mta-sts.'' @ domain));
              mtasts = gradeMtaSts stsTxt (fst (sts_policy n stsTxt domain));
              bimi = gradeBimi (find_tag ''v=BIMI1'' (resolveTxtSafe n (''default._bimi.'' @ domain)))
                       (dmarcEnforcing dmarcTxts);
              records = dkims @ [spf, dmarc, mx, tlsrpt, mtasts, bimi] in
          Some \<lparr>dr_domain = domain, dr_checkedAt = now, dr_status = rollup records,
                dr_records = records\<rparr>)))"

section \<open>The routed providers\<close>

lemma routedProviderTypes_distinct: "routedProviderTypes cf d = Some ts \<Longrightarrow> distinct ts"
  by (auto simp: routedProviderTypes_def Let_def split: option.splits)

lemma required_includes_set:
  "set (required_includes types) = {m. \<exists>t \<in> set types. providerMechanism t = Some m}"
  by (auto simp: required_includes_def List.map_filter_def image_iff split: option.splits) force+

lemma required_includes_tokens: "\<forall>m \<in> set (required_includes types). token m"
proof -
  have "token ''include:_spf.google.com''" "token ''include:amazonses.com''"
    "token ''include:spf.protection.outlook.com''" by code_simp+
  then show ?thesis by (auto simp: required_includes_set providerMechanism_def split: if_splits)
qed

lemma required_includes_distinct: "distinct (required_includes types)"
  by (simp add: required_includes_def)

text \<open>
  The routed providers approximate the routing precedence. The types are those of the
  enabled providers in the chains of the enabled rules for the sender domain when these name
  any provider, and those of all enabled providers otherwise.
\<close>
theorem routedProviderTypes_set:
  "cf_routing_rules cf = Some rules \<Longrightarrow> cf_providers cf = Some ps \<Longrightarrow>
   \<exists>ts. routedProviderTypes cf domain = Some ts \<and> distinct ts \<and>
     (let named = {i. \<exists>r \<in> set rules. ru_sender_domain r = Some domain \<and> ru_enabled r \<and>
                        i \<in> set (ru_provider_chain r)} in
      set ts = pv_type ` {p \<in> set ps. pv_enabled p \<and> (named = {} \<or> pv_id p \<in> named)})"
proof -
  assume "cf_routing_rules cf = Some rules" "cf_providers cf = Some ps"
  moreover have ids: "set (rule_ids rules domain) =
      {i. \<exists>r \<in> set rules. ru_sender_domain r = Some domain \<and> ru_enabled r \<and>
            i \<in> set (ru_provider_chain r)}"
    by (auto simp: rule_ids_def)
  ultimately show ?thesis
    unfolding ids [symmetric] by (auto simp: routedProviderTypes_def Let_def)
qed

text \<open>A configuration for the witnesses: two providers, one rule that selects the second.\<close>

definition sample_config :: "dkim_key list \<Rightarrow> config" where
  "sample_config keys =
     \<lparr>cf_dkim_keys = Some keys,
      cf_routing_rules = Some [\<lparr>ru_sender_domain = Some ''a.io'', ru_provider_chain = [''p2''],
                               ru_priority = 1, ru_enabled = True\<rparr>],
      cf_providers = Some [\<lparr>pv_id = ''p1'', pv_type = ''ses'', pv_enabled = True\<rparr>,
                           \<lparr>pv_id = ''p2'', pv_type = ''gmail'', pv_enabled = True\<rparr>]\<rparr>"

theorem routedProviderTypes_set_witness:
  "\<exists>ts. routedProviderTypes (sample_config []) ''a.io'' = Some ts \<and> distinct ts \<and> set ts = {''gmail''}"
proof -
  have r: "cf_routing_rules (sample_config []) = Some (the (cf_routing_rules (sample_config [])))"
    and p: "cf_providers (sample_config []) = Some (the (cf_providers (sample_config [])))"
    by (simp_all add: sample_config_def)
  have "routedProviderTypes (sample_config []) ''a.io'' = Some [''gmail'']" by code_simp
  moreover obtain ts where "routedProviderTypes (sample_config []) ''a.io'' = Some ts" "distinct ts"
    using routedProviderTypes_set [OF r p, of "''a.io''"] by blast
  ultimately show ?thesis by auto
qed

section \<open>The report\<close>

lemma gradeSpf_Error_iff: "rr_status (gradeSpf txts req) = Error \<longleftrightarrow> length (filter is_spf txts) \<noteq> 1"
  by (auto simp: gradeSpf_def Let_def split: list.splits)

lemma gradeDmarc_Error_iff: "rr_status (gradeDmarc txts) = Error \<longleftrightarrow> filter is_dmarc txts = []"
  by (auto simp: gradeDmarc_def Let_def split: list.splits)

lemma rollup_Cons:
  "rollup (r # rs) = Error \<longleftrightarrow> rr_status r = Error \<or> rollup rs = Error"
  by (auto simp: rollup_def)

lemma rollup_append: "rollup (rs @ qs) = Error \<longleftrightarrow> rollup rs = Error \<or> rollup qs = Error"
  by (auto simp: rollup_def)

lemma rollup_Nil: "rollup [] \<noteq> Error"
  by (simp add: rollup_def)

lemmas hygiene_rollup = mx.rollup_hygiene tlsrpt.rollup_hygiene
  mtasts.rollup_hygiene [of "(t, p)" for t p, simplified]
  bimi.rollup_hygiene [of "(t, e)" for t e, simplified]

lemma rollup_dkims:
  "rollup (dkim_reports n ks d) = Error \<longleftrightarrow>
     (\<exists>k \<in> set ks. dk_rotation k = ''active'' \<and>
        \<not> (\<exists>t. first_txt (resolveTxtSafe n (dkim_host (dk_selector k) d)) = Some t \<and> t \<noteq> [] \<and>
              dkim_matches t (dk_public_key k)))"
proof -
  have "rollup (dkim_reports n ks d) = Error \<longleftrightarrow> (\<exists>k \<in> set ks. rr_status (gradeDkim
      (first_txt (resolveTxtSafe n (dkim_host (dk_selector k) d))) (dk_public_key k) (dk_rotation k)
      (dk_selector k) d) = Error)"
    by (auto simp: rollup_def dkim_reports_def dkim_missing_def list_ex_iff)
  also have "\<dots> \<longleftrightarrow> (\<exists>k \<in> set ks. dk_rotation k = ''active'' \<and>
        \<not> (\<exists>t. first_txt (resolveTxtSafe n (dkim_host (dk_selector k) d)) = Some t \<and> t \<noteq> [] \<and>
              dkim_matches t (dk_public_key k)))"
    by (intro bex_cong refl) (auto simp: gradeDkim_cases truthy_def split: option.splits)
  finally show ?thesis .
qed

lemma checkDomain_SomeD:
  assumes "checkDomain n cf now d = Some rep"
  obtains keys types spf dmarc mx tlsrpt mtasts bimi where
    "cf_dkim_keys cf = Some keys" "routedProviderTypes cf d = Some types"
    "spf = gradeSpf (resolveTxtSafe n d) (required_includes types)"
    "dmarc = gradeDmarc (resolveTxtSafe n (''_dmarc.'' @ d))"
    "mx \<in> range gradeMx" "tlsrpt \<in> range gradeTlsRpt" "mtasts \<in> range (\<lambda>(t, p). gradeMtaSts t p)"
    "bimi \<in> range (\<lambda>(t, e). gradeBimi t e)"
    "rep = \<lparr>dr_domain = d, dr_checkedAt = now,
       dr_status = rollup (dkim_reports n (domain_keys keys d) d @ [spf, dmarc, mx, tlsrpt, mtasts, bimi]),
       dr_records = dkim_reports n (domain_keys keys d) d @ [spf, dmarc, mx, tlsrpt, mtasts, bimi]\<rparr>"
  using assms unfolding checkDomain_def Let_def
  by (clarsimp split: option.splits) (metis case_prod_conv rangeI)

text \<open>
  A check rejects exactly when one of its three configuration queries does. No behaviour
  of the resolver, the HTTP client or the published text makes it fail.
\<close>
theorem checkDomain_rejects_iff:
  "checkDomain n cf now domain = None \<longleftrightarrow>
     cf_dkim_keys cf = None \<or> cf_routing_rules cf = None \<or> cf_providers cf = None"
  by (auto simp: checkDomain_def routedProviderTypes_def Let_def split: option.splits)

text \<open>
  C2: what puts a domain in the error state: the public key of an active signing key is not
  the one published at its selector, or the domain does not publish exactly one SPF record,
  or it publishes no DMARC record. Missing routes, hygiene records and retiring keys never do.
\<close>
theorem checkDomain_error_iff:
  assumes "checkDomain n cf now domain = Some rep" and "cf_dkim_keys cf = Some keys"
  shows "dr_status rep = Error \<longleftrightarrow>
     (\<exists>k \<in> set keys. dk_domain k = domain \<and> dk_rotation k = ''active'' \<and>
        \<not> (\<exists>t. first_txt (resolveTxtSafe n (dkim_host (dk_selector k) domain)) = Some t \<and> t \<noteq> [] \<and>
              dkim_matches t (dk_public_key k))) \<or>
     length (filter is_spf (resolveTxtSafe n domain)) \<noteq> 1 \<or>
     filter is_dmarc (resolveTxtSafe n (''_dmarc.'' @ domain)) = []"
proof -
  from assms(1) obtain keys' types spf dmarc mx tlsrpt mtasts bimi where
    keys: "cf_dkim_keys cf = Some keys'"
    and "routedProviderTypes cf domain = Some types"
    and spf: "spf = gradeSpf (resolveTxtSafe n domain) (required_includes types)"
    and dmarc: "dmarc = gradeDmarc (resolveTxtSafe n (''_dmarc.'' @ domain))"
    and hyg: "mx \<in> range gradeMx" "tlsrpt \<in> range gradeTlsRpt"
      "mtasts \<in> range (\<lambda>(t, p). gradeMtaSts t p)" "bimi \<in> range (\<lambda>(t, e). gradeBimi t e)"
    and rep: "rep = \<lparr>dr_domain = domain, dr_checkedAt = now,
       dr_status = rollup (dkim_reports n (domain_keys keys' domain) domain @ [spf, dmarc, mx, tlsrpt, mtasts, bimi]),
       dr_records = dkim_reports n (domain_keys keys' domain) domain @ [spf, dmarc, mx, tlsrpt, mtasts, bimi]\<rparr>"
    by (rule checkDomain_SomeD)
  have st: "dr_status rep = rollup (dkim_reports n (domain_keys keys domain) domain @
       [spf, dmarc, mx, tlsrpt, mtasts, bimi])"
    using keys assms(2) rep by simp
  have "rollup [mx, tlsrpt, mtasts, bimi] \<noteq> Error"
    using hyg by (auto simp: hygiene_rollup rollup_Nil)
  then have "dr_status rep = Error \<longleftrightarrow> rollup (dkim_reports n (domain_keys keys domain) domain) = Error \<or>
      rr_status spf = Error \<or> rr_status dmarc = Error"
    unfolding st rollup_append rollup_Cons [of spf] rollup_Cons [of dmarc] by blast
  then show ?thesis
    unfolding spf dmarc gradeSpf_Error_iff gradeDmarc_Error_iff rollup_dkims
    by (auto simp: domain_keys_def)
qed

text \<open>A resolver that answers from a zone in one millisecond, and no web servers.\<close>

definition sample_net :: "(string \<times> string list) list \<Rightarrow> net" where
  "sample_net zone =
     \<lparr>net_resolveTxt = (\<lambda>d. Some (1, map_option (map (\<lambda>t. [t])) (map_of zone d))),
      net_resolveMx = (\<lambda>d. Some (1, None)), net_lookup = (\<lambda>d. None),
      net_fetch = (\<lambda>u. None), net_parseURL = (\<lambda>u. None)\<rparr>"

definition sample_keys :: "dkim_key list" where
  "sample_keys =
     [\<lparr>dk_domain = ''a.io'', dk_selector = ''s1'', dk_public_key = ''MIIB'', dk_rotation = ''active''\<rparr>,
      \<lparr>dk_domain = ''a.io'', dk_selector = ''s0'', dk_public_key = ''OLD='', dk_rotation = ''retiring''\<rparr>,
      \<lparr>dk_domain = ''b.io'', dk_selector = ''s1'', dk_public_key = ''X'', dk_rotation = ''active''\<rparr>]"

definition sample_zone :: "(string \<times> string list) list" where
  "sample_zone =
     [(''a.io'', [''v=spf1 include:_spf.google.com -all'']),
      (''s1._domainkey.a.io'', [''v=DKIM1; k=rsa; p=MIIB'']),
      (''_dmarc.a.io'', [''v=DMARC1; p=reject; rua=mailto:d@a.io''])]"

theorem checkDomain_error_iff_witness:
  "\<exists>rep. checkDomain (sample_net sample_zone) (sample_config sample_keys) ''t0'' ''a.io'' = Some rep \<and>
     dr_status rep \<noteq> Error \<and> length (dr_records rep) = 8"
proof -
  have "cf_dkim_keys (sample_config sample_keys) = Some sample_keys" by (simp add: sample_config_def)
  moreover have "\<not> ((\<exists>k \<in> set sample_keys. dk_domain k = ''a.io'' \<and> dk_rotation k = ''active'' \<and>
        \<not> (\<exists>t. first_txt (resolveTxtSafe (sample_net sample_zone) (dkim_host (dk_selector k) ''a.io'')) =
               Some t \<and> t \<noteq> [] \<and> dkim_matches t (dk_public_key k))) \<or>
     length (filter is_spf (resolveTxtSafe (sample_net sample_zone) ''a.io'')) \<noteq> 1 \<or>
     filter is_dmarc (resolveTxtSafe (sample_net sample_zone) (''_dmarc.'' @ ''a.io'')) = [])"
  proof -
    have "first_txt (resolveTxtSafe (sample_net sample_zone) (dkim_host ''s1'' ''a.io'')) =
        Some (dkim_record ''MIIB'')" by code_simp
    moreover have "dkim_record ''MIIB'' \<noteq> []" "CHR '';'' \<notin> set ''MIIB''" "strip_ws ''MIIB'' \<noteq> []"
      by code_simp+
    moreover have "length (filter is_spf (resolveTxtSafe (sample_net sample_zone) ''a.io'')) = 1"
      "filter is_dmarc (resolveTxtSafe (sample_net sample_zone) (''_dmarc.'' @ ''a.io'')) \<noteq> []"
      by code_simp+
    ultimately show ?thesis using dkim_matches_record [of "''MIIB''"] by (simp add: sample_keys_def)
  qed
  moreover obtain rep where
    "checkDomain (sample_net sample_zone) (sample_config sample_keys) ''t0'' ''a.io'' = Some rep"
    "length (dr_records rep) = 8"
  proof -
    have "map_option (length \<circ> dr_records)
        (checkDomain (sample_net sample_zone) (sample_config sample_keys) ''t0'' ''a.io'') = Some 8"
      by code_simp
    then show ?thesis using that by auto
  qed
  ultimately show ?thesis using checkDomain_error_iff by blast
qed

lemma checkDomain_records:
  "checkDomain n cf now d = Some rep \<Longrightarrow> cf_dkim_keys cf = Some keys \<Longrightarrow>
   map (\<lambda>r. (rr_record r, rr_selector r)) (dr_records rep) =
     (if domain_keys keys d = [] then [(Dkim, None)]
      else map (\<lambda>k. (Dkim, Some (dk_selector k))) (domain_keys keys d)) @
     map (\<lambda>k. (k, None)) [Spf, Dmarc, Mx, TlsRpt, MtaSts, Bimi]"
proof (erule checkDomain_SomeD)
  have "rr_selector (gradeSpf t r) = None" "rr_selector (gradeDmarc t) = None"
    "rr_selector (gradeMx t) = None" "rr_selector (gradeTlsRpt t) = None"
    "rr_selector (gradeMtaSts x y) = None" "rr_selector (gradeBimi x e) = None" for t r x y e
    by (auto simp: gradeSpf_def gradeDmarc_def gradeMx_def gradeTlsRpt_def gradeMtaSts_def
        gradeBimi_def Let_def split: list.splits)
  moreover have "rr_record (gradeDkim p k r s d) = Dkim" for p k r s d
    using dkim.kind [of "(p, k, r, s, d)"] by simp
  moreover have "rr_record (gradeSpf t r) = Spf" "rr_record (gradeMtaSts x y) = MtaSts"
     "rr_record (gradeBimi x e) = Bimi" for t r x y e
    using spf.kind [of "(t, r)"] mtasts.kind [of "(x, y)"] bimi.kind [of "(x, e)"] by simp_all
  moreover fix keys' types spf dmarc mx tlsrpt mtasts bimi
  assume "cf_dkim_keys cf = Some keys" "cf_dkim_keys cf = Some keys'"
    "spf = gradeSpf (resolveTxtSafe n d) (required_includes types)"
    "dmarc = gradeDmarc (resolveTxtSafe n (''_dmarc.'' @ d))"
    "mx \<in> range gradeMx" "tlsrpt \<in> range gradeTlsRpt" "mtasts \<in> range (\<lambda>(t, p). gradeMtaSts t p)"
    "bimi \<in> range (\<lambda>(t, e). gradeBimi t e)"
    "rep = \<lparr>dr_domain = d, dr_checkedAt = now,
       dr_status = rollup (dkim_reports n (domain_keys keys' d) d @ [spf, dmarc, mx, tlsrpt, mtasts, bimi]),
       dr_records = dkim_reports n (domain_keys keys' d) d @ [spf, dmarc, mx, tlsrpt, mtasts, bimi]\<rparr>"
  ultimately show ?thesis
    by (auto simp: dkim_reports_def dkim_missing_def dmarc.kind mx.kind tlsrpt.kind o_def)
qed

lemma checkDomain_domain: "checkDomain n cf now d = Some rep \<Longrightarrow>
    dr_domain rep = d \<and> dr_checkedAt rep = now \<and> dr_status rep = rollup (dr_records rep)"
  by (erule checkDomain_SomeD) simp

text \<open>No two records of a report have the same kind and selector, the key of the cache table.\<close>

definition record_key :: "RecordReport \<Rightarrow> rtype \<times> string" where
  "record_key r = (rr_record r, case rr_selector r of None \<Rightarrow> [] | Some s \<Rightarrow> s)"

lemma checkDomain_keys_distinct:
  assumes "checkDomain n cf now d = Some rep" "cf_dkim_keys cf = Some keys"
    and "distinct (map (\<lambda>k. (dk_domain k, dk_selector k)) keys)"
  shows "distinct (map record_key (dr_records rep))"
proof -
  have "map record_key (dr_records rep) = map (\<lambda>(k, s). (k, case s of None \<Rightarrow> [] | Some s \<Rightarrow> s))
      (map (\<lambda>r. (rr_record r, rr_selector r)) (dr_records rep))"
    by (simp add: record_key_def)
  moreover have "distinct (map dk_selector (domain_keys keys d))"
  proof -
    have inj: "inj_on (\<lambda>k. (dk_domain k, dk_selector k)) (set keys)" and "distinct keys"
      using assms(3) by (simp_all add: distinct_map)
    moreover have "inj_on dk_selector (set (domain_keys keys d))"
      by (rule inj_onI) (auto simp: domain_keys_def intro: inj_onD [OF inj])
    ultimately show ?thesis by (simp add: distinct_map domain_keys_def)
  qed
  ultimately show ?thesis
    unfolding checkDomain_records [OF assms(1,2)] by (auto simp: distinct_map inj_on_def)
qed

section \<open>The enforcing test of BIMI\<close>

lemma enforcing_rx_intro:
  assumes r: "r = A @ u # w1 @ CHR ''='' # w2 @ w @ B" and u: "lower_char u = CHR ''p''"
    and ws: "\<forall>c \<in> set w1. is_ws c" "\<forall>c \<in> set w2. is_ws c"
    and w: "js_lower w \<in> {''quarantine'', ''reject''}"
  shows "rx_test enforcing_rx r"
proof -
  have low: "lower_char CHR ''p'' = CHR ''p''" "lower_char CHR ''='' = CHR ''=''"
    "js_lower ''quarantine'' = ''quarantine''" "js_lower ''reject'' = ''reject''" by code_simp+
  have "rx_rel (ChI CHR ''p'') (prev_of None A, u # w1 @ CHR ''='' # w2 @ w @ B)
      (Some u, w1 @ CHR ''='' # w2 @ w @ B)"
    unfolding ChI_def by (rule rel_cls) (simp only: u low)
  moreover have "rx_rel (Star (Cls is_ws)) (Some u, w1 @ CHR ''='' # w2 @ w @ B)
      (prev_of (Some u) w1, CHR ''='' # w2 @ w @ B)"
    unfolding rx_rel_Star_Cls_iff using ws(1) by blast
  moreover have "rx_rel (ChI CHR ''='') (prev_of (Some u) w1, CHR ''='' # w2 @ w @ B)
      (Some CHR ''='', w2 @ w @ B)"
    unfolding ChI_def by (rule rel_cls) (rule refl)
  moreover have "rx_rel (Star (Cls is_ws)) (Some CHR ''='', w2 @ w @ B)
      (prev_of (Some CHR ''='') w2, w @ B)"
    unfolding rx_rel_Star_Cls_iff using ws(2) by blast
  moreover have "rx_rel (Alt (LitI ''quarantine'') (LitI ''reject''))
      (prev_of (Some CHR ''='') w2, w @ B) (prev_of (prev_of (Some CHR ''='') w2) w, B)"
    unfolding rx_rel_Alt_iff rx_rel_LitI_iff low using w by blast
  ultimately have "rx_rel enforcing_rx (prev_of None A, u # w1 @ CHR ''='' # w2 @ w @ B)
      (prev_of (prev_of (Some CHR ''='') w2) w, B)"
    unfolding enforcing_rx_def by (intro rel_seq)
  then show ?thesis unfolding rx_test_iff r by blast
qed

lemma js_trim_infix: "\<exists>x y. s = x @ js_trim s @ y \<and> (\<forall>c \<in> set x \<union> set y. is_ws c)"
proof -
  define t where "t = dropWhile is_ws s"
  have "s = takeWhile is_ws s @ t" by (simp add: t_def)
  moreover have "rev t = takeWhile is_ws (rev t) @ dropWhile is_ws (rev t)" by simp
  then have "t = js_trim s @ rev (takeWhile is_ws (rev t))"
    unfolding js_trim_def t_def by (metis rev_append rev_rev_ident)
  ultimately have "s = takeWhile is_ws s @ js_trim s @ rev (takeWhile is_ws (rev t)) \<and>
      (\<forall>c \<in> set (takeWhile is_ws s) \<union> set (rev (takeWhile is_ws (rev t))). is_ws c)"
    by (auto dest: set_takeWhileD)
  then show ?thesis by blast
qed

lemma extract_parts_SomeD:
  "extract_parts ps tag = Some v \<Longrightarrow> \<exists>p k x. p \<in> set ps \<and> js_trim p = k @ CHR ''='' # x \<and>
     js_lower (js_trim k) = js_lower tag \<and> v = js_trim x"
proof (induction ps)
  case (Cons p ps)
  show ?case
  proof (cases "js_indexOf CHR ''='' (js_trim p)")
    case None
    with Cons show ?thesis by auto
  next
    case (Some e)
    then have "js_trim p = take e (js_trim p) @ CHR ''='' # drop (Suc e) (js_trim p)"
      by (simp only: js_indexOf_Some)
    with Cons Some show ?thesis
      by (auto simp only: extract_parts.simps Let_def option.case split: if_splits)
         (metis list.set_intros)+
  qed
qed simp

lemma js_split_infix: "p \<in> set (js_split c s) \<Longrightarrow> \<exists>a b. s = a @ p @ b"
proof (induction s arbitrary: p)
  case (Cons x xs)
  show ?case
  proof (cases "x = c")
    case True
    with Cons show ?thesis by simp (metis append_Cons append_Nil append_self_conv2)
  next
    case False
    obtain h t where ht: "js_split c xs = h # t" by (cases "js_split c xs") auto
    from js_join_split [of c xs] ht have hd: "\<exists>b. xs = h @ b" by (cases t) auto
    from False Cons.prems ht consider "p = x # h" | "p \<in> set t" by auto
    then show ?thesis
    proof cases
      case 1
      with hd show ?thesis by (metis append_Cons append_Nil)
    next
      case 2
      with Cons.IH ht obtain a b where "xs = a @ p @ b" by fastforce
      then show ?thesis by (metis append_Cons)
    qed
  qed
qed auto

lemma enforcing_tag:
  assumes "extractTag r ''p'' = Some v" and v: "js_lower v \<in> {''quarantine'', ''reject''}"
  shows "rx_test enforcing_rx r"
proof -
  from assms(1) obtain p k x where p: "p \<in> set (js_split CHR '';'' r)"
    and t: "js_trim p = k @ CHR ''='' # x" and k: "js_lower (js_trim k) = js_lower ''p''"
    and vx: "v = js_trim x"
    unfolding extractTag_def by (blast dest: extract_parts_SomeD)
  from p obtain a b where r: "r = a @ p @ b" by (blast dest: js_split_infix)
  have "js_lower ''p'' = ''p''" by code_simp
  with k obtain u where u: "js_trim k = [u]" "lower_char u = CHR ''p''"
    by (cases "js_trim k") (auto simp: js_lower_def)
  obtain xp yp where "p = xp @ (k @ CHR ''='' # x) @ yp" using js_trim_infix [of p] t by metis
  moreover obtain xk yk where "k = xk @ [u] @ yk" "\<forall>c \<in> set yk. is_ws c"
    using js_trim_infix [of k] u(1) by (metis UnCI)
  moreover obtain xv yv where "x = xv @ v @ yv" "\<forall>c \<in> set xv. is_ws c"
    using js_trim_infix [of x] vx by (metis UnCI)
  ultimately have "r = (a @ xp @ xk) @ u # yk @ CHR ''='' # xv @ v @ (yv @ yp @ b)"
    using r by simp
  then show ?thesis
    using u(2) \<open>\<forall>c \<in> set yk. is_ws c\<close> \<open>\<forall>c \<in> set xv. is_ws c\<close> v by (rule enforcing_rx_intro)
qed

lemma filter_ConsD: "filter P xs = y # ys \<Longrightarrow> y \<in> set xs \<and> P y"
  by (metis filter_set list.set_intros(1) mem_Collect_eq set_filter)

lemma gradeDmarc_OkD:
  "rr_status (gradeDmarc txts) = Ok \<Longrightarrow>
     \<exists>r \<in> set txts. \<exists>p. extractTag r ''p'' = Some p \<and> js_lower p \<in> {''quarantine'', ''reject''}"
  by (auto simp: gradeDmarc_def Let_def split: list.splits option.splits if_splits
      dest!: filter_ConsD)

text \<open>
  The quick test for an enforcing DMARC policy that decides the BIMI verdict accepts every
  set of records whose DMARC verdict is ok, so such a domain is never told that BIMI lacks an
  enforcing policy.
\<close>
theorem dmarcEnforcing_complete:
  assumes "rr_status (gradeDmarc txts) = Ok"
  shows "dmarcEnforcing txts"
  using gradeDmarc_OkD [OF assms] enforcing_tag by (auto simp: dmarcEnforcing_def list_ex_iff)

theorem dmarcEnforcing_complete_witness:
  "dmarcEnforcing [''v=DMARC1; P = Reject; rua=mailto:d@a.io'']"
proof -
  have "rr_status (gradeDmarc [''v=DMARC1; P = Reject; rua=mailto:d@a.io'']) = Ok" by code_simp
  then show ?thesis by (rule dmarcEnforcing_complete)
qed

text \<open>The converse fails: a subdomain policy satisfies the test of the domain's own.\<close>

lemma dmarcEnforcing_subdomain:
  "dmarcEnforcing [''v=DMARC1; p=none; sp=reject; rua=mailto:d@a.io''] \<and>
   rr_status (gradeDmarc [''v=DMARC1; p=none; sp=reject; rua=mailto:d@a.io'']) = Warning"
  by code_simp

text \<open>The \<open>all\<close> mechanism without a qualifier, and one inside another mechanism.\<close>

lemma gradeSpf_bare_all:
  "rr_status (gradeSpf [''v=spf1 include:amazonses.com all''] [''include:amazonses.com'']) = Warning \<and>
   is_all_token ''all''"
  by code_simp

lemma gradeSpf_all_inside_word:
  "rr_status (gradeSpf [''v=spf1 include:x-all.example include:amazonses.com''] [''include:amazonses.com'']) = Ok \<and>
   \<not> list_ex is_all_token (words ''v=spf1 include:x-all.example include:amazonses.com'')"
  by code_simp

end
