(* ===== verification/MapLimit.thy ===== *)
theory MapLimit
  imports Prelude
begin

text \<open>
  \<open>mapLimit\<close> of \<open>deliverability.ts\<close>: a pool of workers that share the counter \<open>next\<close> and the
  result array. A step is what runs between two suspensions: a worker at the loop head takes an
  index and calls \<open>fn\<close>, or ends; a worker whose call settled stores the result, or rejects.
  Which worker moves is open, so every interleaving of the calls is a run. \<open>f x\<close> is what the
  call on \<open>x\<close> settles to, \<open>None\<close> a rejection; \<open>calls\<close> records the order of the calls.
\<close>

datatype worker = Ready | Busy nat | Finished | Rejected

record 'r pool =
  nxt :: nat
  out :: "'r option list"
  workers :: "worker list"
  calls :: "nat list"

definition pool_init :: "nat \<Rightarrow> 'a list \<Rightarrow> 'r pool" where
  "pool_init limit items =
     \<lparr>nxt = 0, out = replicate (length items) None,
      workers = replicate (min limit (length items)) Ready, calls = []\<rparr>"

definition set_worker :: "nat \<Rightarrow> worker \<Rightarrow> 'r pool \<Rightarrow> 'r pool" where
  "set_worker w x s = s\<lparr>workers := (workers s)[w := x]\<rparr>"

definition advance :: "('a \<Rightarrow> 'r option) \<Rightarrow> 'a list \<Rightarrow> nat \<Rightarrow> 'r pool \<Rightarrow> 'r pool option" where
  "advance f items w s =
     (if w < length (workers s) then
        (case workers s ! w of
           Ready \<Rightarrow>
             if nxt s < length items then
               Some (set_worker w (Busy (nxt s)) (s\<lparr>nxt := Suc (nxt s), calls := calls s @ [nxt s]\<rparr>))
             else Some (set_worker w Finished s)
         | Busy i \<Rightarrow>
             (case f (items ! i) of
                None \<Rightarrow> Some (set_worker w Rejected s)
              | Some r \<Rightarrow> Some (set_worker w Ready (s\<lparr>out := (out s)[i := Some r]\<rparr>)))
         | Finished \<Rightarrow> None
         | Rejected \<Rightarrow> None)
      else None)"

inductive pool_step :: "('a \<Rightarrow> 'r option) \<Rightarrow> 'a list \<Rightarrow> 'r pool \<Rightarrow> 'r pool \<Rightarrow> bool"
  for f items where
  pool_stepI: "advance f items w s = Some t \<Longrightarrow> pool_step f items s t"

inductive_cases pool_stepE: "pool_step f items s t"

text \<open>
  The promise \<open>Promise.all(workers)\<close> and what \<open>mapLimit\<close> returns from it: pending, rejected, or
  the array (a hole of which would be an \<open>undefined\<close> entry).
\<close>

definition pool_outcome :: "'r pool \<Rightarrow> (unit + 'r option list) option" where
  "pool_outcome s =
     (if Rejected \<in> set (workers s) then Some (Inl ())
      else if list_all (\<lambda>w. w = Finished) (workers s) then Some (Inr (out s))
      else None)"

definition busy :: "'r pool \<Rightarrow> nat" where
  "busy s = length (filter (\<lambda>w. \<exists>i. w = Busy i) (workers s))"

section \<open>The steps\<close>

lemma advance_cases:
  assumes "advance f items w s = Some t"
  obtains (take) "w < length (workers s)" "workers s ! w = Ready" "nxt s < length items"
      "t = set_worker w (Busy (nxt s)) (s\<lparr>nxt := Suc (nxt s), calls := calls s @ [nxt s]\<rparr>)"
  | (finish) "w < length (workers s)" "workers s ! w = Ready" "\<not> nxt s < length items"
      "t = set_worker w Finished s"
  | (settle) i r where "w < length (workers s)" "workers s ! w = Busy i" "f (items ! i) = Some r"
      "t = set_worker w Ready (s\<lparr>out := (out s)[i := Some r]\<rparr>)"
  | (reject) i where "w < length (workers s)" "workers s ! w = Busy i" "f (items ! i) = None"
      "t = set_worker w Rejected s"
  using assms by (auto simp: advance_def split: if_splits worker.splits option.splits)

lemma set_worker_simps [simp]:
  "nxt (set_worker w x s) = nxt s" "out (set_worker w x s) = out s"
  "calls (set_worker w x s) = calls s" "workers (set_worker w x s) = (workers s)[w := x]"
  by (simp_all add: set_worker_def)

lemma set_update_keep: "x \<in> set xs \<Longrightarrow> x \<noteq> xs ! w \<Longrightarrow> x \<in> set (xs[w := y])"
  by (metis in_set_conv_nth length_list_update nth_list_update_neq)

lemma set_update_in: "x \<in> set (xs[w := y]) \<Longrightarrow> x = y \<or> x \<in> set xs"
  by (meson insertE set_update_subset_insert subsetD)

section \<open>The invariant\<close>

definition pool_inv :: "('a \<Rightarrow> 'r option) \<Rightarrow> 'a list \<Rightarrow> nat \<Rightarrow> 'r pool \<Rightarrow> bool" where
  "pool_inv f items limit s \<longleftrightarrow>
     nxt s \<le> length items \<and> length (out s) = length items \<and> calls s = [0..<nxt s] \<and>
     length (workers s) = min limit (length items) \<and>
     (\<forall>i. Busy i \<in> set (workers s) \<longrightarrow> i < nxt s) \<and>
     (\<forall>i < length items. out s ! i \<noteq> None \<longrightarrow> out s ! i = f (items ! i)) \<and>
     (\<forall>i < nxt s. out s ! i = None \<longrightarrow> Busy i \<in> set (workers s) \<or> Rejected \<in> set (workers s)) \<and>
     (Finished \<in> set (workers s) \<longrightarrow> nxt s = length items) \<and>
     (Rejected \<in> set (workers s) \<longrightarrow> (\<exists>i < nxt s. f (items ! i) = None))"

lemma pool_inv_init: "pool_inv f items limit (pool_init limit items)"
  by (simp add: pool_inv_def pool_init_def)

lemma pool_inv_take:
  assumes "pool_inv f items limit s" "w < length (workers s)" "workers s ! w = Ready" "nxt s < length items"
  shows "pool_inv f items limit
     (set_worker w (Busy (nxt s)) (s\<lparr>nxt := Suc (nxt s), calls := calls s @ [nxt s]\<rparr>))"
proof -
  have "Busy (nxt s) \<in> set ((workers s)[w := Busy (nxt s)])" using assms(2) by (rule set_update_memI)
  moreover have "x \<in> set (workers s) \<Longrightarrow> x \<noteq> Ready \<Longrightarrow> x \<in> set ((workers s)[w := Busy (nxt s)])" for x
    using assms(3) by (intro set_update_keep) simp_all
  ultimately show ?thesis
    using assms(1,4) unfolding pool_inv_def
    by (auto simp: less_Suc_eq dest!: set_update_in)
qed

lemma pool_inv_finish:
  assumes "pool_inv f items limit s" "workers s ! w = Ready" "\<not> nxt s < length items"
  shows "pool_inv f items limit (set_worker w Finished s)"
proof -
  have "x \<in> set (workers s) \<Longrightarrow> x \<noteq> Ready \<Longrightarrow> x \<in> set ((workers s)[w := Finished])" for x
    using assms(2) by (intro set_update_keep) simp_all
  then show ?thesis
    using assms(1,3) unfolding pool_inv_def by (auto dest!: set_update_in)
qed

lemma pool_inv_settle:
  assumes inv: "pool_inv f items limit s" and w: "w < length (workers s)" "workers s ! w = Busy i"
    and f: "f (items ! i) = Some r"
  shows "pool_inv f items limit (set_worker w Ready (s\<lparr>out := (out s)[i := Some r]\<rparr>))"
proof -
  have "Busy i \<in> set (workers s)" using w by (metis nth_mem)
  moreover have "x \<in> set (workers s) \<Longrightarrow> x \<noteq> Busy i \<Longrightarrow> x \<in> set ((workers s)[w := Ready])" for x
    using w by (intro set_update_keep) simp_all
  moreover have "i < length (out s)"
    using inv \<open>Busy i \<in> set (workers s)\<close> unfolding pool_inv_def by auto
  ultimately show ?thesis
    using inv f unfolding pool_inv_def
    by (auto simp: nth_list_update split: if_splits dest!: set_update_in)
qed

lemma pool_inv_reject:
  assumes inv: "pool_inv f items limit s" and w: "w < length (workers s)" "workers s ! w = Busy i"
    and f: "f (items ! i) = None"
  shows "pool_inv f items limit (set_worker w Rejected s)"
proof -
  have "Busy i \<in> set (workers s)" using w by (metis nth_mem)
  moreover have "Rejected \<in> set ((workers s)[w := Rejected])" using w(1) by (rule set_update_memI)
  ultimately show ?thesis
    using inv f unfolding pool_inv_def by (auto dest!: set_update_in)
qed

lemma pool_inv_step: "pool_inv f items limit s \<Longrightarrow> pool_step f items s t \<Longrightarrow> pool_inv f items limit t"
  by (elim pool_stepE advance_cases)
     (auto intro: pool_inv_take pool_inv_finish pool_inv_settle pool_inv_reject)

interpretation pool: machine_invariant "\<lambda>s. s = pool_init limit items" "pool_step f items"
    "pool_inv f items limit" for limit items f
  by unfold_locales (auto intro: pool_inv_init pool_inv_step)

section \<open>Termination\<close>

primrec weight :: "worker \<Rightarrow> nat" where
  "weight Ready = 1"
| "weight (Busy i) = 2"
| "weight Finished = 0"
| "weight Rejected = 0"

definition pool_measure :: "'a list \<Rightarrow> 'r pool \<Rightarrow> nat" where
  "pool_measure items s = 2 * (length items - nxt s) + sum_list (map weight (workers s))"

lemma weight_update:
  "w < length ws \<Longrightarrow> sum_list (map weight (ws[w := x])) + weight (ws ! w) = sum_list (map weight ws) + weight x"
  by (induction ws arbitrary: w) (auto split: nat.splits simp: nth_Cons)

lemma pool_step_measure: "pool_step f items s t \<Longrightarrow> pool_measure items t < pool_measure items s"
proof (elim pool_stepE advance_cases)
  fix w assume w: "w < length (workers s)"
  note upd = weight_update [OF w]
  {
    assume "workers s ! w = Ready" "nxt s < length items"
      "t = set_worker w (Busy (nxt s)) (s\<lparr>nxt := Suc (nxt s), calls := calls s @ [nxt s]\<rparr>)"
    with upd [of "Busy (nxt s)"] show ?thesis by (simp add: pool_measure_def)
  next
    assume "workers s ! w = Ready" "t = set_worker w Finished s"
    with upd [of Finished] show ?thesis by (simp add: pool_measure_def)
  next
    fix i r assume "workers s ! w = Busy i" "t = set_worker w Ready (s\<lparr>out := (out s)[i := Some r]\<rparr>)"
    with upd [of Ready] show ?thesis by (simp add: pool_measure_def)
  next
    fix i assume "workers s ! w = Busy i" "t = set_worker w Rejected s"
    with upd [of Rejected] show ?thesis by (simp add: pool_measure_def)
  }
qed

lemma pool_run_measure:
  "(pool_step f items ^^ k) s t \<Longrightarrow> k + pool_measure items t \<le> pool_measure items s"
proof (induction k arbitrary: t)
  case (Suc k)
  then obtain u where "(pool_step f items ^^ k) s u" "pool_step f items u t" by auto
  with Suc.IH [of u] pool_step_measure [of f items u t] show ?case by simp
qed simp

lemma pool_measure_init:
  "pool_measure items (pool_init limit items) = 2 * length items + min limit (length items)"
  by (simp add: pool_measure_def pool_init_def sum_list_replicate)

lemma pool_stuck:
  "(\<nexists>t. pool_step f items s t) \<Longrightarrow> w \<in> set (workers s) \<Longrightarrow> w = Finished \<or> w = Rejected"
proof (rule ccontr)
  assume stuck: "\<nexists>t. pool_step f items s t" and "w \<in> set (workers s)"
    and w: "\<not> (w = Finished \<or> w = Rejected)"
  then obtain i where i: "i < length (workers s)" "workers s ! i = w" by (metis in_set_conv_nth)
  have "advance f items i s \<noteq> None"
    using i w by (auto simp: advance_def split: worker.splits option.splits)
  with stuck show False by (auto intro: pool_stepI)
qed

text \<open>A schedule is the list of workers that move; it is executable.\<close>

primrec run_schedule :: "('a \<Rightarrow> 'r option) \<Rightarrow> 'a list \<Rightarrow> nat list \<Rightarrow> 'r pool \<Rightarrow> 'r pool option" where
  "run_schedule f items [] s = Some s"
| "run_schedule f items (w # ws) s = (case advance f items w s of
     None \<Rightarrow> None | Some t \<Rightarrow> run_schedule f items ws t)"

lemma run_schedule_steps:
  "run_schedule f items ws s = Some t \<Longrightarrow> (pool_step f items ^^ length ws) s t"
proof (induction ws arbitrary: s)
  case (Cons w ws)
  then obtain u where "advance f items w s = Some u" "run_schedule f items ws u = Some t"
    by (auto split: option.splits)
  then show ?case
    using Cons.IH [of u] pool_stepI [of f items w s u] by (auto simp del: relpowp.simps intro: relpowp_Suc_I2)
qed simp

lemma relpow_reach: "(step ^^ k) s0 s \<Longrightarrow> reach (\<lambda>s. s = s0) step s"
  by (induction k arbitrary: s) (auto intro: reach.intros)

lemma run_schedule_reach:
  "run_schedule f items ws (pool_init limit items) = Some t \<Longrightarrow>
     reach (\<lambda>s. s = pool_init limit items) (pool_step f items) t"
  by (rule relpow_reach) (rule run_schedule_steps)

lemma all_stopped: "list_all (\<lambda>w. w = Finished \<or> w = Rejected) (workers s) \<Longrightarrow> \<nexists>t. pool_step f items s t"
  by (auto simp: list_all_length elim!: pool_stepE advance_cases)

section \<open>Properties\<close>

definition map_all :: "('a \<Rightarrow> 'r option) \<Rightarrow> 'a list \<Rightarrow> unit + 'r option list" where
  "map_all f items = (if list_ex (\<lambda>x. f x = None) items then Inl () else Inr (map f items))"

lemma pool_final:
  assumes inv: "pool_inv f items limit s" and "0 < limit"
    and stuck: "\<nexists>t. pool_step f items s t"
  shows "pool_outcome s = Some (map_all f items)"
proof (cases "Rejected \<in> set (workers s)")
  case True
  with inv obtain i where "i < nxt s" "f (items ! i) = None" "nxt s \<le> length items"
    unfolding pool_inv_def by auto
  then have "i < length items \<and> f (items ! i) = None" by simp
  then have "list_ex (\<lambda>x. f x = None) items" unfolding list_ex_length by blast
  with True show ?thesis by (simp add: pool_outcome_def map_all_def)
next
  case False
  have fin: "w \<in> set (workers s) \<Longrightarrow> w = Finished" for w
    using pool_stuck [OF stuck] False by blast
  have n: "nxt s = length items"
  proof (cases "items = []")
    case True
    with inv show ?thesis by (simp add: pool_inv_def)
  next
    case False
    with inv assms(2) have "workers s \<noteq> []" unfolding pool_inv_def by (metis length_0_conv min_0R min_def not_gr_zero)
    then have "Finished \<in> set (workers s)" using fin by (metis last_in_set)
    with inv show ?thesis unfolding pool_inv_def by blast
  qed
  have all: "out s ! i = f (items ! i) \<and> f (items ! i) \<noteq> None" if "i < length items" for i
  proof -
    have "Busy i \<notin> set (workers s)" using fin by blast
    have "\<forall>i < nxt s. out s ! i = None \<longrightarrow> Busy i \<in> set (workers s) \<or> Rejected \<in> set (workers s)"
      using inv unfolding pool_inv_def by blast
    moreover have "i < nxt s" using that n by simp
    ultimately have "out s ! i \<noteq> None" using \<open>Busy i \<notin> set (workers s)\<close> False by blast
    with inv that show ?thesis unfolding pool_inv_def by metis
  qed
  have "out s = map f items"
    using inv all by (intro nth_equalityI) (simp_all add: pool_inv_def)
  moreover have "\<not> list_ex (\<lambda>x. f x = None) items" using all by (simp add: list_ex_length)
  moreover have "list_all (\<lambda>w. w = Finished) (workers s)" using fin by (simp add: list_all_iff)
  ultimately show ?thesis using False by (simp add: pool_outcome_def map_all_def)
qed

text \<open>
  C12: the result of \<open>mapLimit\<close> does not depend on the interleaving. Every run of the pool that
  cannot go on has settled: to the array of all results in the order of the items, or to a
  rejection when the call on some item rejects.
\<close>
theorem mapLimit_result:
  assumes "reach (\<lambda>s. s = pool_init limit items) (pool_step f items) s"
    and "0 < limit" and "\<nexists>t. pool_step f items s t"
  shows "pool_outcome s = Some (map_all f items)"
  using pool.reach_inv [OF assms(1)] assms(2,3) by (rule pool_final)

definition sample_f :: "nat \<Rightarrow> nat option" where
  "sample_f x = (if x = 0 then None else Some (2 * x))"

theorem mapLimit_result_witness:
  "\<exists>s. run_schedule sample_f [3, 5, 7] [0, 1, 1, 1, 0, 1, 0, 1] (pool_init 2 [3, 5, 7 :: nat]) = Some s \<and>
     pool_outcome s = Some (Inr [Some 6, Some 10, Some 14])"
proof -
  let ?s = "\<lparr>nxt = 3, out = [Some 6, Some 10, Some 14], workers = [Finished, Finished],
             calls = [0, 1, 2]\<rparr> :: nat pool"
  have run: "run_schedule sample_f [3, 5, 7] [0, 1, 1, 1, 0, 1, 0, 1] (pool_init 2 [3, 5, 7 :: nat]) = Some ?s"
    by code_simp
  have "list_all (\<lambda>w. w = Finished \<or> w = Rejected) (workers ?s)" by simp
  then have "\<nexists>t. pool_step sample_f [3, 5, 7] ?s t" by (rule all_stopped)
  then have "pool_outcome ?s = Some (map_all sample_f [3, 5, 7])"
    using mapLimit_result [OF run_schedule_reach [OF run]] by simp
  moreover have "map_all sample_f [3, 5, 7] = Inr [Some 6, Some 10, Some 14]" by code_simp
  ultimately show ?thesis using run by metis
qed

text \<open>
  C29: every run ends. No schedule takes more than two steps per item and one per worker, so
  the worker loops of \<open>mapLimit\<close> return once the calls have settled.
\<close>
theorem mapLimit_terminates:
  assumes "(pool_step f items ^^ k) (pool_init limit items) s"
  shows "k \<le> 2 * length items + min limit (length items)"
  using pool_run_measure [OF assms] unfolding pool_measure_init by simp

theorem mapLimit_terminates_witness:
  "\<exists>s. run_schedule sample_f [3, 0] [0, 0, 0, 0] (pool_init 1 [3, 0 :: nat]) = Some s \<and> (4::nat) \<le> 2 * 2 + 1 \<and>
     pool_outcome s = Some (Inl ())"
proof -
  let ?s = "\<lparr>nxt = 2, out = [Some 6, None], workers = [Rejected], calls = [0, 1]\<rparr> :: nat pool"
  have run: "run_schedule sample_f [3, 0] [0, 0, 0, 0] (pool_init 1 [3, 0 :: nat]) = Some ?s" by code_simp
  from mapLimit_terminates [OF run_schedule_steps [OF run]] have "(4::nat) \<le> 2 * 2 + 1" by simp
  moreover have "pool_outcome ?s = Some (Inl ())" by (simp add: pool_outcome_def)
  ultimately show ?thesis using run by metis
qed

text \<open>
  C30: bounded concurrency and no repeated work. At every moment at most \<open>limit\<close> calls are in
  flight, and the calls made so far are those on the first items, each made once and in order.
\<close>
theorem mapLimit_bounded:
  assumes "reach (\<lambda>s. s = pool_init limit items) (pool_step f items) s"
  shows "busy s \<le> limit \<and> (\<exists>n \<le> length items. calls s = [0..<n])"
proof -
  have inv: "pool_inv f items limit s" by (rule pool.reach_inv [OF assms])
  have "busy s \<le> length (workers s)" by (simp add: busy_def)
  with inv show ?thesis by (auto simp: pool_inv_def)
qed

theorem mapLimit_bounded_witness:
  "\<exists>s. run_schedule sample_f [3, 5, 7] [0, 1] (pool_init 2 [3, 5, 7 :: nat]) = Some s \<and> busy s = 2 \<and> busy s \<le> 2"
proof -
  let ?s = "\<lparr>nxt = 2, out = [None, None, None], workers = [Busy 0, Busy 1], calls = [0, 1]\<rparr> :: nat pool"
  have run: "run_schedule sample_f [3, 5, 7] [0, 1] (pool_init 2 [3, 5, 7 :: nat]) = Some ?s" by code_simp
  with mapLimit_bounded [OF run_schedule_reach [OF run]] have "busy ?s \<le> 2" by simp
  moreover have "busy ?s = 2" by (simp add: busy_def)
  ultimately show ?thesis using run by metis
qed

end
