(* ===== verification/DnsStore.thy ===== *)
theory DnsStore
  imports Checks MapLimit "HOL-Library.List_Lexorder" "HOL-Library.Char_ord"
begin

text \<open>
  The cache of check results and the endpoints over it (\<open>persistCheck\<close>, \<open>readCachedMap\<close>,
  \<open>getAllReports\<close>, \<open>refreshAll\<close> and \<open>registerDeliverability\<close> of \<open>deliverability.ts\<close>, with the
  tables of migration 0014). A table is the list of its rows. Whether the \<open>k\<close>-th statement of a
  connection succeeds is the oracle \<open>up k\<close>; a statement also fails on a primary key conflict.
\<close>

record check_row =
  ck_domain :: string
  ck_record :: rtype
  ck_selector :: string
  ck_status :: status
  ck_found :: "string option"
  ck_expected :: "string option"
  ck_detail :: "string option"
  ck_fix :: "string option"
  ck_checked_at :: string

record dns_store =
  st_relay_domains :: "string list"
  st_checks :: "check_row list"
  st_history :: "(string \<times> status) list"

section \<open>Persisting a report\<close>

definition row_key :: "check_row \<Rightarrow> string \<times> rtype \<times> string" where
  "row_key r = (ck_domain r, ck_record r, ck_selector r)"

definition row_of :: "DomainReport \<Rightarrow> RecordReport \<Rightarrow> check_row" where
  "row_of rep r =
     \<lparr>ck_domain = dr_domain rep, ck_record = rr_record r,
      ck_selector = (case rr_selector r of None \<Rightarrow> [] | Some s \<Rightarrow> s),
      ck_status = rr_status r, ck_found = rr_found r, ck_expected = rr_expected r,
      ck_detail = Some (rr_detail r), ck_fix = rr_fix r, ck_checked_at = dr_checkedAt rep\<rparr>"

definition insert_row :: "check_row \<Rightarrow> check_row list \<Rightarrow> check_row list option" where
  "insert_row r tbl = (if row_key r \<in> row_key ` set tbl then None else Some (tbl @ [r]))"

primrec insert_rows :: "(nat \<Rightarrow> bool) \<Rightarrow> nat \<Rightarrow> check_row list \<Rightarrow> check_row list \<Rightarrow> check_row list option" where
  "insert_rows up k [] tbl = Some tbl"
| "insert_rows up k (r # rs) tbl =
     (if up k then (case insert_row r tbl of
        None \<Rightarrow> None
      | Some tbl' \<Rightarrow> insert_rows up (Suc k) rs tbl')
      else None)"

text \<open>
  The statements in order: connect, begin, delete, the inserts, the history insert, commit. A
  failure of any of them rolls back and rejects; the flag says whether the promise fulfils.
\<close>

definition persistCheck :: "(nat \<Rightarrow> bool) \<Rightarrow> DomainReport \<Rightarrow> dns_store \<Rightarrow> dns_store \<times> bool" where
  "persistCheck up rep st =
     (if \<not> up 0 \<or> \<not> up 1 \<or> \<not> up 2 then (st, False)
      else (let cleared = filter (\<lambda>r. ck_domain r \<noteq> dr_domain rep) (st_checks st);
                n = length (dr_records rep) in
        case insert_rows up 3 (map (row_of rep) (dr_records rep)) cleared of
          None \<Rightarrow> (st, False)
        | Some tbl \<Rightarrow>
            if up (3 + n) \<and> up (4 + n)
            then (st\<lparr>st_checks := tbl, st_history := st_history st @ [(dr_domain rep, dr_status rep)]\<rparr>, True)
            else (st, False)))"

section \<open>Reading the cache\<close>

definition report_of_row :: "check_row \<Rightarrow> RecordReport" where
  "report_of_row r =
     \<lparr>rr_record = ck_record r, rr_selector = (if ck_selector r = [] then None else Some (ck_selector r)),
      rr_status = ck_status r, rr_found = ck_found r, rr_expected = ck_expected r,
      rr_detail = (case ck_detail r of None \<Rightarrow> [] | Some d \<Rightarrow> d), rr_fix = ck_fix r\<rparr>"

text \<open>A JavaScript \<open>Map\<close>: the association list of its entries in insertion order.\<close>

definition add_row :: "check_row \<Rightarrow> (string \<times> DomainReport) list \<Rightarrow> (string \<times> DomainReport) list" where
  "add_row r m = (case map_of m (ck_domain r) of
     None \<Rightarrow> m @ [(ck_domain r,
       \<lparr>dr_domain = ck_domain r, dr_checkedAt = ck_checked_at r, dr_status = Ok,
        dr_records = [report_of_row r]\<rparr>)]
   | Some rep \<Rightarrow> map (\<lambda>(d, p). (d, if d = ck_domain r
       then p\<lparr>dr_records := dr_records p @ [report_of_row r]\<rparr> else p)) m)"

definition readCachedMap :: "dns_store \<Rightarrow> (string \<times> DomainReport) list" where
  "readCachedMap st =
     map (\<lambda>(d, p). (d, p\<lparr>dr_status := rollup (dr_records p)\<rparr>))
       (fold add_row (sort_key ck_domain (st_checks st)) [])"

definition domain_rows :: "string \<Rightarrow> dns_store \<Rightarrow> check_row list" where
  "domain_rows d st = filter (\<lambda>r. ck_domain r = d) (st_checks st)"

text \<open>The single-domain read of \<open>GET /api/deliverability/:domain\<close>, on the rows it selects.\<close>

definition cached_report :: "string \<Rightarrow> check_row list \<Rightarrow> DomainReport option" where
  "cached_report d rows =
     (if rows = [] then None
      else Some \<lparr>dr_domain = d, dr_checkedAt = ck_checked_at (hd rows),
                 dr_status = rollup (map report_of_row rows), dr_records = map report_of_row rows\<rparr>)"

section \<open>Facts about persisting\<close>

lemma insert_rows_Some:
  "insert_rows up k rs tbl = Some tbl' \<Longrightarrow> tbl' = tbl @ rs"
  by (induction rs arbitrary: k tbl) (fastforce simp: insert_row_def split: if_splits)+

lemma insert_rows_up:
  "(\<And>i. i < length rs \<Longrightarrow> up (k + i)) \<Longrightarrow> distinct (map row_key rs) \<Longrightarrow>
   row_key ` set rs \<inter> row_key ` set tbl = {} \<Longrightarrow> insert_rows up k rs tbl = Some (tbl @ rs)"
proof (induction rs arbitrary: k tbl)
  case (Cons r rs)
  have "up k" using Cons.prems(1) [of 0] by simp
  moreover have "row_key r \<notin> row_key ` set tbl" using Cons.prems(3) by auto
  moreover have "insert_rows up (Suc k) rs (tbl @ [r]) = Some ((tbl @ [r]) @ rs)"
    using Cons.prems Cons.prems(1) [of "Suc i" for i] by (intro Cons.IH) auto
  ultimately show ?case by (simp add: insert_row_def)
qed simp

lemma persistCheck_result:
  "persistCheck up rep st = (st', ok) \<Longrightarrow>
     (if ok then st' = st\<lparr>st_checks := filter (\<lambda>r. ck_domain r \<noteq> dr_domain rep) (st_checks st) @
                            map (row_of rep) (dr_records rep),
                          st_history := st_history st @ [(dr_domain rep, dr_status rep)]\<rparr>
      else st' = st)"
  by (auto simp: persistCheck_def Let_def split: if_splits option.splits dest: insert_rows_Some)

lemma row_of_domain [simp]: "ck_domain (row_of rep r) = dr_domain rep"
  by (simp add: row_of_def)

lemma persistCheck_domain_rows:
  "persistCheck up rep st = (st', True) \<Longrightarrow>
     domain_rows d st' = (if d = dr_domain rep then map (row_of rep) (dr_records rep) else domain_rows d st)"
  by (drule persistCheck_result) (auto simp: domain_rows_def filter_filter intro: filter_cong)

lemma persistCheck_succeeds:
  assumes "\<And>k. up k" and "distinct (map record_key (dr_records rep))"
  shows "\<exists>st'. persistCheck up rep st = (st', True)"
proof -
  have "row_key (row_of rep r) = (dr_domain rep, record_key r)" for r
    by (simp add: row_key_def row_of_def record_key_def)
  then have key: "map row_key (map (row_of rep) rs) = map (Pair (dr_domain rep)) (map record_key rs)" for rs
    by simp
  have "distinct (map row_key (map (row_of rep) (dr_records rep)))"
    unfolding key using assms(2) by (subst distinct_map) (auto simp: inj_on_def)
  moreover have "row_key ` set (map (row_of rep) (dr_records rep)) \<inter>
      row_key ` set (filter (\<lambda>r. ck_domain r \<noteq> dr_domain rep) (st_checks st)) = {}"
    by (auto simp: row_key_def)
  ultimately have "insert_rows up 3 (map (row_of rep) (dr_records rep))
      (filter (\<lambda>r. ck_domain r \<noteq> dr_domain rep) (st_checks st)) =
      Some (filter (\<lambda>r. ck_domain r \<noteq> dr_domain rep) (st_checks st) @ map (row_of rep) (dr_records rep))"
    using assms(1) by (intro insert_rows_up)
  with assms(1) show ?thesis by (simp add: persistCheck_def Let_def)
qed

section \<open>Facts about the cache\<close>

definition extend_report :: "check_row \<Rightarrow> DomainReport option \<Rightarrow> DomainReport option" where
  "extend_report r rep = Some (case rep of
     None \<Rightarrow> \<lparr>dr_domain = ck_domain r, dr_checkedAt = ck_checked_at r, dr_status = Ok,
             dr_records = [report_of_row r]\<rparr>
   | Some p \<Rightarrow> p\<lparr>dr_records := dr_records p @ [report_of_row r]\<rparr>)"

lemma map_of_map_snd: "map_of (map (\<lambda>(d, p). (d, f d p)) m) d = map_option (f d) (map_of m d)"
  by (induction m) auto

lemma map_of_add_row:
  "map_of (add_row r m) d = (if ck_domain r = d then extend_report r (map_of m d) else map_of m d)"
  by (auto simp: add_row_def extend_report_def map_of_map_snd map_add_def option.map_ident
      split: option.splits)

lemma map_of_fold_add_row:
  "map_of (fold add_row rows m) d = fold extend_report (filter (\<lambda>r. ck_domain r = d) rows) (map_of m d)"
  by (induction rows arbitrary: m) (simp_all add: map_of_add_row)

lemma fold_extend_Some:
  "fold extend_report rows (Some p) = Some (p\<lparr>dr_records := dr_records p @ map report_of_row rows\<rparr>)"
  by (induction rows arbitrary: p) (simp_all add: extend_report_def)

lemma fold_extend_None:
  "fold extend_report rows (extend_report r None) =
     Some \<lparr>dr_domain = ck_domain r, dr_checkedAt = ck_checked_at r, dr_status = Ok,
           dr_records = map report_of_row (r # rows)\<rparr>"
proof -
  have "extend_report r None = Some \<lparr>dr_domain = ck_domain r, dr_checkedAt = ck_checked_at r,
      dr_status = Ok, dr_records = [report_of_row r]\<rparr>" by (simp add: extend_report_def)
  then show ?thesis by (simp add: fold_extend_Some)
qed

lemma filter_sort_domain:
  "filter (\<lambda>r. ck_domain r = d) (sort_key ck_domain xs) = filter (\<lambda>r. ck_domain r = d) xs"
  by (rule sort_key_stable)

lemma readCachedMap_lookup: "map_of (readCachedMap st) d = cached_report d (domain_rows d st)"
proof (cases "domain_rows d st")
  case Nil
  then show ?thesis
    by (simp add: readCachedMap_def map_of_map_snd map_of_fold_add_row filter_sort_domain cached_report_def
        domain_rows_def)
next
  case (Cons r rs)
  then have "ck_domain r = d" by (auto simp: domain_rows_def dest: filter_ConsD)
  with Cons show ?thesis
    by (simp add: readCachedMap_def map_of_map_snd map_of_fold_add_row filter_sort_domain cached_report_def
        domain_rows_def fold_extend_None)
qed

text \<open>A report as a check produces it: no empty selector, and the status is the rollup.\<close>

definition wf_report :: "DomainReport \<Rightarrow> bool" where
  "wf_report rep \<longleftrightarrow> dr_records rep \<noteq> [] \<and> dr_status rep = rollup (dr_records rep) \<and>
     list_all (\<lambda>r. rr_selector r \<noteq> Some []) (dr_records rep)"

lemma report_row_roundtrip: "rr_selector r \<noteq> Some [] \<Longrightarrow> report_of_row (row_of rep r) = r"
  by (auto simp: report_of_row_def row_of_def split: option.splits)

lemma cached_report_rows:
  assumes "wf_report rep"
  shows "cached_report (dr_domain rep) (map (row_of rep) (dr_records rep)) = Some rep"
proof -
  have "map (\<lambda>r. report_of_row (row_of rep r)) (dr_records rep) = dr_records rep"
    using assms by (intro map_idI report_row_roundtrip) (auto simp: wf_report_def list_all_iff)
  moreover have "ck_checked_at (hd (map (row_of rep) (dr_records rep))) = dr_checkedAt rep"
    using assms by (cases "dr_records rep") (auto simp: wf_report_def row_of_def)
  ultimately show ?thesis
    using assms by (auto simp: cached_report_def wf_report_def o_def)
qed

definition sample_report :: DomainReport where
  "sample_report =
     \<lparr>dr_domain = ''a.io'', dr_checkedAt = ''t1'', dr_status = Error,
      dr_records = [report Spf Error None ''No SPF record found.'', report Mx Info None ''No MX'']\<rparr>"

definition sample_store :: dns_store where
  "sample_store =
     \<lparr>st_relay_domains = [''b.io'', ''a.io''],
      st_checks = [row_of (sample_report\<lparr>dr_checkedAt := ''t0''\<rparr>) (report Bimi Info None ''old'')],
      st_history = [(''a.io'', Ok)]\<rparr>"



text \<open>
  C28: round trip of the cache. After a report has been persisted, reading the cache gives the
  same report back for its domain (selectors, fixes, time and rollup included), and the cached
  reports of the other domains are unchanged.
\<close>
theorem persist_read_roundtrip:
  assumes "persistCheck up rep st = (st', True)" and "wf_report rep"
  shows "map_of (readCachedMap st') d =
     (if d = dr_domain rep then Some rep else map_of (readCachedMap st) d)"
  using persistCheck_domain_rows [OF assms(1)] cached_report_rows [OF assms(2)]
  by (simp add: readCachedMap_lookup)

theorem persist_read_roundtrip_witness:
  "\<exists>st'. persistCheck (\<lambda>k. True) sample_report sample_store = (st', True) \<and>
     map_of (readCachedMap st') ''a.io'' = Some sample_report"
proof -
  obtain st' where p: "persistCheck (\<lambda>k. True) sample_report sample_store = (st', True)"
  proof -
    have "snd (persistCheck (\<lambda>k. True) sample_report sample_store) = True" by code_simp
    then show ?thesis using that by (metis prod.collapse)
  qed
  have "wf_report sample_report" by code_simp
  from persist_read_roundtrip [OF p this, of "''a.io''"] p show ?thesis
    by (simp add: sample_report_def)
qed

section \<open>The handlers\<close>

text \<open>
  \<open>now d\<close> is the clock when the check of \<open>d\<close> completes; \<open>msg\<close> the message of a rejected check.
  The result of \<open>getAllReports\<close> is the list of reports and the live ones among them, which it
  hands to \<open>persistCheck\<close> without waiting; it rejects when the query for the domains does.
\<close>

definition failed_report :: "string \<Rightarrow> string \<Rightarrow> string \<Rightarrow> DomainReport" where
  "failed_report now msg d =
     \<lparr>dr_domain = d, dr_checkedAt = now, dr_status = Error,
      dr_records = [report Spf Error None (''check failed: '' @ msg)]\<rparr>"

definition live_report :: "net \<Rightarrow> config \<Rightarrow> (string \<Rightarrow> string) \<Rightarrow> string \<Rightarrow> string \<Rightarrow> DomainReport" where
  "live_report n cf now msg d = (case checkDomain n cf (now d) d of
     Some rep \<Rightarrow> rep
   | None \<Rightarrow> failed_report (now d) msg d)"

definition cached_or_empty :: "bool \<Rightarrow> dns_store \<Rightarrow> (string \<times> DomainReport) list" where
  "cached_or_empty cache_up st = (if cache_up then readCachedMap st else [])"

definition fill :: "(string \<times> DomainReport) list \<Rightarrow> (string \<Rightarrow> DomainReport) \<Rightarrow> string \<Rightarrow> DomainReport \<times> DomainReport list" where
  "fill cached live d = (case map_of cached d of
     Some c \<Rightarrow> (c, [])
   | None \<Rightarrow> (live d, [live d]))"

definition getAllReports ::
  "net \<Rightarrow> config \<Rightarrow> (string \<Rightarrow> string) \<Rightarrow> string \<Rightarrow> bool \<Rightarrow> bool \<Rightarrow> dns_store \<Rightarrow>
     (DomainReport list \<times> DomainReport list) option" where
  "getAllReports n cf now msg domains_up cache_up st =
     (if \<not> domains_up then None
      else (case map_all (\<lambda>d. Some (fill (cached_or_empty cache_up st) (live_report n cf now msg) d))
                   (sort (st_relay_domains st)) of
        Inl _ \<Rightarrow> None
      | Inr rs \<Rightarrow> Some (map (fst \<circ> the) rs, concat (map (snd \<circ> the) rs))))"

definition refresh_one ::
  "net \<Rightarrow> config \<Rightarrow> (string \<Rightarrow> string) \<Rightarrow> (string \<Rightarrow> nat \<Rightarrow> bool) \<Rightarrow> string \<Rightarrow> dns_store \<Rightarrow>
     dns_store \<times> DomainReport option" where
  "refresh_one n cf now up d st = (case checkDomain n cf (now d) d of
     None \<Rightarrow> (st, None)
   | Some rep \<Rightarrow> (case persistCheck (up d) rep st of
       (st', ok) \<Rightarrow> (st', if ok then Some rep else None)))"

text \<open>
  \<open>refreshAll\<close>: the transactions commit in the order \<open>order\<close> in which the checks complete; the
  reports handed on are in the order of the domains, failed ones left out.
\<close>

primrec refresh_run ::
  "net \<Rightarrow> config \<Rightarrow> (string \<Rightarrow> string) \<Rightarrow> (string \<Rightarrow> nat \<Rightarrow> bool) \<Rightarrow> string list \<Rightarrow> dns_store \<Rightarrow>
     dns_store \<times> (string \<times> DomainReport option) list" where
  "refresh_run n cf now up [] st = (st, [])"
| "refresh_run n cf now up (d # ds) st =
     (case refresh_one n cf now up d st of (st1, r) \<Rightarrow>
      case refresh_run n cf now up ds st1 of (st2, rs) \<Rightarrow> (st2, (d, r) # rs))"

definition refreshAll ::
  "net \<Rightarrow> config \<Rightarrow> (string \<Rightarrow> string) \<Rightarrow> (string \<Rightarrow> nat \<Rightarrow> bool) \<Rightarrow> string list \<Rightarrow> dns_store \<Rightarrow>
     dns_store \<times> DomainReport list" where
  "refreshAll n cf now up order st =
     (case refresh_run n cf now up order st of (st', rs) \<Rightarrow>
      (st', List.map_filter (\<lambda>d. case map_of rs d of Some r \<Rightarrow> r | None \<Rightarrow> None) (st_relay_domains st)))"

datatype 'a reply = NotFound | Failed | Sent 'a

definition post_check ::
  "net \<Rightarrow> config \<Rightarrow> (string \<Rightarrow> string) \<Rightarrow> (nat \<Rightarrow> bool) \<Rightarrow> string \<Rightarrow> dns_store \<Rightarrow> dns_store \<times> DomainReport reply" where
  "post_check n cf now up d st =
     (if d \<notin> set (st_relay_domains st) then (st, NotFound)
      else (case checkDomain n cf (now d) d of
        None \<Rightarrow> (st, Failed)
      | Some rep \<Rightarrow> (fst (persistCheck up rep st), Sent rep)))"

definition get_domain ::
  "net \<Rightarrow> config \<Rightarrow> (string \<Rightarrow> string) \<Rightarrow> bool \<Rightarrow> string \<Rightarrow> dns_store \<Rightarrow> DomainReport reply" where
  "get_domain n cf now cache_up d st =
     (if d \<notin> set (st_relay_domains st) then NotFound
      else (case (if cache_up then cached_report d (domain_rows d st) else None) of
        Some rep \<Rightarrow> Sent rep
      | None \<Rightarrow> (case checkDomain n cf (now d) d of None \<Rightarrow> Failed | Some rep \<Rightarrow> Sent rep)))"

record summary =
  sm_total :: nat
  sm_ok :: nat
  sm_warning :: nat
  sm_error :: nat
  sm_lastChecked :: "string option"

definition summary_step :: "DomainReport \<Rightarrow> summary \<Rightarrow> summary" where
  "summary_step r s =
     (let s1 = (if dr_status r = Error then s\<lparr>sm_error := Suc (sm_error s)\<rparr>
                else if dr_status r = Warning then s\<lparr>sm_warning := Suc (sm_warning s)\<rparr>
                else s\<lparr>sm_ok := Suc (sm_ok s)\<rparr>) in
      if \<not> truthy (sm_lastChecked s1) \<or> dr_checkedAt r > the (sm_lastChecked s1)
      then s1\<lparr>sm_lastChecked := Some (dr_checkedAt r)\<rparr> else s1)"

definition summarize :: "DomainReport list \<Rightarrow> summary" where
  "summarize reports = fold summary_step reports
     \<lparr>sm_total = length reports, sm_ok = 0, sm_warning = 0, sm_error = 0, sm_lastChecked = None\<rparr>"

section \<open>Facts about the handlers\<close>

lemma getAllReports_eq:
  "getAllReports n cf now msg True cache_up st =
     (let ds = sort (st_relay_domains st);
          one = fill (cached_or_empty cache_up st) (live_report n cf now msg) in
      Some (map (fst \<circ> one) ds, concat (map (snd \<circ> one) ds)))"
  by (simp add: getAllReports_def map_all_def list_ex_iff o_def Let_def)

lemma rollup_failed: "rollup (dr_records (failed_report now msg d)) = Error"
  by (simp add: failed_report_def rollup_def)

lemma live_report_domain [simp]: "dr_domain (live_report n cf now msg d) = d"
  by (auto simp: live_report_def failed_report_def dest: checkDomain_domain split: option.splits)

text \<open>The configuration constraints: unique and non-empty selectors per domain.\<close>

definition keys_ok :: "config \<Rightarrow> bool" where
  "keys_ok cf \<longleftrightarrow> (case cf_dkim_keys cf of None \<Rightarrow> True
     | Some keys \<Rightarrow> distinct (map (\<lambda>k. (dk_domain k, dk_selector k)) keys) \<and>
         list_all (\<lambda>k. dk_selector k \<noteq> []) keys)"

lemma checkDomain_wf:
  assumes "checkDomain n cf now d = Some rep" "keys_ok cf"
  shows "wf_report rep \<and> distinct (map record_key (dr_records rep))"
proof -
  obtain keys where k: "cf_dkim_keys cf = Some keys"
    using assms(1) by (cases "cf_dkim_keys cf") (auto simp: checkDomain_def)
  have sel: "map rr_selector (dr_records rep) = map snd (map (\<lambda>r. (rr_record r, rr_selector r)) (dr_records rep))"
    by simp
  have "Some [] \<notin> set (map rr_selector (dr_records rep))"
    unfolding sel checkDomain_records [OF assms(1) k]
    using assms(2) k by (auto simp: keys_ok_def list_all_iff domain_keys_def)
  then have "list_all (\<lambda>r. rr_selector r \<noteq> Some []) (dr_records rep)"
    by (auto simp: list_all_iff image_iff)
  moreover have "dr_records rep \<noteq> []"
    using checkDomain_records [OF assms(1) k] by auto
  moreover have "distinct (map record_key (dr_records rep))"
    using assms k by (intro checkDomain_keys_distinct) (auto simp: keys_ok_def)
  ultimately show ?thesis using checkDomain_domain [OF assms(1)] by (simp add: wf_report_def)
qed

lemma live_report_wf:
  "keys_ok cf \<Longrightarrow> wf_report (live_report n cf now msg d) \<and>
     distinct (map record_key (dr_records (live_report n cf now msg d)))"
  using rollup_failed [of "now d" msg d]
  by (auto simp: live_report_def dest: checkDomain_wf split: option.splits)
     (simp_all add: wf_report_def failed_report_def record_key_def)

lemma persist_relay_domains: "st_relay_domains (fst (persistCheck up rep st)) = st_relay_domains st"
proof (cases "persistCheck up rep st")
  case (Pair st' ok)
  then show ?thesis using persistCheck_result [OF Pair] by (simp split: if_splits)
qed

text \<open>The transactions that \<open>getAllReports\<close> starts, in the order in which they commit.\<close>

definition persist_all :: "(nat \<Rightarrow> bool) \<Rightarrow> DomainReport list \<Rightarrow> dns_store \<Rightarrow> dns_store" where
  "persist_all up reps st = fold (\<lambda>rep st. fst (persistCheck up rep st)) reps st"

lemma persist_lookup:
  assumes "\<And>k. up k" "wf_report rep" "distinct (map record_key (dr_records rep))"
  shows "map_of (readCachedMap (fst (persistCheck up rep st))) d =
     (if d = dr_domain rep then Some rep else map_of (readCachedMap st) d)"
proof -
  from assms obtain st' where p: "persistCheck up rep st = (st', True)"
    using persistCheck_succeeds by blast
  then show ?thesis
    using persistCheck_domain_rows [OF p] cached_report_rows [OF assms(2)]
    by (simp add: readCachedMap_lookup)
qed

lemma persist_all_lookup:
  assumes "\<And>k. up k"
    and "\<forall>rep \<in> set reps. wf_report rep \<and> distinct (map record_key (dr_records rep))"
  shows "map_of (readCachedMap (persist_all up reps st)) d =
     (case map_of (rev (map (\<lambda>r. (dr_domain r, r)) reps)) d of
        Some r \<Rightarrow> Some r | None \<Rightarrow> map_of (readCachedMap st) d)"
  using assms(2)
proof (induction reps arbitrary: st)
  case (Cons r reps)
  then have "map_of (readCachedMap (fst (persistCheck up r st))) d =
      (if d = dr_domain r then Some r else map_of (readCachedMap st) d)"
    by (intro persist_lookup [OF assms(1)]) simp_all
  with Cons show ?case
    by (auto simp: persist_all_def map_add_def split: option.splits)
qed (simp add: persist_all_def)

lemma persist_all_relay_domains: "st_relay_domains (persist_all up reps st) = st_relay_domains st"
  by (induction reps arbitrary: st) (simp_all add: persist_all_def persist_relay_domains)

lemma map_of_domains:
  "distinct (map dr_domain reps) \<Longrightarrow> rep \<in> set reps \<Longrightarrow>
     map_of (rev (map (\<lambda>r. (dr_domain r, r)) reps)) (dr_domain rep) = Some rep"
  by (intro map_of_is_SomeI) (auto simp: rev_map [symmetric] o_def)

lemma map_of_domains_None:
  "d \<notin> dr_domain ` set reps \<Longrightarrow> map_of (rev (map (\<lambda>r. (dr_domain r, r)) reps)) d = None"
  by (auto simp: map_of_eq_None_iff)

lemma fill_live: "concat (map (snd \<circ> fill cached live) ds) = map live (filter (\<lambda>d. map_of cached d = None) ds)"
  by (induction ds) (auto simp: fill_def split: option.splits)

text \<open>
  The first load populates the cache. After the transactions that \<open>getAllReports\<close> started
  for the domains without cached result have committed, in whatever order, the next load
  returns the same reports from the cache and starts no live check, whatever the network says
  by then.
\<close>
theorem getAllReports_populates:
  assumes "getAllReports n cf now msg True True st = Some (reports, live)"
    and "keys_ok cf" and "distinct (st_relay_domains st)"
    and "mset commits = mset live" and "\<And>k. up k"
  shows "getAllReports n' cf' now' msg' True True (persist_all up commits st) = Some (reports, [])"
proof -
  let ?ds = "sort (st_relay_domains st)" and ?c = "readCachedMap st" and ?l = "live_report n cf now msg"
  let ?st = "persist_all up commits st"
  have reports: "reports = map (fst \<circ> fill ?c ?l) ?ds"
    and live: "live = map ?l (filter (\<lambda>d. map_of ?c d = None) ?ds)"
    using assms(1) by (simp_all add: getAllReports_eq cached_or_empty_def Let_def fill_live)
  have "mset (map dr_domain commits) = mset (map dr_domain live)" using assms(4) by simp
  moreover have "map dr_domain live = filter (\<lambda>d. map_of ?c d = None) ?ds" by (simp add: live o_def)
  moreover have "distinct (filter (\<lambda>d. map_of ?c d = None) ?ds)" using assms(3) by simp
  ultimately have dist: "distinct (map dr_domain commits)" by (metis mset_eq_imp_distinct_iff)
  have set_commits: "set commits = set live" using assms(4) by (metis set_mset_mset)
  have wf: "\<forall>rep \<in> set commits. wf_report rep \<and> distinct (map record_key (dr_records rep))"
    using live_report_wf [OF assms(2)] unfolding set_commits live by auto
  have look: "map_of (readCachedMap ?st) d = Some (fst (fill ?c ?l d))" if d: "d \<in> set ?ds" for d
  proof (cases "map_of ?c d")
    case None
    with d have "?l d \<in> set commits" unfolding set_commits live by auto
    from map_of_domains [OF dist this] have
      "map_of (rev (map (\<lambda>r. (dr_domain r, r)) commits)) d = Some (?l d)" by simp
    with None show ?thesis by (simp add: persist_all_lookup [OF assms(5) wf] fill_def)
  next
    case (Some c)
    then have "d \<notin> dr_domain ` set commits" unfolding set_commits live by auto
    from map_of_domains_None [OF this] Some show ?thesis
      by (simp add: persist_all_lookup [OF assms(5) wf] fill_def)
  qed
  have "map (fst \<circ> fill (readCachedMap ?st) (live_report n' cf' now' msg')) ?ds = reports"
    unfolding reports using look by (simp add: fill_def)
  moreover have "filter (\<lambda>d. map_of (readCachedMap ?st) d = None) ?ds = []"
    using look by (simp add: filter_empty_conv)
  ultimately show ?thesis
    by (simp add: getAllReports_eq cached_or_empty_def Let_def fill_live persist_all_relay_domains)
qed

definition sample_times :: "string \<Rightarrow> string" where
  "sample_times d = ''2026-01-01T00:00:00.000Z''"

lemma sample_keys_ok: "keys_ok (sample_config sample_keys)"
  by code_simp

theorem getAllReports_populates_witness:
  "\<exists>reports live. getAllReports (sample_net []) (sample_config sample_keys) sample_times [] True True sample_store =
     Some (reports, live) \<and> length live = 1 \<and>
   getAllReports (sample_net sample_zone) (sample_config []) sample_times [] True True
     (persist_all (\<lambda>k. True) live sample_store) = Some (reports, [])"
proof -
  let ?g = "getAllReports (sample_net []) (sample_config sample_keys) sample_times [] True True sample_store"
  have "map_option (length \<circ> snd) ?g = Some 1" by code_simp
  then obtain reports live where g: "?g = Some (reports, live)" "length live = 1" by auto
  have "distinct (st_relay_domains sample_store)" by code_simp
  from getAllReports_populates [OF g(1) sample_keys_ok this refl TrueI] g show ?thesis by blast
qed

text \<open>
  The two ways to read a cached domain agree: the single-domain endpoint answers with
  the very report that the list of all domains shows for it.
\<close>
theorem get_domain_agrees:
  assumes "getAllReports n cf now msg True True st = Some (reports, live)"
    and "d \<in> set (st_relay_domains st)" and "d \<in> ck_domain ` set (st_checks st)"
  shows "\<exists>rep \<in> set reports. dr_domain rep = d \<and> get_domain n' cf' now' True d st = Sent rep"
proof -
  have rows: "domain_rows d st \<noteq> []" using assms(3) by (auto simp: domain_rows_def filter_empty_conv)
  then obtain rep where rep: "cached_report d (domain_rows d st) = Some rep" "dr_domain rep = d"
    by (simp add: cached_report_def)
  then have "get_domain n' cf' now' True d st = Sent rep" using assms(2) by (simp add: get_domain_def)
  moreover have "rep \<in> set reports"
  proof -
    have "rep = (fst \<circ> fill (readCachedMap st) (live_report n cf now msg)) d"
      using rep by (simp add: fill_def readCachedMap_lookup)
    moreover have "reports = map (fst \<circ> fill (readCachedMap st) (live_report n cf now msg)) (sort (st_relay_domains st))"
      using assms(1) by (simp add: getAllReports_eq cached_or_empty_def Let_def)
    ultimately show ?thesis using assms(2) by auto
  qed
  ultimately show ?thesis using rep(2) by blast
qed

theorem get_domain_agrees_witness:
  "\<exists>rep. get_domain (sample_net []) (sample_config []) sample_times True ''a.io'' sample_store = Sent rep \<and>
     dr_checkedAt rep = ''t0''"
proof -
  let ?g = "getAllReports (sample_net []) (sample_config []) sample_times [] True True sample_store"
  have "map_option (length \<circ> snd) ?g = Some 1" by code_simp
  then obtain reports live where g: "?g = Some (reports, live)" by auto
  have "''a.io'' \<in> set (st_relay_domains sample_store)" "''a.io'' \<in> ck_domain ` set (st_checks sample_store)"
    by code_simp+
  from get_domain_agrees [OF g this, of "sample_net []" "sample_config []" sample_times] obtain rep where
    "get_domain (sample_net []) (sample_config []) sample_times True ''a.io'' sample_store = Sent rep" by blast
  moreover have "map_option dr_checkedAt (cached_report ''a.io'' (domain_rows ''a.io'' sample_store)) = Some ''t0''"
    by code_simp
  ultimately show ?thesis by (auto simp: get_domain_def split: if_splits)
qed

lemma refresh_one_result:
  assumes "refresh_one n cf now up d st = (st', r)" "keys_ok cf"
  shows "map_of (readCachedMap st') e =
       (if e = d then (case r of Some rep \<Rightarrow> Some rep | None \<Rightarrow> map_of (readCachedMap st) d)
        else map_of (readCachedMap st) e)"
    and "r = Some rep \<Longrightarrow> checkDomain n cf (now d) d = Some rep"
    and "st_relay_domains st' = st_relay_domains st"
proof -
  have "(case r of None \<Rightarrow> st' = st
     | Some rep \<Rightarrow> checkDomain n cf (now d) d = Some rep \<and> persistCheck (up d) rep st = (st', True))"
  proof (cases "checkDomain n cf (now d) d")
    case (Some rep)
    obtain st1 ok where p: "persistCheck (up d) rep st = (st1, ok)" by (cases "persistCheck (up d) rep st")
    have "st' = st1 \<and> r = (if ok then Some rep else None)"
      using assms(1) Some p by (auto simp: refresh_one_def)
    with Some p persistCheck_result [OF p] show ?thesis by (cases ok) simp_all
  qed (use assms(1) in \<open>simp add: refresh_one_def\<close>)
  moreover have "map_of (readCachedMap st') e = (if e = d then Some rep else map_of (readCachedMap st) e)"
    if "checkDomain n cf (now d) d = Some rep" "persistCheck (up d) rep st = (st', True)" for rep
    using persistCheck_domain_rows [OF that(2)] cached_report_rows [of rep] checkDomain_domain [OF that(1)]
      checkDomain_wf [OF that(1) assms(2)]
    by (auto simp: readCachedMap_lookup)
  ultimately show "map_of (readCachedMap st') e =
       (if e = d then (case r of Some rep \<Rightarrow> Some rep | None \<Rightarrow> map_of (readCachedMap st) d)
        else map_of (readCachedMap st) e)"
    and "r = Some rep \<Longrightarrow> checkDomain n cf (now d) d = Some rep"
    and "st_relay_domains st' = st_relay_domains st"
    using persist_relay_domains [of "up d" _ st] by (auto split: option.splits) (metis fst_conv)
qed

lemma refresh_run_result:
  assumes "refresh_run n cf now up ds st = (st', rs)" "keys_ok cf" "distinct ds"
  shows "map fst rs = ds \<and> st_relay_domains st' = st_relay_domains st \<and>
     (\<forall>d rep. map_of rs d = Some (Some rep) \<longrightarrow> checkDomain n cf (now d) d = Some rep) \<and>
     (\<forall>d. map_of (readCachedMap st') d =
        (case map_of rs d of Some (Some rep) \<Rightarrow> Some rep | _ \<Rightarrow> map_of (readCachedMap st) d))"
  using assms(1,3)
proof (induction ds arbitrary: st rs)
  case (Cons d ds)
  obtain st1 r rs' where one: "refresh_one n cf now up d st = (st1, r)"
    and run: "refresh_run n cf now up ds st1 = (st', rs')" and rs: "rs = (d, r) # rs'"
    using Cons.prems(1) by (auto split: prod.splits)
  from Cons.IH [OF run] Cons.prems(2) have IH: "map fst rs' = ds"
    "st_relay_domains st' = st_relay_domains st1"
    "\<forall>d rep. map_of rs' d = Some (Some rep) \<longrightarrow> checkDomain n cf (now d) d = Some rep"
    "\<forall>d. map_of (readCachedMap st') d =
        (case map_of rs' d of Some (Some rep) \<Rightarrow> Some rep | _ \<Rightarrow> map_of (readCachedMap st1) d)"
    by simp_all
  have "map_of rs' d = None"
    using Cons.prems(2) unfolding IH(1) [symmetric] by (simp add: map_of_eq_None_iff)
  with refresh_one_result [OF one assms(2)] IH show ?case
    unfolding rs by (auto split: option.splits)
qed simp

lemma refreshAll_result:
  assumes "refreshAll n cf now up order st = (st', reports)" and "keys_ok cf"
    and "distinct order" and "set order = set (st_relay_domains st)" and "distinct (st_relay_domains st)"
  shows "(\<forall>rep \<in> set reports. dr_domain rep \<in> set (st_relay_domains st) \<and>
            checkDomain n cf (now (dr_domain rep)) (dr_domain rep) = Some rep) \<and>
     distinct (map dr_domain reports) \<and>
     map_of (readCachedMap st') d = (case find (\<lambda>rep. dr_domain rep = d) reports of
        Some rep \<Rightarrow> Some rep | None \<Rightarrow> map_of (readCachedMap st) d)"
proof -
  obtain rs where run: "refresh_run n cf now up order st = (st', rs)"
    and reports: "reports = List.map_filter (\<lambda>d. case map_of rs d of Some r \<Rightarrow> r | None \<Rightarrow> None) (st_relay_domains st)"
    using assms(1) by (auto simp: refreshAll_def split: prod.splits)
  note R = refresh_run_result [OF run assms(2,3)]
  define g where "g = (\<lambda>d. case map_of rs d of Some r \<Rightarrow> r | None \<Rightarrow> None)"
  have g: "g d = Some rep \<Longrightarrow> checkDomain n cf (now d) d = Some rep \<and> dr_domain rep = d" for d rep
  proof -
    assume "g d = Some rep"
    then have "map_of rs d = Some (Some rep)" by (simp add: g_def split: option.splits)
    with R have "checkDomain n cf (now d) d = Some rep" by blast
    with checkDomain_domain show ?thesis by blast
  qed
  have dom: "g d = None" if "d \<notin> set (st_relay_domains st)" for d
  proof -
    have "d \<notin> fst ` set rs" using that R assms(4) by (metis set_map)
    then have "map_of rs d = None" by (simp add: map_of_eq_None_iff)
    then show ?thesis by (simp add: g_def)
  qed
  have fnd: "find (\<lambda>rep. dr_domain rep = d) (List.map_filter g ds) = (if d \<in> set ds then g d else None)" for ds d
    by (induction ds) (auto simp: List.map_filter_def dest: g split: option.splits)
  have doms: "map dr_domain (List.map_filter g ds) = filter (\<lambda>d. g d \<noteq> None) ds" for ds
    by (induction ds) (auto simp: List.map_filter_def dest: g)
  have "\<forall>rep \<in> set reports. dr_domain rep \<in> set (st_relay_domains st) \<and>
      checkDomain n cf (now (dr_domain rep)) (dr_domain rep) = Some rep"
    unfolding reports g_def [symmetric] by (auto simp: List.map_filter_def dest: g)
  moreover have "distinct (map dr_domain reports)"
    using assms(5) unfolding reports g_def [symmetric] doms by simp
  moreover have "map_of (readCachedMap st') d = (case find (\<lambda>rep. dr_domain rep = d) reports of
        Some rep \<Rightarrow> Some rep | None \<Rightarrow> map_of (readCachedMap st) d)"
  proof -
    have "map_of (readCachedMap st') d = (case g d of Some rep \<Rightarrow> Some rep
        | None \<Rightarrow> map_of (readCachedMap st) d)"
      using R by (auto simp: g_def split: option.splits)
    then show ?thesis unfolding reports g_def [symmetric] fnd using dom by simp
  qed
  ultimately show ?thesis by blast
qed

text \<open>
  C32: a refresh is complete and isolated. The reports it hands on are check results of relay
  domains, each at most once; for exactly these domains the cache then holds the report, and
  for every other domain, one whose check or transaction failed included, it holds what it
  held before.
\<close>
theorem refreshAll_cache:
  assumes "refreshAll n cf now up order st = (st', reports)" and "keys_ok cf"
    and "distinct order" and "set order = set (st_relay_domains st)" and "distinct (st_relay_domains st)"
  shows "(\<forall>rep \<in> set reports. dr_domain rep \<in> set (st_relay_domains st) \<and>
            checkDomain n cf (now (dr_domain rep)) (dr_domain rep) = Some rep) \<and>
     distinct (map dr_domain reports) \<and>
     map_of (readCachedMap st') d = (case find (\<lambda>rep. dr_domain rep = d) reports of
        Some rep \<Rightarrow> Some rep | None \<Rightarrow> map_of (readCachedMap st) d)"
  using refreshAll_result [OF assms] .

theorem refreshAll_cache_witness:
  "\<exists>st' reports. refreshAll (sample_net sample_zone) (sample_config sample_keys) sample_times
      (\<lambda>d k. d = ''a.io'' \<or> k \<noteq> 4) [''a.io'', ''b.io''] sample_store = (st', reports) \<and>
     map dr_domain reports = [''a.io''] \<and>
     map_of (readCachedMap st') ''b.io'' = map_of (readCachedMap sample_store) ''b.io''"
proof -
  let ?r = "refreshAll (sample_net sample_zone) (sample_config sample_keys) sample_times
      (\<lambda>d k. d = ''a.io'' \<or> k \<noteq> 4) [''a.io'', ''b.io''] sample_store"
  obtain st' reports where r: "?r = (st', reports)" by (cases ?r)
  have "map dr_domain (snd ?r) = [''a.io'']" by code_simp
  with r have reps: "map dr_domain reports = [''a.io'']" by simp
  then have "find (\<lambda>rep. dr_domain rep = ''b.io'') reports = None" by (auto simp: find_None_iff)
  moreover have "distinct [''a.io'', ''b.io'']" "set [''a.io'', ''b.io''] = set (st_relay_domains sample_store)"
    "distinct (st_relay_domains sample_store)" by (auto simp: sample_store_def)
  ultimately show ?thesis
    using refreshAll_cache [OF r sample_keys_ok, of "''b.io''"] r reps by auto
qed

lemma summary_step_counts:
  "sm_total (summary_step r s) = sm_total s"
  "sm_error (summary_step r s) = sm_error s + of_bool (dr_status r = Error)"
  "sm_warning (summary_step r s) = sm_warning s + of_bool (dr_status r = Warning)"
  "sm_ok (summary_step r s) = sm_ok s + of_bool (dr_status r < Warning)"
  by (cases "dr_status r"; simp add: summary_step_def Let_def less_status_def)+

lemma summary_fold:
  "sm_total (fold summary_step rs s) = sm_total s"
  "sm_error (fold summary_step rs s) = sm_error s + length (filter (\<lambda>r. dr_status r = Error) rs)"
  "sm_warning (fold summary_step rs s) = sm_warning s + length (filter (\<lambda>r. dr_status r = Warning) rs)"
  "sm_ok (fold summary_step rs s) = sm_ok s + length (filter (\<lambda>r. dr_status r < Warning) rs)"
  by (induction rs arbitrary: s) (simp_all add: summary_step_counts)

lemma summary_last:
  "rs \<noteq> [] \<Longrightarrow> \<forall>r \<in> set rs. dr_checkedAt r \<noteq> [] \<Longrightarrow>
   sm_lastChecked (fold summary_step rs s) =
     Some (Max ((case sm_lastChecked s of None \<Rightarrow> {} | Some t \<Rightarrow> {t}) \<union> dr_checkedAt ` set rs))"
proof (induction rs arbitrary: s)
  case (Cons r rs)
  let ?t = "case sm_lastChecked s of None \<Rightarrow> {} | Some t \<Rightarrow> {t}"
  have one: "sm_lastChecked (summary_step r s) = Some (Max (?t \<union> {dr_checkedAt r}))"
    using Cons.prems by (auto simp: summary_step_def Let_def truthy_def max_def not_less split: option.splits)
  show ?case
  proof (cases "rs = []")
    case True
    with one show ?thesis by simp
  next
    case False
    with Cons.IH [of "summary_step r s"] Cons.prems one
    have "sm_lastChecked (fold summary_step (r # rs) s) =
        Some (Max ({Max (?t \<union> {dr_checkedAt r})} \<union> dr_checkedAt ` set rs))" by simp
    also have "Max ({Max (?t \<union> {dr_checkedAt r})} \<union> dr_checkedAt ` set rs) =
        Max ((?t \<union> {dr_checkedAt r}) \<union> dr_checkedAt ` set rs)"
      using False by (subst (1 2) Max_Un) (auto split: option.splits)
    finally show ?thesis by simp
  qed
qed simp

text \<open>
  The dashboard summary counts every report once: the three counters are the numbers of
  error, warning and remaining reports and add up to the total, and the last check time is the
  latest of all (the times being non-empty strings in one format).
\<close>
theorem summarize_correct:
  assumes "reports \<noteq> []" and "\<forall>r \<in> set reports. dr_checkedAt r \<noteq> []"
  shows "sm_error (summarize reports) = length (filter (\<lambda>r. dr_status r = Error) reports) \<and>
     sm_warning (summarize reports) = length (filter (\<lambda>r. dr_status r = Warning) reports) \<and>
     sm_ok (summarize reports) + sm_warning (summarize reports) + sm_error (summarize reports) =
       sm_total (summarize reports) \<and>
     sm_total (summarize reports) = length reports \<and>
     sm_lastChecked (summarize reports) = Some (Max (dr_checkedAt ` set reports))"
proof -
  have "length (filter (\<lambda>r. dr_status r < Warning) rs) + length (filter (\<lambda>r. dr_status r = Warning) rs) +
      length (filter (\<lambda>r. dr_status r = Error) rs) = length rs" for rs
  proof (induction rs)
    case (Cons r rs)
    then show ?case by (cases "dr_status r") (simp_all add: status_order)
  qed simp
  with summary_last [OF assms] show ?thesis by (simp add: summarize_def summary_fold)
qed

theorem summarize_correct_witness:
  "sm_lastChecked (summarize [sample_report, sample_report\<lparr>dr_checkedAt := ''t7'', dr_status := Ok\<rparr>]) = Some ''t7'' \<and>
   sm_error (summarize [sample_report, sample_report\<lparr>dr_checkedAt := ''t7'', dr_status := Ok\<rparr>]) = 1"
proof -
  let ?rs = "[sample_report, sample_report\<lparr>dr_checkedAt := ''t7'', dr_status := Ok\<rparr>]"
  have "?rs \<noteq> []" "\<forall>r \<in> set ?rs. dr_checkedAt r \<noteq> []" by (simp_all add: sample_report_def)
  moreover have "length (filter (\<lambda>r. dr_status r = Error) ?rs) = 1" by code_simp
  moreover have "Max (dr_checkedAt ` set ?rs) = ''t7''" by code_simp
  ultimately show ?thesis using summarize_correct [of ?rs] \<open>\<forall>r \<in> set ?rs. dr_checkedAt r \<noteq> []\<close> by simp
qed

end
