(* ===== verification/Values.thy ===== *)
theory Values
  imports Prelude Complex_Main
begin

text \<open>
  Values of the language that several components handle: JSON values with the property accesses
  of a request body (\<open>undefined\<close> is \<open>None\<close>), \<open>Number\<close> of a
  string, and the coding of URI components. Numbers are rationals: the
  rounding of a literal to a double is not modelled.
\<close>

section \<open>JSON values\<close>

datatype json = JNull | JBool bool | JNum rat | JStr string | JArr "json list" | JObj "(string \<times> json) list"

text \<open>\<open>x.f\<close>, which throws on \<open>null\<close> and \<open>undefined\<close>, and \<open>x?.f\<close>. Properties of other values are undefined.\<close>

fun field :: "string \<Rightarrow> json \<Rightarrow> json option" where
  "field f (JObj fs) = map_of fs f"
| "field f _ = None"

definition nullish :: "json option \<Rightarrow> bool" where
  "nullish v \<longleftrightarrow> v = None \<or> v = Some JNull"

definition get_field :: "string \<Rightarrow> json option \<Rightarrow> unit + json option" where
  "get_field f v = (if nullish v then Inl () else Inr (field f (the v)))"

definition get_opt :: "string \<Rightarrow> json option \<Rightarrow> json option" where
  "get_opt f v = (if nullish v then None else field f (the v))"

text \<open>\<open>for (const r of v ?? [])\<close>: arrays and strings iterate, other values throw.\<close>

fun iterate :: "json option \<Rightarrow> unit + json list" where
  "iterate None = Inr []"
| "iterate (Some JNull) = Inr []"
| "iterate (Some (JArr xs)) = Inr xs"
| "iterate (Some (JStr s)) = Inr (map (\<lambda>c. JStr [c]) s)"
| "iterate (Some _) = Inl ()"

section \<open>Numbers\<close>

datatype jsnum = NaN | Infinity bool | Fin rat

definition radix_digit :: "char \<Rightarrow> nat" where
  "radix_digit c = (if is_digit c then code_of c - 48 else if is_alpha c then code_of (lower_char c) - 87 else 99)"

definition number_radix :: "nat \<Rightarrow> string \<Rightarrow> jsnum" where
  "number_radix b ds =
     (if ds = [] \<or> list_ex (\<lambda>c. radix_digit c \<ge> b) ds then NaN
      else Fin (of_nat (foldl (\<lambda>a c. b * a + radix_digit c) 0 ds)))"

definition all_digits :: "string \<Rightarrow> bool" where
  "all_digits s \<longleftrightarrow> s \<noteq> [] \<and> list_all is_digit s"

definition number_exponent :: "rat \<Rightarrow> string \<Rightarrow> jsnum" where
  "number_exponent m e = (case e of
     [] \<Rightarrow> Fin m
   | c # t \<Rightarrow>
       if c \<noteq> CHR ''e'' \<and> c \<noteq> CHR ''E'' then NaN
       else (case t of
         s # u \<Rightarrow>
           if s = CHR ''-'' then (if all_digits u then Fin (m / 10 ^ dec_val u) else NaN)
           else if s = CHR ''+'' then (if all_digits u then Fin (m * 10 ^ dec_val u) else NaN)
           else if all_digits t then Fin (m * 10 ^ dec_val t) else NaN
       | [] \<Rightarrow> NaN))"

definition number_decimal :: "string \<Rightarrow> jsnum" where
  "number_decimal s =
     (let i = takeWhile is_digit s; r = dropWhile is_digit s in
      case (case r of c # t \<Rightarrow> if c = CHR ''.'' then (takeWhile is_digit t, dropWhile is_digit t) else ([], r)
            | [] \<Rightarrow> ([], r)) of
        (f, e) \<Rightarrow> if i = [] \<and> f = [] then NaN
                  else number_exponent (of_nat (dec_val (i @ f)) / 10 ^ length f) e)"

fun negate :: "jsnum \<Rightarrow> jsnum" where
  "negate NaN = NaN" | "negate (Infinity s) = Infinity (\<not> s)" | "negate (Fin r) = Fin (- r)"

definition number_unsigned :: "string \<Rightarrow> jsnum" where
  "number_unsigned s = (if s = ''Infinity'' then Infinity True else number_decimal s)"

text \<open>\<open>Number(s)\<close>.\<close>

definition js_number :: "string \<Rightarrow> jsnum" where
  "js_number s = (let t = js_trim s in
     if t = [] then Fin 0
     else if js_lower (take 2 t) = ''0x'' then number_radix 16 (drop 2 t)
     else if js_lower (take 2 t) = ''0o'' then number_radix 8 (drop 2 t)
     else if js_lower (take 2 t) = ''0b'' then number_radix 2 (drop 2 t)
     else if hd t = CHR ''-'' then negate (number_unsigned (tl t))
     else if hd t = CHR ''+'' then number_unsigned (tl t)
     else number_unsigned t)"

section \<open>URI components\<close>

text \<open>\<open>encodeURIComponent\<close>.\<close>

definition uri_plain :: "char \<Rightarrow> bool" where
  "uri_plain c \<longleftrightarrow> is_alpha c \<or> is_digit c \<or> c \<in> set ''-_.!~*()'' \<or> c = CHR 0x27"

definition hex_digit :: "nat \<Rightarrow> char" where
  "hex_digit n = ''0123456789ABCDEF'' ! n"

primrec encodeURIComponent :: "string \<Rightarrow> string" where
  "encodeURIComponent [] = []"
| "encodeURIComponent (c # s) =
     (if uri_plain c then [c] else [CHR ''%'', hex_digit (code_of c div 16), hex_digit (code_of c mod 16)]) @
     encodeURIComponent s"

text \<open>\<open>decodeURIComponent\<close>, \<open>None\<close> when it throws; the check that the bytes are valid UTF-8 is not modelled.\<close>

definition hex_val :: "char \<Rightarrow> nat option" where
  "hex_val c = (let d = radix_digit c in if d < 16 then Some d else None)"

fun decodeURIComponent :: "string \<Rightarrow> string option" where
  "decodeURIComponent [] = Some []"
| "decodeURIComponent (c # s) =
     (if c \<noteq> CHR ''%'' then map_option (\<lambda>t. c # t) (decodeURIComponent s)
      else (case s of
        x # y # t \<Rightarrow> (case (hex_val x, hex_val y) of
          (Some m, Some n) \<Rightarrow> map_option (\<lambda>u. char_of (16 * m + n) # u) (decodeURIComponent t)
        | _ \<Rightarrow> None)
      | _ \<Rightarrow> None))"

lemma uri_encode_plain: "c \<in> set (encodeURIComponent s) \<Longrightarrow> uri_plain c \<or> c = CHR ''%''"
proof (induction s)
  case (Cons x s)
  have "uri_plain (hex_digit n)" if "n < 16" for n
  proof -
    have "list_all uri_plain ''0123456789ABCDEF''" by code_simp
    moreover have "hex_digit n \<in> set ''0123456789ABCDEF''"
      unfolding hex_digit_def using that by (intro nth_mem) simp
    ultimately show ?thesis by (simp only: list_all_iff)
  qed
  moreover have "code_of x div 16 < 16" using code_of_less [of x] by linarith
  ultimately show ?case using Cons by (auto split: if_splits)
qed simp

lemma hex_val_digit: "n < 16 \<Longrightarrow> hex_val (hex_digit n) = Some n"
proof -
  have "map hex_val ''0123456789ABCDEF'' = map Some [0, 1, 2, 3, 4, 5, 6, 7, 8, 9, 10, 11, 12, 13, 14, 15]"
    by code_simp
  moreover have "[0, 1, 2, 3, 4, 5, 6, 7, 8, 9, 10, 11, 12, 13, 14, 15] = [0..<16]" by (simp add: upt_rec)
  ultimately have "map hex_val ''0123456789ABCDEF'' = map Some [0..<16]" by (simp only:)
  then have "map hex_val ''0123456789ABCDEF'' ! n = map Some [0..<16] ! n" by (rule arg_cong)
  then show "n < 16 \<Longrightarrow> ?thesis" unfolding hex_digit_def by (subst (asm) (1 2) nth_map) simp_all
qed

lemma uri_decode_encode [simp]: "decodeURIComponent (encodeURIComponent s) = Some s"
proof (induction s)
  case (Cons c s)
  have "\<not> uri_plain CHR ''%''" by code_simp
  moreover have "hex_val (hex_digit (code_of c div 16)) = Some (code_of c div 16)"
    "hex_val (hex_digit (code_of c mod 16)) = Some (code_of c mod 16)"
    using code_of_less [of c] by (auto intro!: hex_val_digit simp del: code_of_less)
  moreover have "char_of (16 * (code_of c div 16) + code_of c mod 16) = c" by (simp add: code_of_def)
  ultimately show ?case using Cons.IH by (cases "uri_plain c") (auto simp: Let_def)
qed simp

lemma uri_encode_inject: "encodeURIComponent s = encodeURIComponent t \<Longrightarrow> s = t"
  by (metis option.inject uri_decode_encode)

end
