(* ===== verification/Secrets.thy ===== *)
theory Secrets
  imports Prelude
begin

text \<open>
  \<open>services/admin-api/src/secrets.ts\<close>: envelope encryption. A buffer is the string of its bytes.
  AES-256-GCM is the parameter \<open>cipher\<close>; the random bytes of a call are arguments. The JSON text
  of an envelope is represented by the object it denotes.
\<close>

section \<open>Base64\<close>

definition b64_alphabet :: string where
  "b64_alphabet = ''ABCDEFGHIJKLMNOPQRSTUVWXYZabcdefghijklmnopqrstuvwxyz0123456789+/''"

fun b64_sextets :: "nat list \<Rightarrow> nat list" where
  "b64_sextets [] = []"
| "b64_sextets [a] = [a div 4, (a mod 4) * 16]"
| "b64_sextets [a, b] = [a div 4, (a mod 4) * 16 + b div 16, (b mod 16) * 4]"
| "b64_sextets (a # b # c # xs) =
     [a div 4, (a mod 4) * 16 + b div 16, (b mod 16) * 4 + c div 64, c mod 64] @ b64_sextets xs"

definition b64_encode :: "string \<Rightarrow> string" where
  "b64_encode s = map (\<lambda>i. b64_alphabet ! i) (b64_sextets (map code_of s)) @
     replicate ((3 - length s mod 3) mod 3) CHR ''=''"

text \<open>
  \<open>Buffer.from(s, "base64")\<close>: the decoder reads up to the padding, skips what is not in the
  alphabet (it also knows the URL-safe characters) and drops a trailing single sextet.
\<close>

definition b64_value :: "char \<Rightarrow> nat option" where
  "b64_value c = (case js_indexOf c b64_alphabet of
     Some i \<Rightarrow> Some i
   | None \<Rightarrow> if c = CHR ''-'' then Some 62 else if c = CHR ''_'' then Some 63 else None)"

fun b64_octets :: "nat list \<Rightarrow> nat list" where
  "b64_octets [] = []"
| "b64_octets [p] = []"
| "b64_octets [p, q] = [p * 4 + q div 16]"
| "b64_octets [p, q, r] = [p * 4 + q div 16, (q mod 16) * 16 + r div 4]"
| "b64_octets (p # q # r # s # xs) =
     [p * 4 + q div 16, (q mod 16) * 16 + r div 4, (r mod 4) * 64 + s] @ b64_octets xs"

definition b64_decode :: "string \<Rightarrow> string" where
  "b64_decode s = map char_of
     (b64_octets (List.map_filter b64_value (takeWhile (\<lambda>c. c \<noteq> CHR ''='') s)))"

lemma sextet_bounds:
  fixes a b c :: nat
  shows "a < 256 \<Longrightarrow> a div 4 < 64" and "(a mod 4) * 16 < 64"
    and "b < 256 \<Longrightarrow> (a mod 4) * 16 + b div 16 < 64" and "(b mod 16) * 4 < 64"
    and "c < 256 \<Longrightarrow> (b mod 16) * 4 + c div 64 < 64" and "c mod 64 < 64"
proof -
  have m: "a mod 4 < 4" "b mod 16 < 16" by simp_all
  show "a < 256 \<Longrightarrow> a div 4 < 64" by (simp add: div_less_iff_less_mult)
  show "(a mod 4) * 16 < 64" "(b mod 16) * 4 < 64" using m by linarith+
  show "b < 256 \<Longrightarrow> (a mod 4) * 16 + b div 16 < 64"
    using m div_less_iff_less_mult [of 16 b 16] by simp
  show "c < 256 \<Longrightarrow> (b mod 16) * 4 + c div 64 < 64"
    using m div_less_iff_less_mult [of 64 c 4] by simp
  show "c mod 64 < 64" by simp
qed

lemma b64_sextets_less: "\<forall>a \<in> set xs. a < 256 \<Longrightarrow> \<forall>i \<in> set (b64_sextets xs). i < 64"
  by (induction xs rule: b64_sextets.induct) (simp_all add: sextet_bounds)

lemma b64_octets_sextets: "\<forall>a \<in> set xs. a < 256 \<Longrightarrow> b64_octets (b64_sextets xs) = xs"
proof (induction xs rule: b64_sextets.induct)
  case (2 a)
  then show ?case by simp
next
  case (3 a b)
  then have "b div 16 < 16" by (simp add: div_less_iff_less_mult)
  then have "(a mod 4 * 16 + b div 16) div 16 = a mod 4" "(a mod 4 * 16 + b div 16) mod 16 = b div 16"
    by simp_all
  then show ?case by simp
next
  case (4 a b c xs)
  then have "b div 16 < 16" "c div 64 < 4" by (simp_all add: div_less_iff_less_mult)
  then have "(a mod 4 * 16 + b div 16) div 16 = a mod 4" "(a mod 4 * 16 + b div 16) mod 16 = b div 16"
    "(b mod 16 * 4 + c div 64) div 4 = b mod 16" "(b mod 16 * 4 + c div 64) mod 4 = c div 64"
    by simp_all
  with 4 show ?case by simp
qed simp

lemma b64_alphabet_facts:
  "list_all (\<lambda>i. b64_value (b64_alphabet ! i) = Some i \<and> b64_alphabet ! i \<noteq> CHR ''='') [0..<64]"
  by code_simp

lemma b64_value_nth: "i < 64 \<Longrightarrow> b64_value (b64_alphabet ! i) = Some i \<and> b64_alphabet ! i \<noteq> CHR ''=''"
  using b64_alphabet_facts by (simp add: list_all_iff)

lemma map_filter_b64:
  "\<forall>i \<in> set is. i < 64 \<Longrightarrow> List.map_filter b64_value (map (\<lambda>i. b64_alphabet ! i) is) = is"
  by (induction "is") (simp_all add: List.map_filter_def b64_value_nth)

lemma takeWhile_pad:
  "\<forall>c \<in> set s. c \<noteq> p \<Longrightarrow> takeWhile (\<lambda>c. c \<noteq> p) (s @ replicate n p) = s"
  by (induction s) (simp_all add: takeWhile_eq_Nil_iff)

lemma b64_decode_encode: "b64_decode (b64_encode s) = s"
proof -
  have less: "\<forall>a \<in> set (map code_of s). a < 256" by simp
  from b64_sextets_less [OF this] have "\<forall>i \<in> set (b64_sextets (map code_of s)). i < 64" .
  then have "takeWhile (\<lambda>c. c \<noteq> CHR ''='') (b64_encode s) =
      map (\<lambda>i. b64_alphabet ! i) (b64_sextets (map code_of s))"
    unfolding b64_encode_def using b64_value_nth by (intro takeWhile_pad) auto
  then have "b64_decode (b64_encode s) = map char_of (map code_of s)"
    using map_filter_b64 [OF b64_sextets_less [OF less]]
    by (simp only: b64_decode_def b64_octets_sextets [OF less])
  then show ?thesis by (simp add: code_of_def o_def)
qed

section \<open>The cipher and the envelope\<close>

record cipher =
  gcm_seal :: "string \<Rightarrow> string \<Rightarrow> string \<Rightarrow> string \<times> string"
  gcm_open :: "string \<Rightarrow> string \<Rightarrow> string \<Rightarrow> string \<Rightarrow> string option"

text \<open>
  What the code relies on: opening with the same key and nonce what was sealed gives the text
  back, and a tag has 16 bytes.
\<close>

definition cipher_ok :: "cipher \<Rightarrow> bool" where
  "cipher_ok C \<longleftrightarrow> (\<forall>k n p. gcm_open C k n (fst (gcm_seal C k n p)) (snd (gcm_seal C k n p)) = Some p \<and>
     length (snd (gcm_seal C k n p)) = 16)"

datatype secret_error = KeyNotSet | KeyLength | OpenFailed

text \<open>\<open>NOVAMAIL_SECRET_KEY\<close>: an unset or empty variable is refused, as is a key of another length.\<close>

definition kek :: "string option \<Rightarrow> secret_error + string" where
  "kek env = (case env of
     None \<Rightarrow> Inl KeyNotSet
   | Some b64 \<Rightarrow>
       if b64 = [] then Inl KeyNotSet
       else (let k = b64_decode b64 in if length k \<noteq> 32 then Inl KeyLength else Inr k))"

definition sealGCM :: "cipher \<Rightarrow> string \<Rightarrow> string \<Rightarrow> string \<Rightarrow> string" where
  "sealGCM C key plaintext nonce =
     (case gcm_seal C key nonce plaintext of (ct, tag) \<Rightarrow> b64_encode (nonce @ ct @ tag))"

text \<open>\<open>buf.subarray(start, end)\<close>, negative indices counting from the end.\<close>

definition js_index :: "nat \<Rightarrow> int \<Rightarrow> nat" where
  "js_index len i = (if i < 0 then nat (int len + i) else min len (nat i))"

definition subarray :: "string \<Rightarrow> int \<Rightarrow> int \<Rightarrow> string" where
  "subarray buf i j =
     (let a = js_index (length buf) i; b = js_index (length buf) j in take (b - a) (drop a buf))"

definition openGCM :: "cipher \<Rightarrow> string \<Rightarrow> string \<Rightarrow> string option" where
  "openGCM C key b64 =
     (let buf = b64_decode b64;
          nonce = subarray buf 0 12;
          tag = subarray buf (int (length buf) - 16) (int (length buf));
          ct = subarray buf 12 (int (length buf) - 16) in
      gcm_open C key nonce ct tag)"

record envelope =
  env_v :: nat
  env_dek :: string
  env_data :: string

text \<open>The random data key and the two nonces of a call are drawn in this order.\<close>

record entropy =
  rnd_dek :: string
  rnd_data_nonce :: string
  rnd_dek_nonce :: string

definition encrypt :: "cipher \<Rightarrow> string option \<Rightarrow> entropy \<Rightarrow> string \<Rightarrow> secret_error + envelope" where
  "encrypt C env rnd plaintext =
     (let data = sealGCM C (rnd_dek rnd) plaintext (rnd_data_nonce rnd) in
      case kek env of
        Inl e \<Rightarrow> Inl e
      | Inr k \<Rightarrow> Inr \<lparr>env_v = 1, env_dek = sealGCM C k (rnd_dek rnd) (rnd_dek_nonce rnd), env_data = data\<rparr>)"

text \<open>A stored text that is no JSON object with these fields is \<open>None\<close>.\<close>

definition decrypt :: "cipher \<Rightarrow> string option \<Rightarrow> envelope option \<Rightarrow> secret_error + string" where
  "decrypt C env envelope = (case envelope of
     None \<Rightarrow> Inl OpenFailed
   | Some e \<Rightarrow> (case kek env of
       Inl err \<Rightarrow> Inl err
     | Inr k \<Rightarrow> (case openGCM C k (env_dek e) of
         None \<Rightarrow> Inl OpenFailed
       | Some rawDek \<Rightarrow> (case openGCM C rawDek (env_data e) of
           None \<Rightarrow> Inl OpenFailed
         | Some p \<Rightarrow> Inr p))))"

definition entropy_ok :: "entropy \<Rightarrow> bool" where
  "entropy_ok rnd \<longleftrightarrow> length (rnd_data_nonce rnd) = 12 \<and> length (rnd_dek_nonce rnd) = 12"

lemma open_seal:
  assumes "cipher_ok C" "length nonce = 12"
  shows "openGCM C key (sealGCM C key p nonce) = Some p"
proof -
  obtain ct tag where s: "gcm_seal C key nonce p = (ct, tag)" by (cases "gcm_seal C key nonce p")
  have law: "gcm_open C key nonce ct tag = Some p" "length tag = 16"
    using assms(1) s unfolding cipher_ok_def by (metis fst_conv snd_conv)+
  let ?b = "nonce @ ct @ tag"
  have len: "length ?b = 12 + length ct + 16" using law(2) assms(2) by simp
  have "subarray ?b 0 12 = nonce" "subarray ?b 12 (int (length ?b) - 16) = ct"
    "subarray ?b (int (length ?b) - 16) (int (length ?b)) = tag"
    using law(2) assms(2) unfolding subarray_def js_index_def Let_def len
    by (simp_all add: nat_add_distrib nat_diff_distrib)
  then show ?thesis
    using law by (simp add: openGCM_def sealGCM_def s b64_decode_encode Let_def del: length_append)
qed

section \<open>Properties\<close>

text \<open>
  Base64 is lossless. Decoding the encoding of any byte string gives it back, padding
  included.
\<close>
theorem b64_roundtrip:
  "b64_decode (b64_encode s) = s"
  by (rule b64_decode_encode)

text \<open>
  C19: secrets survive the envelope. Whatever was encrypted under the configured master key is
  recovered by decryption under the same key, for every data key and every pair of 12-byte
  nonces, given a cipher that opens what it sealed.
\<close>
theorem decrypt_encrypt:
  assumes "cipher_ok C" and "entropy_ok rnd" and "encrypt C env rnd plaintext = Inr e"
  shows "decrypt C env (Some e) = Inr plaintext"
  using assms open_seal [OF assms(1)]
  by (auto simp: encrypt_def decrypt_def entropy_ok_def Let_def split: sum.splits)

text \<open>A cipher for the witness: it masks nothing and tags with the key's and text's lengths.\<close>

definition sample_cipher :: cipher where
  "sample_cipher =
     \<lparr>gcm_seal = (\<lambda>k n p. (rev p, replicate 16 (char_of (length k + length p)))),
      gcm_open = (\<lambda>k n c t. if t = replicate 16 (char_of (length k + length c)) then Some (rev c) else None)\<rparr>"

lemma sample_cipher_ok: "cipher_ok sample_cipher"
  by (simp add: cipher_ok_def sample_cipher_def)

definition sample_entropy :: entropy where
  "sample_entropy = \<lparr>rnd_dek = replicate 32 CHR ''k'', rnd_data_nonce = ''0123456789ab'',
     rnd_dek_nonce = ''ba9876543210''\<rparr>"

definition sample_key :: "string option" where
  "sample_key = Some (b64_encode (replicate 32 CHR ''m''))"

theorem decrypt_encrypt_witness:
  "\<exists>e. encrypt sample_cipher sample_key sample_entropy ''hunter2'' = Inr e \<and>
     decrypt sample_cipher sample_key (Some e) = Inr ''hunter2''"
proof -
  have "kek sample_key = Inr (replicate 32 CHR ''m'')"
    by (simp add: kek_def sample_key_def b64_decode_encode) (simp add: b64_encode_def)
  then obtain e where e: "encrypt sample_cipher sample_key sample_entropy ''hunter2'' = Inr e"
    by (auto simp: encrypt_def Let_def)
  have "entropy_ok sample_entropy" by code_simp
  from decrypt_encrypt [OF sample_cipher_ok this e] e show ?thesis by blast
qed

end
