(* ===== verification/Bus.thy ===== *)
theory Bus
  imports Prelude
begin

text \<open>
  The message bus client (\<open>services/admin-api/src/bus.ts\<close>): the reconnect state machine around
  \<open>connect\<close>, and the two publishers. A connection is named by its generation, the number of
  the dial that opened it. A step is what runs between two suspensions.
\<close>

record bus =
  bus_chan :: "nat option"
  bus_timer :: "nat option"
  bus_failures :: nat
  bus_dialing :: "nat list"
  bus_gen :: nat
  bus_conns :: "nat list"

section \<open>TLS options\<close>

record tls_options =
  tls_ca :: string
  tls_servername :: string
  tls_cert :: "string option"
  tls_key :: "string option"

text \<open>\<open>busTLS\<close>; \<open>fs\<close> is the file system, \<open>None\<close> where no file exists. Empty variables are unset.\<close>

definition env_or :: "string option \<Rightarrow> string \<Rightarrow> string" where
  "env_or v d = (case v of Some s \<Rightarrow> if s \<noteq> [] then s else d | None \<Rightarrow> d)"

definition busTLS ::
  "string option \<Rightarrow> string option \<Rightarrow> string option \<Rightarrow> (string \<Rightarrow> string option) \<Rightarrow> tls_options option" where
  "busTLS amqp_url tls_dir servername fs =
     (if \<not> js_startsWith (case amqp_url of None \<Rightarrow> [] | Some u \<Rightarrow> u) ''amqps://'' then None
      else (let dir = env_or tls_dir ''/etc/novamail/amqptls'';
                cert = fs (dir @ ''/tls.crt''); key = fs (dir @ ''/tls.key'') in
        case fs (dir @ ''/ca.crt'') of
          None \<Rightarrow> None
        | Some ca \<Rightarrow> Some
            \<lparr>tls_ca = ca, tls_servername = env_or servername ''nova-bus'',
             tls_cert = (if cert \<noteq> None \<and> key \<noteq> None then cert else None),
             tls_key = (if cert \<noteq> None \<and> key \<noteq> None then key else None)\<rparr>))"

section \<open>Reconnecting\<close>

definition backoff :: "nat \<Rightarrow> nat" where
  "backoff failures = min (1000 * 2 ^ failures) 30000"

definition scheduleReconnect :: "bus \<Rightarrow> bus" where
  "scheduleReconnect b =
     (if bus_timer b \<noteq> None then b else b\<lparr>bus_timer := Some (backoff (bus_failures b))\<rparr>)"

text \<open>The start of \<open>connect()\<close>, up to its first suspension.\<close>

definition dial :: "bus \<Rightarrow> bus" where
  "dial b = b\<lparr>bus_dialing := bus_gen b # bus_dialing b, bus_gen := Suc (bus_gen b)\<rparr>"

text \<open>How a dial ends: before or after the connection was opened, or with a channel.\<close>

datatype dial_end = ConnectFails | ChannelFails | Connected

definition dial_ends :: "nat \<Rightarrow> dial_end \<Rightarrow> bus \<Rightarrow> bus" where
  "dial_ends g e b =
     (let b1 = b\<lparr>bus_dialing := remove1 g (bus_dialing b),
                 bus_conns := (if e = ConnectFails then bus_conns b else g # bus_conns b)\<rparr> in
      if e = Connected then b1\<lparr>bus_chan := Some g, bus_failures := 0\<rparr>
      else scheduleReconnect (b1\<lparr>bus_chan := None, bus_failures := Suc (bus_failures b1)\<rparr>))"

definition timer_fires :: "bus \<Rightarrow> bus" where
  "timer_fires b = dial (b\<lparr>bus_timer := None\<rparr>)"

text \<open>\<open>onLost\<close> of generation \<open>g\<close>: the close event of its connection or of its channel.\<close>

definition onLost :: "nat \<Rightarrow> bus \<Rightarrow> bus" where
  "onLost g b =
     (if bus_chan b = Some g
      then scheduleReconnect (b\<lparr>bus_chan := None, bus_conns := removeAll g (bus_conns b)\<rparr>)
      else b)"

definition ready :: "bus \<Rightarrow> bool" where
  "ready b \<longleftrightarrow> bus_chan b \<noteq> None"

text \<open>The process starts with the one call of \<open>connect\<close> in \<open>main\<close>.\<close>

definition bus_init :: bus where
  "bus_init = dial \<lparr>bus_chan = None, bus_timer = None, bus_failures = 0, bus_dialing = [],
                    bus_gen = 0, bus_conns = []\<rparr>"

inductive bus_step :: "bus \<Rightarrow> bus \<Rightarrow> bool" where
  step_dial: "g \<in> set (bus_dialing b) \<Longrightarrow> bus_step b (dial_ends g e b)"
| step_timer: "bus_timer b \<noteq> None \<Longrightarrow> bus_step b (timer_fires b)"
| step_lost: "bus_step b (onLost g b)"

inductive_cases bus_stepE: "bus_step b c"

section \<open>Publishing\<close>

text \<open>
  \<open>publishConfigChanged\<close> suspends once, for the epoch: \<open>c0\<close> is the channel when it is called,
  \<open>c1\<close> the channel when the query has answered. The result is what is published, or a rejection.
\<close>

record config_event =
  ev_epoch :: nat
  ev_slices :: "string list"

datatype publish_error = EpochFailed | NullChannel

definition publishConfigChanged ::
  "nat option \<Rightarrow> nat option \<Rightarrow> nat option \<Rightarrow> string list \<Rightarrow> publish_error + (nat \<times> config_event) option" where
  "publishConfigChanged c0 epoch c1 slices = (case c0 of
     None \<Rightarrow> Inr None
   | Some _ \<Rightarrow> (case epoch of
       None \<Rightarrow> Inl EpochFailed
     | Some n \<Rightarrow> (case c1 of
         None \<Rightarrow> Inl NullChannel
       | Some c \<Rightarrow> Inr (Some (c, \<lparr>ev_epoch = n, ev_slices = slices\<rparr>)))))"

text \<open>\<open>publishRelayJob\<close>: the routing key and the channel's flow-control answer \<open>room\<close>.\<close>

definition publishRelayJob :: "nat option \<Rightarrow> bool \<Rightarrow> string option \<Rightarrow> bool \<times> string option" where
  "publishRelayJob c room recipientDomain = (case c of
     None \<Rightarrow> (False, None)
   | Some _ \<Rightarrow> (room, Some (case recipientDomain of None \<Rightarrow> [] | Some d \<Rightarrow> d)))"

section \<open>The invariant\<close>

text \<open>
  At every moment exactly one of these holds: a channel is up, the timer is armed, a dial is in
  flight. An armed timer waits for the backoff of the failures so far.
\<close>

definition bus_inv :: "bus \<Rightarrow> bool" where
  "bus_inv b \<longleftrightarrow>
     (case bus_chan b of
        Some g \<Rightarrow> bus_timer b = None \<and> bus_dialing b = [] \<and> bus_failures b = 0 \<and> g \<in> set (bus_conns b)
      | None \<Rightarrow> (bus_timer b = None \<and> length (bus_dialing b) = 1) \<or>
                (bus_timer b = Some (backoff (bus_failures b)) \<and> bus_dialing b = []))"

lemma bus_inv_init: "bus_inv bus_init"
  by (simp add: bus_inv_def bus_init_def dial_def)

lemma bus_inv_dial_ends:
  assumes "bus_inv b" "g \<in> set (bus_dialing b)"
  shows "bus_inv (dial_ends g e b)"
proof -
  from assms have "bus_chan b = None" "bus_timer b = None" "bus_dialing b = [g]"
    by (auto simp: bus_inv_def length_Suc_conv split: option.splits)
  then show ?thesis by (cases e) (simp_all add: bus_inv_def dial_ends_def scheduleReconnect_def)
qed

lemma bus_inv_timer: "bus_inv b \<Longrightarrow> bus_timer b \<noteq> None \<Longrightarrow> bus_inv (timer_fires b)"
  by (auto simp: bus_inv_def timer_fires_def dial_def split: option.splits)

lemma bus_inv_lost: "bus_inv b \<Longrightarrow> bus_inv (onLost g b)"
  by (auto simp: bus_inv_def onLost_def scheduleReconnect_def split: option.splits)

lemma bus_inv_step: "bus_inv b \<Longrightarrow> bus_step b c \<Longrightarrow> bus_inv c"
  by (elim bus_stepE) (auto intro: bus_inv_dial_ends bus_inv_timer bus_inv_lost)

interpretation bus: machine_invariant "\<lambda>b. b = bus_init" bus_step bus_inv
  by unfold_locales (auto intro: bus_inv_init bus_inv_step)

lemma backoff_bounds: "1000 \<le> backoff n \<and> backoff n \<le> 30000"
  by (simp add: backoff_def)

section \<open>Properties\<close>

text \<open>
  C15: the client never gives up and never dials twice. In every reachable state exactly one of
  three things is true: it has a channel (whose connection is open), one reconnect timer is
  armed, or one dial is in flight; an armed timer waits between one and thirty seconds.
\<close>
theorem bus_single_attempt:
  assumes "reach (\<lambda>b. b = bus_init) bus_step b"
  shows "of_bool (ready b) + of_bool (bus_timer b \<noteq> None) + length (bus_dialing b) = (1::nat) \<and>
     (\<forall>ms \<in> set_option (bus_timer b). 1000 \<le> ms \<and> ms \<le> 30000)"
  using bus.reach_inv [OF assms] backoff_bounds
  by (auto simp: bus_inv_def ready_def split: option.splits)

text \<open>A run as a list of inputs, to evaluate.\<close>

datatype bus_input = DialEnds nat dial_end | TimerFires | Lost nat

fun bus_run :: "bus_input list \<Rightarrow> bus \<Rightarrow> bus option" where
  "bus_run [] b = Some b"
| "bus_run (DialEnds g e # is) b = (if g \<in> set (bus_dialing b) then bus_run is (dial_ends g e b) else None)"
| "bus_run (TimerFires # is) b = (if bus_timer b \<noteq> None then bus_run is (timer_fires b) else None)"
| "bus_run (Lost g # is) b = bus_run is (onLost g b)"

lemma bus_run_steps: "bus_run is b = Some c \<Longrightarrow> bus_step\<^sup>*\<^sup>* b c"
  by (induction "is" b rule: bus_run.induct)
     (auto split: if_splits intro: bus_step.intros converse_rtranclp_into_rtranclp)

lemma steps_reach: "step\<^sup>*\<^sup>* s t \<Longrightarrow> reach init step s \<Longrightarrow> reach init step t"
  by (induction rule: rtranclp_induct) (auto intro: reach.intros)

lemma bus_run_reach: "bus_run is bus_init = Some c \<Longrightarrow> reach (\<lambda>b. b = bus_init) bus_step c"
  by (rule steps_reach [OF bus_run_steps]) (auto intro: reach_init)

lemmas bus_eval = bus_init_def dial_def dial_ends_def scheduleReconnect_def timer_fires_def onLost_def
  backoff_def ready_def Let_def

theorem bus_single_attempt_witness:
  "\<exists>b. bus_run [DialEnds 0 Connected, Lost 0, Lost 0, TimerFires, DialEnds 1 ConnectFails] bus_init = Some b \<and>
     bus_timer b = Some 2000 \<and> bus_dialing b = []"
proof -
  let ?i = "[DialEnds 0 Connected, Lost 0, Lost 0, TimerFires, DialEnds 1 ConnectFails]"
  have "map_option bus_timer (bus_run ?i bus_init) = Some (Some 2000)" by (simp add: bus_eval)
  then obtain b where b: "bus_run ?i bus_init = Some b" "bus_timer b = Some 2000" by auto
  from bus_single_attempt [OF bus_run_reach [OF b(1)]] b show ?thesis by simp
qed

text \<open>
  C39: recovery is always possible. From every reachable state without a channel, at most one
  expiry of the timer and one successful dial lead to a state with a channel, in
  which the failure count is back to zero.
\<close>
theorem bus_recovers:
  assumes "reach (\<lambda>b. b = bus_init) bus_step b" and "\<not> ready b"
  shows "\<exists>g. let b1 = (if bus_timer b \<noteq> None then timer_fires b else b); c = dial_ends g Connected b1 in
     bus_step\<^sup>*\<^sup>* b c \<and> ready c \<and> bus_failures c = 0 \<and> bus_timer c = None"
proof -
  define b1 where "b1 = (if bus_timer b \<noteq> None then timer_fires b else b)"
  have inv: "bus_inv b" by (rule bus.reach_inv [OF assms(1)])
  then have "bus_step\<^sup>*\<^sup>* b b1" by (auto simp: b1_def intro: step_timer)
  have inv1: "bus_inv b1" using inv by (simp add: b1_def bus_inv_timer)
  have "bus_chan b1 = None \<and> bus_timer b1 = None"
    using inv assms(2) by (auto simp: b1_def bus_inv_def ready_def timer_fires_def dial_def split: option.splits)
  with inv1 obtain g where g: "bus_dialing b1 = [g]"
    by (auto simp: bus_inv_def length_Suc_conv)
  let ?c = "dial_ends g Connected b1"
  have "bus_step b1 ?c" using g by (intro step_dial) simp
  with \<open>bus_step\<^sup>*\<^sup>* b b1\<close> have "bus_step\<^sup>*\<^sup>* b ?c" by simp
  moreover have "ready ?c \<and> bus_failures ?c = 0 \<and> bus_timer ?c = None"
    using \<open>bus_chan b1 = None \<and> bus_timer b1 = None\<close> by (simp add: dial_ends_def ready_def Let_def)
  ultimately have "let b1 = b1; c = dial_ends g Connected b1 in
     bus_step\<^sup>*\<^sup>* b c \<and> ready c \<and> bus_failures c = 0 \<and> bus_timer c = None" by (simp add: Let_def)
  then show ?thesis unfolding b1_def by blast
qed

theorem bus_recovers_witness:
  "\<exists>b c. bus_run [DialEnds 0 ChannelFails] bus_init = Some b \<and> \<not> ready b \<and> bus_step\<^sup>*\<^sup>* b c \<and> ready c"
proof -
  have "map_option ready (bus_run [DialEnds 0 ChannelFails] bus_init) = Some False" by (simp add: bus_eval)
  then obtain b where b: "bus_run [DialEnds 0 ChannelFails] bus_init = Some b" "\<not> ready b" by auto
  from bus_recovers [OF bus_run_reach [OF b(1)] b(2)] b show ?thesis by (auto simp: Let_def)
qed

text \<open>
  Two defects of the error paths: a dial that fails after the connection was opened leaves the
  connection open without owner, and a channel lost while the epoch is fetched makes the
  publisher raise instead of skipping.
\<close>

lemma bus_leak:
  "\<exists>b. bus_run [DialEnds 0 ChannelFails, TimerFires, DialEnds 1 ChannelFails] bus_init = Some b \<and>
     bus_chan b = None \<and> bus_conns b = [1, 0]"
proof -
  have "map_option (\<lambda>b. (bus_chan b, bus_conns b))
      (bus_run [DialEnds 0 ChannelFails, TimerFires, DialEnds 1 ChannelFails] bus_init) = Some (None, [1, 0])"
    by (simp add: bus_eval)
  then show ?thesis by auto
qed

lemma publish_null_channel: "publishConfigChanged (Some g) (Some n) None slices = Inl NullChannel"
  by (simp add: publishConfigChanged_def)

end
