(* ===== verification/Alerts.thy ===== *)
theory Alerts
  imports Values Fetch Grading Secrets Bus
begin

text \<open>
  Deliverability alerting (\<open>services/admin-api/src/alerts.ts\<close>): the edge-triggered, debounced
  transition detector, the contents of an alert, its delivery by webhook or through the relay,
  the dispatcher. The tables are those of migration 0015; \<open>up k\<close> says whether the \<open>k\<close>-th query of
  an operation succeeds.
\<close>

section \<open>Transitions\<close>

datatype event = Regression | Recovery

record alert_row =
  al_last_alerted_status :: status
  al_pending_status :: "status option"
  al_consecutive :: nat

type_synonym alert_table = "string \<rightharpoonup> alert_row"

definition DEBOUNCE :: nat where
  "DEBOUNCE = 2"

definition baseline :: "status \<Rightarrow> alert_row" where
  "baseline now = \<lparr>al_last_alerted_status = now, al_pending_status = None, al_consecutive = 0\<rparr>"

definition evalTransition ::
  "(nat \<Rightarrow> bool) \<Rightarrow> string \<Rightarrow> status \<Rightarrow> alert_table \<Rightarrow> alert_table \<times> (unit + (event \<times> status) option)" where
  "evalTransition up domain now tbl =
     (if \<not> up 0 then (tbl, Inl ())
      else (let write = (\<lambda>row r. if up 1 then (tbl(domain \<mapsto> row), Inr r) else (tbl, Inl ())) in
        case tbl domain of
          None \<Rightarrow> write (baseline now) None
        | Some st \<Rightarrow>
            if now = al_last_alerted_status st then
              write (st\<lparr>al_pending_status := None, al_consecutive := 0\<rparr>) None
            else (let consecutive = (if al_pending_status st = Some now then al_consecutive st + 1 else 1) in
              if consecutive < DEBOUNCE then
                write (st\<lparr>al_pending_status := Some now, al_consecutive := consecutive\<rparr>) None
              else write \<lparr>al_last_alerted_status = now, al_pending_status = None, al_consecutive = 0\<rparr>
                     (Some (if now = Ok then Recovery else Regression, al_last_alerted_status st)))))"

text \<open>The checks of one domain in a row, the database being up: the results in order.\<close>

primrec run_checks ::
  "string \<Rightarrow> status list \<Rightarrow> alert_table \<Rightarrow> alert_table \<times> (unit + (event \<times> status) option) list" where
  "run_checks d [] tbl = (tbl, [])"
| "run_checks d (x # xs) tbl =
     (case evalTransition (\<lambda>k. True) d x tbl of (tbl1, r) \<Rightarrow>
      case run_checks d xs tbl1 of (tbl2, rs) \<Rightarrow> (tbl2, r # rs))"

text \<open>The row invariant: a pending status differs from the alerted one and was seen once.\<close>

definition alert_ok :: "alert_row \<Rightarrow> bool" where
  "alert_ok r \<longleftrightarrow> (case al_pending_status r of
     None \<Rightarrow> al_consecutive r = 0
   | Some p \<Rightarrow> p \<noteq> al_last_alerted_status r \<and> 0 < al_consecutive r \<and> al_consecutive r < DEBOUNCE)"

inductive alert_step :: "alert_table \<Rightarrow> alert_table \<Rightarrow> bool" where
  alert_stepI: "evalTransition up d now tbl = (tbl', r) \<Longrightarrow> alert_step tbl tbl'"

inductive_cases alert_stepE: "alert_step t t'"

lemma evalTransition_table:
  assumes "evalTransition up d now tbl = (tbl', res)" and "\<And>st. tbl d = Some st \<Longrightarrow> alert_ok st"
  shows "tbl' = tbl \<or> (\<exists>row. tbl' = tbl(d \<mapsto> row) \<and> alert_ok row)"
proof (cases "tbl d")
  case None
  with assms(1) show ?thesis
    by (auto simp: evalTransition_def Let_def alert_ok_def baseline_def split: if_splits)
next
  case (Some st)
  have "alert_ok (st\<lparr>al_pending_status := None, al_consecutive := 0\<rparr>)" by (simp add: alert_ok_def)
  moreover have "now \<noteq> al_last_alerted_status st \<Longrightarrow> 0 < c \<Longrightarrow> c < DEBOUNCE \<Longrightarrow>
      alert_ok (st\<lparr>al_pending_status := Some now, al_consecutive := c\<rparr>)" for c
    by (simp add: alert_ok_def)
  moreover have "alert_ok \<lparr>al_last_alerted_status = now, al_pending_status = None, al_consecutive = 0\<rparr>"
    by (simp add: alert_ok_def)
  ultimately show ?thesis
    using assms(1) Some unfolding evalTransition_def Let_def
    by (simp split: if_splits) blast+
qed

lemma alert_ok_step:
  assumes "\<forall>r \<in> ran tbl. alert_ok r" and "evalTransition up d now tbl = (tbl', res)"
  shows "\<forall>r \<in> ran tbl'. alert_ok r"
proof -
  from evalTransition_table [OF assms(2)] assms(1)
  have "tbl' = tbl \<or> (\<exists>row. tbl' = tbl(d \<mapsto> row) \<and> alert_ok row)" by (blast intro: ranI)
  then show ?thesis using assms(1) by (auto simp: ran_def split: if_splits) blast
qed

interpretation alerts: machine_invariant "\<lambda>t. t = Map.empty" alert_step "\<lambda>t. \<forall>r \<in> ran t. alert_ok r"
  by unfold_locales (auto elim!: alert_stepE dest: alert_ok_step)

section \<open>What an alert says\<close>

primrec event_str :: "event \<Rightarrow> string" where
  "event_str Regression = ''regression''"
| "event_str Recovery = ''recovery''"

definition issue :: "RecordReport \<Rightarrow> bool" where
  "issue r \<longleftrightarrow> rr_status r = Warning \<or> rr_status r = Error"

definition json_opt :: "string option \<Rightarrow> json" where
  "json_opt s = (case s of None \<Rightarrow> JNull | Some t \<Rightarrow> JStr t)"

definition webhookPayload :: "event \<Rightarrow> DomainReport \<Rightarrow> status \<Rightarrow> json" where
  "webhookPayload event rep was = JObj
     [(''event'', JStr (''deliverability.'' @ event_str event)),
      (''schemaVersion'', JNum 1),
      (''domain'', JStr (dr_domain rep)),
      (''was'', JStr (status_str was)),
      (''now'', JStr (status_str (dr_status rep))),
      (''severity'', JStr (status_str (dr_status rep))),
      (''checkedAt'', JStr (dr_checkedAt rep)),
      (''issues'', JArr (map (\<lambda>r. JObj
         [(''record'', JStr (rtype_str (rr_record r))), (''status'', JStr (status_str (rr_status r))),
          (''detail'', JStr (rr_detail r)), (''fix'', json_opt (rr_fix r))])
        (filter issue (dr_records rep))))]"

definition up_char :: "char \<Rightarrow> char" where
  "up_char c = (if is_lower c then char_of (code_of c - 32) else c)"

definition issue_line :: "RecordReport \<Rightarrow> string" where
  "issue_line r = ''  '' @ bullet @ '' '' @ map up_char (rtype_str (rr_record r)) @
     '' ['' @ status_str (rr_status r) @ '']: '' @ rr_detail r @
     (if truthy (rr_fix r) then nl @ ''    fix: '' @ the (rr_fix r) else [])"

definition emailContent :: "event \<Rightarrow> DomainReport \<Rightarrow> status \<Rightarrow> string \<times> string" where
  "emailContent event rep was =
     (if event = Recovery then
        (''[NovaMail] '' @ dr_domain rep @ '' deliverability recovered'',
         ''Deliverability for '' @ dr_domain rep @ '' is healthy again (was '' @ status_str was @ '').'' @
           nl @ nl @ ''Checked at '' @ dr_checkedAt rep @ ''.'')
      else
        (let issues = js_join nl (map issue_line (filter issue (dr_records rep))) in
         (''[NovaMail] '' @ dr_domain rep @ '' deliverability '' @ status_str (dr_status rep) @
            '' (was '' @ status_str was @ '')'',
          ''Deliverability for '' @ dr_domain rep @ '' regressed: '' @ status_str was @ '' '' @ arrow @ '' '' @
            status_str (dr_status rep) @ ''.'' @ nl @ nl @ ''Issues:'' @ nl @ issues @ nl @ nl @
            ''Checked at '' @ dr_checkedAt rep @ ''.'')))"

section \<open>Delivery\<close>

record channel =
  ch_id :: string
  ch_name :: string
  ch_type :: string
  ch_target :: "string option"
  ch_secret :: "envelope option option"
  ch_min_severity :: string
  ch_enabled :: bool

text \<open>Severities; a string that is no key of the table has none.\<close>

definition SEVERITY :: "string \<Rightarrow> nat option" where
  "SEVERITY s = (if s = ''ok'' \<or> s = ''info'' then Some 0 else if s = ''warning'' then Some 1
     else if s = ''error'' then Some 2 else None)"

definition or_default :: "nat option \<Rightarrow> nat \<Rightarrow> nat" where
  "or_default v d = (case v of None \<Rightarrow> d | Some n \<Rightarrow> n)"

definition shouldSend :: "channel \<Rightarrow> event \<Rightarrow> status \<Rightarrow> bool" where
  "shouldSend ch event st =
     (if event = Recovery then True
      else or_default (SEVERITY (status_str st)) 0 \<ge> or_default (SEVERITY (ch_min_severity ch)) 1)"

text \<open>
  The environment of a delivery: the database, the bus, the clock, the DNS and HTTP clients,
  the master key. \<open>ae_err\<close> is the message of a rejected operation.
\<close>

record alert_env =
  ae_from :: "string option option"
  ae_body_up :: bool
  ae_message_up :: bool
  ae_chan :: "nat option"
  ae_room :: bool
  ae_date :: string
  ae_parseURL :: "string \<Rightarrow> url option"
  ae_lookup :: "string \<Rightarrow> string list option"
  ae_post :: "string \<Rightarrow> (bool \<times> nat) option"
  ae_decrypt :: "envelope option \<Rightarrow> secret_error + string"
  ae_err :: string

record relay_job =
  job_messageId :: string
  job_bodyKey :: string
  job_mailFrom :: string
  job_rcptTo :: "string list"
  job_recipientDomain :: string
  job_senderDomain :: string
  job_attempt :: nat

datatype effect =
    StoreBody string string
  | StoreMessage string string "string list" string nat
  | Relay relay_job
  | Post string json

definition has_crlf :: "string \<Rightarrow> bool" where
  "has_crlf s \<longleftrightarrow> CHR 0x0D \<in> set s \<or> CHR 0x0A \<in> set s"

text \<open>\<open>(s.split("@")[1] ?? "").toLowerCase()\<close>.\<close>

definition domain_part :: "string \<Rightarrow> string" where
  "domain_part s = js_lower (case js_split CHR ''@'' s of _ # d # _ \<Rightarrow> d | _ \<Rightarrow> [])"

definition email_body :: "string \<Rightarrow> string list \<Rightarrow> string \<Rightarrow> string \<Rightarrow> string \<Rightarrow> string \<Rightarrow> string" where
  "email_body from to subject date mid text =
     ''From: NovaMail Alerts <'' @ from @ ''>'' @ crlf @
     ''To: '' @ js_join '', '' to @ crlf @
     ''Subject: '' @ subject @ crlf @
     ''Date: '' @ date @ crlf @
     ''Message-ID: <'' @ mid @ ''@novamail>'' @ crlf @
     ''Content-Type: text/plain; charset=utf-8'' @ crlf @
     crlf @ text @ crlf"

definition alertFrom :: "alert_env \<Rightarrow> string option" where
  "alertFrom E = (case ae_from E of
     None \<Rightarrow> None
   | Some v \<Rightarrow> Some (js_trim (case v of None \<Rightarrow> [] | Some s \<Rightarrow> s)))"

definition injectEmail ::
  "alert_env \<Rightarrow> string \<Rightarrow> string list \<Rightarrow> string \<Rightarrow> string \<Rightarrow> effect list \<times> bool \<times> string" where
  "injectEmail E mid to subject text =
     (if to = [] then ([], False, ''no recipient'')
      else (case alertFrom E of
        None \<Rightarrow> ([], False, ae_err E)
      | Some from \<Rightarrow>
          if from = [] then ([], False, ''alert sender not configured (set it in Settings)'')
          else if has_crlf from \<or> list_ex has_crlf to then
            ([], False, ''sender or recipient contains illegal characters'')
          else (let body = email_body from to subject (ae_date E) mid text;
                    job = \<lparr>job_messageId = mid, job_bodyKey = mid, job_mailFrom = from, job_rcptTo = to,
                           job_recipientDomain = domain_part (hd to), job_senderDomain = domain_part from,
                           job_attempt = 0\<rparr> in
            if \<not> ae_body_up E then ([], False, ae_err E)
            else if \<not> ae_message_up E then ([StoreBody mid body], False, ae_err E)
            else (let stored = [StoreBody mid body, StoreMessage mid from to subject (length body)] in
              case publishRelayJob (ae_chan E) (ae_room E) (Some (job_recipientDomain job)) of
                (ok, key) \<Rightarrow>
                  (stored @ (if key = None then [] else [Relay job]), ok,
                   if ok then ''queued via relay'' else ''bus not connected'')))))"

definition postWebhook :: "alert_env \<Rightarrow> string \<Rightarrow> json \<Rightarrow> effect list \<times> bool \<times> string" where
  "postWebhook E url body = (case ae_parseURL E url of
     None \<Rightarrow> ([], False, ''invalid URL'')
   | Some u \<Rightarrow>
       if url_protocol u \<noteq> ''https:'' \<and> url_protocol u \<noteq> ''http:'' then ([], False, ''URL must be http(s)'')
       else (case ae_lookup E (url_hostname u) of
         None \<Rightarrow> ([], False, ae_err E)
       | Some addrs \<Rightarrow>
           if addrs = [] \<or> list_ex alerts_isPrivateAddr addrs then
             ([], False, ''refusing internal/unresolvable host'')
           else (case ae_post E url of
             None \<Rightarrow> ([Post url body], False, ae_err E)
           | Some (ok, code) \<Rightarrow> ([Post url body], ok, ''HTTP '' @ nat_str code))))"

definition recipients :: "string \<Rightarrow> string list" where
  "recipients target = filter (\<lambda>s. s \<noteq> []) (map js_trim (js_split CHR '','' target))"

definition send ::
  "alert_env \<Rightarrow> string \<Rightarrow> channel \<Rightarrow> event \<Rightarrow> DomainReport \<Rightarrow> status \<Rightarrow> effect list \<times> bool \<times> string" where
  "send E mid ch event rep was =
     (if ch_type ch = ''email'' then
        (if \<not> truthy (ch_target ch) then ([], False, ''no recipient address'')
         else (case emailContent event rep was of (subject, text) \<Rightarrow>
           injectEmail E mid (recipients (the (ch_target ch))) subject text))
      else (case ch_secret ch of
        None \<Rightarrow> ([], False, ''no webhook URL'')
      | Some envelope \<Rightarrow> (case ae_decrypt E envelope of
          Inl _ \<Rightarrow> ([], False, ''webhook secret unreadable (corrupt or key mismatch)'')
        | Inr url \<Rightarrow> postWebhook E url (webhookPayload event rep was))))"

section \<open>The dispatcher\<close>

datatype log_entry = EvalFailed string | DispatchFailed string string string

text \<open>
  The environment may differ between deliveries: \<open>env ch d\<close> and \<open>ids ch d\<close> are those of channel
  \<open>ch\<close> for domain \<open>d\<close>; \<open>up d\<close> is the database during the evaluation of \<open>d\<close>.
\<close>

definition deliver ::
  "(string \<Rightarrow> string \<Rightarrow> alert_env) \<Rightarrow> (string \<Rightarrow> string \<Rightarrow> string) \<Rightarrow> event \<Rightarrow> DomainReport \<Rightarrow> status \<Rightarrow>
     channel \<Rightarrow> effect list \<times> log_entry list" where
  "deliver env ids event rep was ch =
     (if \<not> shouldSend ch event (dr_status rep) then ([], [])
      else (case send (env (ch_id ch) (dr_domain rep)) (ids (ch_id ch) (dr_domain rep)) ch event rep was of
        (effs, ok, detail) \<Rightarrow>
          (effs, if ok then [] else [DispatchFailed (ch_name ch) (dr_domain rep) detail])))"

primrec dispatch_loop ::
  "(string \<Rightarrow> string \<Rightarrow> alert_env) \<Rightarrow> (string \<Rightarrow> string \<Rightarrow> string) \<Rightarrow> (string \<Rightarrow> nat \<Rightarrow> bool) \<Rightarrow> channel list \<Rightarrow>
     DomainReport list \<Rightarrow> alert_table \<Rightarrow> alert_table \<times> effect list \<times> log_entry list" where
  "dispatch_loop env ids up channels [] tbl = (tbl, [], [])"
| "dispatch_loop env ids up channels (rep # reps) tbl =
     (case evalTransition (up (dr_domain rep)) (dr_domain rep) (dr_status rep) tbl of (tbl1, res) \<Rightarrow>
      let now = (case res of
            Inl _ \<Rightarrow> [([], [EvalFailed (dr_domain rep)])]
          | Inr None \<Rightarrow> []
          | Inr (Some (event, was)) \<Rightarrow> map (deliver env ids event rep was) channels) in
      case dispatch_loop env ids up channels reps tbl1 of (tbl2, effs, logs) \<Rightarrow>
        (tbl2, concat (map fst now) @ effs, concat (map snd now) @ logs))"

definition dispatchAlerts ::
  "(string \<Rightarrow> string \<Rightarrow> alert_env) \<Rightarrow> (string \<Rightarrow> string \<Rightarrow> string) \<Rightarrow> (string \<Rightarrow> nat \<Rightarrow> bool) \<Rightarrow>
     channel list option \<Rightarrow> DomainReport list \<Rightarrow> alert_table \<Rightarrow> alert_table \<times> effect list \<times> log_entry list" where
  "dispatchAlerts env ids up table reports tbl = (case table of
     None \<Rightarrow> (tbl, [], [])
   | Some rows \<Rightarrow>
       (let channels = filter ch_enabled rows in
        if channels = [] then (tbl, [], [])
        else dispatch_loop env ids up channels reports tbl))"

section \<open>When an alert fires\<close>

text \<open>
  The declarative reading: \<open>alerted_before\<close> is the status last alerted on before check \<open>i\<close>, the
  baseline if there was no alert yet.
\<close>

type_synonym verdict_res = "unit + (event \<times> status) option"

definition fired :: "verdict_res \<Rightarrow> bool" where
  "fired r \<longleftrightarrow> (\<exists>e. r = Inr (Some e))"

definition alerted_before :: "status \<Rightarrow> status list \<Rightarrow> verdict_res list \<Rightarrow> nat \<Rightarrow> status" where
  "alerted_before base xs es i =
     (let js = filter (\<lambda>j. fired (es ! j)) [0..<i] in if js = [] then base else xs ! last js)"

lemma run_checks_snoc:
  "run_checks d (xs @ [x]) tbl =
     (case run_checks d xs tbl of (tbl1, rs) \<Rightarrow>
      case evalTransition (\<lambda>k. True) d x tbl1 of (tbl2, r) \<Rightarrow> (tbl2, rs @ [r]))"
  by (induction xs arbitrary: tbl) (auto split: prod.splits)

lemma alerted_before_snoc:
  "length es = length xs \<Longrightarrow> i \<le> length xs \<Longrightarrow>
     alerted_before base (xs @ [x]) (es @ [e]) i = alerted_before base xs es i"
proof -
  assume len: "length es = length xs" "i \<le> length xs"
  have f: "filter (\<lambda>j. fired ((es @ [e]) ! j)) [0..<i] = filter (\<lambda>j. fired (es ! j)) [0..<i]"
    using len by (intro filter_cong) (auto simp: nth_append)
  have "js = filter (\<lambda>j. fired (es ! j)) [0..<i] \<Longrightarrow> js \<noteq> [] \<Longrightarrow> last js < length xs" for js
  proof -
    assume js: "js = filter (\<lambda>j. fired (es ! j)) [0..<i]" "js \<noteq> []"
    have "last js \<in> set js" using js(2) by (rule last_in_set)
    moreover have "set js \<subseteq> {..<i}" using js(1) by auto
    ultimately show "last js < length xs" using len(2) by fastforce
  qed
  then show ?thesis
    unfolding alerted_before_def f Let_def by (simp add: nth_append)
qed

lemma alerted_before_Suc:
  "alerted_before base xs es (Suc i) = (if fired (es ! i) then xs ! i else alerted_before base xs es i)"
  by (simp add: alerted_before_def Let_def)

text \<open>What the row of the domain says after the checks \<open>xs\<close> with results \<open>es\<close>.\<close>

definition row_after :: "status \<Rightarrow> status list \<Rightarrow> verdict_res list \<Rightarrow> alert_row" where
  "row_after base xs es =
     (let l = alerted_before base xs es (length xs);
          idle = (xs = [] \<or> last xs = l) in
      \<lparr>al_last_alerted_status = l, al_pending_status = (if idle then None else Some (last xs)),
       al_consecutive = (if idle then 0 else 1)\<rparr>)"

definition expected_result :: "status \<Rightarrow> status list \<Rightarrow> verdict_res list \<Rightarrow> nat \<Rightarrow> verdict_res" where
  "expected_result base xs es i = Inr
     (let l = alerted_before base xs es i in
      if 0 < i \<and> xs ! i = xs ! (i - 1) \<and> xs ! i \<noteq> l
      then Some (if xs ! i = Ok then Recovery else Regression, l) else None)"

lemma expected_result_snoc:
  "length es = length xs \<Longrightarrow> i < length xs \<Longrightarrow>
     expected_result base (xs @ [x]) (es @ [e]) i = expected_result base xs es i"
proof -
  assume len: "length es = length xs" "i < length xs"
  then have "(xs @ [x]) ! i = xs ! i" "(xs @ [x]) ! (i - 1) = xs ! (i - 1)"
    by (simp_all add: nth_append less_imp_diff_less)
  with len show ?thesis by (simp add: expected_result_def alerted_before_snoc)
qed

lemma evalTransition_new:
  "tbl d = Some st \<Longrightarrow> x \<noteq> al_last_alerted_status st \<Longrightarrow> al_pending_status st \<noteq> Some x \<Longrightarrow>
     evalTransition (\<lambda>k. True) d x tbl =
       (tbl(d \<mapsto> st\<lparr>al_pending_status := Some x, al_consecutive := 1\<rparr>), Inr None)"
  by (simp add: evalTransition_def DEBOUNCE_def Let_def)

lemma run_checks_expected:
  assumes "tbl d = Some (baseline base)" "run_checks d xs tbl = (tbl', es)"
  shows "length es = length xs \<and> tbl' d = Some (row_after base xs es) \<and>
     (\<forall>i < length xs. es ! i = expected_result base xs es i)"
  using assms(2)
proof (induction xs arbitrary: tbl' es rule: rev_induct)
  case Nil
  with assms(1) show ?case by (simp add: row_after_def alerted_before_def baseline_def)
next
  case (snoc x xs)
  obtain tbl1 rs where run: "run_checks d xs tbl = (tbl1, rs)" by (cases "run_checks d xs tbl")
  obtain r where ev: "evalTransition (\<lambda>k. True) d x tbl1 = (tbl', r)" and es: "es = rs @ [r]"
    using snoc.prems run by (auto simp: run_checks_snoc split: prod.splits)
  note IH = snoc.IH [OF run]
  let ?l = "alerted_before base xs rs (length xs)"
  have l: "alerted_before base (xs @ [x]) es (length xs) = ?l"
    using IH by (simp add: es alerted_before_snoc)
  have prev: "0 < length xs \<Longrightarrow> (xs @ [x]) ! (length xs - 1) = last xs"
    by (simp add: nth_append last_conv_nth)
  have r: "r = expected_result base (xs @ [x]) es (length xs) \<and> tbl' d = Some (row_after base (xs @ [x]) es)"
  proof -
    have "es ! length xs = r" using IH by (simp add: es nth_append)
    then have l': "alerted_before base (xs @ [x]) es (Suc (length xs)) = (if fired r then x else ?l)"
      by (simp add: alerted_before_Suc l)
    consider "x = ?l" | "x \<noteq> ?l" "xs \<noteq> []" "last xs = x" | "x \<noteq> ?l" "xs = [] \<or> last xs \<noteq> x" by blast
    then show ?thesis
    proof cases
      case 1
      with ev IH have "r = Inr None \<and> tbl' d = Some (baseline ?l)"
        by (auto simp: evalTransition_def row_after_def baseline_def Let_def)
      with 1 l l' show ?thesis
        by (simp add: expected_result_def row_after_def baseline_def fired_def Let_def)
    next
      case 2
      with ev IH have "r = Inr (Some (if x = Ok then Recovery else Regression, ?l)) \<and> tbl' d = Some (baseline x)"
        by (auto simp: evalTransition_def row_after_def baseline_def DEBOUNCE_def Let_def)
      with 2 l' prev show ?thesis
        by (simp add: expected_result_def l row_after_def baseline_def fired_def Let_def)
    next
      case 3
      have "evalTransition (\<lambda>k. True) d x tbl1 = (tbl1(d \<mapsto> (row_after base xs rs)
          \<lparr>al_pending_status := Some x, al_consecutive := 1\<rparr>), Inr None)"
        using 3 IH by (intro evalTransition_new) (auto simp: row_after_def Let_def)
      with ev have "r = Inr None \<and> tbl' d = Some \<lparr>al_last_alerted_status = ?l,
          al_pending_status = Some x, al_consecutive = 1\<rparr>"
        by (auto simp: row_after_def Let_def)
      with 3 l' prev show ?thesis
        by (auto simp: expected_result_def l row_after_def fired_def Let_def)
    qed
  qed
  have "es ! i = expected_result base (xs @ [x]) es i" if "i < Suc (length xs)" for i
  proof (cases "i = length xs")
    case True
    with r IH show ?thesis by (simp add: es nth_append)
  next
    case False
    with that have "i < length xs" by simp
    with IH show ?thesis by (simp add: es nth_append expected_result_snoc)
  qed
  with IH r show ?case by (simp add: es)
qed

lemma run_checks_snd:
  "evalTransition (\<lambda>k. True) d x tbl = (tbl1, r) \<Longrightarrow>
     snd (run_checks d (x # xs) tbl) = r # snd (run_checks d xs tbl1)"
  by (simp split: prod.splits)

lemma run_checks_settled:
  "tbl d = Some (baseline s) \<Longrightarrow>
     snd (run_checks d (replicate n s) tbl) = replicate n (Inr None)"
proof (induction n arbitrary: tbl)
  case (Suc n)
  obtain tbl1 where "evalTransition (\<lambda>k. True) d s tbl = (tbl1, Inr None)" "tbl1 d = Some (baseline s)"
    using Suc.prems by (simp add: evalTransition_def baseline_def Let_def)
  with Suc.IH [of tbl1] run_checks_snd [of d s tbl tbl1] show ?case
    by (simp del: run_checks.simps)
qed simp



text \<open>
  A lasting change is reported exactly once, at its second check, however long it lasts.
\<close>
theorem alert_lasting_change:
  assumes "tbl d = Some (baseline base)" and "s \<noteq> base"
  shows "snd (run_checks d (replicate (n + 2) s) tbl) =
     [Inr None, Inr (Some (if s = Ok then Recovery else Regression, base))] @ replicate n (Inr None)"
proof -
  define t1 where "t1 = tbl(d \<mapsto> \<lparr>al_last_alerted_status = base, al_pending_status = Some s, al_consecutive = 1\<rparr>)"
  define t2 where "t2 = t1(d \<mapsto> baseline s)"
  have "evalTransition (\<lambda>k. True) d s tbl = (t1, Inr None)"
    "evalTransition (\<lambda>k. True) d s t1 = (t2, Inr (Some (if s = Ok then Recovery else Regression, base)))"
    using assms by (simp_all add: evalTransition_def baseline_def DEBOUNCE_def t1_def t2_def Let_def)
  moreover have "snd (run_checks d (replicate n s) t2) = replicate n (Inr None)"
    by (rule run_checks_settled) (simp add: t2_def)
  moreover have "replicate (n + 2) s = s # s # replicate n s" by simp
  ultimately show ?thesis by (simp only: run_checks_snd append_Cons append_Nil)
qed

theorem alert_lasting_change_witness:
  "snd (run_checks ''a.io'' (replicate (3 + 2) Warning) [''a.io'' \<mapsto> baseline Ok]) =
     [Inr None, Inr (Some (Regression, Ok))] @ replicate 3 (Inr None)"
proof -
  have w: "Warning \<noteq> Ok" by simp
  have "[''a.io'' \<mapsto> baseline Ok] ''a.io'' = Some (baseline Ok)" by simp
  from alert_lasting_change [where tbl = "[''a.io'' \<mapsto> baseline Ok]" and s = Warning and n = 3, OF this w]
  show ?thesis by simp
qed

text \<open>
  The debounce state is always well formed. Whatever sequence of checks of whatever domains
  and of query failures, a pending status is never the alerted one and has been seen at least
  once and fewer times than the debounce.
\<close>
theorem alert_state_invariant:
  assumes "reach (\<lambda>t. t = Map.empty) alert_step tbl" and "tbl d = Some row"
  shows "alert_ok row"
  using alerts.reach_inv [OF assms(1)] assms(2) by (auto simp: ran_def)

theorem alert_state_invariant_witness:
  "\<exists>tbl row. reach (\<lambda>t. t = Map.empty) alert_step tbl \<and> tbl ''a.io'' = Some row \<and>
     al_pending_status row = Some Error \<and> alert_ok row"
proof -
  define t1 where "t1 = fst (evalTransition (\<lambda>k. True) ''a.io'' Ok Map.empty)"
  define t2 where "t2 = fst (evalTransition (\<lambda>k. True) ''a.io'' Error t1)"
  have "alert_step Map.empty t1" unfolding t1_def by (rule alert_stepI) (rule prod.collapse [symmetric])
  moreover have "alert_step t1 t2" unfolding t2_def by (rule alert_stepI) (rule prod.collapse [symmetric])
  ultimately have r: "reach (\<lambda>t. t = Map.empty) alert_step t2"
    using reach_init [of "\<lambda>t. t = Map.empty" Map.empty alert_step] by (blast intro: reach_step)
  obtain row where row: "t2 ''a.io'' = Some row" "al_pending_status row = Some Error"
    by (simp add: t1_def t2_def evalTransition_def baseline_def DEBOUNCE_def Let_def)
  from alert_state_invariant [OF r row(1)] r row show ?thesis by blast
qed

text \<open>
  The severity filter of a channel is the order of severities: a channel with minimum
  \<open>m\<close> is told of every recovery, and of a regression exactly when the new status is at least \<open>m\<close>.
\<close>
theorem shouldSend_order:
  assumes "ch_min_severity ch = status_str m" and "m \<in> {Warning, Error}"
  shows "shouldSend ch event st \<longleftrightarrow> event = Recovery \<or> m \<le> st"
  using assms by (cases st) (auto simp: shouldSend_def SEVERITY_def or_default_def status_order)

definition sample_channel :: channel where
  "sample_channel = \<lparr>ch_id = ''c1'', ch_name = ''ops'', ch_type = ''email'', ch_target = Some '' ops@x.io , sre@x.io'',
     ch_secret = None, ch_min_severity = ''error'', ch_enabled = True\<rparr>"

theorem shouldSend_order_witness:
  "\<not> shouldSend sample_channel Regression Warning \<and> shouldSend sample_channel Regression Error"
proof -
  have "ch_min_severity sample_channel = status_str Error" "Error \<in> {Warning, Error}"
    by (simp_all add: sample_channel_def)
  note shouldSend_order [OF this]
  then show ?thesis by (simp add: status_order)
qed

section \<open>Headers of an alert mail\<close>

fun split_crlf :: "string \<Rightarrow> string list" where
  "split_crlf [] = [[]]"
| "split_crlf [c] = [[c]]"
| "split_crlf (c # d # s) =
     (if c = CHR 0x0D \<and> d = CHR 0x0A then [] # split_crlf s
      else (case split_crlf (d # s) of [] \<Rightarrow> [[c]] | h # t \<Rightarrow> (c # h) # t))"

definition header_lines :: "string \<Rightarrow> string list" where
  "header_lines body = takeWhile (\<lambda>l. l \<noteq> []) (split_crlf body)"

lemma split_crlf_line: "CHR 0x0D \<notin> set a \<Longrightarrow> split_crlf (a @ crlf @ b) = a # split_crlf b"
proof (induction a)
  case (Cons c a)
  then have IH: "split_crlf (a @ crlf @ b) = a # split_crlf b" by simp
  obtain d s where ds: "a @ crlf @ b = d # s" by (cases a) (auto simp: crlf_def)
  have "split_crlf (c # d # s) = (case split_crlf (d # s) of [] \<Rightarrow> [[c]] | h # t \<Rightarrow> (c # h) # t)"
    using Cons.prems by auto
  with IH ds show ?case by simp
qed (simp add: crlf_def)

lemma set_js_join: "set (js_join sep xs) \<subseteq> set sep \<union> (\<Union>x \<in> set xs. set x)"
  by (induction sep xs rule: js_join.induct) auto

lemma injectEmail_stored:
  assumes "injectEmail E mid to subject text = (effs, ok, detail)" and "StoreBody k body \<in> set effs"
  obtains "from" where "alertFrom E = Some from" "\<not> has_crlf from" "\<not> list_ex has_crlf to" "k = mid"
    "body = email_body from to subject (ae_date E) mid text"
  using assms by (auto simp: injectEmail_def Let_def split: option.splits if_splits prod.splits)

text \<open>
  C33: an alert mail cannot be given extra headers through the configured addresses. Every mail
  that is stored for delivery has exactly the six header lines the code writes, whatever the
  sender setting and the recipients are, provided the subject, the date and the message id
  contain no carriage return.
\<close>
theorem injectEmail_headers:
  assumes "injectEmail E mid to subject text = (effs, ok, detail)" and "StoreBody k body \<in> set effs"
    and "CHR 0x0D \<notin> set subject" and "CHR 0x0D \<notin> set (ae_date E)" and "CHR 0x0D \<notin> set mid"
  shows "\<exists>from. alertFrom E = Some from \<and> header_lines body =
     [''From: NovaMail Alerts <'' @ from @ ''>'', ''To: '' @ js_join '', '' to, ''Subject: '' @ subject,
      ''Date: '' @ ae_date E, ''Message-ID: <'' @ mid @ ''@novamail>'', ''Content-Type: text/plain; charset=utf-8'']"
proof -
  obtain "from" where fr: "alertFrom E = Some from" "\<not> has_crlf from" "\<not> list_ex has_crlf to"
    and body: "body = email_body from to subject (ae_date E) mid text"
    using assms(1,2) by (rule injectEmail_stored)
  have "CHR 0x0D \<notin> set (js_join '', '' to)"
    using fr(3) set_js_join [of "'', ''" to] by (auto simp: list_ex_iff has_crlf_def)
  then have lines: "CHR 0x0D \<notin> set (''From: NovaMail Alerts <'' @ from @ ''>'')"
    "CHR 0x0D \<notin> set (''To: '' @ js_join '', '' to)" "CHR 0x0D \<notin> set (''Subject: '' @ subject)"
    "CHR 0x0D \<notin> set (''Date: '' @ ae_date E)" "CHR 0x0D \<notin> set (''Message-ID: <'' @ mid @ ''@novamail>'')"
    "CHR 0x0D \<notin> set ''Content-Type: text/plain; charset=utf-8''" "CHR 0x0D \<notin> set ([] :: string)"
    using assms(3-5) fr(2) by (simp_all add: has_crlf_def)
  have "body = (''From: NovaMail Alerts <'' @ from @ ''>'') @ crlf @ (''To: '' @ js_join '', '' to) @ crlf @
      (''Subject: '' @ subject) @ crlf @ (''Date: '' @ ae_date E) @ crlf @
      (''Message-ID: <'' @ mid @ ''@novamail>'') @ crlf @ ''Content-Type: text/plain; charset=utf-8'' @ crlf @
      ([] :: string) @ crlf @ text @ crlf"
    by (simp add: body email_body_def)
  then have "header_lines body = takeWhile (\<lambda>l. l \<noteq> [])
     [''From: NovaMail Alerts <'' @ from @ ''>'', ''To: '' @ js_join '', '' to, ''Subject: '' @ subject,
      ''Date: '' @ ae_date E, ''Message-ID: <'' @ mid @ ''@novamail>'',
      ''Content-Type: text/plain; charset=utf-8'']"
    using split_crlf_line [OF lines(1)] split_crlf_line [OF lines(2)] split_crlf_line [OF lines(3)]
      split_crlf_line [OF lines(4)] split_crlf_line [OF lines(5)] split_crlf_line [OF lines(6)]
      split_crlf_line [OF lines(7)]
    by (simp only: header_lines_def) simp
  then show ?thesis using fr(1) by auto
qed

definition sample_env :: "string \<Rightarrow> alert_env" where
  "sample_env from =
     \<lparr>ae_from = Some (Some from), ae_body_up = True, ae_message_up = True, ae_chan = Some 1, ae_room = True,
      ae_date = ''Thu, 01 Jan 2026 00:00:00 GMT'',
      ae_parseURL = (\<lambda>s. Some \<lparr>url_protocol = ''https:'', url_hostname = s\<rparr>),
      ae_lookup = (\<lambda>h. Some [if h = ''intra'' then ''10.0.0.7'' else ''93.184.216.34'']),
      ae_post = (\<lambda>s. Some (True, 200)), ae_decrypt = (\<lambda>e. Inr (case e of None \<Rightarrow> ''intra'' | Some _ \<Rightarrow> ''hooks.io'')),
      ae_err = ''err''\<rparr>"

theorem injectEmail_headers_witness:
  "\<exists>effs ok detail body. injectEmail (sample_env '' nm@a.io '') ''m1'' [''ops@x.io''] ''down'' ''text'' = (effs, ok, detail) \<and>
     StoreBody ''m1'' body \<in> set effs \<and> length (header_lines body) = 6"
proof -
  let ?E = "sample_env '' nm@a.io ''"
  let ?i = "injectEmail ?E ''m1'' [''ops@x.io''] ''down'' ''text''"
  obtain effs ok detail where i: "?i = (effs, ok, detail)" by (cases ?i)
  have tr: "js_trim '' nm@a.io '' = ''nm@a.io''" "has_crlf ''nm@a.io'' = False" "has_crlf ''ops@x.io'' = False"
    by code_simp+
  have "\<exists>body. StoreBody ''m1'' body \<in> set (fst ?i)"
    by (simp add: injectEmail_def alertFrom_def sample_env_def tr Let_def split: prod.splits)
  with i obtain body where b: "StoreBody ''m1'' body \<in> set effs" by auto
  have "CHR 0x0D \<notin> set ''down''" "CHR 0x0D \<notin> set (ae_date ?E)" "CHR 0x0D \<notin> set ''m1''"
    by (simp_all add: sample_env_def)
  from injectEmail_headers [OF i b this] i b show ?thesis by auto
qed

text \<open>The subject is not checked: a domain name with a line break adds a header.\<close>

lemma subject_injection:
  "header_lines (email_body ''nm@a.io'' [''ops@x.io'']
     (fst (emailContent Recovery \<lparr>dr_domain = ''a.io'' @ crlf @ ''Bcc: x@evil.io'' @ crlf @ ''X:'', dr_checkedAt = [],
        dr_status = Ok, dr_records = []\<rparr> Error)) ''now'' ''m1'' ''text'') ! 3 = ''Bcc: x@evil.io''"
  by (simp add: email_body_def emailContent_def crlf_def header_lines_def)

section \<open>Safety of the webhook client\<close>

text \<open>What has to hold of a URL before a request goes to it.\<close>

definition post_allowed :: "alert_env \<Rightarrow> string \<Rightarrow> bool" where
  "post_allowed E url \<longleftrightarrow> (\<exists>u addrs. ae_parseURL E url = Some u \<and> url_protocol u \<in> {''https:'', ''http:''} \<and>
     ae_lookup E (url_hostname u) = Some addrs \<and> addrs \<noteq> [] \<and> (\<nexists>a. a \<in> set addrs \<and> alerts_isPrivateAddr a))"

lemma postWebhook_allowed: "postWebhook E url body = (effs, r) \<Longrightarrow> Post v j \<in> set effs \<Longrightarrow> post_allowed E v"
  by (auto simp: postWebhook_def post_allowed_def list_ex_iff split: option.splits if_splits)

lemma send_allowed: "send E mid ch ev rep was = (effs, r) \<Longrightarrow> Post v j \<in> set effs \<Longrightarrow> post_allowed E v"
proof -
  have "injectEmail E mid rcpts subj cont = (effs, r) \<Longrightarrow> Post v j \<notin> set effs" for rcpts subj cont
    by (cases r) (auto simp: injectEmail_def Let_def split: option.splits if_splits prod.splits)
  then show "send E mid ch ev rep was = (effs, r) \<Longrightarrow> Post v j \<in> set effs \<Longrightarrow> post_allowed E v"
    using postWebhook_allowed
    by (auto simp: send_def split: option.splits if_splits prod.splits sum.splits)
qed

lemma deliver_allowed:
  "Post v j \<in> set (fst (deliver env ids ev rep was ch)) \<Longrightarrow> post_allowed (env (ch_id ch) (dr_domain rep)) v"
  by (auto simp: deliver_def split: if_splits prod.splits dest: send_allowed)

lemma dispatch_loop_allowed:
  "dispatch_loop env ids up chs reps tbl = (tbl', effs, logs) \<Longrightarrow> Post v j \<in> set effs \<Longrightarrow>
     \<exists>ch \<in> set chs. \<exists>rep \<in> set reps. post_allowed (env (ch_id ch) (dr_domain rep)) v"
proof (induction reps arbitrary: tbl tbl' effs logs)
  case (Cons rep reps)
  obtain tbl1 res where ev: "evalTransition (up (dr_domain rep)) (dr_domain rep) (dr_status rep) tbl = (tbl1, res)"
    by (cases "evalTransition (up (dr_domain rep)) (dr_domain rep) (dr_status rep) tbl")
  obtain t2 effs2 logs2 where rec: "dispatch_loop env ids up chs reps tbl1 = (t2, effs2, logs2)"
    by (cases "dispatch_loop env ids up chs reps tbl1") auto
  from Cons.prems(1) ev rec have "effs = concat (map fst (case res of
            Inl _ \<Rightarrow> [([], [EvalFailed (dr_domain rep)])]
          | Inr None \<Rightarrow> []
          | Inr (Some (event, was)) \<Rightarrow> map (deliver env ids event rep was) chs)) @ effs2"
    by (simp add: Let_def)
  with Cons.prems(2) consider "Post v j \<in> set effs2" |
    event was ch where "ch \<in> set chs" "Post v j \<in> set (fst (deliver env ids event rep was ch))"
    by (auto split: sum.splits option.splits) (metis fst_conv)
  then show ?case
  proof cases
    case 1
    from Cons.IH [OF rec 1] show ?thesis by auto
  next
    case 2
    from deliver_allowed [OF 2(2)] 2(1) show ?thesis by auto
  qed
qed simp


definition sample_hook :: "envelope option \<Rightarrow> channel" where
  "sample_hook e = \<lparr>ch_id = ''c2'', ch_name = ''hook'', ch_type = ''webhook'', ch_target = None,
     ch_secret = Some e, ch_min_severity = ''warning'', ch_enabled = True\<rparr>"


section \<open>Isolation of the dispatcher\<close>

lemma evalTransition_other: "e \<noteq> d \<Longrightarrow> fst (evalTransition up d now tbl) e = tbl e"
  by (auto simp: evalTransition_def Let_def split: option.splits)

lemma evalTransition_local:
  "tbl d = tbl' d \<Longrightarrow> fst (evalTransition up d now tbl) d = fst (evalTransition up d now tbl') d \<and>
     snd (evalTransition up d now tbl) = snd (evalTransition up d now tbl')"
  by (auto simp: evalTransition_def Let_def split: option.splits)

lemma dispatch_loop_table:
  "distinct (map dr_domain reps) \<Longrightarrow> fst (dispatch_loop env ids up chs reps tbl) d =
     (case find (\<lambda>r. dr_domain r = d) reps of
        Some r \<Rightarrow> fst (evalTransition (up d) d (dr_status r) tbl) d | None \<Rightarrow> tbl d)"
proof (induction reps arbitrary: tbl)
  case (Cons r reps)
  obtain tbl1 res where ev: "evalTransition (up (dr_domain r)) (dr_domain r) (dr_status r) tbl = (tbl1, res)"
    by (cases "evalTransition (up (dr_domain r)) (dr_domain r) (dr_status r) tbl")
  have fst: "fst (dispatch_loop env ids up chs (r # reps) tbl) = fst (dispatch_loop env ids up chs reps tbl1)"
    by (simp add: ev Let_def split: prod.splits)
  show ?case
  proof (cases "dr_domain r = d")
    case True
    then have "find (\<lambda>r. dr_domain r = d) reps = None"
      unfolding find_None_iff using Cons.prems by (auto simp: image_iff)
    with True Cons.IH [of tbl1] Cons.prems ev show ?thesis unfolding fst by simp
  next
    case False
    with ev evalTransition_other [of d "dr_domain r" "up (dr_domain r)" "dr_status r" tbl]
    have "tbl1 d = tbl d" by simp
    with False Cons.IH [of tbl1] Cons.prems evalTransition_local [of tbl1 d tbl] show ?thesis
      unfolding fst by (simp split: option.splits)
  qed
qed simp

lemma dispatchAlerts_table:
  assumes "dispatchAlerts env ids up (Some rows) reports tbl = (tbl', effs, logs)"
    and "distinct (map dr_domain reports)" and "list_ex ch_enabled rows"
  shows "tbl' d = (case find (\<lambda>r. dr_domain r = d) reports of
     Some r \<Rightarrow> fst (evalTransition (up d) d (dr_status r) tbl) d | None \<Rightarrow> tbl d)"
proof -
  have "filter ch_enabled rows \<noteq> []" using assms(3) by (auto simp: list_ex_iff filter_empty_conv)
  with assms(1) have "tbl' = fst (dispatch_loop env ids up (filter ch_enabled rows) reports tbl)"
    by (simp add: dispatchAlerts_def Let_def)
  then show ?thesis using dispatch_loop_table [OF assms(2)] by simp
qed

text \<open>
  The dispatcher evaluates every report once and keeps the domains apart. With a channel
  enabled, the alert state of each domain afterwards is that of its own evaluation alone:
  failing queries and failing deliveries for other domains do not affect it.
\<close>
theorem dispatch_isolated:
  assumes "dispatchAlerts env ids up (Some rows) reports tbl = (tbl', effs, logs)"
    and "distinct (map dr_domain reports)" and "list_ex ch_enabled rows"
  shows "tbl' d = (case find (\<lambda>r. dr_domain r = d) reports of
     Some r \<Rightarrow> fst (evalTransition (up d) d (dr_status r) tbl) d | None \<Rightarrow> tbl d)"
  using dispatchAlerts_table [OF assms] .

theorem dispatch_isolated_witness:
  "\<exists>tbl' effs logs. dispatchAlerts (\<lambda>c d. sample_env []) (\<lambda>c d. ''m'') (\<lambda>d k. d \<noteq> ''b.io'')
       (Some [sample_channel])
       [\<lparr>dr_domain = ''b.io'', dr_checkedAt = ''t'', dr_status = Error, dr_records = []\<rparr>,
        \<lparr>dr_domain = ''a.io'', dr_checkedAt = ''t'', dr_status = Ok, dr_records = []\<rparr>] Map.empty =
       (tbl', effs, logs) \<and> tbl' ''a.io'' = Some (baseline Ok) \<and> tbl' ''b.io'' = None"
proof -
  let ?reps = "[\<lparr>dr_domain = ''b.io'', dr_checkedAt = ''t'', dr_status = Error, dr_records = []\<rparr>,
        \<lparr>dr_domain = ''a.io'', dr_checkedAt = ''t'', dr_status = Ok, dr_records = []\<rparr>]"
  let ?d = "dispatchAlerts (\<lambda>c d. sample_env []) (\<lambda>c d. ''m'') (\<lambda>d k. d \<noteq> ''b.io'') (Some [sample_channel]) ?reps Map.empty"
  obtain tbl' effs logs where d: "?d = (tbl', effs, logs)" by (cases ?d)
  have "distinct (map dr_domain ?reps)" "list_ex ch_enabled [sample_channel]"
    by (simp_all add: sample_channel_def)
  note iso = dispatch_isolated [OF d this]
  from iso [of "''a.io''"] iso [of "''b.io''"] d show ?thesis
    by (auto simp: evalTransition_def Let_def)
qed

text \<open>A domain that improves from error to warning raises a regression.\<close>

lemma improvement_is_regression:
  "snd (evalTransition (\<lambda>k. True) d Warning
      [d \<mapsto> \<lparr>al_last_alerted_status = Error, al_pending_status = Some Warning, al_consecutive = 1\<rparr>]) =
   Inr (Some (Regression, Error))"
  by (simp add: evalTransition_def DEBOUNCE_def Let_def)

end
