(* ===== verification/AlertChannels.thy ===== *)
theory AlertChannels
  imports Alerts
begin

text \<open>
  The alert channels of \<open>alerts.ts\<close>: URL validation, the CRUD handlers of \<open>registerAlerts\<close> and
  the test alert. A handler maps the request body and the table to the table and the status
  code. A body field that is absent is \<open>None\<close>.
\<close>

record channel_body =
  cb_name :: "string option"
  cb_type :: "string option"
  cb_url :: "string option"
  cb_target :: "string option"
  cb_min_severity :: "string option"
  cb_enabled :: "bool option"

definition validWebhookURL :: "(string \<Rightarrow> url option) \<Rightarrow> string \<Rightarrow> bool" where
  "validWebhookURL parse url = (case parse url of
     None \<Rightarrow> False
   | Some u \<Rightarrow> (url_protocol u = ''https:'' \<or> url_protocol u = ''http:'') \<and> url_hostname u \<noteq> [])"

definition severity_of :: "string option \<Rightarrow> string" where
  "severity_of s = (if s = Some ''error'' then ''error'' else ''warning'')"

definition post_channel ::
  "(string \<Rightarrow> url option) \<Rightarrow> (string \<Rightarrow> secret_error + envelope) \<Rightarrow> string \<Rightarrow> channel_body \<Rightarrow>
     channel list \<Rightarrow> channel list \<times> nat" where
  "post_channel parse enc new_id b tbl =
     (let ty = (if cb_type b = Some ''email'' then ''email'' else ''webhook'');
          row = (\<lambda>target secret. \<lparr>ch_id = new_id, ch_name = the (cb_name b), ch_type = ty, ch_target = target,
                   ch_secret = secret, ch_min_severity = severity_of (cb_min_severity b), ch_enabled = True\<rparr>) in
      if \<not> truthy (cb_name b) then (tbl, 400)
      else if ty = ''webhook'' then
        (if \<not> truthy (cb_url b) \<or> \<not> validWebhookURL parse (the (cb_url b)) then (tbl, 400)
         else (case enc (the (cb_url b)) of
           Inl _ \<Rightarrow> (tbl, 500)
         | Inr e \<Rightarrow> (tbl @ [row None (Some (Some e))], 201)))
      else if \<not> truthy (cb_target b) then (tbl, 400)
      else (tbl @ [row (cb_target b) None], 201))"

definition set_field :: "'b option \<Rightarrow> ('b \<Rightarrow> 'a \<Rightarrow> 'a) \<Rightarrow> 'a \<Rightarrow> 'a" where
  "set_field v f x = (case v of None \<Rightarrow> x | Some y \<Rightarrow> f y x)"

definition channel_set :: "channel_body \<Rightarrow> envelope option \<Rightarrow> channel \<Rightarrow> channel" where
  "channel_set b e c =
     set_field e (\<lambda>y. ch_secret_update (\<lambda>_. Some (Some y)))
    (set_field (cb_target b) (\<lambda>y. ch_target_update (\<lambda>_. Some y))
    (set_field (cb_enabled b) (\<lambda>y. ch_enabled_update (\<lambda>_. y))
    (set_field (cb_min_severity b) (\<lambda>y. ch_min_severity_update (\<lambda>_. severity_of (Some y)))
    (set_field (cb_name b) (\<lambda>y. ch_name_update (\<lambda>_. y)) c))))"

definition put_channel ::
  "(string \<Rightarrow> url option) \<Rightarrow> (string \<Rightarrow> secret_error + envelope) \<Rightarrow> string \<Rightarrow> channel_body \<Rightarrow>
     channel list \<Rightarrow> channel list \<times> nat" where
  "put_channel parse enc cid b tbl =
     (let update = (\<lambda>e.
            if cb_name b = None \<and> cb_min_severity b = None \<and> cb_enabled b = None \<and> cb_target b = None \<and> e = None
            then (tbl, 400)
            else if \<not> list_ex (\<lambda>c. ch_id c = cid) tbl then (tbl, 404)
            else (map (\<lambda>c. if ch_id c = cid then channel_set b e c else c) tbl, 200)) in
      if truthy (cb_url b) then
        (if \<not> validWebhookURL parse (the (cb_url b)) then (tbl, 400)
         else (case enc (the (cb_url b)) of Inl _ \<Rightarrow> (tbl, 500) | Inr e \<Rightarrow> update (Some e)))
      else update None)"

definition delete_channel :: "string \<Rightarrow> channel list \<Rightarrow> channel list \<times> nat" where
  "delete_channel cid tbl =
     (if \<not> list_ex (\<lambda>c. ch_id c = cid) tbl then (tbl, 404)
      else (filter (\<lambda>c. ch_id c \<noteq> cid) tbl, 204))"

record channel_view =
  cv_id :: string
  cv_name :: string
  cv_type :: string
  cv_target :: "string option"
  cv_min_severity :: string
  cv_enabled :: bool
  cv_configured :: bool

definition maskTarget :: "channel \<Rightarrow> bool" where
  "maskTarget c = (if ch_type c = ''email'' then truthy (ch_target c) else ch_secret c \<noteq> None)"

definition get_channels :: "channel list \<Rightarrow> channel_view list" where
  "get_channels tbl = map (\<lambda>c. \<lparr>cv_id = ch_id c, cv_name = ch_name c, cv_type = ch_type c,
     cv_target = (if ch_type c = ''email'' then ch_target c else None),
     cv_min_severity = ch_min_severity c, cv_enabled = ch_enabled c, cv_configured = maskTarget c\<rparr>) tbl"

definition test_report :: "string \<Rightarrow> DomainReport" where
  "test_report now = \<lparr>dr_domain = ''test.example'', dr_checkedAt = now, dr_status = Warning,
     dr_records = [\<lparr>rr_record = Spf, rr_selector = None, rr_status = Warning, rr_found = Some ''v=spf1 -all'',
       rr_expected = None, rr_detail = ''Test alert from NovaMail.'',
       rr_fix = Some ''v=spf1 include:amazonses.com -all''\<rparr>]\<rparr>"

definition test_channel :: "alert_env \<Rightarrow> string \<Rightarrow> string \<Rightarrow> string \<Rightarrow> channel list \<Rightarrow> nat \<times> effect list" where
  "test_channel E mid now cid tbl = (case find (\<lambda>c. ch_id c = cid) tbl of
     None \<Rightarrow> (404, [])
   | Some c \<Rightarrow> (case send E mid c Regression (test_report now) Ok of
       (effs, ok, detail) \<Rightarrow> (if ok then 200 else 502, effs)))"

section \<open>The invariant of the table\<close>

definition channel_ok :: "cipher \<Rightarrow> string option \<Rightarrow> (string \<Rightarrow> url option) \<Rightarrow> channel \<Rightarrow> bool" where
  "channel_ok C key parse c \<longleftrightarrow>
     ch_type c \<in> {''webhook'', ''email''} \<and> ch_min_severity c \<in> {''warning'', ''error''} \<and>
     (ch_type c = ''webhook'' \<longrightarrow> (\<exists>e url. ch_secret c = Some (Some e) \<and>
        decrypt C key (Some e) = Inr url \<and> validWebhookURL parse url))"

inductive channel_step :: "cipher \<Rightarrow> string option \<Rightarrow> (string \<Rightarrow> url option) \<Rightarrow> channel list \<Rightarrow> channel list \<Rightarrow> bool"
  for C key parse where
  step_post: "entropy_ok rnd \<Longrightarrow> post_channel parse (encrypt C key rnd) new_id b tbl = (tbl', code) \<Longrightarrow>
     channel_step C key parse tbl tbl'"
| step_put: "entropy_ok rnd \<Longrightarrow> put_channel parse (encrypt C key rnd) cid b tbl = (tbl', code) \<Longrightarrow>
     channel_step C key parse tbl tbl'"
| step_delete: "delete_channel cid tbl = (tbl', code) \<Longrightarrow> channel_step C key parse tbl tbl'"

inductive_cases channel_stepE: "channel_step C key parse t t'"

lemma sealed: "cipher_ok C \<Longrightarrow> entropy_ok rnd \<Longrightarrow> encrypt C key rnd p = Inr e \<Longrightarrow> decrypt C key (Some e) = Inr p"
  using open_seal [of C]
  by (auto simp: encrypt_def decrypt_def entropy_ok_def Let_def split: sum.splits)

lemma severity_of_ok: "severity_of s \<in> {''warning'', ''error''}"
  by (simp add: severity_of_def)

lemma post_channel_row:
  assumes "cipher_ok C" "entropy_ok rnd" "post_channel parse (encrypt C key rnd) new_id b tbl = (tbl', code)"
  shows "tbl' = tbl \<or> (\<exists>c. tbl' = tbl @ [c] \<and> channel_ok C key parse c)"
  using assms severity_of_ok [of "cb_min_severity b"]
  by (auto simp: post_channel_def Let_def channel_ok_def dest: sealed split: if_splits sum.splits)

lemma channel_set_ok:
  assumes "channel_ok C key parse c"
    and "\<And>y. e = Some y \<Longrightarrow> \<exists>url. decrypt C key (Some y) = Inr url \<and> validWebhookURL parse url"
  shows "channel_ok C key parse (channel_set b e c)"
proof -
  have "ch_type (channel_set b e c) = ch_type c"
    "ch_min_severity (channel_set b e c) = (case cb_min_severity b of None \<Rightarrow> ch_min_severity c
       | Some y \<Rightarrow> severity_of (Some y))"
    "ch_secret (channel_set b e c) = (case e of None \<Rightarrow> ch_secret c | Some y \<Rightarrow> Some (Some y))"
    by (simp_all add: channel_set_def set_field_def split: option.splits)
  with assms severity_of_ok show ?thesis by (auto simp: channel_ok_def split: option.splits)
qed

lemma put_channel_rows:
  assumes "cipher_ok C" "entropy_ok rnd" "put_channel parse (encrypt C key rnd) cid b tbl = (tbl', code)"
  shows "tbl' = tbl \<or> (\<exists>e. tbl' = map (\<lambda>c. if ch_id c = cid then channel_set b e c else c) tbl \<and>
     (\<forall>y. e = Some y \<longrightarrow> (\<exists>url. decrypt C key (Some y) = Inr url \<and> validWebhookURL parse url)))"
  using assms by (auto simp: put_channel_def Let_def dest: sealed split: if_splits sum.splits)

lemma channel_step_ok:
  assumes "cipher_ok C" "channel_step C key parse tbl tbl'" "\<forall>c \<in> set tbl. channel_ok C key parse c"
  shows "\<forall>c \<in> set tbl'. channel_ok C key parse c"
  using assms(2)
proof (cases rule: channel_step.cases)
  case (step_post rnd new_id b code)
  from post_channel_row [OF assms(1) step_post] assms(3) show ?thesis by auto
next
  case (step_put rnd cid b code)
  from put_channel_rows [OF assms(1) step_put] assms(3) channel_set_ok show ?thesis
    by (elim disjE exE conjE) auto
next
  case (step_delete cid code)
  with assms(3) show ?thesis by (auto simp: delete_channel_def split: if_splits)
qed

interpretation channels: machine_invariant "\<lambda>t. t = []" "channel_step C key parse"
    "\<lambda>t. cipher_ok C \<longrightarrow> (\<forall>c \<in> set t. channel_ok C key parse c)" for C key parse
  by unfold_locales (auto dest: channel_step_ok)

section \<open>Properties\<close>

text \<open>
  C14: every webhook channel can be delivered to. Whatever requests created and edited the
  channels, sending through a webhook channel decrypts its stored secret to a valid http(s) URL
  and posts to that URL; it never fails for a missing or unreadable secret.
\<close>
theorem channel_deliverable:
  assumes "reach (\<lambda>t. t = []) (channel_step C key parse) tbl" and "cipher_ok C"
    and "ch \<in> set tbl" and "ch_type ch \<noteq> ''email''" and "ae_decrypt E = decrypt C key"
  shows "\<exists>url. validWebhookURL parse url \<and>
     send E mid ch ev rep was = postWebhook E url (webhookPayload ev rep was)"
proof -
  have "channel_ok C key parse ch" using channels.reach_inv [OF assms(1)] assms(2,3) by blast
  with assms(4) obtain e url where "ch_secret ch = Some (Some e)" "decrypt C key (Some e) = Inr url"
    "validWebhookURL parse url" by (auto simp: channel_ok_def)
  with assms(4,5) show ?thesis by (auto simp: send_def)
qed

definition sample_parse :: "string \<Rightarrow> url option" where
  "sample_parse s = Some \<lparr>url_protocol = ''https:'', url_hostname = s\<rparr>"

definition sample_body :: channel_body where
  "sample_body = \<lparr>cb_name = Some ''hook'', cb_type = None, cb_url = Some ''hooks.io'', cb_target = None,
     cb_min_severity = Some ''critical'', cb_enabled = None\<rparr>"

lemma sample_kek: "kek sample_key = Inr (replicate 32 CHR ''m'')"
  by (simp add: kek_def sample_key_def b64_decode_encode) (simp add: b64_encode_def)

theorem channel_deliverable_witness:
  "\<exists>tbl ch url. reach (\<lambda>t. t = []) (channel_step sample_cipher sample_key sample_parse) tbl \<and> ch \<in> set tbl \<and>
     ch_min_severity ch = ''warning'' \<and> validWebhookURL sample_parse url \<and>
     send ((sample_env [])\<lparr>ae_decrypt := decrypt sample_cipher sample_key\<rparr>) [] ch Recovery (test_report []) Ok =
       postWebhook ((sample_env [])\<lparr>ae_decrypt := decrypt sample_cipher sample_key\<rparr>) url
         (webhookPayload Recovery (test_report []) Ok)"
proof -
  let ?enc = "encrypt sample_cipher sample_key sample_entropy"
  obtain e where e: "?enc ''hooks.io'' = Inr e" by (simp add: encrypt_def sample_kek Let_def)
  let ?ch = "\<lparr>ch_id = ''c1'', ch_name = ''hook'', ch_type = ''webhook'', ch_target = None,
     ch_secret = Some (Some e), ch_min_severity = ''warning'', ch_enabled = True\<rparr>"
  have "post_channel sample_parse ?enc ''c1'' sample_body [] = ([?ch], 201)"
    by (simp add: post_channel_def sample_body_def validWebhookURL_def sample_parse_def severity_of_def e Let_def)
  moreover have "entropy_ok sample_entropy" by code_simp
  ultimately have "channel_step sample_cipher sample_key sample_parse [] [?ch]" by (blast intro: step_post)
  with reach_init [of "\<lambda>t. t = []" "[]"]
  have r: "reach (\<lambda>t. t = []) (channel_step sample_cipher sample_key sample_parse) [?ch]"
    by (blast intro: reach_step)
  have "ch_type ?ch \<noteq> ''email''" "?ch \<in> set [?ch]"
    "ae_decrypt ((sample_env [])\<lparr>ae_decrypt := decrypt sample_cipher sample_key\<rparr>) = decrypt sample_cipher sample_key"
    by simp_all
  from channel_deliverable [OF r sample_cipher_ok this(2,1,3), of "[]" Recovery "test_report []" Ok]
  obtain url where "validWebhookURL sample_parse url"
    "send ((sample_env [])\<lparr>ae_decrypt := decrypt sample_cipher sample_key\<rparr>) [] ?ch Recovery (test_report []) Ok =
       postWebhook ((sample_env [])\<lparr>ae_decrypt := decrypt sample_cipher sample_key\<rparr>) url
         (webhookPayload Recovery (test_report []) Ok)" by blast
  then show ?thesis
    by (intro exI [of _ "[?ch]"] exI [of _ ?ch] exI [of _ url]) (simp add: r)
qed

text \<open>
  The list of channels does not depend on the stored secrets: replacing every webhook secret
  by any other leaves the response as it is, so a URL cannot be read back.
\<close>
theorem get_channels_hides_secrets:
  "get_channels (map (\<lambda>c. c\<lparr>ch_secret := map_option f (ch_secret c)\<rparr>) tbl) = get_channels tbl"
  by (simp add: get_channels_def maskTarget_def)

text \<open>An edit may blank what creation insists on: the recipients of an email channel.\<close>

lemma put_channel_blank_target:
  "put_channel parse enc ''c1'' \<lparr>cb_name = None, cb_type = None, cb_url = None, cb_target = Some [],
      cb_min_severity = None, cb_enabled = None\<rparr> [sample_channel] = ([sample_channel\<lparr>ch_target := Some []\<rparr>], 200)"
  by (simp add: put_channel_def channel_set_def set_field_def sample_channel_def Let_def)

end
