(* ===== verification/Scheduler.thy ===== *)
theory Scheduler
  imports Complex_Main DnsStore AlertChannels
begin

text \<open>
  The periodic refresh of \<open>registerDeliverability\<close> (\<open>intervalHours\<close> and \<open>tick\<close>): refresh all
  domains, dispatch the alerts, read the cadence from the settings, arm the next timer. The
  setting is a number of hours, a rational here; what \<open>setTimeout\<close> makes of a delay is Node's
  documented coercion.
\<close>

text \<open>
  The query of the cadence: \<open>None\<close> when it rejects, \<open>Some None\<close> when there is no row or its
  value is no finite number. The result is the cadence and the new \<open>lastGoodHours\<close>.
\<close>

definition intervalHours :: "rat option option \<Rightarrow> rat \<Rightarrow> rat \<times> rat" where
  "intervalHours row lastGoodHours = (case row of
     Some (Some h) \<Rightarrow> if h > 0 then (h, h) else (lastGoodHours, lastGoodHours)
   | _ \<Rightarrow> (lastGoodHours, lastGoodHours))"

text \<open>A delay outside \<open>1 .. 2147483647\<close> milliseconds is taken as 1; a fraction is dropped.\<close>

definition timer_ms :: "rat \<Rightarrow> int" where
  "timer_ms ms = (if 1 \<le> ms \<and> ms \<le> 2147483647 then \<lfloor>ms\<rfloor> else 1)"

record scheduler =
  sc_store :: dns_store
  sc_alerts :: alert_table
  sc_lastGoodHours :: rat

record tick_env =
  te_net :: net
  te_config :: config
  te_now :: "string \<Rightarrow> string"
  te_domains_up :: bool
  te_persist_up :: "string \<Rightarrow> nat \<Rightarrow> bool"
  te_order :: "string list"
  te_channels :: "channel list option"
  te_alert_up :: "string \<Rightarrow> nat \<Rightarrow> bool"
  te_alert_env :: "string \<Rightarrow> string \<Rightarrow> alert_env"
  te_ids :: "string \<Rightarrow> string \<Rightarrow> string"
  te_interval :: "rat option option"

text \<open>One tick: the new state, the effects of the alerts, the delay of the next timer.\<close>

definition tick :: "tick_env \<Rightarrow> scheduler \<Rightarrow> scheduler \<times> effect list \<times> int" where
  "tick E s =
     (let (st, tbl, effs) =
        (if te_domains_up E then
           (case refreshAll (te_net E) (te_config E) (te_now E) (te_persist_up E) (te_order E) (sc_store s) of
              (st, reports) \<Rightarrow>
                (case dispatchAlerts (te_alert_env E) (te_ids E) (te_alert_up E) (te_channels E) reports (sc_alerts s) of
                  (tbl, effs, logs) \<Rightarrow> (st, tbl, effs)))
         else (sc_store s, sc_alerts s, []));
        (h, lastGood) = intervalHours (te_interval E) (sc_lastGoodHours s) in
      (\<lparr>sc_store = st, sc_alerts = tbl, sc_lastGoodHours = lastGood\<rparr>, effs, timer_ms (h * 3600000)))"

text \<open>The scheduler starts with a cadence of six hours.\<close>

inductive tick_step :: "scheduler \<Rightarrow> scheduler \<Rightarrow> bool" where
  tick_stepI: "tick E s = (s', effs, ms) \<Longrightarrow> tick_step s s'"

inductive_cases tick_stepE: "tick_step s s'"

lemma intervalHours_pos: "0 < l \<Longrightarrow> 0 < fst (intervalHours row l) \<and> 0 < snd (intervalHours row l)"
  by (auto simp: intervalHours_def split: option.splits)

lemma tick_lastGood: "sc_lastGoodHours (fst (tick E s)) = snd (intervalHours (te_interval E) (sc_lastGoodHours s))"
  by (simp add: tick_def Let_def split: prod.splits if_splits)

lemma tick_delay: "snd (snd (tick E s)) = timer_ms (fst (intervalHours (te_interval E) (sc_lastGoodHours s)) * 3600000)"
  by (simp add: tick_def Let_def split: prod.splits if_splits)

interpretation ticks: machine_invariant "\<lambda>s. sc_lastGoodHours s = 6" tick_step "\<lambda>s. 0 < sc_lastGoodHours s"
proof (unfold_locales)
  fix s t assume "0 < sc_lastGoodHours s" "tick_step s t"
  then show "0 < sc_lastGoodHours t"
    by (elim tick_stepE) (metis fst_conv intervalHours_pos tick_lastGood)
qed simp

section \<open>Properties\<close>

text \<open>
  The scheduler never stops. Whatever fails during a tick, it ends with arming the next
  timer with a delay of at least one millisecond; the cadence it keeps is always positive, and
  a cadence of up to 596 hours gives the delay it stands for, to the millisecond.
\<close>
theorem tick_rearms:
  assumes "reach (\<lambda>s. sc_lastGoodHours s = 6) tick_step s" and "tick E s = (s', effs, ms)"
  shows "1 \<le> ms \<and> 0 < sc_lastGoodHours s' \<and>
     (let h = fst (intervalHours (te_interval E) (sc_lastGoodHours s)) in
      1 / 3600000 \<le> h \<and> h \<le> 596 \<longrightarrow> ms = \<lfloor>h * 3600000\<rfloor>)"
proof -
  have pos: "0 < sc_lastGoodHours s" by (rule ticks.reach_inv [OF assms(1)])
  let ?h = "fst (intervalHours (te_interval E) (sc_lastGoodHours s))"
  have ms: "ms = timer_ms (?h * 3600000)" using assms(2) tick_delay [of E s] by simp
  have "1 \<le> timer_ms x" for x by (simp add: timer_ms_def)
  moreover have "0 < sc_lastGoodHours s'"
    using assms(2) tick_lastGood [of E s] intervalHours_pos [OF pos] by simp
  moreover have "1 / 3600000 \<le> h \<Longrightarrow> h \<le> 596 \<Longrightarrow> timer_ms (h * 3600000) = \<lfloor>h * 3600000\<rfloor>" for h
    by (simp add: timer_ms_def field_simps)
  ultimately show ?thesis by (auto simp: ms Let_def)
qed

definition sample_tick_env :: "rat \<Rightarrow> tick_env" where
  "sample_tick_env h =
     \<lparr>te_net = sample_net sample_zone, te_config = sample_config sample_keys, te_now = sample_times,
      te_domains_up = True, te_persist_up = (\<lambda>d k. d = ''a.io'' \<or> k \<noteq> 4), te_order = [''a.io'', ''b.io''],
      te_channels = Some [sample_channel], te_alert_up = (\<lambda>d k. True), te_alert_env = (\<lambda>c d. sample_env []),
      te_ids = (\<lambda>c d. ''m''), te_interval = Some (Some h)\<rparr>"

definition sample_scheduler :: scheduler where
  "sample_scheduler = \<lparr>sc_store = sample_store, sc_alerts = Map.empty, sc_lastGoodHours = 6\<rparr>"

theorem tick_rearms_witness:
  "\<exists>s' effs. tick (sample_tick_env (1 / 2)) sample_scheduler = (s', effs, 1800000) \<and> 0 < sc_lastGoodHours s'"
proof -
  obtain s' effs ms where t: "tick (sample_tick_env (1 / 2)) sample_scheduler = (s', effs, ms)"
    by (cases "tick (sample_tick_env (1 / 2)) sample_scheduler")
  have "reach (\<lambda>s. sc_lastGoodHours s = 6) tick_step sample_scheduler"
    by (rule reach_init) (simp add: sample_scheduler_def)
  from tick_rearms [OF this t] t show ?thesis
    by (simp add: intervalHours_def sample_tick_env_def Let_def)
qed

text \<open>A cadence beyond 596 hours overflows the timer: the next refresh follows at once.\<close>

lemma tick_overflow: "timer_ms (fst (intervalHours (Some (Some 597)) 6) * 3600000) = 1"
  by (simp add: intervalHours_def timer_ms_def)

text \<open>
  A tick keeps cache and alerts in step. For every relay domain that the tick refreshed, the
  report in the cache is the check result, and the alert state of the domain is the evaluation
  of that report's status; for every other domain both are as before the tick.
\<close>
theorem tick_consistent:
  assumes "tick E s = (s', effs, ms)" and "te_domains_up E" and "keys_ok (te_config E)"
    and "distinct (te_order E)" and "set (te_order E) = set (st_relay_domains (sc_store s))"
    and "distinct (st_relay_domains (sc_store s))"
    and "te_channels E = Some rows" and "list_ex ch_enabled rows"
  shows "(\<exists>rep. d \<in> set (st_relay_domains (sc_store s)) \<and> checkDomain (te_net E) (te_config E) (te_now E d) d = Some rep \<and>
            map_of (readCachedMap (sc_store s')) d = Some rep \<and>
            sc_alerts s' d = fst (evalTransition (te_alert_up E d) d (dr_status rep) (sc_alerts s)) d) \<or>
     (map_of (readCachedMap (sc_store s')) d = map_of (readCachedMap (sc_store s)) d \<and>
      sc_alerts s' d = sc_alerts s d)"
proof -
  obtain st reports where r: "refreshAll (te_net E) (te_config E) (te_now E) (te_persist_up E) (te_order E) (sc_store s) = (st, reports)"
    by (cases "refreshAll (te_net E) (te_config E) (te_now E) (te_persist_up E) (te_order E) (sc_store s)")
  obtain tbl effs' logs where a: "dispatchAlerts (te_alert_env E) (te_ids E) (te_alert_up E) (Some rows) reports (sc_alerts s) = (tbl, effs', logs)"
    by (cases "dispatchAlerts (te_alert_env E) (te_ids E) (te_alert_up E) (Some rows) reports (sc_alerts s)")
  have s': "sc_store s' = st" "sc_alerts s' = tbl"
    using assms(1,2,7) by (auto simp: tick_def r a Let_def split: prod.splits)
  note R = refreshAll_result [OF r assms(3-6), of d]
  have T: "tbl d = (case find (\<lambda>r. dr_domain r = d) reports of
     Some r \<Rightarrow> fst (evalTransition (te_alert_up E d) d (dr_status r) (sc_alerts s)) d | None \<Rightarrow> sc_alerts s d)"
    using dispatchAlerts_table [OF a _ assms(8)] R by blast
  show ?thesis
  proof (cases "find (\<lambda>r. dr_domain r = d) reports")
    case None
    with R T show ?thesis by (simp add: s')
  next
    case (Some rep)
    then have "rep \<in> set reports" "dr_domain rep = d" by (auto simp: find_Some_iff)
    with R have "d \<in> set (st_relay_domains (sc_store s))" "checkDomain (te_net E) (te_config E) (te_now E d) d = Some rep" by blast+
    with R T Some show ?thesis by (simp add: s')
  qed
qed

theorem tick_consistent_witness:
  "\<exists>s' effs ms rep. tick (sample_tick_env 6) sample_scheduler = (s', effs, ms) \<and>
     map_of (readCachedMap (sc_store s')) ''a.io'' = Some rep"
proof -
  obtain s' effs ms where t: "tick (sample_tick_env 6) sample_scheduler = (s', effs, ms)"
    by (cases "tick (sample_tick_env 6) sample_scheduler")
  have h: "te_domains_up (sample_tick_env 6)" "keys_ok (te_config (sample_tick_env 6))"
    "distinct (te_order (sample_tick_env 6))"
    "set (te_order (sample_tick_env 6)) = set (st_relay_domains (sc_store sample_scheduler))"
    "distinct (st_relay_domains (sc_store sample_scheduler))"
    "te_channels (sample_tick_env 6) = Some [sample_channel]" "list_ex ch_enabled [sample_channel]"
    using sample_keys_ok
    by (auto simp: sample_tick_env_def sample_scheduler_def sample_store_def sample_channel_def)
  have "map_of (readCachedMap (sc_store sample_scheduler)) ''a.io'' \<noteq> None"
    by (simp add: sample_scheduler_def readCachedMap_lookup domain_rows_def sample_store_def
        cached_report_def row_of_def sample_report_def)
  with tick_consistent [OF t h, of "''a.io''"] t show ?thesis by (metis not_Some_eq)
qed

end
