(* ===== verification/Auth.thy ===== *)
theory Auth
  imports Prelude
begin

text \<open>
  Authentication, authorisation and audit of the admin API (\<open>services/admin-api/src/server.ts\<close>
  and \<open>betterauth.ts\<close>). The session lookup of better-auth is part of the request: what it
  yields for the request's cookies, \<open>None\<close> for no session and for a rejection. A handler is a
  function from the request to its status code.
\<close>

definition upper_char :: "char \<Rightarrow> char" where
  "upper_char c = (if is_lower c then char_of (code_of c - 32) else c)"

definition js_upper :: "string \<Rightarrow> string" where
  "js_upper s = map upper_char s"

text \<open>The first element of \<open>s.split(c)\<close>.\<close>

definition before :: "char \<Rightarrow> string \<Rightarrow> string" where
  "before c s = hd (js_split c s)"

record session =
  se_email :: string
  se_role :: "string option"

record request =
  rq_method :: string
  rq_url :: string
  rq_api_key :: "string option"
  rq_session :: "session option"

record audit_row =
  au_actor :: string
  au_action :: string
  au_target :: string

section \<open>The hooks\<close>

definition OPEN_PATHS :: "string set" where
  "OPEN_PATHS = {''/healthz'', ''/readyz''}"

definition MUTATING :: "string set" where
  "MUTATING = {''POST'', ''PUT'', ''PATCH'', ''DELETE''}"

text \<open>The outcome of \<open>onRequest\<close>: a reply, or the request goes on with its actor and role.\<close>

datatype verdict = Reject nat | Proceed "string option" "string option"

definition is_open :: "request \<Rightarrow> bool" where
  "is_open req \<longleftrightarrow> before CHR ''?'' (rq_url req) \<in> OPEN_PATHS \<or>
     js_startsWith (before CHR ''?'' (rq_url req)) ''/api/auth/''"

definition mutating :: "request \<Rightarrow> bool" where
  "mutating req \<longleftrightarrow> js_upper (rq_method req) \<in> MUTATING"

definition onRequest :: "string option \<Rightarrow> request \<Rightarrow> verdict" where
  "onRequest apiKey req =
     (if is_open req then Proceed None None
      else (case rq_session req of
        Some se \<Rightarrow>
          (let role = (case se_role se of None \<Rightarrow> ''user'' | Some r \<Rightarrow> r) in
           if role \<noteq> ''admin'' \<and> mutating req then Reject 403
           else Proceed (Some (se_email se)) (Some role))
      | None \<Rightarrow>
          if apiKey \<noteq> None \<and> the apiKey \<noteq> [] \<and> rq_api_key req = apiKey
          then Proceed (Some ''api-key'') None
          else Reject 401))"

text \<open>\<open>onResponse\<close>: the audit row of a request answered with \<open>code\<close>; \<open>route\<close> is its route pattern.\<close>

definition onResponse :: "request \<Rightarrow> string option \<Rightarrow> string option \<Rightarrow> nat \<Rightarrow> audit_row option" where
  "onResponse req actor route code =
     (if \<not> mutating req then None
      else if code \<ge> 400 then None
      else if js_startsWith (rq_url req) ''/api/auth/'' then None
      else Some \<lparr>au_actor = (case actor of None \<Rightarrow> ''unknown'' | Some a \<Rightarrow> a),
                 au_action = js_upper (rq_method req) @ '' '' @ (case route of None \<Rightarrow> rq_url req | Some r \<Rightarrow> r),
                 au_target = before CHR ''?'' (rq_url req)\<rparr>)"

text \<open>
  One request through the server: the status sent, the actor on whose behalf the handler ran
  (if it ran), and the rows added to the audit log, whose insert may fail.
\<close>

definition serve ::
  "string option \<Rightarrow> (request \<Rightarrow> nat) \<Rightarrow> string option \<Rightarrow> bool \<Rightarrow> request \<Rightarrow>
     nat \<times> string option option \<times> audit_row list" where
  "serve apiKey handler route audit_up req =
     (let audit = (\<lambda>actor code. case onResponse req actor route code of
                     Some row \<Rightarrow> if audit_up then [row] else [] | None \<Rightarrow> []) in
      case onRequest apiKey req of
        Reject code \<Rightarrow> (code, None, audit None code)
      | Proceed actor role \<Rightarrow> (let code = handler req in (code, Some actor, audit actor code)))"

section \<open>Readiness and the bootstrap operator\<close>

definition readyz :: "bool \<Rightarrow> bool \<Rightarrow> nat" where
  "readyz pg_up bus_ready = (if \<not> pg_up then 503 else if \<not> bus_ready then 503 else 200)"

text \<open>
  \<open>seedAdmin\<close> on the operators (email and role). The three fallible operations are the count,
  the sign-up (the plugin's default role is \<open>user\<close>) and the promotion.
\<close>

definition seedAdmin ::
  "string option \<Rightarrow> (nat \<Rightarrow> bool) \<Rightarrow> (string \<times> string) list \<Rightarrow> (string \<times> string) list" where
  "seedAdmin bootstrap_email up users =
     (if \<not> up 0 \<or> users \<noteq> [] then users
      else (let email = (case bootstrap_email of
                  Some e \<Rightarrow> if e \<noteq> [] then e else ''admin@novamail.local''
                | None \<Rightarrow> ''admin@novamail.local'') in
        if \<not> up 1 then users
        else (let users1 = users @ [(email, ''user'')] in
          if \<not> up 2 then users1
          else map (\<lambda>(e, r). (e, if e = email then ''admin'' else r)) users1)))"

text \<open>\<open>betterauth.ts\<close>: the signing secret (a missing or short one stops the process), the origins.\<close>

primrec first_truthy :: "string option list \<Rightarrow> string option" where
  "first_truthy [] = None"
| "first_truthy (x # xs) = (case x of Some s \<Rightarrow> if s \<noteq> [] then Some s else first_truthy xs | None \<Rightarrow> first_truthy xs)"

definition auth_secret :: "string option \<Rightarrow> string option \<Rightarrow> string option \<Rightarrow> string option" where
  "auth_secret better_auth jwt api_key = (case first_truthy [better_auth, jwt, api_key] of
     Some s \<Rightarrow> if length s < 16 then None else Some s
   | None \<Rightarrow> None)"

definition trusted_origins :: "string \<Rightarrow> string option \<Rightarrow> string list" where
  "trusted_origins baseURL extra =
     js_uniq (baseURL # filter (\<lambda>s. s \<noteq> [])
       (map js_trim (js_split CHR '','' (case extra of None \<Rightarrow> [] | Some e \<Rightarrow> e))))"

section \<open>The session routes\<close>

text \<open>
  The answer of better-auth and the reply of \<open>/api/auth/*\<close>. Header names are case-insensitive;
  setting a header replaces its value. The cookies go out as a list, one header line each.
\<close>

record auth_response =
  px_status :: nat
  px_headers :: "(string \<times> string) list"
  px_cookies :: "string list option"
  px_body :: "string option"

definition set_headers :: "(string \<times> string) list \<Rightarrow> string \<rightharpoonup> string list" where
  "set_headers hs =
     fold (\<lambda>(k, v) m. if js_lower k \<noteq> ''set-cookie'' then m(js_lower k \<mapsto> [v]) else m) hs Map.empty"

definition auth_proxy :: "auth_response \<Rightarrow> nat \<times> (string \<rightharpoonup> string list) \<times> string option" where
  "auth_proxy r =
     (let cookies = (case px_cookies r of None \<Rightarrow> [] | Some cs \<Rightarrow> cs); headers = set_headers (px_headers r) in
      (px_status r, if cookies \<noteq> [] then headers(''set-cookie'' \<mapsto> cookies) else headers, px_body r))"

text \<open>
  \<open>main\<close>: a failed first connection is logged and left to the reconnect timer, seeding never
  rejects, and the process ends with 1 when it cannot listen. The result is the operators and
  the exit status, if it exits.
\<close>

definition start ::
  "bool \<Rightarrow> string option \<Rightarrow> (nat \<Rightarrow> bool) \<Rightarrow> bool \<Rightarrow> (string \<times> string) list \<Rightarrow> (string \<times> string) list \<times> nat option" where
  "start connected bootstrap_email up listening users =
     (seedAdmin bootstrap_email up users, if listening then None else Some 1)"

section \<open>Facts\<close>

lemma before_takeWhile: "before c s = takeWhile (\<lambda>x. x \<noteq> c) s"
  unfolding before_def by (induction s) (auto split: list.splits)

lemma startsWith_before:
  "c \<notin> set p \<Longrightarrow> js_startsWith (before c s) p \<longleftrightarrow> js_startsWith s p"
proof (induction p arbitrary: s)
  case (Cons x p)
  then show ?case by (cases s) (auto simp: js_startsWith_def before_takeWhile)
qed (simp add: js_startsWith_def)

lemma onRequest_Proceed:
  "onRequest apiKey req = Proceed actor role \<longleftrightarrow>
     (is_open req \<and> actor = None \<and> role = None) \<or>
     (\<not> is_open req \<and>
       ((\<exists>se. rq_session req = Some se \<and> actor = Some (se_email se) \<and>
            role = Some (case se_role se of None \<Rightarrow> ''user'' | Some r \<Rightarrow> r) \<and>
            (mutating req \<longrightarrow> se_role se = Some ''admin'')) \<or>
        (rq_session req = None \<and> actor = Some ''api-key'' \<and> role = None \<and>
            rq_api_key req = apiKey \<and> apiKey \<noteq> None \<and> apiKey \<noteq> Some [])))"
  by (auto simp: onRequest_def Let_def split: option.splits if_splits)

definition audited :: "request \<Rightarrow> nat \<Rightarrow> bool" where
  "audited req code \<longleftrightarrow> mutating req \<and> code < 400 \<and> \<not> js_startsWith (rq_url req) ''/api/auth/''"

lemma onResponse_cases:
  "onResponse req actor route code = None \<and> \<not> audited req code \<or>
   (\<exists>row. onResponse req actor route code = Some row \<and> audited req code \<and>
      au_actor row = (case actor of None \<Rightarrow> ''unknown'' | Some a \<Rightarrow> a))"
  by (simp add: onResponse_def audited_def)

section \<open>Properties\<close>

text \<open>
  C6: the API fails closed. A handler behind an authenticated path runs only for a request
  with an operator session or with the configured, non-empty API key; one that may change
  state runs only for an operator in the admin role or for the API key.
\<close>
theorem handler_authorized:
  assumes "serve apiKey handler route audit_up req = (code, Some actor, rows)" and "\<not> is_open req"
  shows "(\<exists>se. rq_session req = Some se \<and> actor = Some (se_email se) \<and>
            (\<not> mutating req \<or> se_role se = Some ''admin'')) \<or>
     (\<exists>key. apiKey = Some key \<and> key \<noteq> [] \<and> rq_api_key req = Some key \<and> rq_session req = None \<and>
            actor = Some ''api-key'')"
proof -
  from assms(1) obtain role where "onRequest apiKey req = Proceed actor role"
    by (auto simp: serve_def Let_def split: verdict.splits)
  then show ?thesis using assms(2) unfolding onRequest_Proceed by auto
qed

definition sample_request :: "string \<Rightarrow> string option \<Rightarrow> session option \<Rightarrow> request" where
  "sample_request m key se =
     \<lparr>rq_method = m, rq_url = ''/api/providers/p1?x=1'', rq_api_key = key, rq_session = se\<rparr>"

theorem handler_authorized_witness:
  "\<exists>code rows. serve (Some ''k'') (\<lambda>_. 200) None True
      (sample_request ''delete'' None (Some \<lparr>se_email = ''op@x'', se_role = Some ''admin''\<rparr>)) =
      (code, Some (Some ''op@x''), rows) \<and> length rows = 1"
proof -
  let ?r = "sample_request ''delete'' None (Some \<lparr>se_email = ''op@x'', se_role = Some ''admin''\<rparr>)"
  have "\<not> is_open ?r" by code_simp
  moreover have "(\<lambda>(c, a, rows). a \<noteq> None \<and> length rows = 1) (serve (Some ''k'') (\<lambda>_. 200) None True ?r)"
    by code_simp
  ultimately show ?thesis
    using handler_authorized [of "Some ''k''" "\<lambda>_. 200" None True ?r]
    by (cases "serve (Some ''k'') (\<lambda>_. 200) None True ?r") (auto simp: sample_request_def)
qed

text \<open>
  The audit log is complete and attributed. While the log can be written, a request leaves
  exactly one row when it is mutating, succeeded and is no session traffic, and none otherwise;
  the row names the operator's address or the API key whenever the path is authenticated.
\<close>
theorem audit_complete:
  assumes "serve apiKey handler route True req = (code, who, rows)"
  shows "length rows = (if mutating req \<and> code < 400 \<and> \<not> js_startsWith (rq_url req) ''/api/auth/'' then 1 else 0) \<and>
     (\<forall>row \<in> set rows. is_open req \<or> (case rq_session req of
         Some se \<Rightarrow> au_actor row = se_email se | None \<Rightarrow> au_actor row = ''api-key''))"
proof (cases "onRequest apiKey req")
  case (Reject c)
  then have "c \<ge> 400" by (auto simp: onRequest_def Let_def split: if_splits option.splits)
  moreover from this have "onResponse req None route c = None" by (simp add: onResponse_def)
  ultimately show ?thesis using Reject assms by (simp add: serve_def)
next
  case (Proceed actor role)
  then have rows: "code = handler req" "rows = (case onResponse req actor route code of Some row \<Rightarrow> [row] | None \<Rightarrow> [])"
    using assms by (auto simp: serve_def Let_def split: option.splits)
  have act: "is_open req \<or> (case rq_session req of Some se \<Rightarrow> actor = Some (se_email se) | None \<Rightarrow> actor = Some ''api-key'')"
    using Proceed [unfolded onRequest_Proceed] by auto
  from onResponse_cases [of req actor route code] show ?thesis
    unfolding audited_def [symmetric] using rows act by (auto split: option.splits)
qed

theorem audit_complete_witness:
  "\<exists>code who rows. serve (Some ''k'') (\<lambda>_. 204) (Some ''/api/providers/:id'') True (sample_request ''PUT'' (Some ''k'') None) =
     (code, who, rows) \<and> length rows = 1 \<and> (\<forall>row \<in> set rows. au_actor row = ''api-key'')"
proof -
  let ?r = "sample_request ''PUT'' (Some ''k'') None"
  obtain code who rows where s: "serve (Some ''k'') (\<lambda>_. 204) (Some ''/api/providers/:id'') True ?r = (code, who, rows)"
    by (cases "serve (Some ''k'') (\<lambda>_. 204) (Some ''/api/providers/:id'') True ?r")
  have "fst (serve (Some ''k'') (\<lambda>_. 204) (Some ''/api/providers/:id'') True ?r) = 204" "mutating ?r"
    "\<not> js_startsWith (rq_url ?r) ''/api/auth/''" "\<not> is_open ?r" by code_simp+
  with audit_complete [OF s] s show ?thesis by (auto simp: sample_request_def)
qed

text \<open>
  The bootstrap operator. When no operator exists and every operation succeeds, the seed
  leaves exactly one operator, in the admin role; existing operators are never touched.
\<close>
theorem seedAdmin_correct:
  "(users \<noteq> [] \<longrightarrow> seedAdmin email up users = users) \<and>
   (users = [] \<and> up 0 \<and> up 1 \<and> up 2 \<longrightarrow> (\<exists>e. seedAdmin email up users = [(e, ''admin'')] \<and> e \<noteq> []))"
  by (auto simp: seedAdmin_def Let_def split: option.splits)

theorem seedAdmin_correct_witness:
  "seedAdmin (Some ''root@x'') (\<lambda>k. True) [(''a@x'', ''user'')] = [(''a@x'', ''user'')]"
  using seedAdmin_correct [of "[(''a@x'', ''user'')]" "Some ''root@x''" "\<lambda>k. True"] by simp

text \<open>
  When the promotion fails once, the operator stays in the read-only role, and no later start
  repairs it.
\<close>

lemma seedAdmin_stuck:
  "seedAdmin email up2 (seedAdmin email (\<lambda>k. k \<noteq> 2) []) = seedAdmin email (\<lambda>k. k \<noteq> 2) [] \<and>
   list_all (\<lambda>(e, r). r \<noteq> ''admin'') (seedAdmin email (\<lambda>k. k \<noteq> 2) [])"
  by (simp add: seedAdmin_def Let_def)

lemma auth_secret_strong: "auth_secret a b c = Some s \<Longrightarrow> 16 \<le> length s"
  by (auto simp: auth_secret_def split: option.splits if_splits)

lemma trusted_origins_facts:
  "distinct (trusted_origins base extra) \<and> base \<in> set (trusted_origins base extra)"
  by (simp add: trusted_origins_def del: js_uniq.simps)

text \<open>
  The proxy keeps sessions whole: the reply carries every cookie of the answer, in order and
  unjoined, and for any other header the last value set; status and body are passed on.
\<close>
theorem auth_proxy_keeps:
  "fst (auth_proxy r) = px_status r \<and> snd (snd (auth_proxy r)) = px_body r \<and>
   fst (snd (auth_proxy r)) ''set-cookie'' = (case px_cookies r of None \<Rightarrow> None | Some cs \<Rightarrow> if cs = [] then None else Some cs) \<and>
   (\<forall>k. k \<noteq> ''set-cookie'' \<longrightarrow> fst (snd (auth_proxy r)) k =
      (case find (\<lambda>(n, v). js_lower n = k) (rev (px_headers r)) of None \<Rightarrow> None | Some (n, v) \<Rightarrow> Some [v]))"
proof -
  have h: "set_headers hs k = (if k = ''set-cookie'' then None
      else case find (\<lambda>(n, v). js_lower n = k) (rev hs) of None \<Rightarrow> None | Some (n, v) \<Rightarrow> Some [v])" for hs k
    by (induction hs rule: rev_induct) (auto simp: set_headers_def)
  show ?thesis by (auto simp: auth_proxy_def Let_def h split: option.splits)
qed

theorem auth_proxy_keeps_witness:
  "fst (snd (auth_proxy \<lparr>px_status = 200, px_headers = [(''Set-Cookie'', ''a=1, b=2''), (''X-A'', ''1'')],
      px_cookies = Some [''a=1'', ''b=2''], px_body = None\<rparr>)) ''set-cookie'' = Some [''a=1'', ''b=2'']"
  using auth_proxy_keeps [of "\<lparr>px_status = 200, px_headers = [(''Set-Cookie'', ''a=1, b=2''), (''X-A'', ''1'')],
      px_cookies = Some [''a=1'', ''b=2''], px_body = None\<rparr>"] by simp

end
