(* ===== verification/Crud.thy ===== *)
theory Crud
  imports Prelude "HOL-Library.Option_ord" "HOL-Library.List_Lexorder" "HOL-Library.Char_ord"
begin

text \<open>
  The configuration endpoints of \<open>services/admin-api/src/routes.ts\<close>: the whitelist \<open>RESOURCES\<close>,
  \<open>pick\<close>, the generated SQL, and the generic handlers. A row maps columns to values of an
  arbitrary type; a JSON body maps fields to values, an undefined field being absent. A handler
  returns the table, the status code and the \<open>config.changed\<close> slices published.

  The contract of every configuration write is the locale \<open>config_write\<close>, which the handlers
  here and in the other route theories interpret.
\<close>

section \<open>Resources\<close>

record resource =
  rs_table :: string
  rs_slice :: string
  rs_pk :: string
  rs_cols :: "string list"

definition mk :: "string \<Rightarrow> string \<Rightarrow> string list \<Rightarrow> resource" where
  "mk tbl pk cols = \<lparr>rs_table = tbl, rs_slice = tbl, rs_pk = pk, rs_cols = cols\<rparr>"

definition RESOURCES :: "(string \<times> resource) list" where
  "RESOURCES =
    [(''providers'', mk ''providers'' ''id'' [''name'', ''type'', ''endpoint'', ''auth_mode'', ''enabled'', ''secret_ref'']),
     (''routing-rules'', mk ''routing_rules'' ''id'' [''recipient_domain'', ''sender_domain'', ''provider_chain'', ''priority'', ''enabled'']),
     (''relay-domains'', mk ''relay_domains'' ''domain'' [''domain'', ''enabled'']),
     (''rate-limits'', mk ''rate_limits'' ''id'' [''direction'', ''scope'', ''scope_value'', ''per_second'', ''burst'', ''enabled'']),
     (''relay-clients'', mk ''relay_clients'' ''id'' [''cidr'', ''description'', ''allowed_sender_domains'', ''enabled'']),
     (''dkim-keys'', mk ''dkim_keys'' ''id'' [''domain'', ''selector'', ''private_ref'', ''public_key'', ''rotation'']),
     (''tls-policy'', mk ''tls_policy'' ''id'' [''min_version'', ''starttls_required'', ''provider_id''])]"

primrec pick :: "(string \<rightharpoonup> 'v) \<Rightarrow> string list \<Rightarrow> string list \<times> 'v list" where
  "pick body [] = ([], [])"
| "pick body (c # cols) =
     (case pick body cols of (keys, vals) \<Rightarrow>
      case body c of Some v \<Rightarrow> (c # keys, v # vals) | None \<Rightarrow> (keys, vals))"

section \<open>The generated statements\<close>

definition param :: "nat \<Rightarrow> string" where
  "param i = ''$'' @ nat_str i"

definition insert_sql :: "resource \<Rightarrow> string list \<Rightarrow> string" where
  "insert_sql r keys =
     ''INSERT INTO '' @ rs_table r @ '' ('' @ js_join '','' keys @ '') VALUES ('' @
     js_join '','' (map (\<lambda>i. param (i + 1)) [0..<length keys]) @ '') RETURNING *''"

definition update_sql :: "resource \<Rightarrow> string list \<Rightarrow> string" where
  "update_sql r keys =
     ''UPDATE '' @ rs_table r @ '' SET '' @
     js_join '','' (map (\<lambda>(i, k). k @ ''='' @ param (i + 1)) (enumerate 0 keys)) @
     '' WHERE '' @ rs_pk r @ ''='' @ param (length keys + 1) @ '' RETURNING *''"

section \<open>The handlers\<close>

type_synonym 'v row = "string \<rightharpoonup> 'v"
type_synonym 's outcome = "'s \<times> nat \<times> string list list"

text \<open>
  \<open>await publishConfigChanged(slices)\<close> and then the reply: when the publisher rejects, the write
  has happened and the reply is a server error.
\<close>

definition announce :: "bool \<Rightarrow> string list \<Rightarrow> 's \<Rightarrow> nat \<Rightarrow> 's outcome" where
  "announce pub_up slices s code = (if pub_up then (s, code, [slices]) else (s, 500, []))"

definition refuse :: "'s \<Rightarrow> nat \<Rightarrow> 's outcome" where
  "refuse s code = (s, code, [])"

definition get_rows :: "resource \<Rightarrow> ('v :: linorder) row list \<Rightarrow> 'v row list" where
  "get_rows r tbl = sort_key (\<lambda>row. row (rs_pk r)) tbl"

text \<open>
  \<open>ok tbl\<close> says whether the table satisfies the constraints of the schema; \<open>defaults\<close> are the
  values of the columns an insert does not name. An \<open>id\<close> that is no value of the key column
  (a malformed UUID) is \<open>None\<close> and makes the query reject.
\<close>

definition post_row ::
  "bool \<Rightarrow> ('v row list \<Rightarrow> bool) \<Rightarrow> 'v row \<Rightarrow> resource \<Rightarrow> 'v row \<Rightarrow> 'v row list \<Rightarrow> 'v row list outcome" where
  "post_row pub_up ok defaults r body tbl =
     (case pick body (rs_cols r) of (keys, vals) \<Rightarrow>
        if keys = [] then refuse tbl 400
        else (let tbl' = tbl @ [defaults ++ map_of (zip keys vals)] in
          if \<not> ok tbl' then refuse tbl 500 else announce pub_up [rs_slice r] tbl' 201))"

definition put_row ::
  "bool \<Rightarrow> ('v row list \<Rightarrow> bool) \<Rightarrow> resource \<Rightarrow> 'v option \<Rightarrow> 'v row \<Rightarrow> 'v row list \<Rightarrow> 'v row list outcome" where
  "put_row pub_up ok r rid body tbl =
     (case pick body (rs_cols r) of (keys, vals) \<Rightarrow>
        if keys = [] then refuse tbl 400
        else if rid = None then refuse tbl 500
        else (let tbl' = map (\<lambda>row. if row (rs_pk r) = rid then row ++ map_of (zip keys vals) else row) tbl in
          if \<not> ok tbl' then refuse tbl 500
          else if \<not> list_ex (\<lambda>row. row (rs_pk r) = rid) tbl then refuse tbl 404
          else announce pub_up [rs_slice r] tbl' 200))"

definition delete_row ::
  "bool \<Rightarrow> ('v row list \<Rightarrow> bool) \<Rightarrow> resource \<Rightarrow> 'v option \<Rightarrow> 'v row list \<Rightarrow> 'v row list outcome" where
  "delete_row pub_up ok r rid tbl =
     (if rid = None then refuse tbl 500
      else (let tbl' = filter (\<lambda>row. row (rs_pk r) \<noteq> rid) tbl in
        if \<not> ok tbl' then refuse tbl 500
        else if \<not> list_ex (\<lambda>row. row (rs_pk r) = rid) tbl then refuse tbl 404
        else announce pub_up [rs_slice r] tbl' 204))"

section \<open>The contract of a configuration write\<close>

locale config_write =
  fixes run :: "'s \<Rightarrow> 's outcome" and slices :: "string list"
  assumes refused: "fst (snd (run s)) \<ge> 400 \<Longrightarrow> fst (run s) = s \<and> snd (snd (run s)) = []"
    and announced: "fst (snd (run s)) < 400 \<Longrightarrow> snd (snd (run s)) = [slices]"
begin

lemma changed_announced: "fst (run s) \<noteq> s \<Longrightarrow> snd (snd (run s)) = [slices]"
  using refused [of s] announced [of s] by fastforce

lemma published_slices: "snd (snd (run s)) \<in> {[], [slices]}"
  using refused [of s] announced [of s] by fastforce

end

lemma announce_simps [simp]:
  "fst (announce p sl s c) = s" "snd (announce True sl s c) = (c, [sl])"
  "snd (snd (announce p sl s c)) = (if p then [sl] else [])"
  by (simp_all add: announce_def)

lemma refuse_simps [simp]: "fst (refuse s c) = s" "snd (refuse s c) = (c, [])"
  by (simp_all add: refuse_def)

interpretation post: config_write "post_row True ok defaults r body" "[rs_slice r]" for ok defaults r body
  by unfold_locales (auto simp: post_row_def Let_def split: prod.splits if_splits)

interpretation put: config_write "put_row True ok r rid body" "[rs_slice r]" for ok r rid body
  by unfold_locales (auto simp: put_row_def Let_def split: prod.splits if_splits)

interpretation delete: config_write "delete_row True ok r rid" "[rs_slice r]" for ok r rid
  by unfold_locales (auto simp: delete_row_def Let_def split: if_splits)

section \<open>Facts\<close>

lemma pick_facts:
  "pick body cols = (keys, vals) \<Longrightarrow>
     keys = filter (\<lambda>c. body c \<noteq> None) cols \<and> vals = map (\<lambda>c. the (body c)) keys"
  by (induction cols arbitrary: keys vals) (auto split: option.splits prod.splits)

lemma pick_map_of:
  "pick body cols = (keys, vals) \<Longrightarrow> map_of (zip keys vals) c = (if c \<in> set cols then body c else None)"
proof -
  assume p: "pick body cols = (keys, vals)"
  have "map_of (zip ks (map f ks)) c = (if c \<in> set ks then Some (f c) else None)" for ks and f :: "string \<Rightarrow> 'a"
    by (induction ks) auto
  with pick_facts [OF p] show ?thesis by (auto split: option.splits)
qed

lemma put_row_update:
  assumes "put_row True ok r (Some rid) body tbl = (tbl', 200, published)"
  shows "published = [[rs_slice r]] \<and> length tbl' = length tbl \<and>
     (\<forall>i < length tbl. \<forall>c. (tbl' ! i) c =
        (if (tbl ! i) (rs_pk r) = Some rid \<and> c \<in> set (rs_cols r) \<and> body c \<noteq> None then body c else (tbl ! i) c))"
proof -
  obtain keys vals where p: "pick body (rs_cols r) = (keys, vals)" by (cases "pick body (rs_cols r)")
  from assms p have "tbl' = map (\<lambda>row. if row (rs_pk r) = Some rid then row ++ map_of (zip keys vals) else row) tbl"
    "published = [[rs_slice r]]"
    by (auto simp: put_row_def refuse_def announce_def Let_def split: if_splits)
  moreover have "(row ++ map_of (zip keys vals)) c = (if c \<in> set (rs_cols r) \<and> body c \<noteq> None then body c else row c)"
    for row c
    using pick_map_of [OF p, of c] by (auto simp: map_add_def split: option.splits)
  ultimately show ?thesis by auto
qed

section \<open>Properties\<close>

text \<open>
  C11: the whitelist. A request can set exactly the whitelisted columns it names: after a
  successful update, the row with the given key has the body's values in these columns and its
  old values in all others (whatever else the body contains), every other row is unchanged, and
  the update is announced.
\<close>
theorem put_row_whitelist:
  assumes "put_row True ok r (Some rid) body tbl = (tbl', 200, published)"
  shows "published = [[rs_slice r]] \<and> length tbl' = length tbl \<and>
     (\<forall>i < length tbl. \<forall>c. (tbl' ! i) c =
        (if (tbl ! i) (rs_pk r) = Some rid \<and> c \<in> set (rs_cols r) \<and> body c \<noteq> None then body c else (tbl ! i) c))"
  using put_row_update [OF assms] .

definition sample_rows :: "string row list" where
  "sample_rows = [[''id'' \<mapsto> ''k1'', ''name'' \<mapsto> ''a'', ''created_at'' \<mapsto> ''t''], [''id'' \<mapsto> ''k2'', ''name'' \<mapsto> ''b'']]"

theorem put_row_whitelist_witness:
  "\<exists>tbl' published. put_row True (\<lambda>_. True) (snd (hd RESOURCES)) (Some ''k1'')
      [''name'' \<mapsto> ''z'', ''id'' \<mapsto> ''evil'', ''created_at'' \<mapsto> ''x''] sample_rows = (tbl', 200, published) \<and>
     (tbl' ! 0) ''name'' = Some ''z'' \<and> (tbl' ! 0) ''id'' = Some ''k1'' \<and> (tbl' ! 1) ''name'' = Some ''b''"
proof -
  let ?p = "put_row True (\<lambda>_. True) (snd (hd RESOURCES)) (Some ''k1'')
      [''name'' \<mapsto> ''z'', ''id'' \<mapsto> ''evil'', ''created_at'' \<mapsto> ''x''] sample_rows"
  obtain tbl' code published where p: "?p = (tbl', code, published)" by (cases ?p)
  have "fst (snd ?p) = 200" by (simp add: put_row_def RESOURCES_def mk_def sample_rows_def)
  with p have p200: "?p = (tbl', 200, published)" by simp
  from put_row_whitelist [OF this] show ?thesis
    using p200 by (simp add: sample_rows_def RESOURCES_def mk_def)
qed

text \<open>
  No request text reaches the SQL. The statements of the generic handlers are determined by
  the resource and by which of its columns the body defines; values, ids and unknown fields do
  not occur in them, and an insert has one placeholder per value.
\<close>
theorem sql_from_whitelist:
  assumes "\<forall>c \<in> set (rs_cols r). body c = None \<longleftrightarrow> body' c = None"
  shows "insert_sql r (fst (pick body (rs_cols r))) = insert_sql r (fst (pick body' (rs_cols r))) \<and>
     update_sql r (fst (pick body (rs_cols r))) = update_sql r (fst (pick body' (rs_cols r))) \<and>
     set (fst (pick body (rs_cols r))) \<subseteq> set (rs_cols r) \<and>
     length (snd (pick body (rs_cols r))) = length (fst (pick body (rs_cols r)))"
proof -
  have keys: "fst (pick b (rs_cols r)) = filter (\<lambda>c. b c \<noteq> None) (rs_cols r)" for b :: "string \<Rightarrow> 'z option"
    using pick_facts [of b "rs_cols r"] by (cases "pick b (rs_cols r)") auto
  have "filter (\<lambda>c. body c \<noteq> None) (rs_cols r) = filter (\<lambda>c. body' c \<noteq> None) (rs_cols r)"
    using assms by (intro filter_cong) auto
  moreover have "length (snd (pick body (rs_cols r))) = length (fst (pick body (rs_cols r)))"
    using pick_facts [of body "rs_cols r"] by (cases "pick body (rs_cols r)") auto
  ultimately show ?thesis unfolding keys by auto
qed

theorem sql_from_whitelist_witness:
  "update_sql (snd (RESOURCES ! 2)) (fst (pick [''enabled'' \<mapsto> ''x; DROP TABLE t''] (rs_cols (snd (RESOURCES ! 2))))) =
     ''UPDATE relay_domains SET enabled=$1 WHERE domain=$2 RETURNING *''"
proof -
  let ?r = "snd (RESOURCES ! 2)"
  have "\<forall>c \<in> set (rs_cols ?r). [''enabled'' \<mapsto> ''x; DROP TABLE t''] c = None \<longleftrightarrow> [''enabled'' \<mapsto> ''true''] c = None"
    by (simp add: RESOURCES_def mk_def)
  from sql_from_whitelist [OF this] have
    "update_sql ?r (fst (pick [''enabled'' \<mapsto> ''x; DROP TABLE t''] (rs_cols ?r))) =
     update_sql ?r (fst (pick [''enabled'' \<mapsto> ''true''] (rs_cols ?r)))" by blast
  also have "\<dots> = ''UPDATE relay_domains SET enabled=$1 WHERE domain=$2 RETURNING *''"
    by code_simp
  finally show ?thesis .
qed

text \<open>When the publisher rejects, the write stays and the client is told of a failure.\<close>

lemma post_row_publish_fails:
  "post_row True ok d r body tbl = (tbl', 201, [[rs_slice r]]) \<Longrightarrow> post_row False ok d r body tbl = (tbl', 500, [])"
  by (auto simp: post_row_def announce_def refuse_def Let_def split: prod.splits if_splits)

end
