(* ===== verification/Dkim.thy ===== *)
theory Dkim
  imports Crud Secrets Checks
begin

text \<open>
  The secret store endpoints and DKIM key generation of \<open>routes.ts\<close>. A secret is stored under its
  reference as an envelope; a key row is the \<open>dkim_key\<close> that the domain check reads, with the
  reference of its private key. The key pair is drawn by the crypto library and an argument.
\<close>

section \<open>Secrets\<close>

type_synonym secret_table = "string \<rightharpoonup> envelope"

text \<open>\<open>sval\<close> is the text to seal (the string itself, or the JSON text of another value).\<close>

definition put_secret ::
  "bool \<Rightarrow> (string \<Rightarrow> secret_error + envelope) \<Rightarrow> string \<Rightarrow> string option \<Rightarrow> secret_table \<Rightarrow> secret_table outcome" where
  "put_secret pub_up enc ref sval tbl = (case sval of
     None \<Rightarrow> refuse tbl 400
   | Some plaintext \<Rightarrow> (case enc plaintext of
       Inl _ \<Rightarrow> refuse tbl 500
     | Inr e \<Rightarrow> announce pub_up [''providers'', ''dkim_keys''] (tbl(ref \<mapsto> e)) 204))"

definition delete_secret :: "bool \<Rightarrow> string \<Rightarrow> secret_table \<Rightarrow> secret_table outcome" where
  "delete_secret pub_up ref tbl =
     (if tbl ref = None then refuse tbl 404
      else announce pub_up [''providers'', ''dkim_keys''] (tbl(ref := None)) 204)"

interpretation put_secret: config_write "put_secret True enc ref sval" "[''providers'', ''dkim_keys'']" for enc ref sval
  by unfold_locales (auto simp: put_secret_def split: option.splits sum.splits)

interpretation delete_secret: config_write "delete_secret True ref" "[''providers'', ''dkim_keys'']" for ref
  by unfold_locales (auto simp: delete_secret_def split: if_splits)

section \<open>Key generation\<close>

record dkim_row = dkim_key +
  dk_private_ref :: string

record dkim_state =
  ds_secrets :: secret_table
  ds_keys :: "dkim_row list"

record keypair =
  kp_public_der :: string
  kp_private_pem :: string

definition secret_ref :: "string \<Rightarrow> string \<Rightarrow> string" where
  "secret_ref domain selector = ''dkim/'' @ domain @ ''/'' @ selector"

text \<open>\<open>UPDATE dkim_keys SET rotation='retiring' WHERE domain=$1 AND rotation='active'\<close>.\<close>

definition retire :: "string \<Rightarrow> dkim_row list \<Rightarrow> dkim_row list" where
  "retire domain keys = map (\<lambda>k. if dk_domain k = domain \<and> dk_rotation k = ''active''
     then k\<lparr>dk_rotation := ''retiring''\<rparr> else k) keys"

text \<open>\<open>INSERT INTO dkim_keys ... ON CONFLICT (domain, selector) DO UPDATE ...\<close>.\<close>

definition upsert_key :: "dkim_row \<Rightarrow> dkim_row list \<Rightarrow> dkim_row list" where
  "upsert_key row keys =
     (if list_ex (\<lambda>k. dk_domain k = dk_domain row \<and> dk_selector k = dk_selector row) keys
      then map (\<lambda>k. if dk_domain k = dk_domain row \<and> dk_selector k = dk_selector row
             then k\<lparr>dk_private_ref := dk_private_ref row, dk_public_key := dk_public_key row,
                    dk_rotation := ''active''\<rparr> else k) keys
      else keys @ [row])"

definition new_key :: "string \<Rightarrow> string \<Rightarrow> string \<Rightarrow> dkim_row" where
  "new_key domain selector der =
     \<lparr>dk_domain = domain, dk_selector = selector, dk_public_key = der, dk_rotation = ''active'',
      dk_private_ref = secret_ref domain selector\<rparr>"

text \<open>
  The handler: the outcome and the DNS record (name and sval) it returns. \<open>up k\<close> says whether the
  \<open>k\<close>-th of its three statements succeeds; they are not one transaction.
\<close>

definition generate_key ::
  "(nat \<Rightarrow> bool) \<Rightarrow> bool \<Rightarrow> (string \<Rightarrow> secret_error + envelope) \<Rightarrow> keypair \<Rightarrow> string option \<Rightarrow> string option \<Rightarrow>
     dkim_state \<Rightarrow> dkim_state outcome \<times> (string \<times> string) option" where
  "generate_key up pub_up enc kp domo selo st =
     (if \<not> truthy domo \<or> \<not> truthy selo then (refuse st 400, None)
      else (let domain = the domo; selector = the selo;
                ref = secret_ref domain selector;
                der = b64_encode (kp_public_der kp);
                txt = dkim_record der in
        case enc (kp_private_pem kp) of
          Inl _ \<Rightarrow> (refuse st 500, None)
        | Inr e \<Rightarrow>
            if \<not> up 0 then (refuse st 500, None)
            else (let st1 = st\<lparr>ds_secrets := (ds_secrets st)(ref \<mapsto> e)\<rparr> in
              if \<not> up 1 then ((st1, 500, []), None)
              else (let st2 = st1\<lparr>ds_keys := retire domain (ds_keys st1)\<rparr> in
                if \<not> up 2 then ((st2, 500, []), None)
                else (let st3 = st2\<lparr>ds_keys := upsert_key (new_key domain selector der) (ds_keys st2)\<rparr> in
                  (announce pub_up [''dkim_keys''] st3 201,
                   if pub_up then Some (dkim_host selector domain, txt) else None))))))"

section \<open>Facts\<close>

definition key_id :: "dkim_row \<Rightarrow> string \<times> string" where
  "key_id k = (dk_domain k, dk_selector k)"

lemma retire_ids: "map key_id (retire d keys) = map key_id keys"
  by (simp add: retire_def key_id_def)

lemma upsert_ids:
  "distinct (map key_id keys) \<Longrightarrow> distinct (map key_id (upsert_key row keys))"
proof -
  assume d: "distinct (map key_id keys)"
  have m: "map key_id (map (\<lambda>k. if dk_domain k = dk_domain row \<and> dk_selector k = dk_selector row
             then k\<lparr>dk_private_ref := dk_private_ref row, dk_public_key := dk_public_key row,
                    dk_rotation := ''active''\<rparr> else k) keys) = map key_id keys"
    unfolding map_map by (rule map_cong) (simp_all add: key_id_def)
  show ?thesis
  proof (cases "list_ex (\<lambda>k. dk_domain k = dk_domain row \<and> dk_selector k = dk_selector row) keys")
    case True
    with d show ?thesis unfolding upsert_key_def by (simp only: if_True m)
  next
    case False
    then have "key_id row \<notin> key_id ` set keys" by (auto simp: list_ex_iff key_id_def)
    with False d show ?thesis by (simp add: upsert_key_def)
  qed
qed

lemma retire_no_active: "k \<in> set (retire d keys) \<Longrightarrow> dk_domain k = d \<Longrightarrow> dk_rotation k \<noteq> ''active''"
proof -
  have "''retiring'' \<noteq> ''active''" by simp
  moreover assume "k \<in> set (retire d keys)" "dk_domain k = d"
  ultimately show ?thesis unfolding retire_def set_map by (elim imageE) (simp split: if_splits)
qed

definition active_keys :: "string \<Rightarrow> dkim_row list \<Rightarrow> dkim_row list" where
  "active_keys d keys = filter (\<lambda>k. dk_domain k = d \<and> dk_rotation k = ''active'') keys"

lemma upsert_active:
  assumes "\<forall>k \<in> set keys. dk_domain k = dk_domain row \<longrightarrow> dk_rotation k \<noteq> ''active''"
    and "distinct (map key_id keys)" and "dk_rotation row = ''active''"
  shows "map key_id (active_keys (dk_domain row) (upsert_key row keys)) = [key_id row] \<and>
     (\<forall>k \<in> set (active_keys (dk_domain row) (upsert_key row keys)).
        dk_public_key k = dk_public_key row \<and> dk_private_ref k = dk_private_ref row)"
proof (cases "list_ex (\<lambda>k. dk_domain k = dk_domain row \<and> dk_selector k = dk_selector row) keys")
  case False
  have "active_keys (dk_domain row) keys = []"
    using assms(1) by (auto simp: active_keys_def filter_empty_conv)
  with False assms(3) show ?thesis by (simp add: upsert_key_def active_keys_def)
next
  case True
  let ?f = "\<lambda>k. if dk_domain k = dk_domain row \<and> dk_selector k = dk_selector row
             then k\<lparr>dk_private_ref := dk_private_ref row, dk_public_key := dk_public_key row,
                    dk_rotation := ''active''\<rparr> else k"
  have up: "upsert_key row keys = map ?f keys" using True by (simp add: upsert_key_def)
  obtain xs k ys where split: "keys = xs @ k # ys" "key_id k = key_id row"
    using True split_list [of _ keys] by (fastforce simp: list_ex_iff key_id_def)
  then have other: "\<forall>j \<in> set xs \<union> set ys. key_id j \<noteq> key_id row" using assms(2) by (auto simp: image_iff)
  then have "\<forall>j \<in> set xs \<union> set ys. ?f j = j" by (auto simp: key_id_def)
  then have m: "map ?f keys = xs @ ?f k # ys" by (simp add: split(1) map_idI)
  have "active_keys (dk_domain row) xs = []" "active_keys (dk_domain row) ys = []"
    using assms(1) by (auto simp: split(1) active_keys_def filter_empty_conv)
  with split(2) show ?thesis
    unfolding up m by (simp add: active_keys_def key_id_def)
qed

lemma upsert_others:
  "dk_domain k \<noteq> dk_domain row \<Longrightarrow> k \<in> set (upsert_key row keys) \<longleftrightarrow> k \<in> set keys"
  by (auto simp: upsert_key_def image_iff split: if_splits)

lemma retire_others: "dk_domain k \<noteq> d \<Longrightarrow> k \<in> set (retire d keys) \<longleftrightarrow> k \<in> set keys"
  by (auto simp: retire_def image_iff split: if_splits)

lemma b64_encode_chars: "c \<in> set (b64_encode s) \<Longrightarrow> c \<in> set b64_alphabet \<or> c = CHR ''=''"
proof -
  assume c: "c \<in> set (b64_encode s)"
  have "\<forall>i \<in> set (b64_sextets (map code_of s)). i < 64" by (rule b64_sextets_less) simp
  moreover have "length b64_alphabet = 64" by code_simp
  ultimately show ?thesis using c by (fastforce simp: b64_encode_def split: if_splits)
qed

lemma b64_no_sep: "CHR '';'' \<notin> set (b64_encode s)" and b64_no_ws: "strip_ws (b64_encode s) = b64_encode s"
proof -
  have a: "list_all (\<lambda>c. \<not> is_ws c \<and> c \<noteq> CHR '';'') (CHR ''='' # b64_alphabet)" by code_simp
  then show "CHR '';'' \<notin> set (b64_encode s)" using b64_encode_chars [of "CHR '';''" s] by (auto simp: list_all_iff)
  have "\<forall>c \<in> set (b64_encode s). \<not> is_ws c" using a b64_encode_chars [of _ s] by (auto simp: list_all_iff)
  then show "strip_ws (b64_encode s) = b64_encode s" by (simp add: strip_ws_def)
qed

lemma b64_encode_Nil_iff: "b64_encode s = [] \<longleftrightarrow> s = []"
  using b64_decode_encode [of s] by (auto simp: b64_encode_def b64_decode_def List.map_filter_def)

lemma generate_key_success:
  assumes "generate_key up True enc kp domo selo st = ((st', 201, published), dns)"
  obtains domain selector e where "domo = Some domain" "selo = Some selector"
    "enc (kp_private_pem kp) = Inr e" "published = [[''dkim_keys'']]"
    "dns = Some (dkim_host selector domain, dkim_record (b64_encode (kp_public_der kp)))"
    "st' = \<lparr>ds_secrets = (ds_secrets st)(secret_ref domain selector \<mapsto> e),
        ds_keys = upsert_key (new_key domain selector (b64_encode (kp_public_der kp))) (retire domain (ds_keys st))\<rparr>"
  using assms
  by (cases st) (auto simp: generate_key_def refuse_def announce_def truthy_def Let_def
      split: if_splits sum.splits option.splits)

section \<open>The invariant of the key table\<close>

definition keys_inv :: "dkim_state \<Rightarrow> bool" where
  "keys_inv st \<longleftrightarrow> distinct (map key_id (ds_keys st)) \<and> (\<forall>d. length (active_keys d (ds_keys st)) \<le> 1)"

inductive generate_step :: "dkim_state \<Rightarrow> dkim_state \<Rightarrow> bool" where
  generate_stepI: "generate_key up pub_up enc kp domo selo st = ((st', code, published), dns) \<Longrightarrow>
     generate_step st st'"

lemma generate_step_run: "generate_step st (fst (fst (generate_key up pub_up enc kp domo selo st)))"
  by (cases "generate_key up pub_up enc kp domo selo st", cases "fst (generate_key up pub_up enc kp domo selo st)")
     (auto intro: generate_stepI)

inductive_cases generate_stepE: "generate_step st st'"

lemma generate_key_keys:
  "generate_key up pub_up enc kp domo selo st = ((st', code, published), dns) \<Longrightarrow>
     ds_keys st' = ds_keys st \<or> (\<exists>d. ds_keys st' = retire d (ds_keys st)) \<or>
     (\<exists>d s der. ds_keys st' = upsert_key (new_key d s der) (retire d (ds_keys st)))"
  by (simp add: generate_key_def refuse_def announce_def Let_def split: if_splits sum.splits; force)

lemma new_key_simps [simp]:
  "dk_domain (new_key d s der) = d" "dk_selector (new_key d s der) = s" "dk_public_key (new_key d s der) = der"
  "dk_rotation (new_key d s der) = ''active''" "dk_private_ref (new_key d s der) = secret_ref d s"
  by (simp_all add: new_key_def)

lemma active_retire: "active_keys e (retire d keys) = (if e = d then [] else active_keys e keys)"
proof (cases "e = d")
  case True
  then show ?thesis using retire_no_active [of _ d keys] by (auto simp: active_keys_def filter_empty_conv)
next
  case False
  then show ?thesis by (induction keys) (auto simp: active_keys_def retire_def)
qed

lemma active_upsert_other:
  "e \<noteq> dk_domain row \<Longrightarrow> active_keys e (upsert_key row keys) = active_keys e keys"
proof -
  assume e: "e \<noteq> dk_domain row"
  have "filter (\<lambda>k. dk_domain k = e \<and> dk_rotation k = ''active'')
      (map (\<lambda>k. if dk_domain k = dk_domain row \<and> dk_selector k = dk_selector row
             then k\<lparr>dk_private_ref := dk_private_ref row, dk_public_key := dk_public_key row,
                    dk_rotation := ''active''\<rparr> else k) keys) =
      filter (\<lambda>k. dk_domain k = e \<and> dk_rotation k = ''active'') keys"
    using e by (induction keys) auto
  with e show ?thesis by (simp add: active_keys_def upsert_key_def)
qed

lemma keys_inv_step: "keys_inv st \<Longrightarrow> generate_step st st' \<Longrightarrow> keys_inv st'"
proof (elim generate_stepE)
  fix up pub_up enc kp domo selo code published dns
  assume inv: "keys_inv st"
    and g: "generate_key up pub_up enc kp domo selo st = ((st', code, published), dns)"
  from inv have ids: "distinct (map key_id (retire d (ds_keys st)))" for d
    by (simp add: keys_inv_def retire_ids)
  have ret: "length (active_keys e (retire d (ds_keys st))) \<le> 1" for d e
    using inv by (simp add: keys_inv_def active_retire)
  have "length (active_keys e (upsert_key (new_key d s der) (retire d (ds_keys st)))) \<le> 1" for d s der e
  proof (cases "e = d")
    case True
    have "map key_id (active_keys d (upsert_key (new_key d s der) (retire d (ds_keys st)))) = [key_id (new_key d s der)]"
      using upsert_active [of "retire d (ds_keys st)" "new_key d s der"] ids retire_no_active by auto
    then have "length (map key_id (active_keys d (upsert_key (new_key d s der) (retire d (ds_keys st))))) = 1" by simp
    with True show ?thesis by simp
  qed (use ret in \<open>simp add: active_upsert_other\<close>)
  with generate_key_keys [OF g] inv ids ret upsert_ids show "keys_inv st'"
    unfolding keys_inv_def by (elim disjE exE) (simp_all add: retire_ids)
qed

interpretation dkim_table: machine_invariant "\<lambda>st. ds_keys st = []" generate_step keys_inv
proof unfold_locales
  show "ds_keys st = [] \<Longrightarrow> keys_inv st" for st by (simp add: keys_inv_def active_keys_def)
qed (rule keys_inv_step)

section \<open>Properties\<close>

text \<open>
  C7: key generation and domain check agree. Publishing the record that key generation returns,
  at the name it returns, makes the check of the new signing key report ok: the name is the one
  the check resolves, and the record carries the public key stored in the active row.
\<close>
theorem generated_key_verifies:
  assumes "generate_key up True enc kp domo selo st = ((st', 201, published), Some (name, txt))"
    and "kp_public_der kp \<noteq> []" and "distinct (map key_id (ds_keys st))"
  shows "\<exists>k. active_keys (the domo) (ds_keys st') = [k] \<and> name = dkim_host (dk_selector k) (dk_domain k) \<and>
     rr_status (gradeDkim (Some txt) (dk_public_key k) (dk_rotation k) (dk_selector k) (dk_domain k)) = Ok"
proof -
  from assms(1) obtain d s e where g: "domo = Some d" "name = dkim_host s d"
    "txt = dkim_record (b64_encode (kp_public_der kp))"
    "ds_keys st' = upsert_key (new_key d s (b64_encode (kp_public_der kp))) (retire d (ds_keys st))"
    by (elim generate_key_success) auto
  let ?der = "b64_encode (kp_public_der kp)" and ?a = "active_keys d (ds_keys st')"
  have up: "map key_id ?a = [key_id (new_key d s ?der)]" "\<forall>k \<in> set ?a. dk_public_key k = ?der"
    using upsert_active [of "retire d (ds_keys st)" "new_key d s ?der"] assms(3) retire_no_active g(4)
    by (auto simp: retire_ids)
  then obtain k where k: "?a = [k]" "dk_domain k = d" "dk_selector k = s" "dk_public_key k = ?der"
    by (auto simp: map_eq_Cons_conv key_id_def)
  have "k \<in> set ?a" using k(1) by simp
  then have rot: "dk_rotation k = ''active''" by (simp add: active_keys_def)
  have "dkim_matches txt ?der"
    unfolding g(3) using assms(2) by (intro dkim_matches_record) (simp_all add: b64_no_sep b64_no_ws b64_encode_Nil_iff)
  moreover have "txt \<noteq> []" by (simp add: g(3) dkim_record_def)
  ultimately have "rr_status (gradeDkim (Some txt) (dk_public_key k) (dk_rotation k) (dk_selector k) (dk_domain k)) = Ok"
    by (simp add: gradeDkim_cases k rot)
  with k g show ?thesis by auto
qed

definition sample_enc :: "string \<Rightarrow> secret_error + envelope" where
  "sample_enc p = Inr \<lparr>env_v = 1, env_dek = ''d'', env_data = p\<rparr>"

definition sample_dkim :: dkim_state where
  "sample_dkim = \<lparr>ds_secrets = Map.empty, ds_keys = [new_key ''a.io'' ''s1'' ''OLD='', new_key ''b.io'' ''s1'' ''X'']\<rparr>"

definition sample_keypair :: keypair where
  "sample_keypair = \<lparr>kp_public_der = ''pub'', kp_private_pem = ''pem''\<rparr>"

lemma sample_generate:
  "\<exists>st' published name txt. generate_key (\<lambda>k. True) True sample_enc sample_keypair (Some ''a.io'') (Some ''s2'') sample_dkim =
     ((st', 201, published), Some (name, txt))"
  by (simp add: generate_key_def sample_enc_def announce_def Let_def)

theorem generated_key_verifies_witness:
  "\<exists>st' published name dv k.
     generate_key (\<lambda>k. True) True sample_enc sample_keypair (Some ''a.io'') (Some ''s2'') sample_dkim =
       ((st', 201, published), Some (name, dv)) \<and> active_keys ''a.io'' (ds_keys st') = [k] \<and>
     rr_status (gradeDkim (Some dv) (dk_public_key k) (dk_rotation k) (dk_selector k) (dk_domain k)) = Ok"
proof -
  from sample_generate obtain st' published name dv where
    g: "generate_key (\<lambda>k. True) True sample_enc sample_keypair (Some ''a.io'') (Some ''s2'') sample_dkim =
       ((st', 201, published), Some (name, dv))" by blast
  have "kp_public_der sample_keypair \<noteq> []" "distinct (map key_id (ds_keys sample_dkim))"
    by (simp_all add: sample_keypair_def sample_dkim_def key_id_def)
  from generated_key_verifies [OF g this] obtain k where
    "active_keys ''a.io'' (ds_keys st') = [k]"
    "rr_status (gradeDkim (Some dv) (dk_public_key k) (dk_rotation k) (dk_selector k) (dk_domain k)) = Ok"
    by auto
  with g show ?thesis by blast
qed



text \<open>
  The three statements are no transaction: when the last one fails, the old key has been retired
  and the domain is left without an active key.
\<close>

lemma generate_key_partial:
  "\<exists>st'. generate_key (\<lambda>k. k \<noteq> 2) True sample_enc sample_keypair (Some ''a.io'') (Some ''s2'') sample_dkim =
     ((st', 500, []), None) \<and> active_keys ''a.io'' (ds_keys sample_dkim) \<noteq> [] \<and> active_keys ''a.io'' (ds_keys st') = []"
  by (simp add: generate_key_def sample_enc_def sample_dkim_def active_keys_def retire_def Let_def)

end
