(* ===== verification/Feedback.thy ===== *)
theory Feedback
  imports Crud Values
begin

text \<open>
  The suppression list of \<open>routes.ts\<close> (lines 295-351): manual additions and removals, and the
  bounce and complaint feedback of a provider. Request bodies are JSON values. \<open>JSON.parse\<close> and the database driver's text of a parameter that is no string are
  arguments. The table is a list of rows in insertion order.
\<close>

section \<open>The table\<close>

record suppression =
  sp_address :: string
  sp_reason :: string
  sp_source :: string
  sp_created :: nat

definition reasons :: "string list" where
  "reasons = [''hard_bounce'', ''complaint'', ''manual'']"

text \<open>
  \<open>INSERT ... VALUES (lower($1),$2,$3) ON CONFLICT (address) DO UPDATE SET reason=EXCLUDED.reason\<close>.
  A null address or a reason outside the check constraint makes the query reject (\<open>None\<close>).
\<close>

definition suppress ::
  "nat \<Rightarrow> string option \<Rightarrow> string option \<Rightarrow> string \<Rightarrow> suppression list \<Rightarrow> suppression list option" where
  "suppress now addr reason source tbl = (case (addr, reason) of
     (Some a, Some rsn) \<Rightarrow>
       if rsn \<notin> set reasons then None
       else if list_ex (\<lambda>s. sp_address s = js_lower a) tbl
         then Some (map (\<lambda>s. if sp_address s = js_lower a then s\<lparr>sp_reason := rsn\<rparr> else s) tbl)
       else Some (tbl @ [\<lparr>sp_address = js_lower a, sp_reason = rsn, sp_source = source, sp_created = now\<rparr>])
   | _ \<Rightarrow> None)"

definition get_suppressions :: "suppression list \<Rightarrow> suppression list" where
  "get_suppressions tbl = rev (sort_key sp_created tbl)"

definition post_suppression ::
  "bool \<Rightarrow> nat \<Rightarrow> string option \<Rightarrow> string option \<Rightarrow> suppression list \<Rightarrow> suppression list outcome" where
  "post_suppression pub_up now addr reason tbl =
     (if addr = None \<or> addr = Some [] then refuse tbl 400
      else (case suppress now addr (Some (case reason of None \<Rightarrow> ''manual'' | Some r \<Rightarrow> r)) ''manual'' tbl of
        None \<Rightarrow> refuse tbl 500
      | Some tbl' \<Rightarrow> announce pub_up [''suppressions''] tbl' 201))"

definition delete_suppression :: "bool \<Rightarrow> string \<Rightarrow> suppression list \<Rightarrow> suppression list outcome" where
  "delete_suppression pub_up a tbl =
     (if \<not> list_ex (\<lambda>s. sp_address s = js_lower a) tbl then refuse tbl 404
      else announce pub_up [''suppressions''] (filter (\<lambda>s. sp_address s \<noteq> js_lower a) tbl) 204)"

interpretation post_suppression: config_write "post_suppression True now addr reason" "[''suppressions'']"
  for now addr reason
  by unfold_locales (auto simp: post_suppression_def split: option.splits if_splits)

interpretation delete_suppression: config_write "delete_suppression True a" "[''suppressions'']" for a
  by unfold_locales (auto simp: delete_suppression_def split: if_splits)

section \<open>Feedback\<close>

text \<open>\<open>for (const r of recipients) addrs.push(r.emailAddress)\<close>.\<close>

primrec email_addresses :: "json list \<Rightarrow> unit + json option list" where
  "email_addresses [] = Inr []"
| "email_addresses (r # rs) = (case get_field ''emailAddress'' (Some r) of
     Inl e \<Rightarrow> Inl e
   | Inr a \<Rightarrow> map_sum (\<lambda>e. e) (\<lambda>as. a # as) (email_addresses rs))"

definition recipients_of :: "json option \<Rightarrow> unit + json option list" where
  "recipients_of v = (case iterate v of Inl e \<Rightarrow> Inl e | Inr rs \<Rightarrow> email_addresses rs)"

text \<open>The \<open>msg\<close> of the notification: \<open>None\<close> when \<open>JSON.parse\<close> throws.\<close>

definition notification :: "(string \<Rightarrow> json option) \<Rightarrow> json \<Rightarrow> json option" where
  "notification parse m = (case m of JStr s \<Rightarrow> parse s | _ \<Rightarrow> Some m)"

text \<open>The addresses and the reason, or a throw: the \<open>try\<close> block.\<close>

definition read_message :: "json option \<Rightarrow> unit + (json option list \<times> json)" where
  "read_message msg = (case msg of
     None \<Rightarrow> Inl ()
   | Some m \<Rightarrow> (case get_field ''notificationType'' (Some m) of
       Inl e \<Rightarrow> Inl e
     | Inr k \<Rightarrow>
         if k = Some (JStr ''Complaint'')
         then map_sum (\<lambda>e. e) (\<lambda>as. (as, JStr ''complaint''))
                (recipients_of (get_opt ''complainedRecipients'' (field ''complaint'' m)))
         else if k = Some (JStr ''Bounce'')
         then map_sum (\<lambda>e. e) (\<lambda>as. (as, JStr ''hard_bounce''))
                (recipients_of (get_opt ''bouncedRecipients'' (field ''bounce'' m)))
         else Inr ([], JStr ''hard_bounce'')))"

definition read_feedback :: "(string \<Rightarrow> json option) \<Rightarrow> json option \<Rightarrow> unit + (json option list \<times> json)" where
  "read_feedback parse body = (case get_opt ''Message'' body of
     Some m \<Rightarrow> read_message (notification parse m)
   | None \<Rightarrow> (case get_opt ''addresses'' body of
       Some (JArr xs) \<Rightarrow>
         Inr (map Some xs, (case get_opt ''reason'' body of
            None \<Rightarrow> JStr ''hard_bounce'' | Some JNull \<Rightarrow> JStr ''hard_bounce'' | Some r \<Rightarrow> r))
     | _ \<Rightarrow> Inr ([], JStr ''hard_bounce'')))"

definition sql_text :: "(json \<Rightarrow> string) \<Rightarrow> json option \<Rightarrow> string option" where
  "sql_text conv v = (if nullish v then None else Some (case the v of JStr s \<Rightarrow> s | j \<Rightarrow> conv j))"

text \<open>One query per address; the first that rejects ends the request, what is stored stays.\<close>

fun suppress_all ::
  "nat \<Rightarrow> (json \<Rightarrow> string) \<Rightarrow> json \<Rightarrow> string \<Rightarrow> json option list \<Rightarrow> suppression list \<Rightarrow> suppression list \<times> bool" where
  "suppress_all now conv reason provider [] tbl = (tbl, True)"
| "suppress_all now conv reason provider (a # as) tbl =
     (case suppress now (sql_text conv a) (sql_text conv (Some reason)) provider tbl of
        None \<Rightarrow> (tbl, False)
      | Some tbl' \<Rightarrow> suppress_all now conv reason provider as tbl')"

text \<open>The handler; the number is \<open>suppressed\<close> of the reply.\<close>

definition feedback ::
  "bool \<Rightarrow> nat \<Rightarrow> (string \<Rightarrow> json option) \<Rightarrow> (json \<Rightarrow> string) \<Rightarrow> string \<Rightarrow> json option \<Rightarrow> suppression list \<Rightarrow>
     suppression list outcome \<times> nat option" where
  "feedback pub_up now parse conv provider body tbl = (case read_feedback parse body of
     Inl _ \<Rightarrow> (refuse tbl 400, None)
   | Inr (addrs, reason) \<Rightarrow>
       (case suppress_all now conv reason provider addrs tbl of
          (tbl', False) \<Rightarrow> ((tbl', 500, []), None)
        | (tbl', True) \<Rightarrow>
            if addrs = [] then ((tbl', 200, []), Some 0)
            else (announce pub_up [''suppressions''] tbl' 200, if pub_up then Some (length addrs) else None)))"

section \<open>Facts about the upsert\<close>

definition suppressed :: "suppression list \<Rightarrow> string \<Rightarrow> string option" where
  "suppressed tbl a = map_of (map (\<lambda>s. (sp_address s, sp_reason s)) tbl) a"

definition suppressions_ok :: "suppression list \<Rightarrow> bool" where
  "suppressions_ok tbl \<longleftrightarrow> distinct (map sp_address tbl) \<and>
     (\<forall>s \<in> set tbl. js_lower (sp_address s) = sp_address s \<and> sp_reason s \<in> set reasons)"

lemma suppressed_None: "suppressed tbl a = None \<longleftrightarrow> a \<notin> sp_address ` set tbl"
  by (auto simp: suppressed_def map_of_eq_None_iff image_image)

lemma suppressed_update:
  "suppressed (map (\<lambda>s. if sp_address s = a then s\<lparr>sp_reason := r\<rparr> else s) tbl) =
     (if suppressed tbl a = None then suppressed tbl else (suppressed tbl)(a \<mapsto> r))"
proof -
  have "suppressed (map (\<lambda>s. if sp_address s = a then s\<lparr>sp_reason := r\<rparr> else s) tbl) b =
     (if suppressed tbl a = None then suppressed tbl else (suppressed tbl)(a \<mapsto> r)) b" for b
    by (induction tbl) (auto simp: suppressed_def)
  then show ?thesis by blast
qed

lemma suppress_Some:
  "suppress now (Some a) (Some r) source tbl = Some tbl' \<Longrightarrow>
     r \<in> set reasons \<and> suppressed tbl' = (suppressed tbl)(js_lower a \<mapsto> r)"
proof -
  assume u: "suppress now (Some a) (Some r) source tbl = Some tbl'"
  then have r: "r \<in> set reasons" by (simp add: suppress_def split: if_splits)
  have "suppressed (tbl @ [\<lparr>sp_address = js_lower a, sp_reason = r, sp_source = source, sp_created = now\<rparr>]) =
      (suppressed tbl)(js_lower a \<mapsto> r)" if "\<not> list_ex (\<lambda>s. sp_address s = js_lower a) tbl"
  proof -
    have "suppressed tbl (js_lower a) = None" using that by (auto simp: suppressed_None list_ex_iff)
    then show ?thesis by (auto simp: suppressed_def map_add_def split: option.splits)
  qed
  moreover have "suppressed tbl (js_lower a) \<noteq> None" if "list_ex (\<lambda>s. sp_address s = js_lower a) tbl"
    using that unfolding suppressed_None by (force simp: list_ex_iff)
  ultimately show ?thesis
    using u r suppressed_update [of "js_lower a" r tbl] by (auto simp: suppress_def split: if_splits)
qed

lemma suppress_total: "r \<in> set reasons \<Longrightarrow> \<exists>tbl'. suppress now (Some a) (Some r) source tbl = Some tbl'"
  by (simp add: suppress_def)

lemma suppress_ok [inv_intros]:
  "suppressions_ok tbl \<Longrightarrow> suppress now addr reason source tbl = Some tbl' \<Longrightarrow> suppressions_ok tbl'"
proof -
  assume ok: "suppressions_ok tbl" and u: "suppress now addr reason source tbl = Some tbl'"
  have m: "map sp_address (map (\<lambda>s. if sp_address s = a then s\<lparr>sp_reason := r\<rparr> else s) tbl) = map sp_address tbl" for a r
    by simp
  from u obtain a r where ar: "addr = Some a" "reason = Some r" "r \<in> set reasons"
    by (auto simp: suppress_def split: option.splits if_splits)
  consider (old) "tbl' = map (\<lambda>s. if sp_address s = js_lower a then s\<lparr>sp_reason := r\<rparr> else s) tbl"
    | (fresh) "tbl' = tbl @ [\<lparr>sp_address = js_lower a, sp_reason = r, sp_source = source, sp_created = now\<rparr>]"
      "js_lower a \<notin> sp_address ` set tbl"
  proof (cases "list_ex (\<lambda>s. sp_address s = js_lower a) tbl")
    case False
    then have "js_lower a \<notin> sp_address ` set tbl" by (auto simp: list_ex_iff)
    with False u ar fresh show ?thesis by (simp add: suppress_def)
  qed (use u ar old in \<open>simp add: suppress_def\<close>)
  then show ?thesis
  proof cases
    case old
    then have "distinct (map sp_address tbl')" using ok m by (simp only: suppressions_ok_def)
    with old ok ar show ?thesis by (auto simp: suppressions_ok_def)
  qed (use ok ar in \<open>simp add: suppressions_ok_def\<close>)
qed

lemma suppress_all_ok [inv_intros]:
  "suppressions_ok tbl \<Longrightarrow> suppressions_ok (fst (suppress_all now conv reason provider as tbl))"
  by (induction as arbitrary: tbl) (auto split: option.splits intro: suppress_ok)

lemma feedback_table:
  "fst (fst (feedback pub_up now parse conv provider body tbl)) = tbl \<or>
   (\<exists>reason as. fst (fst (feedback pub_up now parse conv provider body tbl)) = fst (suppress_all now conv reason provider as tbl))"
proof (cases "read_feedback parse body")
  case (Inr p)
  obtain as r where "p = (as, r)" by (cases p)
  with Inr have "fst (fst (feedback pub_up now parse conv provider body tbl)) = fst (suppress_all now conv r provider as tbl)"
    by (cases "suppress_all now conv r provider as tbl") (auto simp: feedback_def split: bool.splits)
  then show ?thesis by blast
qed (simp add: feedback_def)

section \<open>The machine of the suppression list\<close>

inductive suppression_step :: "suppression list \<Rightarrow> suppression list \<Rightarrow> bool" where
  step_post: "suppression_step tbl (fst (post_suppression pub_up now addr reason tbl))"
| step_delete: "suppression_step tbl (fst (delete_suppression pub_up a tbl))"
| step_feedback: "suppression_step tbl (fst (fst (feedback pub_up now parse conv provider body tbl)))"

inductive_cases suppression_stepE: "suppression_step tbl tbl'"

lemma suppression_step_ok: "suppressions_ok tbl \<Longrightarrow> suppression_step tbl tbl' \<Longrightarrow> suppressions_ok tbl'"
proof (elim suppression_stepE)
  fix pub_up now addr reason
  assume ok: "suppressions_ok tbl" and t: "tbl' = fst (post_suppression pub_up now addr reason tbl)"
  then show "suppressions_ok tbl'" by (auto simp: post_suppression_def split: option.splits intro: suppress_ok)
next
  fix pub_up a
  assume ok: "suppressions_ok tbl" and t: "tbl' = fst (delete_suppression pub_up a tbl)"
  have "inj_on sp_address (set tbl)" "distinct tbl" using ok by (simp_all add: suppressions_ok_def distinct_map)
  with ok t show "suppressions_ok tbl'"
    by (auto simp: delete_suppression_def suppressions_ok_def distinct_map intro: inj_on_subset)
next
  fix pub_up now parse conv provider body
  assume "suppressions_ok tbl" and "tbl' = fst (fst (feedback pub_up now parse conv provider body tbl))"
  with feedback_table [of pub_up now parse conv provider body tbl] show "suppressions_ok tbl'"
    by (metis suppress_all_ok)
qed

interpretation suppression_list: machine_invariant "\<lambda>tbl. tbl = []" suppression_step suppressions_ok
  by unfold_locales (simp add: suppressions_ok_def, rule suppression_step_ok)

section \<open>Facts about feedback\<close>

lemma suppress_all_strings:
  "r \<in> set reasons \<Longrightarrow> \<exists>tbl'.
     suppress_all now conv (JStr r) provider (map (\<lambda>a. Some (JStr a)) as) tbl = (tbl', True) \<and>
     (\<forall>a. suppressed tbl' a = (if a \<in> js_lower ` set as then Some r else suppressed tbl a))"
proof (induction as arbitrary: tbl)
  case (Cons a as)
  obtain t1 where t1: "suppress now (Some a) (Some r) provider tbl = Some t1" using suppress_total [OF Cons.prems] by blast
  then have s1: "suppressed t1 = (suppressed tbl)(js_lower a \<mapsto> r)" using suppress_Some by blast
  have u: "suppress_all now conv (JStr r) provider (map (\<lambda>a. Some (JStr a)) (a # as)) tbl =
      suppress_all now conv (JStr r) provider (map (\<lambda>a. Some (JStr a)) as) t1"
    using t1 by (simp add: sql_text_def nullish_def)
  from Cons.IH [OF Cons.prems, of t1] show ?case unfolding u by (auto simp: s1)
qed simp

lemma email_addresses_strings:
  "map (field ''emailAddress'') rs = map (\<lambda>a. Some (JStr a)) as \<Longrightarrow>
     email_addresses rs = Inr (map (\<lambda>a. Some (JStr a)) as)"
proof (induction rs arbitrary: as)
  case (Cons r rs)
  then obtain a as' where as: "as = a # as'" "field ''emailAddress'' r = Some (JStr a)"
    "map (field ''emailAddress'') rs = map (\<lambda>a. Some (JStr a)) as'" by (cases as) auto
  then have "r \<noteq> JNull" by auto
  with as Cons.IH [of as'] show ?case by (simp add: get_field_def nullish_def)
qed simp

lemma email_addresses_error: "email_addresses rs = Inl () \<longleftrightarrow> JNull \<in> set rs"
  by (induction rs) (auto simp: get_field_def nullish_def split: sum.splits, (case_tac "email_addresses rs"; simp)+)

text \<open>What the loop over the recipients throws on.\<close>

definition bad_recipients :: "json option \<Rightarrow> bool" where
  "bad_recipients v = (case v of
     None \<Rightarrow> False | Some JNull \<Rightarrow> False | Some (JStr _) \<Rightarrow> False | Some (JArr xs) \<Rightarrow> JNull \<in> set xs | _ \<Rightarrow> True)"

lemma recipients_of_error: "recipients_of v = Inl () \<longleftrightarrow> bad_recipients v"
  by (cases v rule: iterate.cases)
     (auto simp: recipients_of_def bad_recipients_def email_addresses_error)

lemma map_sum_Inl: "map_sum (g :: unit \<Rightarrow> unit) f x = Inl () \<longleftrightarrow> x = Inl ()"
  by (cases x) auto

lemma read_message_error:
  "read_message (Some m) = Inl () \<longleftrightarrow> m = JNull \<or>
     field ''notificationType'' m = Some (JStr ''Complaint'') \<and>
       bad_recipients (get_opt ''complainedRecipients'' (field ''complaint'' m)) \<or>
     field ''notificationType'' m = Some (JStr ''Bounce'') \<and>
       bad_recipients (get_opt ''bouncedRecipients'' (field ''bounce'' m))"
  by (auto simp: read_message_def get_field_def nullish_def map_sum_Inl recipients_of_error)

section \<open>Properties\<close>

text \<open>
  The suppression list stays canonical. Whatever additions, removals and feedback requests
  ran, failing ones included, every address is stored once and in lower case, with one of the
  three reasons of the schema.
\<close>
theorem suppression_invariant:
  assumes "reach (\<lambda>tbl. tbl = []) suppression_step tbl"
  shows "distinct (map sp_address tbl) \<and>
     (\<forall>s \<in> set tbl. js_lower (sp_address s) = sp_address s \<and> sp_reason s \<in> set reasons)"
  using suppression_list.reach_inv [OF assms] by (simp add: suppressions_ok_def)

theorem suppression_invariant_witness:
  "\<exists>tbl. reach (\<lambda>tbl. tbl = []) suppression_step tbl \<and> length tbl = 1 \<and> distinct (map sp_address tbl)"
proof -
  let ?t1 = "fst (post_suppression True 1 (Some ''A@b.io'') None [])"
  let ?t2 = "fst (post_suppression True 2 (Some ''a@B.io'') (Some ''complaint'') ?t1)"
  have r: "reach (\<lambda>tbl. tbl = []) suppression_step ?t2"
  proof (rule reach_step)
    show "reach (\<lambda>tbl. tbl = []) suppression_step ?t1"
      by (rule reach_step [OF reach_init, of _ "[]"]) (simp, rule step_post)
  qed (rule step_post)
  have "length ?t2 = 1" by code_simp
  with suppression_invariant [OF r] r show ?thesis by blast
qed

text \<open>
  Adding and removing are inverse and ignore case. Suppressing an address and then deleting
  it under any spelling leaves it unsuppressed and every other address as it was; both writes
  are announced.
\<close>
theorem suppress_delete:
  assumes "suppressions_ok tbl" and "a \<noteq> []" and "reason \<in> set reasons" and "js_lower b = js_lower a"
  shows "\<exists>t1 t2. post_suppression True now (Some a) (Some reason) tbl = (t1, 201, [[''suppressions'']]) \<and>
     suppressed t1 (js_lower b) = Some reason \<and>
     delete_suppression True b t1 = (t2, 204, [[''suppressions'']]) \<and>
     suppressed t2 = (suppressed tbl)(js_lower b := None)"
proof -
  obtain t1 where t1: "suppress now (Some a) (Some reason) ''manual'' tbl = Some t1"
    using suppress_total [OF assms(3)] by blast
  then have s1: "suppressed t1 = (suppressed tbl)(js_lower a \<mapsto> reason)" using suppress_Some by blast
  have "js_lower a \<in> sp_address ` set t1"
    using s1 suppressed_None [of t1 "js_lower a"] by (metis fun_upd_same option.distinct(1))
  then have ex: "list_ex (\<lambda>s. sp_address s = js_lower b) t1" using assms(4) by (auto simp: list_ex_iff)
  have f: "suppressed (filter (\<lambda>s. sp_address s \<noteq> c) t) = (suppressed t)(c := None)" for c t
  proof
    show "suppressed (filter (\<lambda>s. sp_address s \<noteq> c) t) x = ((suppressed t)(c := None)) x" for x
      by (induction t) (auto simp: suppressed_def)
  qed
  let ?t2 = "filter (\<lambda>s. sp_address s \<noteq> js_lower b) t1"
  have "post_suppression True now (Some a) (Some reason) tbl = (t1, 201, [[''suppressions'']])"
    using assms(2) t1 by (simp add: post_suppression_def announce_def)
  moreover have "delete_suppression True b t1 = (?t2, 204, [[''suppressions'']])"
    using ex by (simp add: delete_suppression_def announce_def)
  ultimately show ?thesis using s1 f [of "js_lower b" t1] assms(4) by simp
qed

theorem suppress_delete_witness:
  "\<exists>t1 t2. post_suppression True 7 (Some ''Joe@Acme.io'') (Some ''manual'') [] = (t1, 201, [[''suppressions'']]) \<and>
     delete_suppression True ''JOE@acme.io'' t1 = (t2, 204, [[''suppressions'']]) \<and> suppressed t2 ''joe@acme.io'' = None"
proof -
  have "suppressions_ok []" "''Joe@Acme.io'' \<noteq> []" "''manual'' \<in> set reasons"
    "js_lower ''JOE@acme.io'' = js_lower ''Joe@Acme.io''"
    by (simp add: suppressions_ok_def, simp, simp add: reasons_def, code_simp)
  from suppress_delete [OF this, of 7] obtain t1 t2 where t:
    "post_suppression True 7 (Some ''Joe@Acme.io'') (Some ''manual'') [] = (t1, 201, [[''suppressions'']])"
    "delete_suppression True ''JOE@acme.io'' t1 = (t2, 204, [[''suppressions'']])"
    "suppressed t2 = (suppressed [])(js_lower ''JOE@acme.io'' := None)" by blast
  have "suppressed t2 ''joe@acme.io'' = None" unfolding t(3) by (simp add: suppressed_def)
  with t show ?thesis by blast
qed

text \<open>
  When feedback is unparseable. The request is answered 400, with the list unchanged and
  nothing published, in exactly these cases: its message is a text that does not parse, the
  message is null, or it is a bounce or complaint whose recipients cannot be iterated or contain
  a null.
\<close>
theorem feedback_unparseable:
  "(fst (snd (fst (feedback pub_up now parse conv provider body tbl))) = 400 \<longleftrightarrow>
     (\<exists>m. get_opt ''Message'' body = Some m \<and>
        (case notification parse m of
           None \<Rightarrow> True
         | Some n \<Rightarrow> n = JNull \<or>
             field ''notificationType'' n = Some (JStr ''Complaint'') \<and>
               bad_recipients (get_opt ''complainedRecipients'' (field ''complaint'' n)) \<or>
             field ''notificationType'' n = Some (JStr ''Bounce'') \<and>
               bad_recipients (get_opt ''bouncedRecipients'' (field ''bounce'' n))))) \<and>
   (fst (snd (fst (feedback pub_up now parse conv provider body tbl))) = 400 \<longleftrightarrow>
     feedback pub_up now parse conv provider body tbl = ((tbl, 400, []), None))"
proof -
  have code: "fst (snd (fst (feedback pub_up now parse conv provider body tbl))) = 400 \<longleftrightarrow>
      read_feedback parse body = Inl ()"
    by (cases "read_feedback parse body")
       (auto simp: feedback_def announce_def refuse_def split: prod.splits bool.splits)
  have inl: "read_feedback parse body = Inl () \<longleftrightarrow>
      (\<exists>m. get_opt ''Message'' body = Some m \<and> read_message (notification parse m) = Inl ())"
    by (auto simp: read_feedback_def split: option.splits json.splits)
  have none: "read_message None = Inl ()" by (simp add: read_message_def)
  have "feedback pub_up now parse conv provider body tbl = ((tbl, 400, []), None) \<longleftrightarrow> read_feedback parse body = Inl ()"
  proof
    assume "feedback pub_up now parse conv provider body tbl = ((tbl, 400, []), None)"
    then have "fst (snd (fst (feedback pub_up now parse conv provider body tbl))) = 400" by simp
    then show "read_feedback parse body = Inl ()" using code by blast
  qed (simp add: feedback_def refuse_def)
  moreover have "read_message (notification parse m) = Inl () \<longleftrightarrow> (case notification parse m of
       None \<Rightarrow> True
     | Some n \<Rightarrow> n = JNull \<or>
         field ''notificationType'' n = Some (JStr ''Complaint'') \<and>
           bad_recipients (get_opt ''complainedRecipients'' (field ''complaint'' n)) \<or>
         field ''notificationType'' n = Some (JStr ''Bounce'') \<and>
           bad_recipients (get_opt ''bouncedRecipients'' (field ''bounce'' n)))" for m
    by (cases "notification parse m") (simp_all add: none read_message_error)
  ultimately show ?thesis unfolding code by (simp add: inl)
qed

text \<open>
  C17: bounce and complaint feedback does what it reports. A notification whose recipients all
  carry an address suppresses exactly these addresses, in lower case and under the reason of its
  kind, and changes no other entry; the reply counts the recipients, and the change is announced
  unless there are none.
\<close>
theorem feedback_suppresses:
  assumes "get_opt ''Message'' body = Some (JStr txt)" and "parse txt = Some n"
    and "(kind, part, list, reason) \<in> {(''Complaint'', ''complaint'', ''complainedRecipients'', ''complaint''),
          (''Bounce'', ''bounce'', ''bouncedRecipients'', ''hard_bounce'')}"
    and "field ''notificationType'' n = Some (JStr kind)"
    and "get_opt list (field part n) = Some (JArr rs)"
    and "map (field ''emailAddress'') rs = map (\<lambda>a. Some (JStr a)) as"
  shows "\<exists>tbl'. feedback True now parse conv provider body tbl =
       ((tbl', 200, if as = [] then [] else [[''suppressions'']]), Some (length as)) \<and>
     (\<forall>a. suppressed tbl' a = (if a \<in> js_lower ` set as then Some reason else suppressed tbl a))"
proof -
  let ?as = "map (\<lambda>a. Some (JStr a)) as"
  have n: "n \<noteq> JNull" using assms(4) by auto
  have rec: "recipients_of (get_opt list (field part n)) = Inr ?as"
    using email_addresses_strings [OF assms(6)] by (simp add: recipients_of_def assms(5))
  have rd: "read_feedback parse body = Inr (?as, JStr reason)"
    using assms(1-4) n rec
    by (auto simp: read_feedback_def notification_def read_message_def get_field_def nullish_def)
  have "reason \<in> set reasons" using assms(3) by (auto simp: reasons_def)
  from suppress_all_strings [OF this, of now conv provider as tbl] obtain tbl' where
    t: "suppress_all now conv (JStr reason) provider ?as tbl = (tbl', True)"
    "\<forall>a. suppressed tbl' a = (if a \<in> js_lower ` set as then Some reason else suppressed tbl a)" by blast
  have "feedback True now parse conv provider body tbl =
       ((tbl', 200, if as = [] then [] else [[''suppressions'']]), Some (length as))"
    using t(1) by (auto simp: feedback_def rd announce_def)
  with t(2) show ?thesis by blast
qed

definition sample_notification :: json where
  "sample_notification = JObj [(''notificationType'', JStr ''Bounce''),
     (''bounce'', JObj [(''bouncedRecipients'', JArr [JObj [(''emailAddress'', JStr ''Joe@Acme.io'')]])])]"

theorem feedback_suppresses_witness:
  "\<exists>tbl'. feedback True 3 (\<lambda>s. Some sample_notification) (\<lambda>j. []) ''ses''
       (Some (JObj [(''Message'', JStr ''...'')])) [] = ((tbl', 200, [[''suppressions'']]), Some 1) \<and>
     suppressed tbl' ''joe@acme.io'' = Some ''hard_bounce''"
proof -
  have low: "js_lower ''Joe@Acme.io'' = ''joe@acme.io''" by code_simp
  have 1: "get_opt ''Message'' (Some (JObj [(''Message'', JStr ''...'')])) = Some (JStr ''...'')"
    by (simp add: get_opt_def nullish_def)
  have 2: "(''Bounce'', ''bounce'', ''bouncedRecipients'', ''hard_bounce'') \<in>
       {(''Complaint'', ''complaint'', ''complainedRecipients'', ''complaint''),
          (''Bounce'', ''bounce'', ''bouncedRecipients'', ''hard_bounce'')}" by simp
  have 3: "field ''notificationType'' sample_notification = Some (JStr ''Bounce'')"
    by (simp add: sample_notification_def)
  have 4: "get_opt ''bouncedRecipients'' (field ''bounce'' sample_notification) =
      Some (JArr [JObj [(''emailAddress'', JStr ''Joe@Acme.io'')]])"
    by (simp add: sample_notification_def get_opt_def nullish_def)
  have 5: "map (field ''emailAddress'') [JObj [(''emailAddress'', JStr ''Joe@Acme.io'')]] =
      map (\<lambda>a. Some (JStr a)) [''Joe@Acme.io'']" by simp
  from feedback_suppresses [where parse = "\<lambda>s. Some sample_notification", OF 1 refl 2 3 4 5,
      of 3 "\<lambda>j. []" "''ses''" "[]"]
  obtain tbl' where t: "feedback True 3 (\<lambda>s. Some sample_notification) (\<lambda>j. []) ''ses''
       (Some (JObj [(''Message'', JStr ''...'')])) [] = ((tbl', 200, [[''suppressions'']]), Some 1)"
    "suppressed tbl' ''joe@acme.io'' =
      (if ''joe@acme.io'' \<in> js_lower ` set [''Joe@Acme.io''] then Some ''hard_bounce'' else suppressed [] ''joe@acme.io'')"
    by auto
  then show ?thesis by (auto simp: low simp del: js_lower_simps)
qed

text \<open>
  Feedback is no transaction: a recipient without an address after one with an address leaves
  the first one suppressed, but the request fails and the data plane is not told.
\<close>

lemma feedback_unannounced:
  "feedback True 3 (\<lambda>s. None) conv ''ses''
     (Some (JObj [(''addresses'', JArr [JStr ''a@b.io'', JNull])])) [] =
   (([\<lparr>sp_address = ''a@b.io'', sp_reason = ''hard_bounce'', sp_source = ''ses'', sp_created = 3\<rparr>], 500, []), None)"
proof -
  have low: "js_lower ''a@b.io'' = ''a@b.io''" by code_simp
  show ?thesis
    by (simp add: feedback_def read_feedback_def get_opt_def nullish_def sql_text_def suppress_def reasons_def low del: js_lower_simps)
qed

end
