(* ===== verification/Messages.thy ===== *)
theory Messages
  imports Crud Alerts
begin

text \<open>
  Message tracing and the audit log of \<open>routes.ts\<close> (lines 216-258 and 353-381): requeueing, the
  search, the event timeline, the audit list. The SQL text is that of the source up to white
  space.
\<close>

section \<open>Limits\<close>

text \<open>\<open>Math.min(n, 500)\<close>.\<close>

fun min500 :: "jsnum \<Rightarrow> jsnum" where
  "min500 NaN = NaN"
| "min500 (Infinity s) = (if s then Fin 500 else Infinity False)"
| "min500 (Fin r) = Fin (min r 500)"

text \<open>What the database makes of a \<open>LIMIT\<close> parameter: anything but a natural number is an error.\<close>

definition sql_limit :: "jsnum \<Rightarrow> nat option" where
  "sql_limit n = (case n of Fin r \<Rightarrow> if 0 \<le> r \<and> of_int \<lfloor>r\<rfloor> = r then Some (nat \<lfloor>r\<rfloor>) else None | _ \<Rightarrow> None)"

section \<open>The audit log\<close>

record audit_row =
  au_actor :: string
  au_action :: string
  au_target :: string
  au_at :: nat

definition audit_limit :: "string option \<Rightarrow> jsnum" where
  "audit_limit q = min500 (case q of None \<Rightarrow> Fin 100 | Some s \<Rightarrow> js_number s)"

text \<open>\<open>None\<close> is the rejected query, a server error.\<close>

definition get_audit :: "string option \<Rightarrow> audit_row list \<Rightarrow> audit_row list option" where
  "get_audit q rows = map_option (\<lambda>n. take n (rev (sort_key au_at rows))) (sql_limit (audit_limit q))"

section \<open>The message list\<close>

record message =
  ms_id :: string
  ms_mail_from :: string
  ms_rcpt_to :: "string list"
  ms_body_ref :: string
  ms_body_backend :: string
  ms_status :: string
  ms_created :: nat

text \<open>\<open>LIKE\<close>: per cent is any text, underscore any character, backslash quotes; \<open>ILIKE\<close> ignores case.\<close>

function like :: "string \<Rightarrow> string \<Rightarrow> bool" where
  "like [] s \<longleftrightarrow> s = []"
| "like (p # ps) [] \<longleftrightarrow> p = CHR ''%'' \<and> like ps []"
| "like (p # ps) (c # s) \<longleftrightarrow>
     (if p = CHR ''%'' then like ps (c # s) \<or> like (p # ps) s
      else if p = CHR ''_'' then like ps s
      else if p = CHR 0x5C \<and> ps \<noteq> [] then c = hd ps \<and> like (tl ps) s
      else c = p \<and> like ps s)"
  by pat_completeness auto
termination
  by (relation "measure (\<lambda>(p, s). length p + length s)") auto

definition ilike :: "string \<Rightarrow> string \<Rightarrow> bool" where
  "ilike s p \<longleftrightarrow> like (js_lower p) (js_lower s)"

record message_query =
  mq_status :: "string option"
  mq_q :: "string option"
  mq_limit :: "string option"

datatype sql_param = PText string | PNum jsnum

text \<open>A condition of the \<open>WHERE\<close> with the number of its placeholder.\<close>

datatype clause = ByStatus nat | ByText nat

primrec clause_sql :: "clause \<Rightarrow> string" where
  "clause_sql (ByStatus n) = ''status='' @ param n"
| "clause_sql (ByText n) =
     ''(mail_from ILIKE '' @ param n @ '' OR array_to_string(rcpt_to,',') ILIKE '' @ param n @ '')''"

definition truthy_text :: "string option \<Rightarrow> bool" where
  "truthy_text s \<longleftrightarrow> s \<noteq> None \<and> s \<noteq> Some []"

definition list_limit :: "string option \<Rightarrow> jsnum" where
  "list_limit q =
     (let n = (case q of None \<Rightarrow> NaN | Some s \<Rightarrow> js_number s) in
      min500 (if n = NaN \<or> n = Fin 0 then Fin 100 else n))"

text \<open>\<open>params\<close> and \<open>where\<close>, pushed one after the other.\<close>

definition list_where :: "message_query \<Rightarrow> clause list \<times> sql_param list" where
  "list_where q =
     (let (ws, ps) = (if truthy_text (mq_status q) then ([ByStatus 1], [PText (the (mq_status q))]) else ([], []));
          (ws, ps) = (if truthy_text (mq_q q)
             then (ws @ [ByText (length ps + 1)], ps @ [PText (''%'' @ the (mq_q q) @ ''%'')]) else (ws, ps)) in
      (ws, ps @ [PNum (list_limit (mq_limit q))]))"

definition list_sql :: "message_query \<Rightarrow> string" where
  "list_sql q = (case list_where q of (ws, ps) \<Rightarrow>
     ''SELECT id, mail_from, rcpt_to, status, attempts, subject, size_bytes, created_at, updated_at FROM messages '' @
     (if ws = [] then [] else ''WHERE '' @ js_join '' AND '' (map clause_sql ws)) @
     '' ORDER BY created_at DESC LIMIT '' @ param (length ps))"

text \<open>The database: a placeholder reads the parameter of its number.\<close>

definition text_param :: "sql_param list \<Rightarrow> nat \<Rightarrow> string" where
  "text_param ps n = (case ps ! (n - 1) of PText s \<Rightarrow> s | PNum _ \<Rightarrow> [])"

primrec clause_holds :: "sql_param list \<Rightarrow> message \<Rightarrow> clause \<Rightarrow> bool" where
  "clause_holds ps m (ByStatus n) \<longleftrightarrow> ms_status m = text_param ps n"
| "clause_holds ps m (ByText n) \<longleftrightarrow>
     ilike (ms_mail_from m) (text_param ps n) \<or> ilike (js_join '','' (ms_rcpt_to m)) (text_param ps n)"

definition get_messages :: "message_query \<Rightarrow> message list \<Rightarrow> message list option" where
  "get_messages q tbl = (case list_where q of (ws, ps) \<Rightarrow>
     (case last ps of
        PNum n \<Rightarrow> map_option (\<lambda>k. take k (rev (sort_key ms_created (filter (\<lambda>m. list_all (clause_holds ps m) ws) tbl))))
                    (sql_limit n)
      | PText _ \<Rightarrow> None))"

section \<open>Events and requeueing\<close>

record message_event =
  me_message :: string
  me_kind :: string
  me_provider :: "string option"
  me_detail :: "string option"
  me_at :: nat

text \<open>A malformed id (\<open>None\<close>) makes the first query reject.\<close>

definition get_events ::
  "string option \<Rightarrow> message_event list \<Rightarrow> message list \<Rightarrow> nat \<times> message_event list" where
  "get_events mid events tbl = (case mid of
     None \<Rightarrow> (500, [])
   | Some i \<Rightarrow>
       (let rows = sort_key me_at (filter (\<lambda>e. me_message e = i) events) in
        if rows = [] \<and> \<not> list_ex (\<lambda>m. ms_id m = i) tbl then (404, []) else (200, rows)))"

definition terminal :: "string list" where
  "terminal = [''relayed'', ''bounced'', ''failed'']"

record requeued = relay_job +
  job_backend :: string

definition requeue_job :: "message \<Rightarrow> requeued" where
  "requeue_job m =
     \<lparr>job_messageId = ms_id m, job_bodyKey = ms_body_ref m, job_mailFrom = ms_mail_from m,
      job_rcptTo = ms_rcpt_to m,
      job_recipientDomain = (case ms_rcpt_to m of [] \<Rightarrow> [] | r # _ \<Rightarrow> domain_part r),
      job_senderDomain = domain_part (ms_mail_from m), job_attempt = 0, job_backend = ms_body_backend m\<rparr>"

text \<open>The status code and the job handed to the bus.\<close>

definition requeue :: "nat option \<Rightarrow> bool \<Rightarrow> string option \<Rightarrow> message list \<Rightarrow> nat \<times> requeued option" where
  "requeue chan room mid tbl = (case mid of
     None \<Rightarrow> (500, None)
   | Some i \<Rightarrow> (case find (\<lambda>m. ms_id m = i) tbl of
       None \<Rightarrow> (404, None)
     | Some m \<Rightarrow>
         if ms_status m \<in> set terminal then (409, None)
         else (let job = requeue_job m in
           case publishRelayJob chan room (Some (job_recipientDomain job)) of
             (ok, key) \<Rightarrow> (if ok then 200 else 502, if key = None then None else Some job))))"

section \<open>Facts about patterns\<close>

definition plain :: "string \<Rightarrow> bool" where
  "plain q \<longleftrightarrow> (\<forall>c \<in> set q. c \<noteq> CHR ''%'' \<and> c \<noteq> CHR ''_'' \<and> c \<noteq> CHR 0x5C)"

lemma like_any: "like [CHR ''%''] s"
  by (induction s) simp_all

lemma like_prefix: "plain q \<Longrightarrow> like (q @ [CHR ''%'']) s \<longleftrightarrow> js_startsWith s q"
proof (induction q arbitrary: s)
  case Nil
  then show ?case by (simp add: like_any js_startsWith_def del: like.simps)
next
  case (Cons x q)
  then have "plain q" "x \<noteq> CHR ''%''" "x \<noteq> CHR ''_''" "x \<noteq> CHR 0x5C" by (simp_all add: plain_def)
  with Cons.IH show ?case by (cases s) (auto simp: js_startsWith_def)
qed

lemma like_infix: "plain q \<Longrightarrow> like (CHR ''%'' # q @ [CHR ''%'']) s \<longleftrightarrow> js_includes s q"
proof (induction s)
  case Nil
  then show ?case by (auto simp: like_prefix js_startsWith_def)
next
  case (Cons c s)
  then show ?case by (simp add: like_prefix)
qed

lemma plain_lower: "plain q \<Longrightarrow> plain (js_lower q)"
proof -
  have "\<not> is_lower CHR ''%''" "\<not> is_lower CHR ''_''" "\<not> is_lower CHR 0x5C" by code_simp+
  then have "lower_char c \<in> {CHR ''%'', CHR ''_'', CHR 0x5C} \<Longrightarrow> c \<in> {CHR ''%'', CHR ''_'', CHR 0x5C}" for c
    using lower_char_eqD [of c] by auto
  moreover assume "plain q"
  ultimately show ?thesis by (fastforce simp: plain_def js_lower_def)
qed

lemma ilike_infix: "plain q \<Longrightarrow> ilike s (''%'' @ q @ ''%'') \<longleftrightarrow> js_includes (js_lower s) (js_lower q)"
proof -
  have "lower_char CHR ''%'' = CHR ''%''" by code_simp
  then show "plain q \<Longrightarrow> ?thesis" by (simp add: ilike_def like_infix plain_lower)
qed

section \<open>Facts about limits\<close>

lemma min500_le: "min500 n = Fin r \<Longrightarrow> r \<le> 500"
  by (cases n) (auto split: if_splits)

lemma sql_limit_le: "sql_limit (min500 n) = Some k \<Longrightarrow> k \<le> 500"
proof -
  assume k: "sql_limit (min500 n) = Some k"
  then obtain r where r: "min500 n = Fin r" "k = nat \<lfloor>r\<rfloor>"
    by (auto simp: sql_limit_def split: jsnum.splits if_splits)
  from min500_le [OF r(1)] have "\<lfloor>r\<rfloor> \<le> 500" by linarith
  with r(2) show ?thesis by linarith
qed

section \<open>Properties\<close>


definition sample_message :: "string \<Rightarrow> string \<Rightarrow> nat \<Rightarrow> message" where
  "sample_message i st t = \<lparr>ms_id = i, ms_mail_from = ''App@Acme.io'', ms_rcpt_to = [''joe@b.io''],
     ms_body_ref = i, ms_body_backend = ''fs'', ms_status = st, ms_created = t\<rparr>"



theorem requeue_refused:
  "requeue chan room mid tbl = (code, None) \<longleftrightarrow>
     code = 500 \<and> mid = None \<or>
     code = 404 \<and> mid \<noteq> None \<and> find (\<lambda>m. ms_id m = the mid) tbl = None \<or>
     (\<exists>m. mid \<noteq> None \<and> find (\<lambda>m. ms_id m = the mid) tbl = Some m \<and>
        (code = 409 \<and> ms_status m \<in> {''relayed'', ''bounced'', ''failed''} \<or>
         code = 502 \<and> ms_status m \<notin> {''relayed'', ''bounced'', ''failed''} \<and> chan = None))"
  by (cases mid; cases "find (\<lambda>m. ms_id m = the mid) tbl"; cases chan)
     (auto simp: requeue_def publishRelayJob_def terminal_def Let_def)

text \<open>On back-pressure the job is on its way although the client is told that the bus is unavailable.\<close>

lemma requeue_backpressure:
  "requeue (Some 1) False (Some ''m1'') [sample_message ''m1'' ''queued'' 1] =
     (502, Some (requeue_job (sample_message ''m1'' ''queued'' 1)))"
  by (simp add: requeue_def sample_message_def publishRelayJob_def terminal_def Let_def)

text \<open>The domain of a routing hint is cut at the first two at-signs.\<close>

lemma domain_part_quoted: "domain_part ([CHR 0x22] @ ''a@b'' @ [CHR 0x22] @ ''@c.io'') = ''b'' @ [CHR 0x22]"
  by code_simp

text \<open>The audit list rejects a limit that is no number, where the message list takes its default.\<close>

lemma limit_fallbacks:
  "get_audit (Some ''all'') rows = None" "list_limit (Some ''all'') = Fin 100"
proof -
  have "js_number ''all'' = NaN" by code_simp
  then show "get_audit (Some ''all'') rows = None" "list_limit (Some ''all'') = Fin 100"
    by (simp_all add: get_audit_def audit_limit_def sql_limit_def list_limit_def)
qed

end
