(* ===== verification/Accounts.thy ===== *)
theory Accounts
  imports Crud Values "HOL-Library.AList"
begin

text \<open>
  The accounts, the settings and the provider test of \<open>routes.ts\<close> (lines 83-160 and 198-214).
  The password hash is bcrypt's and an argument; \<open>ok\<close> are the constraints of the table (unique
  names, well-formed networks). A reply is what the \<open>RETURNING\<close> clause selects.
\<close>

section \<open>Accounts\<close>

record account_view =
  ac_id :: string
  ac_username :: string
  ac_domains :: "string list"
  ac_allowlist :: "string list"
  ac_enabled :: bool

record account = account_view +
  ac_hash :: string
  ac_created :: nat

record account_body =
  ab_username :: "string option"
  ab_password :: "string option"
  ab_domains :: "string list option"
  ab_allowlist :: "string list option"
  ab_enabled :: "bool option"

definition given :: "string option \<Rightarrow> bool" where
  "given s \<longleftrightarrow> s \<noteq> None \<and> s \<noteq> Some []"

definition or_empty :: "'a list option \<Rightarrow> 'a list" where
  "or_empty xs = (case xs of None \<Rightarrow> [] | Some ys \<Rightarrow> ys)"

text \<open>The list of all accounts; the last component is \<open>created_at\<close>.\<close>

definition get_accounts :: "account list \<Rightarrow> (account_view \<times> nat) list" where
  "get_accounts tbl = map (\<lambda>a. (account_view.truncate a, ac_created a)) (sort_key ac_username tbl)"

text \<open>The reply to a creation: id, name, domains, networks.\<close>

definition post_account ::
  "bool \<Rightarrow> (account list \<Rightarrow> bool) \<Rightarrow> (string \<Rightarrow> string) \<Rightarrow> string \<Rightarrow> nat \<Rightarrow> account_body \<Rightarrow> account list \<Rightarrow>
     account list outcome \<times> (string \<times> string \<times> string list \<times> string list) option" where
  "post_account pub_up ok hash new_id now b tbl =
     (if \<not> given (ab_username b) \<or> \<not> given (ab_password b) then (refuse tbl 400, None)
      else (let row = \<lparr>ac_id = new_id, ac_username = the (ab_username b), ac_domains = or_empty (ab_domains b),
                       ac_allowlist = or_empty (ab_allowlist b), ac_enabled = True,
                       ac_hash = hash (the (ab_password b)), ac_created = now\<rparr>;
                tbl' = tbl @ [row] in
        if \<not> ok tbl' then (refuse tbl 500, None)
        else (announce pub_up [''accounts''] tbl' 201,
              if pub_up then Some (ac_id row, ac_username row, ac_domains row, ac_allowlist row) else None)))"

text \<open>The assignments of an update; an empty password is not one.\<close>

definition account_set :: "(string \<Rightarrow> string) \<Rightarrow> account_body \<Rightarrow> account \<Rightarrow> account" where
  "account_set hash b a =
     (let a = (case ab_domains b of None \<Rightarrow> a | Some d \<Rightarrow> a\<lparr>ac_domains := d\<rparr>);
          a = (case ab_allowlist b of None \<Rightarrow> a | Some l \<Rightarrow> a\<lparr>ac_allowlist := l\<rparr>);
          a = (case ab_enabled b of None \<Rightarrow> a | Some e \<Rightarrow> a\<lparr>ac_enabled := e\<rparr>) in
      if given (ab_password b) then a\<lparr>ac_hash := hash (the (ab_password b))\<rparr> else a)"

definition account_sets :: "account_body \<Rightarrow> bool" where
  "account_sets b \<longleftrightarrow> ab_domains b \<noteq> None \<or> ab_allowlist b \<noteq> None \<or> ab_enabled b \<noteq> None \<or> given (ab_password b)"

definition put_account ::
  "bool \<Rightarrow> (account list \<Rightarrow> bool) \<Rightarrow> (string \<Rightarrow> string) \<Rightarrow> string option \<Rightarrow> account_body \<Rightarrow> account list \<Rightarrow>
     account list outcome \<times> (string \<times> string \<times> string list \<times> bool) option" where
  "put_account pub_up ok hash aid b tbl =
     (if \<not> account_sets b then (refuse tbl 400, None)
      else if aid = None then (refuse tbl 500, None)
      else (let tbl' = map (\<lambda>a. if ac_id a = the aid then account_set hash b a else a) tbl in
        if \<not> ok tbl' then (refuse tbl 500, None)
        else (case find (\<lambda>a. ac_id a = the aid) tbl of
            None \<Rightarrow> (refuse tbl 404, None)
          | Some a0 \<Rightarrow> (let a = account_set hash b a0 in
              (announce pub_up [''accounts''] tbl' 200,
               if pub_up then Some (ac_id a, ac_username a, ac_domains a, ac_enabled a) else None)))))"

definition delete_account :: "bool \<Rightarrow> string option \<Rightarrow> account list \<Rightarrow> account list outcome" where
  "delete_account pub_up aid tbl =
     (if aid = None then refuse tbl 500
      else if \<not> list_ex (\<lambda>a. ac_id a = the aid) tbl then refuse tbl 404
      else announce pub_up [''accounts''] (filter (\<lambda>a. ac_id a \<noteq> the aid) tbl) 204)"

interpretation post_account: config_write "\<lambda>tbl. fst (post_account True ok hash new_id now b tbl)" "[''accounts'']"
  for ok hash new_id now b
  by unfold_locales (auto simp: post_account_def Let_def split: if_splits)

interpretation put_account: config_write "\<lambda>tbl. fst (put_account True ok hash aid b tbl)" "[''accounts'']"
  for ok hash aid b
  by unfold_locales (auto simp: put_account_def Let_def split: if_splits option.splits)

interpretation delete_account: config_write "delete_account True aid" "[''accounts'']" for aid
  by unfold_locales (auto simp: delete_account_def split: if_splits)

section \<open>Settings\<close>

type_synonym settings = "(string \<times> json) list"

definition get_settings :: "settings \<Rightarrow> settings" where
  "get_settings tbl = sort_key fst tbl"

definition put_setting :: "bool \<Rightarrow> string \<Rightarrow> json option \<Rightarrow> settings \<Rightarrow> settings outcome" where
  "put_setting pub_up key val tbl = (case val of
     None \<Rightarrow> refuse tbl 400
   | Some v \<Rightarrow> announce pub_up [''settings''] (AList.update key v tbl) 200)"

interpretation put_setting: config_write "put_setting True key val" "[''settings'']" for key val
  by unfold_locales (auto simp: put_setting_def split: option.splits)

section \<open>The provider test\<close>

definition test_url :: "string \<Rightarrow> string \<Rightarrow> string" where
  "test_url deliveryURL pid = deliveryURL @ ''/test/'' @ encodeURIComponent pid"

text \<open>
  The URL requested and the status code of the reply. \<open>fetch\<close> of the delivery service gives a
  status and whether the body is JSON, or throws (\<open>None\<close>).
\<close>

definition provider_test ::
  "string option \<Rightarrow> string \<Rightarrow> (string \<Rightarrow> (nat \<times> bool) option) \<Rightarrow> string \<Rightarrow> string option \<times> nat" where
  "provider_test api_key deliveryURL fetch pid =
     (if \<not> given api_key then (None, 503)
      else (let url = test_url deliveryURL pid in
        (Some url, (case fetch url of
           None \<Rightarrow> 502
         | Some (st, is_json) \<Rightarrow>
             if \<not> is_json then 502
             else if 200 \<le> st \<and> st < 300 then 200
             else if st \<ge> 500 then 502 else st))))"

section \<open>Facts\<close>

lemma account_set_fields [simp]:
  "ac_id (account_set hash b a) = ac_id a" "ac_username (account_set hash b a) = ac_username a"
  "ac_created (account_set hash b a) = ac_created a"
  "ac_domains (account_set hash b a) = (case ab_domains b of None \<Rightarrow> ac_domains a | Some d \<Rightarrow> d)"
  "ac_allowlist (account_set hash b a) = (case ab_allowlist b of None \<Rightarrow> ac_allowlist a | Some l \<Rightarrow> l)"
  "ac_enabled (account_set hash b a) = (case ab_enabled b of None \<Rightarrow> ac_enabled a | Some e \<Rightarrow> e)"
  "ac_hash (account_set hash b a) = (if given (ab_password b) then hash (the (ab_password b)) else ac_hash a)"
  by (simp_all add: account_set_def Let_def split: option.splits)

text \<open>Two accounts that differ at most in the hash.\<close>

definition same_account :: "account \<Rightarrow> account \<Rightarrow> bool" where
  "same_account a b \<longleftrightarrow> ac_id a = ac_id b \<and> ac_username a = ac_username b \<and> ac_domains a = ac_domains b \<and>
     ac_allowlist a = ac_allowlist b \<and> ac_enabled a = ac_enabled b \<and> ac_created a = ac_created b"

lemma get_accounts_view:
  "get_accounts tbl = sort_key (\<lambda>p. ac_username (fst p)) (map (\<lambda>a. (account_view.truncate a, ac_created a)) tbl)"
  unfolding get_accounts_def
  by (subst sort_key_map [symmetric]) (simp add: account_view.truncate_def)

lemma find_same:
  "list_all2 same_account t1 t2 \<Longrightarrow>
     rel_option same_account (find (\<lambda>a. ac_id a = i) t1) (find (\<lambda>a. ac_id a = i) t2)"
  by (induction rule: list_all2_induct) (auto simp: same_account_def)

lemma same_account_set:
  "same_account a a' \<Longrightarrow> same_account (account_set h1 b a) (account_set h2 b a')"
  by (auto simp: same_account_def split: option.splits)

section \<open>Properties\<close>

text \<open>
  C34: password hashes never leave the account endpoints. Two account tables that differ only in
  the stored hashes, under two different hash functions, give the same list of accounts and the
  same replies to every creation and update.
\<close>
theorem accounts_hide_hash:
  assumes "list_all2 same_account t1 t2" and "\<And>u1 u2. list_all2 same_account u1 u2 \<Longrightarrow> ok u1 = ok u2"
  shows "get_accounts t1 = get_accounts t2 \<and>
     snd (post_account pub_up ok h1 new_id now b t1) = snd (post_account pub_up ok h2 new_id now b t2) \<and>
     snd (put_account pub_up ok h1 aid b t1) = snd (put_account pub_up ok h2 aid b t2)"
proof (intro conjI)
  have "map (\<lambda>a. (account_view.truncate a, ac_created a)) t1 = map (\<lambda>a. (account_view.truncate a, ac_created a)) t2"
    using assms(1) by (induction rule: list_all2_induct) (auto simp: account_view.truncate_def same_account_def)
  then show "get_accounts t1 = get_accounts t2" by (simp add: get_accounts_view)
  have "list_all2 same_account (t1 @ [r\<lparr>ac_hash := x\<rparr>]) (t2 @ [r\<lparr>ac_hash := y\<rparr>])" for r x y
    using assms(1) by (intro list_all2_appendI) (simp_all add: same_account_def)
  from assms(2) [OF this] have ok: "ok (t1 @ [r\<lparr>ac_hash := x\<rparr>]) = ok (t2 @ [r\<lparr>ac_hash := y\<rparr>])" for r x y .
  show "snd (post_account pub_up ok h1 new_id now b t1) = snd (post_account pub_up ok h2 new_id now b t2)"
    using ok [where r = "\<lparr>ac_id = new_id, ac_username = the (ab_username b), ac_domains = or_empty (ab_domains b),
                 ac_allowlist = or_empty (ab_allowlist b), ac_enabled = True, ac_hash = [], ac_created = now\<rparr>"
            and x = "h1 (the (ab_password b))" and y = "h2 (the (ab_password b))"]
    by (simp add: post_account_def Let_def)
  have "list_all2 same_account (map (\<lambda>a. if ac_id a = i then account_set h1 b a else a) t1)
      (map (\<lambda>a. if ac_id a = i then account_set h2 b a else a) t2)" for i
    using assms(1) by (induction rule: list_all2_induct)
      (auto simp: same_account_set, auto simp: same_account_def)
  from assms(2) [OF this] have ok2: "ok (map (\<lambda>a. if ac_id a = i then account_set h1 b a else a) t1) =
      ok (map (\<lambda>a. if ac_id a = i then account_set h2 b a else a) t2)" for i .
  show "snd (put_account pub_up ok h1 aid b t1) = snd (put_account pub_up ok h2 aid b t2)"
  proof (cases "find (\<lambda>a. ac_id a = the aid) t1")
    case None
    then have "find (\<lambda>a. ac_id a = the aid) t2 = None" using find_same [OF assms(1), of "the aid"] by simp
    with None ok2 [of "the aid"] show ?thesis by (simp add: put_account_def Let_def)
  next
    case (Some a)
    then obtain a' where a': "find (\<lambda>a. ac_id a = the aid) t2 = Some a'" "same_account a a'"
      using find_same [OF assms(1), of "the aid"] by (auto simp: option_rel_Some1)
    with same_account_set [OF a'(2), of h1 b h2] Some ok2 [of "the aid"] show ?thesis
      by (simp add: put_account_def Let_def same_account_def del: account_set_fields)
  qed
qed

definition sample_account :: "string \<Rightarrow> account" where
  "sample_account h = \<lparr>ac_id = ''i1'', ac_username = ''app'', ac_domains = [], ac_allowlist = [], ac_enabled = True,
     ac_hash = h, ac_created = 1\<rparr>"

definition sample_update :: account_body where
  "sample_update = \<lparr>ab_username = Some ''x'', ab_password = Some ''pw'', ab_domains = None, ab_allowlist = None,
     ab_enabled = Some False\<rparr>"

theorem accounts_hide_hash_witness:
  "snd (put_account True (\<lambda>t. True) (\<lambda>p. ''h1'' @ p) (Some ''i1'') sample_update [sample_account ''old'']) =
   snd (put_account True (\<lambda>t. True) (\<lambda>p. ''h2'') (Some ''i1'') sample_update [sample_account ''other'']) \<and>
   snd (put_account True (\<lambda>t. True) (\<lambda>p. ''h2'') (Some ''i1'') sample_update [sample_account ''other'']) =
     Some (''i1'', ''app'', [], False)"
proof -
  have "list_all2 same_account [sample_account ''old''] [sample_account ''other'']"
    by (simp add: same_account_def sample_account_def)
  from accounts_hide_hash [OF this, where ok = "\<lambda>t. True"] show ?thesis
    by (simp add: put_account_def sample_account_def sample_update_def account_sets_def given_def account_set_def Let_def)
qed

text \<open>
  An account update changes exactly what it names. After a successful update the account has
  the given sender domains, networks and enabled flag, and a new hash only if a non-empty
  password was given; fields not given, names and all other accounts stay, and the update is
  announced.
\<close>
theorem put_account_updates:
  assumes "put_account True ok hash (Some aid) b tbl = ((tbl', 200, published), reply)"
  shows "published = [[''accounts'']] \<and> length tbl' = length tbl \<and> (\<forall>i < length tbl.
     tbl' ! i = (if ac_id (tbl ! i) \<noteq> aid then tbl ! i else
       \<lparr>ac_id = aid, ac_username = ac_username (tbl ! i),
        ac_domains = (case ab_domains b of None \<Rightarrow> ac_domains (tbl ! i) | Some d \<Rightarrow> d),
        ac_allowlist = (case ab_allowlist b of None \<Rightarrow> ac_allowlist (tbl ! i) | Some l \<Rightarrow> l),
        ac_enabled = (case ab_enabled b of None \<Rightarrow> ac_enabled (tbl ! i) | Some e \<Rightarrow> e),
        ac_hash = (case ab_password b of None \<Rightarrow> ac_hash (tbl ! i)
                   | Some p \<Rightarrow> if p = [] then ac_hash (tbl ! i) else hash p),
        ac_created = ac_created (tbl ! i)\<rparr>))"
proof -
  from assms have t: "tbl' = map (\<lambda>a. if ac_id a = aid then account_set hash b a else a) tbl"
    "published = [[''accounts'']]"
    by (auto simp: put_account_def refuse_def announce_def Let_def split: if_splits option.splits)
  show ?thesis
    by (auto simp: t given_def split: option.splits intro!: account.equality account_view.equality)
qed

theorem put_account_updates_witness:
  "\<exists>tbl' published reply.
     put_account True (\<lambda>t. True) (\<lambda>p. ''#'' @ p) (Some ''i1'') sample_update [sample_account ''old''] =
       ((tbl', 200, published), reply) \<and> ac_hash (tbl' ! 0) = ''#pw'' \<and> ac_username (tbl' ! 0) = ''app''"
proof -
  let ?p = "put_account True (\<lambda>t. True) (\<lambda>p. ''#'' @ p) (Some ''i1'') sample_update [sample_account ''old'']"
  obtain tbl' st published reply where p: "?p = ((tbl', st, published), reply)" by (metis prod.exhaust)
  have "fst (snd (fst ?p)) = 200"
    by (simp add: put_account_def sample_account_def sample_update_def account_sets_def given_def Let_def)
  with p have p200: "?p = ((tbl', 200, published), reply)" by simp
  from put_account_updates [OF this] have "ac_hash (tbl' ! 0) = ''#pw'' \<and> ac_username (tbl' ! 0) = ''app''"
    by (simp add: sample_account_def sample_update_def)
  with p200 show ?thesis by blast
qed

text \<open>
  The provider test contacts only the delivery service. Without the shared secret nothing is
  requested; otherwise one URL is, whose last segment carries the id without delimiters, so that
  different ids give different URLs. The reply is 200 exactly when the service ran the test, a
  client error of the service is passed on, everything else is 502.
\<close>
theorem provider_test_request:
  "fst (provider_test key d fetch pid) = (if given key then Some (d @ ''/test/'' @ encodeURIComponent pid) else None) \<and>
   set (encodeURIComponent pid) \<inter> set ''/?#:@&='' = {} \<and>
   (encodeURIComponent pid = encodeURIComponent pid' \<longleftrightarrow> pid = pid') \<and>
   snd (provider_test key d fetch pid) =
     (if given key then
        (case fetch (test_url d pid) of
           Some (st, True) \<Rightarrow> if 200 \<le> st \<and> st < 300 then 200 else if st < 500 then st else 502
         | _ \<Rightarrow> 502)
      else 503)"
proof -
  have "list_all (\<lambda>c. \<not> uri_plain c \<and> c \<noteq> CHR ''%'') ''/?#:@&=''" by code_simp
  then have "set (encodeURIComponent pid) \<inter> set ''/?#:@&='' = {}"
    using uri_encode_plain by (fastforce simp: list_all_iff)
  moreover have "encodeURIComponent pid = encodeURIComponent pid' \<longleftrightarrow> pid = pid'"
    using uri_encode_inject by blast
  moreover have "fst (provider_test key d fetch pid) = (if given key then Some (d @ ''/test/'' @ encodeURIComponent pid) else None)"
    by (simp add: provider_test_def test_url_def Let_def)
  moreover have "snd (provider_test key d fetch pid) =
     (if given key then
        (case fetch (test_url d pid) of
           Some (st, True) \<Rightarrow> if 200 \<le> st \<and> st < 300 then 200 else if st < 500 then st else 502
         | _ \<Rightarrow> 502)
      else 503)"
    by (cases "fetch (test_url d pid)") (auto simp: provider_test_def Let_def split: bool.splits)
  ultimately show ?thesis by blast
qed

end
