(* ===== verification/Telemetry.thy ===== *)
theory Telemetry
  imports Messages Values Secrets Dkim
begin

text \<open>
  Queue and delivery telemetry (\<open>services/admin-api/src/telemetry.ts\<close>). The management API of
  the broker is a function from paths to its answer, \<open>None\<close> when it cannot be had. Rates and
  percentages are rationals. The counters and the series of one request are read from the event
  rows of the last day.
\<close>

section \<open>The broker's management API\<close>

text \<open>\<open>mgmt\<close>: base URL and credentials from host, user and password of the URL; \<open>None\<close> when decoding throws.\<close>

definition mgmt :: "string \<Rightarrow> string \<Rightarrow> string \<Rightarrow> (string \<times> string) option" where
  "mgmt hostname username password =
     (case (decodeURIComponent username, decodeURIComponent password) of
        (Some u, Some p) \<Rightarrow>
          Some (''http://'' @ hostname @ '':15672'', ''Basic '' @ b64_encode (u @ '':'' @ p))
      | _ \<Rightarrow> None)"

text \<open>
  \<open>mgmtGet\<close>: \<open>fetch\<close> yields whether the answer is \<open>ok\<close> and its JSON, \<open>None\<close> where reading it fails;
  it yields nothing when the request fails or takes four seconds. \<open>mgmt\<close> runs before the \<open>try\<close>: when it
  throws, so does \<open>mgmtGet\<close>, which is the outer \<open>None\<close>.
\<close>

definition mgmtGet ::
  "(string \<times> string) option \<Rightarrow> (string \<Rightarrow> string \<Rightarrow> (bool \<times> 'a option) option) \<Rightarrow> string \<Rightarrow> 'a option option" where
  "mgmtGet m fetch path = (case m of
     None \<Rightarrow> None
   | Some (base, auth) \<Rightarrow> Some (case fetch (base @ path) auth of
       None \<Rightarrow> None
     | Some (okay, body) \<Rightarrow> if okay then body else None))"

record rmq_queue =
  rq_name :: string
  rq_messages :: "nat option"
  rq_consumers :: "nat option"
  rq_state :: "string option"
  rq_publish :: "rat option"
  rq_deliver :: "rat option"
  rq_ack :: "rat option"

datatype queue_kind = Work | Wait | Dlq

definition queueKind :: "string \<Rightarrow> queue_kind" where
  "queueKind name = (if js_startsWith name ''wait.'' then Wait else if name = ''relay.dlq'' then Dlq else Work)"

definition js_round :: "rat \<Rightarrow> int" where
  "js_round x = \<lfloor>x + 1 / 2\<rfloor>"

definition or_else :: "'a option \<Rightarrow> 'a \<Rightarrow> 'a" where
  "or_else v d = (case v of None \<Rightarrow> d | Some x \<Rightarrow> x)"

record queue_info =
  qi_name :: string
  qi_kind :: queue_kind
  qi_depth :: nat
  qi_in :: int
  qi_out :: int
  qi_consumers :: nat
  qi_state :: string

definition relay_queue :: "string \<Rightarrow> bool" where
  "relay_queue name \<longleftrightarrow> js_startsWith name ''relay.'' \<or> js_startsWith name ''wait.''"

definition queue_row :: "rmq_queue \<Rightarrow> queue_info" where
  "queue_row q =
     (let kind = queueKind (rq_name q) in
      \<lparr>qi_name = rq_name q, qi_kind = kind, qi_depth = or_else (rq_messages q) 0,
       qi_in = js_round (or_else (rq_publish q) 0),
       qi_out = js_round (case rq_deliver q of Some r \<Rightarrow> r | None \<Rightarrow> or_else (rq_ack q) 0),
       qi_consumers = or_else (rq_consumers q) 0,
       qi_state = (case kind of
          Wait \<Rightarrow> ''ttl''
        | Dlq \<Rightarrow> if or_else (rq_consumers q) 0 > 0 then ''draining'' else ''idle''
        | Work \<Rightarrow> or_else (rq_state q) ''running'')\<rparr>)"

definition getQueues :: "rmq_queue list option \<Rightarrow> queue_info list" where
  "getQueues qs = map queue_row (filter (\<lambda>q. relay_queue (rq_name q)) (or_else qs []))"

text \<open>The endpoint: the rows, or a failure.\<close>

definition queues_reply ::
  "(string \<times> string) option \<Rightarrow> (string \<Rightarrow> string \<Rightarrow> (bool \<times> rmq_queue list option) option) \<Rightarrow> queue_info list option" where
  "queues_reply m fetch = map_option getQueues (mgmtGet m fetch ''/api/queues'')"

section \<open>Metrics\<close>

record event_row =
  er_hour :: nat
  er_kind :: string
  er_provider :: "string option"
  er_at :: nat

text \<open>\<open>SELECT kind, count(*) ... GROUP BY\<close>.\<close>

definition group_count :: "'k list \<Rightarrow> ('k \<times> nat) list" where
  "group_count ks = map (\<lambda>k. (k, length (filter (\<lambda>x. x = k) ks))) (js_uniq ks)"

definition count_of :: "(string \<times> nat) list \<Rightarrow> string \<Rightarrow> nat" where
  "count_of by k = or_else (map_of by k) 0"

definition acceptRate :: "nat \<Rightarrow> nat \<Rightarrow> rat" where
  "acceptRate relayed bounced =
     (if relayed + bounced > 0 then of_nat relayed / of_nat (relayed + bounced) * 100 else 100)"

record series =
  se_relayed :: "nat list"
  se_deferred :: "nat list"
  se_bounced :: "nat list"
  se_queue :: "nat list"
  se_latency :: "nat list"

definition zeros :: "nat list" where
  "zeros = replicate 24 0"

definition add_at :: "nat \<Rightarrow> nat \<Rightarrow> nat list \<Rightarrow> nat list" where
  "add_at h n arr = arr[h := arr ! h + n]"

text \<open>One row of the hourly counts; kinds without a series are skipped.\<close>

definition add_series :: "(nat \<times> string) \<times> nat \<Rightarrow> series \<Rightarrow> series" where
  "add_series r S = (case r of ((h, kind), n) \<Rightarrow>
     (let k = (if kind = ''failed'' then ''bounced'' else kind) in
      if k = ''relayed'' then S\<lparr>se_relayed := add_at h n (se_relayed S)\<rparr>
      else if k = ''deferred'' then S\<lparr>se_deferred := add_at h n (se_deferred S)\<rparr>
      else if k = ''bounced'' then S\<lparr>se_bounced := add_at h n (se_bounced S)\<rparr>
      else S))"

definition series_of :: "event_row list \<Rightarrow> series" where
  "series_of ev = fold add_series (group_count (map (\<lambda>e. (er_hour e, er_kind e)) ev))
     \<lparr>se_relayed = zeros, se_deferred = zeros, se_bounced = zeros, se_queue = zeros, se_latency = zeros\<rparr>"

definition providerVolume :: "event_row list \<Rightarrow> (string \<times> nat) list" where
  "providerVolume ev = group_count (map (\<lambda>e. the (er_provider e))
     (filter (\<lambda>e. er_kind e = ''relayed'' \<and> er_provider e \<noteq> None) ev))"

text \<open>\<open>DISTINCT ON (provider) ... ORDER BY provider, at DESC\<close>: the latest event of each provider.\<close>

definition latest :: "event_row list \<Rightarrow> string \<Rightarrow> event_row" where
  "latest ev p = last (sort_key er_at (filter (\<lambda>e. er_provider e = Some p) ev))"

definition providerHealth :: "event_row list \<Rightarrow> (string \<times> nat \<times> string) list" where
  "providerHealth ev = map (\<lambda>p. (p, er_at (latest ev p),
       if er_kind (latest ev p) = ''relayed'' then ''healthy'' else ''degraded''))
     (js_uniq (map (\<lambda>e. the (er_provider e)) (filter (\<lambda>e. er_provider e \<noteq> None \<and> er_provider e \<noteq> Some []) ev)))"

definition domainVolume :: "string list \<Rightarrow> (string \<times> nat) list" where
  "domainVolume froms = group_count (map domain_part (filter (\<lambda>f. like ''%@_%'' f) froms))"

definition dkimSigned :: "dkim_row list \<Rightarrow> nat" where
  "dkimSigned keys = (if length (filter (\<lambda>k. dk_rotation k = ''active'') keys) > 0 then 100 else 0)"

definition strip_rabbit :: "string \<Rightarrow> string" where
  "strip_rabbit n = (if js_startsWith n ''rabbit@'' then drop 7 n else n)"

text \<open>The nodes of the cluster: id, role, state.\<close>

definition server_nodes :: "(string \<times> bool) list option \<Rightarrow> (string \<times> string \<times> string) list" where
  "server_nodes nodes = map (\<lambda>(i, n, running). (strip_rabbit n, if i = 0 then ''leader'' else ''follower'',
       if running then ''healthy'' else ''down'')) (enumerate 0 (or_else nodes []))"

record metrics =
  mt_relayed24h :: nat
  mt_deferred24h :: nat
  mt_bounced24h :: nat
  mt_acceptRate :: rat
  mt_queueDepth :: nat
  mt_dkimSigned :: nat
  mt_series :: series
  mt_providerVolume :: "(string \<times> nat) list"
  mt_providerHealth :: "(string \<times> nat \<times> string) list"
  mt_domainVolume :: "(string \<times> nat) list"
  mt_nodes :: "(string \<times> string \<times> string) list"

text \<open>\<open>ev\<close> are the events of the last day, \<open>all_ev\<close> all events, \<open>froms\<close> the senders of the last day.\<close>

definition getMetrics ::
  "event_row list \<Rightarrow> event_row list \<Rightarrow> string list \<Rightarrow> dkim_row list \<Rightarrow> rmq_queue list option \<Rightarrow>
     (string \<times> bool) list option \<Rightarrow> nat \<Rightarrow> metrics" where
  "getMetrics ev all_ev froms keys qs nodes hour =
     (let by = group_count (map er_kind ev);
          relayed = count_of by ''relayed'';
          bounced = count_of by ''bounced'' + count_of by ''failed'';
          S = series_of ev;
          depth = foldl (\<lambda>a q. a + qi_depth q) 0 (getQueues qs) in
      \<lparr>mt_relayed24h = relayed, mt_deferred24h = count_of by ''deferred'', mt_bounced24h = bounced,
       mt_acceptRate = of_int (js_round (acceptRate relayed bounced * 100)) / 100,
       mt_queueDepth = depth, mt_dkimSigned = dkimSigned keys,
       mt_series = S\<lparr>se_queue := (se_queue S)[hour := depth]\<rparr>,
       mt_providerVolume = providerVolume ev, mt_providerHealth = providerHealth all_ev,
       mt_domainVolume = domainVolume froms, mt_nodes = server_nodes nodes\<rparr>)"

section \<open>Purging\<close>

text \<open>The URL of the deletion, if one is sent, and the status code; \<open>del\<close> says whether the broker agrees.\<close>

definition purge_queue :: "string \<Rightarrow> (string \<Rightarrow> bool) \<Rightarrow> string \<Rightarrow> string option \<times> nat" where
  "purge_queue base del name =
     (if \<not> js_startsWith name ''relay.'' \<and> \<not> js_startsWith name ''wait.'' then (None, 400)
      else (let url = base @ ''/api/queues/%2F/'' @ encodeURIComponent name @ ''/contents'' in
        (Some url, if del url then 200 else 502)))"

section \<open>Facts\<close>

lemma map_of_group_count: "map_of (group_count ks) k = (if k \<in> set ks then Some (length (filter (\<lambda>x. x = k) ks)) else None)"
proof -
  have "map_of (map (\<lambda>k. (k, f k)) xs) k = (if k \<in> set xs then Some (f k) else None)" for f :: "'a \<Rightarrow> nat" and xs
    by (induction xs) auto
  then show ?thesis by (simp add: group_count_def)
qed

lemma count_of_group: "count_of (group_count ks) k = length (filter (\<lambda>x. x = k) ks)"
  by (auto simp: count_of_def or_else_def map_of_group_count filter_empty_conv)

lemma sum_group_count: "(\<Sum>(k, n) \<leftarrow> group_count ks. if P k then n else 0) = length (filter P ks)"
proof -
  have cnt: "length (filter (\<lambda>x. x = k) ks) = count_list ks k" for k
    by (induction ks) auto
  have "(\<Sum>(k, n) \<leftarrow> group_count ks. if P k then n else 0) = (\<Sum>k \<leftarrow> js_uniq ks. if P k then count_list ks k else 0)"
    by (simp add: group_count_def cnt o_def)
  also have "\<dots> = (\<Sum>k \<in> set ks. if P k then count_list ks k else 0)"
    by (simp add: sum_list_distinct_conv_sum_set)
  also have "\<dots> = (\<Sum>k \<in> set ks. count_list (filter P ks) k)"
  proof (rule sum.cong [OF refl])
    show "(if P k then count_list ks k else 0) = count_list (filter P ks) k" for k
      by (induction ks) auto
  qed
  also have "\<dots> = length (filter P ks)" by (rule sum_count_set) auto
  finally show ?thesis .
qed

lemma length_add_at [simp]: "length (add_at h n arr) = length arr"
  by (simp add: add_at_def)

lemma sum_add_at: "h < length arr \<Longrightarrow> sum_list (add_at h n arr) = sum_list arr + n"
proof -
  assume h: "h < length arr"
  then have "arr ! h \<le> sum_list arr" by (rule elem_le_sum_list)
  with h show ?thesis by (simp add: add_at_def sum_list_update)
qed

lemma fold_series:
  assumes "\<forall>((h, k), n) \<in> set rows. h < 24"
    and "length (se_relayed S) = 24" "length (se_deferred S) = 24" "length (se_bounced S) = 24"
  shows "sum_list (se_relayed (fold add_series rows S)) =
       sum_list (se_relayed S) + (\<Sum>((h, k), n) \<leftarrow> rows. if k = ''relayed'' then n else 0) \<and>
     sum_list (se_deferred (fold add_series rows S)) =
       sum_list (se_deferred S) + (\<Sum>((h, k), n) \<leftarrow> rows. if k = ''deferred'' then n else 0) \<and>
     sum_list (se_bounced (fold add_series rows S)) =
       sum_list (se_bounced S) + (\<Sum>((h, k), n) \<leftarrow> rows. if k = ''bounced'' \<or> k = ''failed'' then n else 0)"
  using assms
proof (induction rows arbitrary: S)
  case (Cons r rows)
  obtain h k n where r: "r = ((h, k), n)" by (metis prod.exhaust)
  with Cons.prems have h: "h < 24" by simp
  let ?S = "add_series r S"
  have len: "length (se_relayed ?S) = 24" "length (se_deferred ?S) = 24" "length (se_bounced ?S) = 24"
    using Cons.prems by (simp_all add: add_series_def r Let_def)
  have step: "sum_list (se_relayed ?S) = sum_list (se_relayed S) + (if k = ''relayed'' then n else 0)"
    "sum_list (se_deferred ?S) = sum_list (se_deferred S) + (if k = ''deferred'' then n else 0)"
    "sum_list (se_bounced ?S) = sum_list (se_bounced S) + (if k = ''bounced'' \<or> k = ''failed'' then n else 0)"
    using Cons.prems h by (auto simp: add_series_def r Let_def sum_add_at)
  have "\<forall>((h, k), n) \<in> set rows. h < 24" using Cons.prems by simp
  from Cons.IH [OF this len] show ?case unfolding step by (simp add: r)
qed simp

lemma foldl_sum: "foldl (\<lambda>a q. a + f q) c xs = c + sum_list (map f xs)" for c :: nat
  by (induction xs arbitrary: c) auto

lemma js_round_near: "\<bar>of_int (js_round x) - x\<bar> \<le> 1 / 2"
  unfolding js_round_def by linarith

lemma sorted_le_last: "sorted xs \<Longrightarrow> x \<in> set xs \<Longrightarrow> x \<le> last xs"
  by (induction xs) auto

section \<open>Properties\<close>

text \<open>
  The numbers of the dashboard agree. Over the same events, each hourly series adds up to its
  counter (failures counting as bounces), and the counters are the numbers of events of these
  kinds; the queue depth is the sum over the relay and retry queues and the current hour's entry
  of its series; the acceptance rate is within half a hundredth of the exact percentage.
\<close>
theorem getMetrics_consistent:
  assumes "\<forall>e \<in> set ev. er_hour e < 24" and "hour < 24"
  shows "let m = getMetrics ev all_ev froms keys qs nodes hour; S = mt_series m in
     sum_list (se_relayed S) = mt_relayed24h m \<and> sum_list (se_deferred S) = mt_deferred24h m \<and>
     sum_list (se_bounced S) = mt_bounced24h m \<and>
     mt_relayed24h m = length (filter (\<lambda>e. er_kind e = ''relayed'') ev) \<and>
     mt_bounced24h m = length (filter (\<lambda>e. er_kind e = ''bounced'' \<or> er_kind e = ''failed'') ev) \<and>
     se_queue S ! hour = mt_queueDepth m \<and>
     mt_queueDepth m = (\<Sum>q \<leftarrow> filter (\<lambda>q. relay_queue (rq_name q)) (or_else qs []). or_else (rq_messages q) 0) \<and>
     \<bar>mt_acceptRate m - acceptRate (mt_relayed24h m) (mt_bounced24h m)\<bar> \<le> 1 / 200"
proof -
  let ?rows = "group_count (map (\<lambda>e. (er_hour e, er_kind e)) ev)"
  let ?Z = "\<lparr>se_relayed = zeros, se_deferred = zeros, se_bounced = zeros, se_queue = zeros, se_latency = zeros\<rparr>"
  have hours: "\<forall>((h, k), n) \<in> set ?rows. h < 24" using assms(1) by (auto simp: group_count_def)
  have z: "length zeros = 24" "sum_list zeros = 0" by (simp_all add: zeros_def)
  have kinds: "(\<Sum>((h, k), n) \<leftarrow> ?rows. if P k then n else 0) = length (filter (\<lambda>e. P (er_kind e)) ev)" for P
    using sum_group_count [of "\<lambda>(h, k). P k" "map (\<lambda>e. (er_hour e, er_kind e)) ev"]
    by (simp add: filter_map o_def case_prod_unfold)
  have sums: "sum_list (se_relayed (series_of ev)) = length (filter (\<lambda>e. er_kind e = ''relayed'') ev)"
    "sum_list (se_deferred (series_of ev)) = length (filter (\<lambda>e. er_kind e = ''deferred'') ev)"
    "sum_list (se_bounced (series_of ev)) = length (filter (\<lambda>e. er_kind e = ''bounced'' \<or> er_kind e = ''failed'') ev)"
    using fold_series [OF hours, of ?Z] by (simp_all add: z series_of_def kinds)
  have cnt: "count_of (group_count (map er_kind ev)) k = length (filter (\<lambda>e. er_kind e = k) ev)" for k
    by (simp add: count_of_group filter_map o_def)
  have "length (filter (\<lambda>e. er_kind e = ''bounced'' \<or> er_kind e = ''failed'') ev) =
      length (filter (\<lambda>e. er_kind e = ''bounced'') ev) + length (filter (\<lambda>e. er_kind e = ''failed'') ev)"
    by (induction ev) auto
  moreover have "length (se_queue (fold add_series rows S)) = length (se_queue S)" for rows S
    by (induction rows arbitrary: S) (auto simp: add_series_def Let_def split: prod.splits)
  then have "length (se_queue (series_of ev)) = 24" by (simp add: series_of_def z)
  moreover have "\<bar>of_int (js_round (x * 100)) / 100 - x\<bar> \<le> 1 / 200" for x
    using js_round_near [of "x * 100"] by linarith
  moreover have "sum_list (map qi_depth (getQueues qs)) =
      (\<Sum>q \<leftarrow> filter (\<lambda>q. relay_queue (rq_name q)) (or_else qs []). or_else (rq_messages q) 0)"
    by (simp add: getQueues_def queue_row_def Let_def o_def)
  ultimately show ?thesis using assms(2) by (simp add: getMetrics_def Let_def sums cnt foldl_sum)
qed

theorem getMetrics_consistent_witness:
  "let ev = [\<lparr>er_hour = 3, er_kind = ''relayed'', er_provider = Some ''p'', er_at = 1\<rparr>,
             \<lparr>er_hour = 4, er_kind = ''failed'', er_provider = None, er_at = 2\<rparr>];
       m = getMetrics ev ev [] [] None None 5 in
     sum_list (se_relayed (mt_series m)) = 1 \<and> sum_list (se_bounced (mt_series m)) = 1"
proof -
  let ?ev = "[\<lparr>er_hour = 3, er_kind = ''relayed'', er_provider = Some ''p'', er_at = 1\<rparr>,
             \<lparr>er_hour = 4, er_kind = ''failed'', er_provider = None, er_at = 2\<rparr>]"
  have "\<forall>e \<in> set ?ev. er_hour e < 24" "(5::nat) < 24" by simp_all
  from getMetrics_consistent [OF this, of ?ev "[]" "[]" None None] show ?thesis by (simp add: Let_def)
qed

text \<open>
  The health of a provider is its latest attempt. Every provider with a recorded attempt is
  listed once, with the time of its latest event, as healthy exactly when this event is a
  successful relay; no other provider is listed.
\<close>
theorem providerHealth_latest:
  "distinct (map fst (providerHealth ev)) \<and>
   ((p, t, st) \<in> set (providerHealth ev) \<longleftrightarrow> p \<noteq> [] \<and>
     (\<exists>e \<in> set ev. er_provider e = Some p \<and> e = latest ev p \<and> er_at e = t \<and>
        Max (er_at ` {x \<in> set ev. er_provider x = Some p}) = t \<and>
        st = (if er_kind e = ''relayed'' then ''healthy'' else ''degraded'')))"
proof -
  have lat: "latest ev p \<in> {x \<in> set ev. er_provider x = Some p} \<and>
      Max (er_at ` {x \<in> set ev. er_provider x = Some p}) = er_at (latest ev p)"
    if "\<exists>x \<in> set ev. er_provider x = Some p"
  proof -
    let ?xs = "sort_key er_at (filter (\<lambda>e. er_provider e = Some p) ev)"
    have ne: "?xs \<noteq> []" using that by (auto simp: filter_empty_conv dest!: arg_cong [where f = set])
    have st: "set ?xs = {x \<in> set ev. er_provider x = Some p}" by auto
    have "last ?xs \<in> set ?xs" using ne by (rule last_in_set)
    moreover have "er_at x \<le> er_at (last ?xs)" if "x \<in> set ?xs" for x
    proof -
      have "sorted (map er_at ?xs)" by (rule sorted_sort_key)
      then have "er_at x \<le> last (map er_at ?xs)" using that sorted_le_last [of "map er_at ?xs"] by auto
      with ne show ?thesis by (simp add: last_map)
    qed
    ultimately show ?thesis unfolding latest_def st [symmetric] by (auto intro!: Max_eqI)
  qed
  have names: "set (js_uniq (map (\<lambda>e. the (er_provider e))
      (filter (\<lambda>e. er_provider e \<noteq> None \<and> er_provider e \<noteq> Some []) ev))) =
      {p. p \<noteq> [] \<and> (\<exists>e \<in> set ev. er_provider e = Some p)}"
    by force
  have "map fst (providerHealth ev) = js_uniq (map (\<lambda>e. the (er_provider e))
      (filter (\<lambda>e. er_provider e \<noteq> None \<and> er_provider e \<noteq> Some []) ev))"
    by (simp add: providerHealth_def o_def)
  then have "distinct (map fst (providerHealth ev))" by simp
  moreover have "(p, t, st) \<in> set (providerHealth ev) \<longleftrightarrow> p \<noteq> [] \<and> (\<exists>e \<in> set ev. er_provider e = Some p) \<and>
      t = er_at (latest ev p) \<and> st = (if er_kind (latest ev p) = ''relayed'' then ''healthy'' else ''degraded'')"
    unfolding providerHealth_def set_map names by auto
  ultimately show ?thesis using lat by auto
qed

text \<open>
  Only mail queues can be purged. A deletion is sent exactly for names that begin with relay.
  or wait., to the contents of the queue of that name; every other name is refused.
\<close>
theorem purge_guard:
  "(fst (purge_queue base del name) = Some url \<longleftrightarrow>
     relay_queue name \<and> url = base @ ''/api/queues/%2F/'' @ encodeURIComponent name @ ''/contents'') \<and>
   (snd (purge_queue base del name) = 400 \<longleftrightarrow> \<not> relay_queue name) \<and>
   (snd (purge_queue base del name) = 200 \<longleftrightarrow> (\<exists>u. fst (purge_queue base del name) = Some u \<and> del u))"
  by (auto simp: purge_queue_def relay_queue_def Let_def)

text \<open>
  A broker that does not answer shows as having no queues; but a user name or password in its URL
  that cannot be decoded fails the request, although \<open>mgmtGet\<close> is meant to fall back.
\<close>

lemma queues_reply_cases:
  "queues_reply (mgmt host user pass) fetch = None \<longleftrightarrow> decodeURIComponent user = None \<or> decodeURIComponent pass = None"
  "fetch (base @ ''/api/queues'') auth = None \<Longrightarrow> queues_reply (Some (base, auth)) fetch = Some []"
  "fetch (base @ ''/api/queues'') auth = Some (False, body) \<Longrightarrow> queues_reply (Some (base, auth)) fetch = Some []"
  by (auto simp: queues_reply_def mgmtGet_def mgmt_def getQueues_def or_else_def split: option.splits)

lemma percent_in_password: "queues_reply (mgmt ''mq'' ''relay'' ''50%off'') fetch = None"
proof -
  have "decodeURIComponent ''50%off'' = None" by code_simp
  then show ?thesis by (simp add: queues_reply_cases)
qed

text \<open>The guard of the sender count against empty domains does not cover two adjacent at-signs.\<close>

lemma domainVolume_empty: "domainVolume [''a@@b.io''] = [([], 1)]"
  by code_simp

end
