(* ===== verification/WebStore.thy ===== *)
theory WebStore
  imports Telemetry Accounts
begin

text \<open>
  The data store of the console (\<open>web/src/proto/store.jsx\<close>): the mapping of API rows to the
  shapes of the screens, loading and refreshing the cache, and the requests of the writes. API
  rows are records with the columns of the schema, nullable ones as options; the body of a
  request is a list of fields. An API call that rejects is \<open>None\<close>. \<open>fmtWhen\<close> (the browser's date
  formatting) is an argument.
\<close>

section \<open>Helpers\<close>

definition upper_char :: "char \<Rightarrow> char" where
  "upper_char c = (if is_lower c then char_of (code_of c - 32) else c)"

definition js_upper :: "string \<Rightarrow> string" where
  "js_upper s = map upper_char s"

text \<open>\<open>v || d\<close> on strings, \<open>v || []\<close> on lists.\<close>

definition or_str :: "string option \<Rightarrow> string \<Rightarrow> string" where
  "or_str v d = (case v of None \<Rightarrow> d | Some s \<Rightarrow> if s = [] then d else s)"

definition AUTH_TO_DB :: "string \<Rightarrow> string option" where
  "AUTH_TO_DB = map_of [(''XOAUTH2'', ''xoauth2''), (''AWS-SIGV4'', ''iam''), (''PLAIN'', ''smtp-auth''),
     (''LOGIN'', ''smtp-auth''), (''NONE'', ''ip'')]"

definition AUTH_FROM_DB :: "string \<Rightarrow> string option" where
  "AUTH_FROM_DB = map_of [(''xoauth2'', ''XOAUTH2''), (''iam'', ''AWS-SIGV4''), (''smtp-auth'', ''PLAIN''), (''ip'', ''NONE'')]"

text \<open>\<open>(n / d).toFixed(1)\<close>: the nearest tenth, halves up.\<close>

definition toFixed1 :: "nat \<Rightarrow> nat \<Rightarrow> string" where
  "toFixed1 n d = (let t = (20 * n + d) div (2 * d) in nat_str (t div 10) @ ''.'' @ nat_str (t mod 10))"

definition fmtSize :: "nat option \<Rightarrow> string" where
  "fmtSize v = (case v of
     None \<Rightarrow> mdash
   | Some n \<Rightarrow> if n < 1024 then nat_str n @ '' B''
               else if n < 1048576 then toFixed1 n 1024 @ '' KB''
               else toFixed1 n 1048576 @ '' MB'')"

definition star :: "string option \<Rightarrow> string" where
  "star v = (if v = None \<or> v = Some [] then ''*'' else the v)"

definition unstar :: "string \<Rightarrow> string option" where
  "unstar v = (if v = ''*'' \<or> v = [] then None else Some v)"

section \<open>Rows of the API\<close>

record api_provider =
  ap_id :: string
  ap_name :: string
  ap_type :: string
  ap_endpoint :: "string option"
  ap_auth_mode :: "string option"
  ap_enabled :: bool
  ap_secret_ref :: "string option"

record api_rule =
  ar_id :: string
  ar_recipient_domain :: "string option"
  ar_sender_domain :: "string option"
  ar_provider_chain :: "string list option"
  ar_priority :: rat
  ar_enabled :: bool

record api_domain =
  ad_domain :: string
  ad_enabled :: "bool option"

record api_dkim =
  dk_id :: string
  dki_domain :: string
  dki_selector :: string
  dki_rotation :: "string option"

record api_rate =
  rt_id :: string
  rt_direction :: string
  rt_scope :: string
  rt_scope_value :: string
  rt_per_second :: rat
  rt_burst :: rat
  rt_enabled :: bool

record api_account =
  aa_id :: string
  aa_username :: string
  aa_domains :: "string list option"
  aa_allowlist :: "string list option"
  aa_enabled :: "bool option"

section \<open>Shapes of the screens\<close>

record ui_provider =
  up_id :: string
  up_name :: string
  up_type :: string
  up_endpoint :: string
  up_auth_mode :: string
  up_secret_ref :: string
  up_enabled :: bool
  up_status :: string
  up_sent24h :: nat
  up_lastUsed :: string

record ui_rule =
  ur_id :: string
  ur_recipient_domain :: string
  ur_sender_domain :: string
  ur_provider_chain :: "string list"
  ur_priority :: rat
  ur_enabled :: bool
  ur_isDefault :: bool

record ui_domain =
  ud_domain :: string
  ud_dkim_selector :: string
  ud_dkim :: string
  ud_messages24h :: nat
  ud_verified :: bool
  ud_enabled :: bool

record ui_rate =
  ut_id :: string
  ut_domain :: string
  ut_direction :: string
  ut_scope :: string
  ut_per_second :: rat
  ut_burst :: rat
  ut_enabled :: bool
  ut_note :: "string option"

record ui_account =
  ua_id :: string
  ua_username :: string
  ua_domains :: "string list"
  ua_allowlist :: "string list"
  ua_enabled :: bool

section \<open>Mappers\<close>

type_synonym volume = "string \<rightharpoonup> nat"
type_synonym health = "string \<rightharpoonup> nat \<times> string"

definition mapProvider :: "(nat \<Rightarrow> string) \<Rightarrow> volume \<Rightarrow> health \<Rightarrow> api_provider \<Rightarrow> ui_provider" where
  "mapProvider fmtWhen vol health p =
     (let h = health (ap_name p) in
      \<lparr>up_id = ap_id p, up_name = ap_name p, up_type = ap_type p, up_endpoint = or_str (ap_endpoint p) [],
       up_auth_mode = (case Option.bind (ap_auth_mode p) AUTH_FROM_DB of
          Some a \<Rightarrow> a | None \<Rightarrow> js_upper (or_str (ap_auth_mode p) ''NONE'')),
       up_secret_ref = or_str (ap_secret_ref p) mdash, up_enabled = ap_enabled p,
       up_status = (if \<not> ap_enabled p then ''idle'' else case h of None \<Rightarrow> ''idle'' | Some (t, st) \<Rightarrow> st),
       up_sent24h = or_else (vol (ap_name p)) 0,
       up_lastUsed = (case h of None \<Rightarrow> mdash | Some (t, st) \<Rightarrow> fmtWhen t)\<rparr>)"

definition mapRule :: "api_rule \<Rightarrow> ui_rule" where
  "mapRule r =
     \<lparr>ur_id = ar_id r, ur_recipient_domain = star (ar_recipient_domain r), ur_sender_domain = star (ar_sender_domain r),
      ur_provider_chain = or_else (ar_provider_chain r) [], ur_priority = ar_priority r, ur_enabled = ar_enabled r,
      ur_isDefault = (\<not> given (ar_recipient_domain r) \<and> \<not> given (ar_sender_domain r))\<rparr>"

definition mapDomain :: "api_dkim list \<Rightarrow> volume \<Rightarrow> api_domain \<Rightarrow> ui_domain" where
  "mapDomain dk domVol d =
     (let k = find (\<lambda>x. dki_domain x = ad_domain d) dk in
      \<lparr>ud_domain = ad_domain d, ud_dkim_selector = (case k of None \<Rightarrow> mdash | Some x \<Rightarrow> dki_selector x),
       ud_dkim = (case k of None \<Rightarrow> ''pending''
                  | Some x \<Rightarrow> if dki_rotation x = Some ''active'' then ''active'' else ''pending''),
       ud_messages24h = or_else (domVol (js_lower (ad_domain d))) 0,
       ud_verified = (case k of None \<Rightarrow> False | Some x \<Rightarrow> dki_rotation x = Some ''active''),
       ud_enabled = (ad_enabled d \<noteq> Some False)\<rparr>)"

definition mapRate :: "api_rate \<Rightarrow> ui_rate" where
  "mapRate r =
     \<lparr>ut_id = rt_id r, ut_domain = rt_scope_value r, ut_direction = rt_direction r, ut_scope = rt_scope r,
      ut_per_second = rt_per_second r, ut_burst = rt_burst r, ut_enabled = rt_enabled r,
      ut_note = (if rt_scope_value r = ''*'' then Some ''default'' else None)\<rparr>"

definition mapAccount :: "api_account \<Rightarrow> ui_account" where
  "mapAccount a =
     \<lparr>ua_id = aa_id a, ua_username = aa_username a, ua_domains = or_else (aa_domains a) [],
      ua_allowlist = or_else (aa_allowlist a) [], ua_enabled = (aa_enabled a \<noteq> Some False)\<rparr>"

section \<open>Messages\<close>

record api_event =
  ae_kind :: string
  ae_provider :: "string option"
  ae_detail :: "string option"
  ae_at :: string

record api_message =
  am_id :: string
  am_mail_from :: "string option"
  am_rcpt_to :: "string list option"
  am_subject :: "string option"
  am_status :: string
  am_attempts :: nat
  am_size :: "nat option"
  am_created :: string

record ui_event =
  ue_kind :: string
  ue_provider :: "string option"
  ue_detail :: string
  ue_at :: string

record ui_message =
  um_id :: string
  um_mail_from :: string
  um_rcpt_to :: "string list"
  um_subject :: string
  um_status :: string
  um_attempts :: nat
  um_provider :: string
  um_size :: string
  um_created :: string
  um_events :: "ui_event list"

definition ui_message_of :: "api_message \<Rightarrow> string \<Rightarrow> ui_event list \<Rightarrow> ui_message" where
  "ui_message_of m prov events =
     \<lparr>um_id = am_id m, um_mail_from = or_str (am_mail_from m) ''<>'', um_rcpt_to = or_else (am_rcpt_to m) [],
      um_subject = or_str (am_subject m) mdash, um_status = am_status m, um_attempts = am_attempts m,
      um_provider = prov, um_size = fmtSize (am_size m), um_created = am_created m, um_events = events\<rparr>"

definition map_event :: "api_event \<Rightarrow> ui_event" where
  "map_event e = \<lparr>ue_kind = ae_kind e, ue_provider = ae_provider e, ue_detail = or_str (ae_detail e) [], ue_at = ae_at e\<rparr>"

text \<open>\<open>[...events].reverse().find(e => e.provider)\<close>.\<close>

definition last_provider :: "api_event list \<Rightarrow> string" where
  "last_provider events = (case find (\<lambda>e. given (ae_provider e)) (rev events) of
     None \<Rightarrow> mdash | Some e \<Rightarrow> the (ae_provider e))"

definition loadMessages :: "api_message list \<Rightarrow> (string \<Rightarrow> api_event list option) \<Rightarrow> ui_message list" where
  "loadMessages list api_events =
     map (\<lambda>m. let events = or_else (api_events (am_id m)) [] in
       ui_message_of m (last_provider events) (map map_event events)) (take 40 list)"

section \<open>The cache\<close>

record api_client =
  cl_id :: string
  cl_cidr :: string
  cl_description :: "string option"
  cl_domains :: "string list option"
  cl_enabled :: "bool option"

record ui_client =
  uc_id :: string
  uc_cidr :: string
  uc_description :: string
  uc_domains :: "string list"
  uc_enabled :: bool

record api_user =
  us_id :: string
  us_email :: string
  us_role :: "string option"
  us_banned :: bool

record ui_operator =
  uo_id :: string
  uo_username :: string
  uo_role :: string
  uo_enabled :: bool

record api_metrics =
  xm_metrics :: "string \<rightharpoonup> rat"
  xm_series :: "string \<rightharpoonup> nat list"
  xm_volume :: volume
  xm_health :: health
  xm_domains :: volume
  xm_server :: "(string \<times> string \<times> string) list option"

record nm_data =
  nm_providers :: "ui_provider list"
  nm_rules :: "ui_rule list"
  nm_domains :: "ui_domain list"
  nm_rates :: "ui_rate list"
  nm_accounts :: "ui_account list"
  nm_messages :: "ui_message list"
  nm_queues :: "queue_info list"
  nm_clients :: "ui_client list"
  nm_suppressions :: "(string \<times> string \<times> string \<times> nat) list"
  nm_audit :: "(string \<times> string \<times> string \<times> nat) list"
  nm_operators :: "ui_operator list"
  nm_dkim :: "(string \<times> string \<times> string \<times> string) list"
  nm_settings :: "string \<rightharpoonup> json"
  nm_metrics :: "string \<rightharpoonup> rat"
  nm_series :: "string \<rightharpoonup> nat list"
  nm_server :: "(string \<times> string \<times> string) list"
  nm_operator :: "(string \<times> string \<times> string) option"

text \<open>The answers a full load meets.\<close>

record answers =
  an_providers :: "api_provider list option"
  an_rules :: "api_rule list option"
  an_domains :: "api_domain list option"
  an_dkim :: "api_dkim list option"
  an_rates :: "api_rate list option"
  an_accounts :: "api_account list option"
  an_messages :: "api_message list option"
  an_events :: "string \<Rightarrow> api_event list option"
  an_clients :: "api_client list option"
  an_suppressions :: "(string \<times> string \<times> string option \<times> nat) list option"
  an_audit :: "(string \<times> string \<times> string option \<times> nat) list option"
  an_users :: "api_user list option"
  an_settings :: "(string \<times> json) list option"
  an_session :: "api_user option option"
  an_metrics :: "api_metrics option"
  an_queues :: "queue_info list option"

definition map_client :: "api_client \<Rightarrow> ui_client" where
  "map_client c = \<lparr>uc_id = cl_id c, uc_cidr = cl_cidr c, uc_description = or_str (cl_description c) [],
     uc_domains = or_else (cl_domains c) [], uc_enabled = (cl_enabled c \<noteq> Some False)\<rparr>"

definition map_operator :: "api_user \<Rightarrow> ui_operator" where
  "map_operator u = \<lparr>uo_id = us_id u, uo_username = us_email u, uo_role = or_str (us_role u) ''user'', uo_enabled = (\<not> us_banned u)\<rparr>"

definition map_dkim :: "api_dkim \<Rightarrow> string \<times> string \<times> string \<times> string" where
  "map_dkim k = (dk_id k, dki_domain k, dki_selector k, or_str (dki_rotation k) ''active'')"

definition checkSession :: "api_user option option \<Rightarrow> (string \<times> string \<times> string) option" where
  "checkSession s = (case s of
     Some (Some u) \<Rightarrow> Some (us_email u, or_str (us_role u) ''user'', us_id u)
   | _ \<Rightarrow> None)"

definition take_metrics :: "api_metrics option \<Rightarrow> nm_data \<Rightarrow> nm_data" where
  "take_metrics mo d = (case mo of
     None \<Rightarrow> d
   | Some m \<Rightarrow> d\<lparr>nm_metrics := nm_metrics d ++ xm_metrics m, nm_series := nm_series d ++ xm_series m,
                 nm_server := or_else (xm_server m) (nm_server d)\<rparr>)"

definition loadAll :: "(nat \<Rightarrow> string) \<Rightarrow> answers \<Rightarrow> nm_data \<Rightarrow> nm_data" where
  "loadAll fmtWhen a d =
     (let vol = (case an_metrics a of None \<Rightarrow> Map.empty | Some m \<Rightarrow> xm_volume m);
          health = (case an_metrics a of None \<Rightarrow> Map.empty | Some m \<Rightarrow> xm_health m);
          domVol = (case an_metrics a of None \<Rightarrow> Map.empty | Some m \<Rightarrow> xm_domains m);
          dkim = or_else (an_dkim a) [] in
      take_metrics (an_metrics a)
       (d\<lparr>nm_providers := map (mapProvider fmtWhen vol health) (or_else (an_providers a) []),
          nm_rules := map mapRule (or_else (an_rules a) []),
          nm_domains := map (mapDomain dkim domVol) (or_else (an_domains a) []),
          nm_rates := map mapRate (or_else (an_rates a) []),
          nm_accounts := map mapAccount (or_else (an_accounts a) []),
          nm_messages := loadMessages (or_else (an_messages a) []) (an_events a),
          nm_queues := or_else (an_queues a) [],
          nm_clients := map map_client (or_else (an_clients a) []),
          nm_suppressions := map (\<lambda>(ad, rsn, src, t). (ad, rsn, or_str src mdash, t)) (or_else (an_suppressions a) []),
          nm_audit := map (\<lambda>(who, act, tgt, t). (who, act, or_str tgt [], t)) (or_else (an_audit a) []),
          nm_operators := map map_operator (or_else (an_users a) []),
          nm_dkim := map map_dkim dkim,
          nm_settings := map_of (rev (or_else (an_settings a) [])),
          nm_operator := checkSession (an_session a)\<rparr>))"

definition refresh_provider :: "(nat \<Rightarrow> string) \<Rightarrow> volume \<Rightarrow> health \<Rightarrow> ui_provider \<Rightarrow> ui_provider" where
  "refresh_provider fmtWhen vol health p =
     (let v = or_else (vol (up_name p)) 0 in
      p\<lparr>up_sent24h := (if v = 0 then up_sent24h p else v),
        up_status := (if \<not> up_enabled p then ''idle''
                      else case health (up_name p) of None \<Rightarrow> up_status p | Some (t, st) \<Rightarrow> st),
        up_lastUsed := (case health (up_name p) of None \<Rightarrow> up_lastUsed p | Some (t, st) \<Rightarrow> fmtWhen t)\<rparr>)"

text \<open>\<open>byId\<close>: the last cached message of an id.\<close>

definition by_id :: "ui_message list \<Rightarrow> string \<Rightarrow> ui_message option" where
  "by_id ms i = find (\<lambda>m. um_id m = i) (rev ms)"

definition merge_messages :: "ui_message list \<Rightarrow> api_message list \<Rightarrow> ui_message list" where
  "merge_messages old list = map (\<lambda>m. case by_id old (am_id m) of
       Some o' \<Rightarrow> ui_message_of m (um_provider o') (um_events o')
     | None \<Rightarrow> ui_message_of m mdash []) list"

definition refreshLight ::
  "(nat \<Rightarrow> string) \<Rightarrow> api_metrics option \<Rightarrow> queue_info list option \<Rightarrow> api_message list option \<Rightarrow> nm_data \<Rightarrow> nm_data" where
  "refreshLight fmtWhen mo qs lst d =
     (let d = d\<lparr>nm_queues := or_else qs []\<rparr>;
          d = (case mo of None \<Rightarrow> d
               | Some m \<Rightarrow> (take_metrics mo d)
                   \<lparr>nm_providers := map (refresh_provider fmtWhen (xm_volume m) (xm_health m)) (nm_providers d)\<rparr>) in
      case lst of None \<Rightarrow> d | Some l \<Rightarrow> d\<lparr>nm_messages := merge_messages (nm_messages d) l\<rparr>)"

section \<open>Facts about the cache\<close>

lemma ui_message_simps [simp]:
  "um_id (ui_message_of m pv ev) = am_id m" "um_status (ui_message_of m pv ev) = am_status m"
  "um_events (ui_message_of m pv ev) = ev" "um_provider (ui_message_of m pv ev) = pv"
  by (simp_all add: ui_message_of_def)

lemma find_SomeD: "find P xs = Some x \<Longrightarrow> x \<in> set xs \<and> P x"
  by (induction xs) (auto split: if_splits)

lemma by_id_Some: "by_id ms i = Some m \<Longrightarrow> m \<in> set ms \<and> um_id m = i"
  unfolding by_id_def by (drule find_SomeD) simp

lemma by_id_distinct: "distinct (map um_id ms) \<Longrightarrow> m \<in> set ms \<Longrightarrow> by_id ms (um_id m) = Some m"
proof (induction ms rule: rev_induct)
  case (snoc x xs)
  then show ?case by (cases "um_id x = um_id m") (auto simp: by_id_def image_iff)
qed simp

section \<open>Writes\<close>

datatype coll = Providers | Rules | Domains | RateLimits | Accounts | RelayClients | Suppressions | Operators | Dkim

record http_request =
  hr_method :: string
  hr_path :: string
  hr_body :: "(string \<times> json) list option"

datatype form =
    FProvider string string string string bool string
  | FRule string string "string list" rat bool
  | FDomain string "bool option"
  | FRate "string option" "string option" string rat rat bool
  | FAccount string string "string list" "string list" bool
  | FClient string string "string list" bool
  | FSuppression string string
  | FOperator string string string

definition nullable :: "string option \<Rightarrow> json" where
  "nullable s = (case s of None \<Rightarrow> JNull | Some t \<Rightarrow> JStr t)"

definition strs :: "string list \<Rightarrow> json" where
  "strs xs = JArr (map JStr xs)"

text \<open>A put on the item, or a post when there is none.\<close>

definition put_or_post :: "string \<Rightarrow> string option \<Rightarrow> (string \<times> json) list \<Rightarrow> http_request" where
  "put_or_post base item body = (case item of
     Some i \<Rightarrow> \<lparr>hr_method = ''PUT'', hr_path = base @ ''/'' @ i, hr_body = Some body\<rparr>
   | None \<Rightarrow> \<lparr>hr_method = ''POST'', hr_path = base, hr_body = Some body\<rparr>)"

definition provider_body :: "string \<Rightarrow> string \<Rightarrow> string \<Rightarrow> string \<Rightarrow> bool \<Rightarrow> string \<Rightarrow> (string \<times> json) list" where
  "provider_body name type endpoint auth_mode enabled sref =
     [(''name'', JStr name), (''type'', JStr type),
      (''endpoint'', if type = ''direct'' \<or> endpoint = [] then JNull else JStr endpoint),
      (''auth_mode'', JStr (or_else (AUTH_TO_DB auth_mode) ''ip'')), (''enabled'', JBool enabled),
      (''secret_ref'', if type = ''direct'' \<or> sref = [] \<or> sref = mdash then JNull else JStr sref)]"

text \<open>The request of \<open>save\<close>, if it sends one; \<open>item\<close> is the id of the edited row.\<close>

fun save :: "form \<Rightarrow> string option \<Rightarrow> http_request option" where
  "save (FProvider name type endpoint auth_mode enabled sref) item =
     Some (put_or_post ''/providers'' item (provider_body name type endpoint auth_mode enabled sref))"
| "save (FRule recipient sender chain priority enabled) item =
     Some (put_or_post ''/routing-rules'' item
       [(''recipient_domain'', nullable (unstar recipient)), (''sender_domain'', nullable (unstar sender)),
        (''provider_chain'', strs chain), (''priority'', JNum priority), (''enabled'', JBool enabled)])"
| "save (FDomain domain enabled) item =
     (if item = None then Some (put_or_post ''/relay-domains'' None
         [(''domain'', JStr domain), (''enabled'', JBool (enabled \<noteq> Some False))]) else None)"
| "save (FRate direction scope domain per_second burst enabled) item =
     Some (put_or_post ''/rate-limits'' item
       [(''direction'', JStr (or_str direction ''out'')), (''scope'', JStr (or_str scope ''recipient_domain'')),
        (''scope_value'', JStr domain), (''per_second'', JNum per_second), (''burst'', JNum burst), (''enabled'', JBool enabled)])"
| "save (FAccount username password domains allowlist enabled) item =
     Some (put_or_post ''/accounts'' item
       (if item = None
        then [(''username'', JStr username), (''password'', JStr password),
              (''allowed_sender_domains'', strs domains), (''ip_allowlist'', strs allowlist)]
        else [(''allowed_sender_domains'', strs domains), (''ip_allowlist'', strs allowlist), (''enabled'', JBool enabled)] @
             (if password = [] then [] else [(''password'', JStr password)])))"
| "save (FClient cidr description domains enabled) item =
     Some (put_or_post ''/relay-clients'' item
       [(''cidr'', JStr cidr), (''description'', JStr description), (''allowed_sender_domains'', strs domains),
        (''enabled'', JBool enabled)])"
| "save (FSuppression address reason) item =
     Some \<lparr>hr_method = ''POST'', hr_path = ''/suppressions'',
           hr_body = Some [(''address'', JStr address), (''reason'', JStr (if reason = [] then ''manual'' else reason))]\<rparr>"
| "save (FOperator username password role) item =
     Some \<lparr>hr_method = ''POST'', hr_path = ''/auth/admin/create-user'',
           hr_body = Some [(''email'', JStr username), (''password'', JStr password), (''name'', JStr username),
                           (''role'', JStr (if role = [] then ''admin'' else role))]\<rparr>"

record item =
  it_id :: string
  it_domain :: string
  it_address :: string
  it_enabled :: bool

definition coll_path :: "coll \<Rightarrow> string" where
  "coll_path c = (case c of
     Providers \<Rightarrow> ''providers'' | Rules \<Rightarrow> ''routing-rules'' | Domains \<Rightarrow> ''relay-domains'' | RateLimits \<Rightarrow> ''rate-limits''
   | Accounts \<Rightarrow> ''accounts'' | RelayClients \<Rightarrow> ''relay-clients'' | Suppressions \<Rightarrow> ''suppressions'' | Dkim \<Rightarrow> ''dkim-keys''
   | Operators \<Rightarrow> ''undefined'')"

definition remove_request :: "coll \<Rightarrow> item \<Rightarrow> http_request" where
  "remove_request c it =
     (if c = Operators
      then \<lparr>hr_method = ''POST'', hr_path = ''/auth/admin/remove-user'', hr_body = Some [(''userId'', JStr (it_id it))]\<rparr>
      else \<lparr>hr_method = ''DELETE'',
            hr_path = ''/'' @ coll_path c @ ''/'' @
              (if c = Domains then encodeURIComponent (it_domain it)
               else if c = Suppressions then encodeURIComponent (it_address it)
               else if it_id it \<noteq> [] then it_id it else encodeURIComponent (it_domain it)),
            hr_body = None\<rparr>)"

definition toggle_request :: "coll \<Rightarrow> item \<Rightarrow> http_request option" where
  "toggle_request c it =
     (if c \<in> {Providers, Rules, RateLimits, Accounts, RelayClients}
      then Some \<lparr>hr_method = ''PUT'', hr_path = ''/'' @ coll_path c @ ''/'' @ it_id it,
                 hr_body = Some [(''enabled'', JBool (\<not> it_enabled it))]\<rparr>
      else if c = Domains
      then Some \<lparr>hr_method = ''PUT'', hr_path = ''/relay-domains/'' @ encodeURIComponent (it_domain it),
                 hr_body = Some [(''enabled'', JBool (\<not> it_enabled it))]\<rparr>
      else None)"

section \<open>Facts about writes\<close>

text \<open>The resource that serves a collection's path.\<close>

definition resource_of :: "coll \<Rightarrow> resource option" where
  "resource_of c = map_of RESOURCES (coll_path c)"

text \<open>A stored row as the list endpoint returns it.\<close>

definition row_str :: "json row \<Rightarrow> string \<Rightarrow> string option" where
  "row_str row c = (case row c of Some (JStr s) \<Rightarrow> Some s | _ \<Rightarrow> None)"

definition rule_of_row :: "json row \<Rightarrow> api_rule" where
  "rule_of_row row =
     \<lparr>ar_id = or_else (row_str row ''id'') [], ar_recipient_domain = row_str row ''recipient_domain'',
      ar_sender_domain = row_str row ''sender_domain'',
      ar_provider_chain = (case row ''provider_chain'' of
         Some (JArr xs) \<Rightarrow> Some (map (\<lambda>x. case x of JStr s \<Rightarrow> s | _ \<Rightarrow> []) xs) | _ \<Rightarrow> None),
      ar_priority = (case row ''priority'' of Some (JNum n) \<Rightarrow> n | _ \<Rightarrow> 0),
      ar_enabled = (row ''enabled'' = Some (JBool True))\<rparr>"

lemma resource_of_rules: "resource_of Rules = Some (mk ''routing_rules'' ''id''
    [''recipient_domain'', ''sender_domain'', ''provider_chain'', ''priority'', ''enabled''])"
  by (simp add: resource_of_def coll_path_def RESOURCES_def)

lemma resource_enabled: "resource_of c = Some r \<Longrightarrow> c \<in> {Providers, Rules, RateLimits, RelayClients, Domains} \<Longrightarrow>
    ''enabled'' \<in> set (rs_cols r)"
  by (auto simp: resource_of_def coll_path_def RESOURCES_def mk_def)

lemma star_unstar: "s \<noteq> [] \<Longrightarrow> star (unstar s) = s"
  by (simp add: star_def unstar_def)

lemma row_str_nullable: "row c = Some (nullable s) \<Longrightarrow> row_str row c = s"
  by (simp add: row_str_def nullable_def split: option.splits)

section \<open>Properties\<close>



text \<open>
  A routing rule is shown as it was entered. When the update sent by the rule form succeeds
  at the API, reloading the row gives the domains (the star standing for any), the provider
  chain, the priority and the flag of the form; it is marked as the default rule exactly when
  both domains are the star.
\<close>
theorem rule_roundtrip:
  assumes "save (FRule rd sd ch pr en) (Some i) = Some q" and "resource_of Rules = Some r"
    and "put_row True ok r (Some (JStr i)) (map_of (the (hr_body q))) tbl = (tbl', 200, published)"
    and "k < length tbl" and "(tbl ! k) ''id'' = Some (JStr i)" and "rd \<noteq> []" and "sd \<noteq> []"
  shows "mapRule (rule_of_row (tbl' ! k)) =
     \<lparr>ur_id = i, ur_recipient_domain = rd, ur_sender_domain = sd, ur_provider_chain = ch, ur_priority = pr,
      ur_enabled = en, ur_isDefault = (rd = ''*'' \<and> sd = ''*'')\<rparr>"
proof -
  have q: "the (hr_body q) = [(''recipient_domain'', nullable (unstar rd)), (''sender_domain'', nullable (unstar sd)),
        (''provider_chain'', strs ch), (''priority'', JNum pr), (''enabled'', JBool en)]"
    using assms(1) by (auto simp: put_or_post_def)
  have r: "rs_pk r = ''id''" "rs_cols r = [''recipient_domain'', ''sender_domain'', ''provider_chain'', ''priority'', ''enabled'']"
    using assms(2) by (auto simp: resource_of_rules mk_def)
  from put_row_update [OF assms(3)] assms(4,5) have row: "(tbl' ! k) c =
      (if c \<in> set (rs_cols r) \<and> map_of (the (hr_body q)) c \<noteq> None then map_of (the (hr_body q)) c else (tbl ! k) c)" for c
    by (simp add: r(1))
  have "(tbl' ! k) ''recipient_domain'' = Some (nullable (unstar rd))" "(tbl' ! k) ''sender_domain'' = Some (nullable (unstar sd))"
    "(tbl' ! k) ''provider_chain'' = Some (strs ch)" "(tbl' ! k) ''priority'' = Some (JNum pr)"
    "(tbl' ! k) ''enabled'' = Some (JBool en)" "(tbl' ! k) ''id'' = Some (JStr i)"
    by (simp_all add: row q r assms(5))
  then have "rule_of_row (tbl' ! k) = \<lparr>ar_id = i, ar_recipient_domain = unstar rd, ar_sender_domain = unstar sd,
      ar_provider_chain = Some ch, ar_priority = pr, ar_enabled = en\<rparr>"
    by (simp add: rule_of_row_def row_str_nullable row_str_def [of _ "''id''"] strs_def or_else_def o_def)
  moreover have "given (unstar s) \<longleftrightarrow> s \<noteq> ''*'' \<and> s \<noteq> []" for s by (auto simp: given_def unstar_def)
  ultimately show ?thesis using assms(6,7) by (simp add: mapRule_def star_unstar or_else_def)
qed

definition sample_rule_row :: "json row" where
  "sample_rule_row = [''id'' \<mapsto> JStr ''7'', ''recipient_domain'' \<mapsto> JStr ''old.io'', ''enabled'' \<mapsto> JBool True]"

theorem rule_roundtrip_witness:
  "\<exists>q r tbl' published. save (FRule ''a.io'' ''*'' [''p1''] 5 False) (Some ''7'') = Some q \<and> resource_of Rules = Some r \<and>
     put_row True (\<lambda>_. True) r (Some (JStr ''7'')) (map_of (the (hr_body q))) [sample_rule_row] = (tbl', 200, published) \<and>
     ur_recipient_domain (mapRule (rule_of_row (tbl' ! 0))) = ''a.io'' \<and> ur_sender_domain (mapRule (rule_of_row (tbl' ! 0))) = ''*''"
proof -
  obtain q where q: "save (FRule ''a.io'' ''*'' [''p1''] 5 False) (Some ''7'') = Some q" by simp
  obtain r where r: "resource_of Rules = Some r" by (simp add: resource_of_rules)
  let ?p = "put_row True (\<lambda>_. True) r (Some (JStr ''7'')) (map_of (the (hr_body q))) [sample_rule_row]"
  have "fst (snd ?p) = 200"
    using q r by (auto simp: put_row_def resource_of_rules mk_def put_or_post_def sample_rule_row_def)
  then obtain tbl' published where p: "?p = (tbl', 200, published)" by (metis prod.exhaust fst_conv snd_conv)
  have "0 < length [sample_rule_row]" "([sample_rule_row] ! 0) ''id'' = Some (JStr ''7'')"
    by (simp_all add: sample_rule_row_def)
  from rule_roundtrip [OF q r p this] q r p show ?thesis by auto
qed

text \<open>
  A switch in a list flips one flag. When the request of a toggle succeeds at the API, the
  enabled column of the addressed row is the opposite of what the screen showed, and no other
  column of any row changes.
\<close>
theorem toggle_flips:
  assumes "toggle_request c it = Some q" and "resource_of c = Some r"
    and "put_row True ok r (Some rid) (map_of (the (hr_body q))) tbl = (tbl', 200, published)"
  shows "length tbl' = length tbl \<and> (\<forall>k < length tbl. \<forall>col. (tbl' ! k) col =
     (if (tbl ! k) (rs_pk r) = Some rid \<and> col = ''enabled'' then Some (JBool (\<not> it_enabled it)) else (tbl ! k) col))"
proof -
  have body: "the (hr_body q) = [(''enabled'', JBool (\<not> it_enabled it))]"
    using assms(1) by (auto simp: toggle_request_def split: if_splits)
  have "c \<noteq> Accounts" using assms(2) by (auto simp: resource_of_def coll_path_def RESOURCES_def)
  then have "c \<in> {Providers, Rules, RateLimits, RelayClients, Domains}"
    using assms(1) by (auto simp: toggle_request_def split: if_splits)
  with resource_enabled [OF assms(2)] have "''enabled'' \<in> set (rs_cols r)" by blast
  with put_row_update [OF assms(3)] show ?thesis by (auto simp: body)
qed

theorem toggle_flips_witness:
  "\<exists>q r tbl' published. toggle_request Rules \<lparr>it_id = ''7'', it_domain = [], it_address = [], it_enabled = True\<rparr> = Some q \<and>
     resource_of Rules = Some r \<and>
     put_row True (\<lambda>_. True) r (Some (JStr ''7'')) (map_of (the (hr_body q))) [sample_rule_row] = (tbl', 200, published) \<and>
     (tbl' ! 0) ''enabled'' = Some (JBool False) \<and> (tbl' ! 0) ''recipient_domain'' = Some (JStr ''old.io'')"
proof -
  let ?it = "\<lparr>it_id = ''7'', it_domain = [], it_address = [], it_enabled = True\<rparr>"
  obtain q where q: "toggle_request Rules ?it = Some q" by (simp add: toggle_request_def)
  obtain r where r: "resource_of Rules = Some r" by (simp add: resource_of_rules)
  let ?p = "put_row True (\<lambda>_. True) r (Some (JStr ''7'')) (map_of (the (hr_body q))) [sample_rule_row]"
  have "fst (snd ?p) = 200"
    using q r by (auto simp: put_row_def resource_of_rules mk_def toggle_request_def sample_rule_row_def)
  then obtain tbl' published where p: "?p = (tbl', 200, published)" by (metis prod.exhaust fst_conv snd_conv)
  have "rs_pk r = ''id''" using r by (auto simp: resource_of_rules mk_def)
  with toggle_flips [OF q r p] have "(tbl' ! 0) ''enabled'' = Some (JBool False)" "(tbl' ! 0) ''recipient_domain'' = Some (JStr ''old.io'')"
    by (simp_all add: sample_rule_row_def)
  with q r p show ?thesis by blast
qed

text \<open>
  The light refresh shows the new list and keeps the timelines. After it the messages are
  those of the answer, in its order and with its statuses; a message already in the cache keeps
  its events and provider, a new one has none yet. Without an answer nothing changes, and no
  refresh touches the other collections.
\<close>
theorem refreshLight_messages:
  assumes "distinct (map um_id (nm_messages d))"
  shows "let d' = refreshLight fw mo qs (Some list) d in
     map um_id (nm_messages d') = map am_id list \<and> map um_status (nm_messages d') = map am_status list \<and>
     (\<forall>m \<in> set (nm_messages d'). \<forall>o' \<in> set (nm_messages d).
        um_id m = um_id o' \<longrightarrow> um_events m = um_events o' \<and> um_provider m = um_provider o') \<and>
     (\<forall>m \<in> set (nm_messages d'). um_id m \<notin> um_id ` set (nm_messages d) \<longrightarrow> um_events m = [] \<and> um_provider m = mdash) \<and>
     nm_messages (refreshLight fw mo qs None d) = nm_messages d \<and> nm_rules d' = nm_rules d \<and> nm_accounts d' = nm_accounts d"
proof -
  have same: "nm_messages (take_metrics mo d) = nm_messages d" "nm_rules (take_metrics mo d) = nm_rules d"
    "nm_accounts (take_metrics mo d) = nm_accounts d" for mo d
    by (simp_all add: take_metrics_def split: option.splits)
  have d': "nm_messages (refreshLight fw mo qs (Some list) d) = merge_messages (nm_messages d) list"
    "nm_messages (refreshLight fw mo qs None d) = nm_messages d"
    "nm_rules (refreshLight fw mo qs (Some list) d) = nm_rules d" "nm_accounts (refreshLight fw mo qs (Some list) d) = nm_accounts d"
    by (simp_all add: refreshLight_def Let_def same split: option.splits)
  have ids: "map um_id (merge_messages old list) = map am_id list" "map um_status (merge_messages old list) = map am_status list"
    for old by (auto simp: merge_messages_def split: option.splits)
  have "um_events m = um_events o' \<and> um_provider m = um_provider o'"
    if "m \<in> set (merge_messages (nm_messages d) list)" "o' \<in> set (nm_messages d)" "um_id m = um_id o'" for m o'
  proof -
    from that(1) obtain a where "a \<in> set list" and m: "m = (case by_id (nm_messages d) (am_id a) of
        Some o'' \<Rightarrow> ui_message_of a (um_provider o'') (um_events o'') | None \<Rightarrow> ui_message_of a mdash [])"
      by (auto simp: merge_messages_def)
    then have "um_id m = am_id a" by (auto split: option.splits)
    with that by_id_distinct [OF assms that(2)] m show ?thesis by simp
  qed
  moreover have "um_events m = [] \<and> um_provider m = mdash"
    if "m \<in> set (merge_messages (nm_messages d) list)" "um_id m \<notin> um_id ` set (nm_messages d)" for m
  proof -
    from that(1) obtain a where m: "m = (case by_id (nm_messages d) (am_id a) of
        Some o'' \<Rightarrow> ui_message_of a (um_provider o'') (um_events o'') | None \<Rightarrow> ui_message_of a mdash [])"
      by (auto simp: merge_messages_def)
    then have "um_id m = am_id a" by (auto split: option.splits)
    with that(2) have "by_id (nm_messages d) (am_id a) = None"
      by (metis by_id_Some image_eqI not_None_eq)
    with m show ?thesis by simp
  qed
  ultimately show ?thesis by (simp add: Let_def d' ids)
qed

definition empty_data :: nm_data where
  "empty_data = \<lparr>nm_providers = [], nm_rules = [], nm_domains = [], nm_rates = [], nm_accounts = [], nm_messages = [],
     nm_queues = [], nm_clients = [], nm_suppressions = [], nm_audit = [], nm_operators = [], nm_dkim = [],
     nm_settings = Map.empty, nm_metrics = Map.empty, nm_series = Map.empty, nm_server = [], nm_operator = None\<rparr>"

definition sample_api_message :: "string \<Rightarrow> string \<Rightarrow> api_message" where
  "sample_api_message i st = \<lparr>am_id = i, am_mail_from = Some ''a@b.io'', am_rcpt_to = None, am_subject = None,
     am_status = st, am_attempts = 0, am_size = Some 2048, am_created = ''t''\<rparr>"

theorem refreshLight_messages_witness:
  "\<exists>m. let d = empty_data\<lparr>nm_messages := [ui_message_of (sample_api_message ''m1'' ''queued'') ''ses'' [m]]\<rparr>;
       d' = refreshLight (\<lambda>t. []) None None (Some [sample_api_message ''m1'' ''relayed'']) d in
     map um_status (nm_messages d') = [''relayed''] \<and> map um_events (nm_messages d') = [[m]]"
proof -
  let ?m = "\<lparr>ue_kind = ''queued'', ue_provider = None, ue_detail = [], ue_at = ''t''\<rparr>"
  let ?d = "empty_data\<lparr>nm_messages := [ui_message_of (sample_api_message ''m1'' ''queued'') ''ses'' [?m]]\<rparr>"
  let ?d' = "refreshLight (\<lambda>t. []) None None (Some [sample_api_message ''m1'' ''relayed'']) ?d"
  have "distinct (map um_id (nm_messages ?d))" by simp
  from refreshLight_messages [OF this, of "\<lambda>t. []" None None "[sample_api_message ''m1'' ''relayed'']"]
  have ids: "map um_id (nm_messages ?d') = [''m1'']" and st: "map um_status (nm_messages ?d') = [''relayed'']"
    and keep: "\<forall>m \<in> set (nm_messages ?d'). \<forall>o' \<in> set (nm_messages ?d).
        um_id m = um_id o' \<longrightarrow> um_events m = um_events o' \<and> um_provider m = um_provider o'"
    by (simp_all add: Let_def sample_api_message_def)
  from ids obtain x where x: "nm_messages ?d' = [x]" "um_id x = ''m1''" by (auto simp: map_eq_Cons_conv)
  with keep have "um_events x = [?m]" by (simp add: sample_api_message_def)
  with x st show ?thesis unfolding Let_def by (intro exI [of _ ?m]) simp
qed

text \<open>
  The light refresh of a provider row is a reload only while the provider is busy. It gives
  the row a full load would give exactly when the provider has current traffic (or had none
  before) and a recorded attempt (or had none before); otherwise the old numbers stay.
\<close>
theorem refresh_provider_reload:
  assumes "\<And>t. fw t \<noteq> mdash"
  shows "refresh_provider fw vol' health' (mapProvider fw vol health p) = mapProvider fw vol' health' p \<longleftrightarrow>
     (or_else (vol' (ap_name p)) 0 \<noteq> 0 \<or> or_else (vol (ap_name p)) 0 = 0) \<and>
     (health' (ap_name p) \<noteq> None \<or> health (ap_name p) = None)"
  using assms
  by (cases "health (ap_name p)"; cases "health' (ap_name p)")
     (auto simp: refresh_provider_def mapProvider_def Let_def)

theorem refresh_provider_reload_witness:
  "refresh_provider (\<lambda>t. ''now'') [''ses'' \<mapsto> 0] Map.empty
     (mapProvider (\<lambda>t. ''now'') [''ses'' \<mapsto> 9] Map.empty
       \<lparr>ap_id = ''1'', ap_name = ''ses'', ap_type = ''ses'', ap_endpoint = None, ap_auth_mode = None, ap_enabled = True,
        ap_secret_ref = None\<rparr>) \<noteq>
   mapProvider (\<lambda>t. ''now'') [''ses'' \<mapsto> 0] Map.empty
       \<lparr>ap_id = ''1'', ap_name = ''ses'', ap_type = ''ses'', ap_endpoint = None, ap_auth_mode = None, ap_enabled = True,
        ap_secret_ref = None\<rparr>"
proof -
  let ?p = "\<lparr>ap_id = ''1'', ap_name = ''ses'', ap_type = ''ses'', ap_endpoint = None, ap_auth_mode = None,
     ap_enabled = True, ap_secret_ref = None\<rparr>"
  have "''now'' \<noteq> mdash" by (simp add: mdash_def)
  then have "(\<lambda>t :: nat. ''now'') t \<noteq> mdash" for t by simp
  from refresh_provider_reload [where fw = "\<lambda>t. ''now''" and p = ?p and vol = "[''ses'' \<mapsto> 9]" and vol' = "[''ses'' \<mapsto> 0]"
      and health = Map.empty and health' = Map.empty, OF this]
  show ?thesis by (simp add: or_else_def)
qed

text \<open>Saving an edited relay domain sends nothing.\<close>

lemma save_domain_edit: "save (FDomain d en) (Some i) = None"
  by simp

text \<open>Of the authentication modes a form offers, LOGIN is stored as the same mode as PLAIN.\<close>

lemma auth_modes:
  "\<forall>a \<in> {''XOAUTH2'', ''AWS-SIGV4'', ''PLAIN'', ''NONE''}. Option.bind (AUTH_TO_DB a) AUTH_FROM_DB = Some a"
  "Option.bind (AUTH_TO_DB ''LOGIN'') AUTH_FROM_DB = Some ''PLAIN''"
  by (simp_all add: AUTH_TO_DB_def AUTH_FROM_DB_def)

end
