(* ===== verification/WebForms.thy ===== *)
theory WebForms
  imports WebStore "HOL-Library.Multiset"
begin

text \<open>
  The dialogs of the console (\<open>web/src/proto/modals.jsx\<close>): toasts, the chip and chain editors,
  the form of each collection with its initial state, its edits and its validation, submission,
  and the choice of the dialog. A form's edits are a step relation; the store's writes are those
  of \<open>WebStore\<close>. Their elements are in UiForms.
\<close>

section \<open>Toasts\<close>

text \<open>The keys of \<open>TONE\<close>; a render looks up the tone of every toast and throws on an unknown one.\<close>

definition TONE :: "string list" where
  "TONE = [''good'', ''accent'', ''warn'', ''danger'', ''muted'', ''cyan'']"

record toast =
  to_id :: nat
  to_msg :: string
  to_tone :: string

definition nmToast :: "nat \<Rightarrow> string \<Rightarrow> string option \<Rightarrow> toast list \<Rightarrow> toast list" where
  "nmToast tid msg tone ts = ts @ [\<lparr>to_id = tid, to_msg = msg, to_tone = or_else tone ''good''\<rparr>]"

definition toast_expired :: "nat \<Rightarrow> toast list \<Rightarrow> toast list" where
  "toast_expired tid ts = filter (\<lambda>t. to_id t \<noteq> tid) ts"

definition render_toasts :: "toast list \<Rightarrow> (string \<times> string) list option" where
  "render_toasts ts = (if list_all (\<lambda>t. to_tone t \<in> set TONE) ts then Some (map (\<lambda>t. (to_msg t, to_tone t)) ts) else None)"

section \<open>Chips and chains\<close>

definition chip_add :: "string \<Rightarrow> string list \<Rightarrow> string list" where
  "chip_add draft vals = (let v = js_trim draft in if v \<noteq> [] \<and> v \<notin> set vals then vals @ [v] else vals)"

definition chip_remove :: "string \<Rightarrow> string list \<Rightarrow> string list" where
  "chip_remove v vals = filter (\<lambda>x. x \<noteq> v) vals"

text \<open>\<open>move(i, d)\<close> swaps with the neighbour; \<open>avail\<close> are the providers not yet in the chain.\<close>

definition chain_move :: "nat \<Rightarrow> int \<Rightarrow> string list \<Rightarrow> string list" where
  "chain_move i d chain =
     (let j = int i + d in
      if j < 0 \<or> j \<ge> int (length chain) then chain
      else chain[i := chain ! nat j, nat j := chain ! i])"

definition chain_avail :: "ui_provider list \<Rightarrow> string list \<Rightarrow> ui_provider list" where
  "chain_avail providers chain = filter (\<lambda>p. up_id p \<notin> set chain) providers"

definition chain_name :: "ui_provider list \<Rightarrow> string \<Rightarrow> string" where
  "chain_name providers i = (case find (\<lambda>p. up_id p = i) providers of
     None \<Rightarrow> i | Some p \<Rightarrow> if up_name p = [] then i else up_name p)"

inductive chain_step :: "ui_provider list \<Rightarrow> string list \<Rightarrow> string list \<Rightarrow> bool" for providers where
  chain_moved: "i < length chain \<Longrightarrow> d \<in> {- 1, 1} \<Longrightarrow> chain_step providers chain (chain_move i d chain)"
| chain_removed: "chain_step providers chain (filter (\<lambda>x. x \<noteq> v) chain)"
| chain_added: "p \<in> set (chain_avail providers chain) \<Longrightarrow> chain_step providers chain (chain @ [up_id p])"

inductive_cases chain_stepE: "chain_step providers chain chain'"

section \<open>Submitting\<close>

text \<open>
  What a form's \<open>save\<close> does: nothing when invalid; otherwise the store's write, then a toast and
  closing, or an error toast. \<open>api\<close> gives the message of a rejected request. The result is the
  request sent, the toast, whether the dialog closes.
\<close>

definition submit ::
  "(http_request \<Rightarrow> string option) \<Rightarrow> bool \<Rightarrow> form \<Rightarrow> string option \<Rightarrow> string \<Rightarrow>
     http_request option \<times> (string \<times> string) option \<times> bool" where
  "submit api invalid f item msg =
     (if invalid then (None, None, False)
      else (case save f item of
        None \<Rightarrow> (None, Some (msg, ''good''), True)
      | Some q \<Rightarrow> (case api q of
          None \<Rightarrow> (Some q, Some (msg, ''good''), True)
        | Some err \<Rightarrow> (Some q, Some (err, ''danger''), False))))"

definition blank :: "string \<Rightarrow> bool" where
  "blank s \<longleftrightarrow> js_trim s = []"

section \<open>The provider form\<close>

definition AUTH_BY_TYPE :: "(string \<times> string list) list" where
  "AUTH_BY_TYPE = [(''ses'', [''AWS-SIGV4'']), (''m365'', [''XOAUTH2'']), (''gmail'', [''XOAUTH2'']),
     (''smtp'', [''PLAIN'', ''LOGIN'', ''NONE'']), (''direct'', [''NONE''])]"

record provider_form =
  pf_name :: string
  pf_type :: string
  pf_endpoint :: string
  pf_auth_mode :: string
  pf_secret_ref :: string
  pf_enabled :: bool

definition provider_blank :: provider_form where
  "provider_blank = \<lparr>pf_name = [], pf_type = ''ses'', pf_endpoint = [], pf_auth_mode = ''AWS-SIGV4'',
     pf_secret_ref = [], pf_enabled = True\<rparr>"

definition provider_of_item :: "ui_provider \<Rightarrow> provider_form" where
  "provider_of_item p = \<lparr>pf_name = up_name p, pf_type = up_type p, pf_endpoint = up_endpoint p,
     pf_auth_mode = up_auth_mode p, pf_secret_ref = up_secret_ref p, pf_enabled = up_enabled p\<rparr>"

definition provider_invalid :: "provider_form \<Rightarrow> bool" where
  "provider_invalid f \<longleftrightarrow> blank (pf_name f) \<or> (pf_type f \<noteq> ''direct'' \<and> blank (pf_endpoint f))"

definition provider_set_type :: "string \<Rightarrow> provider_form \<Rightarrow> provider_form" where
  "provider_set_type v f = f\<lparr>pf_type := v, pf_auth_mode := hd (the (map_of AUTH_BY_TYPE v))\<rparr>"

text \<open>The selects offer the types and the modes of the current type.\<close>

inductive provider_edit :: "provider_form \<Rightarrow> provider_form \<Rightarrow> bool" where
  edit_name: "provider_edit f (f\<lparr>pf_name := v\<rparr>)"
| edit_type: "v \<in> fst ` set AUTH_BY_TYPE \<Longrightarrow> provider_edit f (provider_set_type v f)"
| edit_auth: "map_of AUTH_BY_TYPE (pf_type f) = Some ms \<Longrightarrow> v \<in> set ms \<Longrightarrow> provider_edit f (f\<lparr>pf_auth_mode := v\<rparr>)"
| edit_endpoint: "provider_edit f (f\<lparr>pf_endpoint := v\<rparr>)"
| edit_secret: "provider_edit f (f\<lparr>pf_secret_ref := v\<rparr>)"
| edit_enabled: "provider_edit f (f\<lparr>pf_enabled := b\<rparr>)"

inductive_cases provider_editE: "provider_edit f f'"

definition provider_submit ::
  "(http_request \<Rightarrow> string option) \<Rightarrow> provider_form \<Rightarrow> string option \<Rightarrow>
     http_request option \<times> (string \<times> string) option \<times> bool" where
  "provider_submit api f item =
     submit api (provider_invalid f)
       (FProvider (pf_name f) (pf_type f) (pf_endpoint f) (pf_auth_mode f) (pf_enabled f) (pf_secret_ref f)) item
       (if item = None then ''Provider created'' else ''Provider updated'')"

section \<open>The routing rule form\<close>

record rule_form =
  rf_recipient :: string
  rf_sender :: string
  rf_chain :: "string list"
  rf_priority :: rat
  rf_enabled :: bool

definition rule_blank :: rule_form where
  "rule_blank = \<lparr>rf_recipient = [], rf_sender = ''*'', rf_chain = [], rf_priority = 100, rf_enabled = True\<rparr>"

definition rule_of_item :: "ui_rule \<Rightarrow> rule_form" where
  "rule_of_item r = \<lparr>rf_recipient = ur_recipient_domain r, rf_sender = ur_sender_domain r,
     rf_chain = ur_provider_chain r, rf_priority = ur_priority r, rf_enabled = ur_enabled r\<rparr>"

definition rule_invalid :: "rule_form \<Rightarrow> bool" where
  "rule_invalid f \<longleftrightarrow> blank (rf_recipient f) \<or> blank (rf_sender f) \<or> rf_chain f = []"

definition rule_submit ::
  "(http_request \<Rightarrow> string option) \<Rightarrow> rule_form \<Rightarrow> string option \<Rightarrow>
     http_request option \<times> (string \<times> string) option \<times> bool" where
  "rule_submit api f item =
     submit api (rule_invalid f) (FRule (rf_recipient f) (rf_sender f) (rf_chain f) (rf_priority f) (rf_enabled f)) item
       (if item = None then ''Routing rule created'' else ''Routing rule updated'')"

section \<open>The relay domain form\<close>

record domain_form =
  df_domain :: string
  df_selector :: string
  df_enabled :: "bool option"

definition domain_blank :: domain_form where
  "domain_blank = \<lparr>df_domain = [], df_selector = ''nova2026'', df_enabled = None\<rparr>"

definition domain_submit ::
  "(http_request \<Rightarrow> string option) \<Rightarrow> domain_form \<Rightarrow> string option \<Rightarrow>
     http_request option \<times> (string \<times> string) option \<times> bool" where
  "domain_submit api f item =
     submit api (blank (df_domain f) \<or> blank (df_selector f)) (FDomain (df_domain f) (df_enabled f)) item
       (if item = None then ''Relay domain added'' else ''Relay domain updated'')"

section \<open>The rate limit form\<close>

definition SCOPES_IN :: "string list" where
  "SCOPES_IN = [''account'', ''ip'', ''global'']"

definition SCOPES_OUT :: "string list" where
  "SCOPES_OUT = [''recipient_domain'', ''provider'', ''global'']"

record rate_form =
  tf_direction :: string
  tf_scope :: string
  tf_domain :: string
  tf_per_second :: rat
  tf_burst :: rat
  tf_enabled :: bool

definition rate_blank :: "string option \<Rightarrow> string option \<Rightarrow> rate_form" where
  "rate_blank direction scope = \<lparr>tf_direction = or_str direction ''out'', tf_scope = or_str scope ''recipient_domain'',
     tf_domain = [], tf_per_second = 25, tf_burst = 80, tf_enabled = True\<rparr>"

definition rate_of_item :: "ui_rate \<Rightarrow> rate_form" where
  "rate_of_item r = \<lparr>tf_direction = ut_direction r, tf_scope = ut_scope r, tf_domain = ut_domain r,
     tf_per_second = ut_per_second r, tf_burst = ut_burst r, tf_enabled = ut_enabled r\<rparr>"

definition rate_set_direction :: "string \<Rightarrow> rate_form \<Rightarrow> rate_form" where
  "rate_set_direction v f = f\<lparr>tf_direction := v, tf_scope := (if v = ''in'' then ''account'' else ''recipient_domain'')\<rparr>"

definition rate_scopes :: "rate_form \<Rightarrow> string list" where
  "rate_scopes f = (if tf_direction f = ''in'' then SCOPES_IN else SCOPES_OUT)"

inductive rate_edit :: "rate_form \<Rightarrow> rate_form \<Rightarrow> bool" where
  rate_direction: "v \<in> {''in'', ''out''} \<Longrightarrow> rate_edit f (rate_set_direction v f)"
| rate_scope: "v \<in> set (rate_scopes f) \<Longrightarrow> rate_edit f (f\<lparr>tf_scope := v\<rparr>)"
| rate_key: "rate_edit f (f\<lparr>tf_domain := v\<rparr>)"
| rate_numbers: "rate_edit f (f\<lparr>tf_per_second := x, tf_burst := y, tf_enabled := b\<rparr>)"

inductive_cases rate_editE: "rate_edit f f'"

definition rate_invalid :: "rate_form \<Rightarrow> bool" where
  "rate_invalid f \<longleftrightarrow> tf_scope f \<noteq> ''global'' \<and> blank (tf_domain f)"

definition rate_submit ::
  "(http_request \<Rightarrow> string option) \<Rightarrow> rate_form \<Rightarrow> string option \<Rightarrow>
     http_request option \<times> (string \<times> string) option \<times> bool" where
  "rate_submit api f item =
     submit api (rate_invalid f)
       (FRate (Some (tf_direction f)) (Some (tf_scope f)) (if tf_scope f = ''global'' then ''*'' else tf_domain f)
          (tf_per_second f) (tf_burst f) (tf_enabled f)) item
       (if item = None then ''Rate limit created'' else ''Rate limit updated'')"

section \<open>The relay client, account, suppression and operator forms\<close>

record client_form =
  cf_cidr :: string
  cf_description :: string
  cf_domains :: "string list"
  cf_enabled :: bool

definition client_submit ::
  "(http_request \<Rightarrow> string option) \<Rightarrow> client_form \<Rightarrow> string option \<Rightarrow>
     http_request option \<times> (string \<times> string) option \<times> bool" where
  "client_submit api f item =
     submit api (blank (cf_cidr f)) (FClient (cf_cidr f) (cf_description f) (cf_domains f) (cf_enabled f)) item
       (if item = None then ''Relay client added'' else ''Relay client updated'')"

record account_form =
  af_username :: string
  af_password :: string
  af_domains :: "string list"
  af_allowlist :: "string list"
  af_enabled :: bool

definition account_of_item :: "ui_account \<Rightarrow> account_form" where
  "account_of_item a = \<lparr>af_username = ua_username a, af_password = [], af_domains = ua_domains a,
     af_allowlist = ua_allowlist a, af_enabled = ua_enabled a\<rparr>"

definition account_submit ::
  "(http_request \<Rightarrow> string option) \<Rightarrow> account_form \<Rightarrow> string option \<Rightarrow>
     http_request option \<times> (string \<times> string) option \<times> bool" where
  "account_submit api f item =
     submit api (blank (af_username f) \<or> (item = None \<and> af_password f = []))
       (FAccount (af_username f) (af_password f) (af_domains f) (af_allowlist f) (af_enabled f)) item
       (if item = None then ''Account created'' else ''Account updated'')"

text \<open>\<open>/.+@.+/.test(s)\<close>: an at-sign between two characters that are no line ends.\<close>

fun email_like :: "string \<Rightarrow> bool" where
  "email_like (a # b # c # s) \<longleftrightarrow>
     (b = CHR ''@'' \<and> a \<notin> {CHR 0x0A, CHR 0x0D} \<and> c \<notin> {CHR 0x0A, CHR 0x0D}) \<or> email_like (b # c # s)"
| "email_like _ \<longleftrightarrow> False"

definition suppression_submit ::
  "(http_request \<Rightarrow> string option) \<Rightarrow> string \<Rightarrow> string \<Rightarrow> http_request option \<times> (string \<times> string) option \<times> bool" where
  "suppression_submit api address reason =
     submit api (\<not> email_like address) (FSuppression address reason) None ''Address suppressed''"

definition operator_submit ::
  "(http_request \<Rightarrow> string option) \<Rightarrow> string \<Rightarrow> string \<Rightarrow> string \<Rightarrow>
     http_request option \<times> (string \<times> string) option \<times> bool" where
  "operator_submit api username password role =
     submit api (\<not> email_like username \<or> length password < 8) (FOperator username password role) None ''Operator created''"

section \<open>Other dialogs\<close>

text \<open>DKIM generation: the request, the toast.\<close>

definition dkim_submit ::
  "(http_request \<Rightarrow> string option) \<Rightarrow> string \<Rightarrow> string \<Rightarrow> http_request option \<times> (string \<times> string) option" where
  "dkim_submit api domain selector =
     (if blank domain \<or> blank selector then (None, None)
      else (let q = \<lparr>hr_method = ''POST'', hr_path = ''/dkim-keys/generate'',
                     hr_body = Some [(''domain'', JStr domain), (''selector'', JStr selector)]\<rparr> in
        (Some q, Some (case api q of None \<Rightarrow> (''DKIM key generated'', ''good'') | Some err \<Rightarrow> (err, ''danger'')))))"

text \<open>\<open>s.replace(/^\d+\s*/, '')\<close>.\<close>

definition strip_status :: "string \<Rightarrow> string" where
  "strip_status s = (case s of c # _ \<Rightarrow> if is_digit c then dropWhile is_ws (dropWhile is_digit s) else s | [] \<Rightarrow> s)"

definition password_submit ::
  "(http_request \<Rightarrow> string option) \<Rightarrow> string \<Rightarrow> string \<Rightarrow> string \<Rightarrow>
     http_request option \<times> (string \<times> string) option \<times> bool" where
  "password_submit api current new confirm =
     (if current = [] \<or> length new < 8 \<or> confirm \<noteq> new then (None, None, False)
      else (let q = \<lparr>hr_method = ''POST'', hr_path = ''/auth/change-password'',
                     hr_body = Some [(''currentPassword'', JStr current), (''newPassword'', JStr new),
                                     (''revokeOtherSessions'', JBool False)]\<rparr> in
        case api q of
          None \<Rightarrow> (Some q, Some (''Password changed'', ''good''), True)
        | Some err \<Rightarrow> (Some q, Some (strip_status err, ''danger''), False)))"

definition COLL_label :: "coll \<Rightarrow> string" where
  "COLL_label c = (case c of
     Providers \<Rightarrow> ''provider'' | Rules \<Rightarrow> ''routing rule'' | Domains \<Rightarrow> ''relay domain'' | RateLimits \<Rightarrow> ''rate limit''
   | Accounts \<Rightarrow> ''account'' | RelayClients \<Rightarrow> ''relay client'' | Suppressions \<Rightarrow> ''suppression''
   | Operators \<Rightarrow> ''operator'' | Dkim \<Rightarrow> ''DKIM key'')"

definition confirm_delete ::
  "(http_request \<Rightarrow> string option) \<Rightarrow> coll \<Rightarrow> item \<Rightarrow> http_request \<times> (string \<times> string) \<times> bool" where
  "confirm_delete api c it =
     (let q = remove_request c it in
      case api q of
        None \<Rightarrow> (q, (COLL_label c @ '' deleted'', ''danger''), True)
      | Some err \<Rightarrow> (q, (err, ''danger''), False))"

datatype dialog = ConfirmDelete coll item | DKIMGen | ProfileModal | ChangePasswordModal | Form coll "item option"

record modal_cfg =
  mc_kind :: "string option"
  mc_coll :: "coll option"
  mc_item :: "item option"

text \<open>\<open>ModalHost\<close>: the dialog of a configuration; a collection without form shows none.\<close>

definition modal_dialog :: "modal_cfg \<Rightarrow> dialog option" where
  "modal_dialog m =
     (if mc_kind m = Some ''confirm'' then Some (ConfirmDelete (the (mc_coll m)) (the (mc_item m)))
      else if mc_kind m = Some ''dkimgen'' then Some DKIMGen
      else if mc_kind m = Some ''profile'' then Some ProfileModal
      else if mc_kind m = Some ''password'' then Some ChangePasswordModal
      else (case mc_coll m of
          None \<Rightarrow> None
        | Some c \<Rightarrow> if c = Dkim then None else Some (Form c (mc_item m))))"

section \<open>Facts\<close>

lemma chip_add_distinct [simp]: "distinct vals \<Longrightarrow> distinct (chip_add draft vals)"
  by (simp add: chip_add_def Let_def)

lemma chain_move_mset: "i < length chain \<Longrightarrow> mset (chain_move i d chain) = mset chain"
proof -
  assume i: "i < length chain"
  show ?thesis
  proof (cases "0 \<le> int i + d \<and> int i + d < int (length chain)")
    case True
    then have "nat (int i + d) < length chain" by linarith
    with i True show ?thesis by (simp add: chain_move_def Let_def mset_swap)
  qed (auto simp: chain_move_def Let_def)
qed

definition chain_ok :: "ui_provider list \<Rightarrow> string list \<Rightarrow> bool" where
  "chain_ok providers chain \<longleftrightarrow> distinct chain \<and> set chain \<subseteq> up_id ` set providers"

lemma chain_step_ok: "chain_ok providers chain \<Longrightarrow> chain_step providers chain chain' \<Longrightarrow> chain_ok providers chain'"
proof (elim chain_stepE)
  fix i d
  assume ok: "chain_ok providers chain" and i: "i < length chain" and c: "chain' = chain_move i d chain"
  have "mset chain' = mset chain" unfolding c using i by (rule chain_move_mset)
  then have "distinct chain' = distinct chain" "set chain' = set chain"
    by (auto dest: mset_eq_imp_distinct_iff mset_eq_setD)
  with ok show "chain_ok providers chain'" by (simp add: chain_ok_def)
qed (auto simp: chain_ok_def chain_avail_def)

interpretation chain_editor: machine_invariant "\<lambda>c. c = []" "chain_step providers" "chain_ok providers" for providers
  by unfold_locales (simp add: chain_ok_def, rule chain_step_ok)

definition provider_form_ok :: "provider_form \<Rightarrow> bool" where
  "provider_form_ok f \<longleftrightarrow> (\<exists>ms. map_of AUTH_BY_TYPE (pf_type f) = Some ms \<and> pf_auth_mode f \<in> set ms)"

lemma auth_by_type_hd: "v \<in> fst ` set AUTH_BY_TYPE \<Longrightarrow>
    \<exists>ms. map_of AUTH_BY_TYPE v = Some ms \<and> hd ms \<in> set ms"
  by (auto simp: AUTH_BY_TYPE_def)

lemma provider_edit_ok: "provider_form_ok f \<Longrightarrow> provider_edit f f' \<Longrightarrow> provider_form_ok f'"
proof (elim provider_editE)
  fix v
  assume "v \<in> fst ` set AUTH_BY_TYPE" and f': "f' = provider_set_type v f"
  then obtain ms where "map_of AUTH_BY_TYPE v = Some ms" "hd ms \<in> set ms" using auth_by_type_hd by blast
  with f' show "provider_form_ok f'" by (simp add: provider_form_ok_def provider_set_type_def)
qed (auto simp: provider_form_ok_def)

interpretation provider_editor: machine_invariant "\<lambda>f. f = provider_blank" provider_edit provider_form_ok
  by unfold_locales (simp add: provider_form_ok_def provider_blank_def AUTH_BY_TYPE_def, rule provider_edit_ok)

definition rate_form_ok :: "rate_form \<Rightarrow> bool" where
  "rate_form_ok f \<longleftrightarrow> tf_direction f \<in> {''in'', ''out''} \<and> tf_scope f \<in> set (rate_scopes f)"

lemma rate_edit_ok: "rate_form_ok f \<Longrightarrow> rate_edit f f' \<Longrightarrow> rate_form_ok f'"
  by (elim rate_editE)
     (auto simp: rate_form_ok_def rate_scopes_def rate_set_direction_def SCOPES_IN_def SCOPES_OUT_def)

interpretation rate_editor: machine_invariant
    "\<lambda>f. f = rate_blank None None \<or> f = rate_blank (Some ''in'') (Some ''account'') \<or>
       f = rate_blank (Some ''out'') (Some ''recipient_domain'')" rate_edit rate_form_ok
proof unfold_locales
  show "f = rate_blank None None \<or> f = rate_blank (Some ''in'') (Some ''account'') \<or>
       f = rate_blank (Some ''out'') (Some ''recipient_domain'') \<Longrightarrow> rate_form_ok f" for f
    by (auto simp: rate_form_ok_def rate_blank_def or_str_def rate_scopes_def SCOPES_IN_def SCOPES_OUT_def)
qed (rule rate_edit_ok)

lemma submit_sends: "fst (submit api invalid f item msg) = (if invalid then None else save f item)"
  by (simp add: submit_def split: option.splits)

lemma auth_modes_stored:
  "map_of AUTH_BY_TYPE t = Some ms \<Longrightarrow> m \<in> set ms \<Longrightarrow>
     t \<in> {''gmail'', ''ses'', ''m365'', ''smtp'', ''direct''} \<and>
     or_else (AUTH_TO_DB m) ''ip'' \<in> {''xoauth2'', ''smtp-auth'', ''ip'', ''iam''} \<and>
     (or_else (AUTH_TO_DB m) ''ip'' = ''ip'' \<longrightarrow> m = ''NONE'')"
  by (auto simp: AUTH_BY_TYPE_def AUTH_TO_DB_def or_else_def split: if_splits)

section \<open>Properties\<close>

text \<open>
  The provider form only sends what the schema accepts. Whatever is edited from the blank
  form on, a submitted request has a non-blank name, a type and an authentication mode of the
  check constraints, the mode being none only if it was chosen, and for direct delivery neither
  endpoint nor secret.
\<close>
theorem provider_form_accepted:
  assumes "reach (\<lambda>f. f = provider_blank) provider_edit f" and "fst (provider_submit api f item) = Some q"
  shows "\<exists>n t a. \<not> blank n \<and> t \<in> {''gmail'', ''ses'', ''m365'', ''smtp'', ''direct''} \<and>
     a \<in> {''xoauth2'', ''smtp-auth'', ''ip'', ''iam''} \<and> (a = ''ip'' \<longrightarrow> pf_auth_mode f = ''NONE'') \<and>
     map_of (the (hr_body q)) ''name'' = Some (JStr n) \<and> map_of (the (hr_body q)) ''type'' = Some (JStr t) \<and>
     map_of (the (hr_body q)) ''auth_mode'' = Some (JStr a) \<and>
     (t = ''direct'' \<longrightarrow> map_of (the (hr_body q)) ''endpoint'' = Some JNull \<and> map_of (the (hr_body q)) ''secret_ref'' = Some JNull)"
proof -
  from provider_editor.reach_inv [OF assms(1)] obtain ms where
    ms: "map_of AUTH_BY_TYPE (pf_type f) = Some ms" "pf_auth_mode f \<in> set ms" by (auto simp: provider_form_ok_def)
  from assms(2) have v: "\<not> provider_invalid f" and q: "the (hr_body q) =
      provider_body (pf_name f) (pf_type f) (pf_endpoint f) (pf_auth_mode f) (pf_enabled f) (pf_secret_ref f)"
    by (auto simp: provider_submit_def submit_sends put_or_post_def split: if_splits option.splits)
  from v have "\<not> blank (pf_name f)" by (simp add: provider_invalid_def)
  with auth_modes_stored [OF ms] show ?thesis
    by (intro exI [of _ "pf_name f"] exI [of _ "pf_type f"] exI [of _ "or_else (AUTH_TO_DB (pf_auth_mode f)) ''ip''"])
       (simp add: q provider_body_def)
qed

theorem provider_form_accepted_witness:
  "\<exists>f q. reach (\<lambda>f. f = provider_blank) provider_edit f \<and> fst (provider_submit (\<lambda>q. None) f None) = Some q \<and>
     map_of (the (hr_body q)) ''endpoint'' = Some JNull"
proof -
  let ?f1 = "provider_set_type ''direct'' provider_blank"
  let ?f = "?f1\<lparr>pf_name := ''mx''\<rparr>"
  have "reach (\<lambda>f. f = provider_blank) provider_edit ?f1"
    by (rule reach_step [OF reach_init], rule refl, rule edit_type) (simp add: AUTH_BY_TYPE_def)
  then have r: "reach (\<lambda>f. f = provider_blank) provider_edit ?f" by (rule reach_step) (rule edit_name)
  have "js_trim ''mx'' = ''mx''" by code_simp
  then have "\<not> provider_invalid ?f"
    by (simp add: provider_invalid_def provider_set_type_def blank_def)
  then obtain q where q: "fst (provider_submit (\<lambda>q. None) ?f None) = Some q"
    by (simp add: provider_submit_def submit_sends)
  have "map_of (the (hr_body q)) ''type'' = Some (JStr ''direct'')"
    using q by (auto simp: provider_submit_def submit_sends put_or_post_def provider_body_def provider_set_type_def split: if_splits)
  with provider_form_accepted [OF r q] r q show ?thesis by auto
qed

text \<open>
  The rate limit form only sends what the schema accepts. From the blank form of either
  direction on, a submitted limit has a direction and a scope of that direction, and its key is
  the star exactly for the global scope or when a star was typed, and never blank.
\<close>
theorem rate_form_accepted:
  assumes "reach (\<lambda>f. f = rate_blank None None \<or> f = rate_blank (Some ''in'') (Some ''account'') \<or>
       f = rate_blank (Some ''out'') (Some ''recipient_domain'')) rate_edit f"
    and "fst (rate_submit api f item) = Some q"
  shows "\<exists>d s v. d \<in> {''in'', ''out''} \<and> s \<in> {''account'', ''ip'', ''recipient_domain'', ''provider'', ''global''} \<and>
     (d = ''in'' \<longleftrightarrow> s \<in> {''account'', ''ip''} \<or> s = ''global'' \<and> tf_direction f = ''in'') \<and>
     map_of (the (hr_body q)) ''direction'' = Some (JStr d) \<and> map_of (the (hr_body q)) ''scope'' = Some (JStr s) \<and>
     map_of (the (hr_body q)) ''scope_value'' = Some (JStr v) \<and> v = (if s = ''global'' then ''*'' else tf_domain f) \<and> \<not> blank v"
proof -
  from rate_editor.reach_inv [OF assms(1)] have ok: "tf_direction f \<in> {''in'', ''out''}" "tf_scope f \<in> set (rate_scopes f)"
    by (simp_all add: rate_form_ok_def)
  from assms(2) have v: "\<not> rate_invalid f" and q: "the (hr_body q) =
      [(''direction'', JStr (or_str (Some (tf_direction f)) ''out'')), (''scope'', JStr (or_str (Some (tf_scope f)) ''recipient_domain'')),
       (''scope_value'', JStr (if tf_scope f = ''global'' then ''*'' else tf_domain f)),
       (''per_second'', JNum (tf_per_second f)), (''burst'', JNum (tf_burst f)), (''enabled'', JBool (tf_enabled f))]"
    by (auto simp: rate_submit_def submit_sends put_or_post_def split: if_splits option.splits)
  have star: "\<not> blank ''*''" by code_simp
  from ok have ne: "tf_direction f \<noteq> []" "tf_scope f \<noteq> []"
    by (auto simp: rate_scopes_def SCOPES_IN_def SCOPES_OUT_def split: if_splits)
  have "\<not> blank (if tf_scope f = ''global'' then ''*'' else tf_domain f)"
    using v star by (auto simp: rate_invalid_def)
  moreover have "tf_direction f = ''in'' \<longleftrightarrow> tf_scope f \<in> {''account'', ''ip''} \<or> tf_scope f = ''global'' \<and> tf_direction f = ''in''"
    "tf_scope f \<in> {''account'', ''ip'', ''recipient_domain'', ''provider'', ''global''}"
    using ok by (auto simp: rate_scopes_def SCOPES_IN_def SCOPES_OUT_def)
  ultimately show ?thesis using ok(1) ne
    by (intro exI [of _ "tf_direction f"] exI [of _ "tf_scope f"] exI [of _ "if tf_scope f = ''global'' then ''*'' else tf_domain f"])
       (simp add: q or_str_def)
qed

theorem rate_form_accepted_witness:
  "\<exists>f q. reach (\<lambda>f. f = rate_blank None None \<or> f = rate_blank (Some ''in'') (Some ''account'') \<or>
       f = rate_blank (Some ''out'') (Some ''recipient_domain'')) rate_edit f \<and>
     fst (rate_submit (\<lambda>q. None) f None) = Some q \<and> map_of (the (hr_body q)) ''scope_value'' = Some (JStr ''*'')"
proof -
  let ?f = "(rate_blank None None)\<lparr>tf_scope := ''global''\<rparr>"
  let ?init = "\<lambda>f. f = rate_blank None None \<or> f = rate_blank (Some ''in'') (Some ''account'') \<or>
       f = rate_blank (Some ''out'') (Some ''recipient_domain'')"
  have "reach ?init rate_edit (rate_blank None None)" by (rule reach_init) simp
  then have r: "reach ?init rate_edit ?f"
    by (rule reach_step) (rule rate_scope, simp add: rate_scopes_def rate_blank_def or_str_def SCOPES_OUT_def)
  obtain q where q: "fst (rate_submit (\<lambda>q. None) ?f None) = Some q"
    by (simp add: rate_submit_def submit_sends rate_invalid_def)
  have "map_of (the (hr_body q)) ''scope'' = Some (JStr ''global'')"
    using q by (auto simp: rate_submit_def submit_sends put_or_post_def or_str_def rate_invalid_def)
  with rate_form_accepted [OF r q] r q show ?thesis by auto
qed

text \<open>
  The chain editor keeps a failover chain sensible. Starting from the empty chain, no
  sequence of moves, removals and additions lists a provider twice or one that does not exist.
\<close>
theorem chain_editor_distinct:
  assumes "reach (\<lambda>c. c = []) (chain_step providers) chain"
  shows "distinct chain \<and> set chain \<subseteq> up_id ` set providers"
  using chain_editor.reach_inv [OF assms] by (simp add: chain_ok_def)

text \<open>A toast of a tone without entry takes the page down; the test of a provider shows one.\<close>

lemma info_toast_throws: "render_toasts (nmToast 1 ''testing ses'' (Some ''info'') []) = None"
  by (simp add: render_toasts_def nmToast_def or_else_def TONE_def)

text \<open>Saving an edited relay domain reports success without a request.\<close>

lemma domain_update_unsent:
  "domain_submit api \<lparr>df_domain = ''a.io'', df_selector = ''s2'', df_enabled = None\<rparr> (Some ''a.io'') =
     (None, Some (''Relay domain updated'', ''good''), True)"
proof -
  have "js_trim ''a.io'' = ''a.io''" "js_trim ''s2'' = ''s2''" by code_simp+
  then show ?thesis by (simp add: domain_submit_def submit_def blank_def)
qed

end
