(* ===== verification/WebShell.thy ===== *)
theory WebShell
  imports WebForms
begin

text \<open>
  The shell of the console: the API client (\<open>web/src/api.ts\<close>), preferences, routing and session
  (\<open>main.jsx\<close>), the sidebar and the command palette (\<open>sidebar.jsx\<close>, \<open>palette.jsx\<close>), the sign-in
  (\<open>login.jsx\<close>). Screens are named by their route.
\<close>

section \<open>The API client\<close>

record response =
  re_status :: nat
  re_statusText :: string
  re_json :: "json option"

definition first_defined :: "json option \<Rightarrow> json option \<Rightarrow> json option" where
  "first_defined a b = (if nullish a then b else a)"

text \<open>The detail of a failed response; \<open>str\<close> is the text of a JSON value in a template.\<close>

definition error_detail :: "(json \<Rightarrow> string) \<Rightarrow> response \<Rightarrow> string" where
  "error_detail str r = (case re_json r of
     None \<Rightarrow> re_statusText r
   | Some j \<Rightarrow> (case get_field ''error'' (Some j) of
       Inl _ \<Rightarrow> re_statusText r
     | Inr e \<Rightarrow>
         (let d = first_defined (get_opt ''message'' e) (first_defined (field ''message'' j) e) in
          if nullish d then re_statusText r else (case the d of JStr s \<Rightarrow> s | v \<Rightarrow> str v))))"

text \<open>\<open>None\<close> as response is a failed fetch, with the message \<open>net\<close>; a body that does not parse throws \<open>bad\<close>.\<close>

definition api_result ::
  "(json \<Rightarrow> string) \<Rightarrow> string \<Rightarrow> string \<Rightarrow> response option \<Rightarrow> string + json option" where
  "api_result str net bad ro = (case ro of
     None \<Rightarrow> Inl net
   | Some r \<Rightarrow>
       if \<not> (200 \<le> re_status r \<and> re_status r < 300)
       then Inl (nat_str (re_status r) @ '' '' @ error_detail str r)
       else if re_status r = 204 then Inr None
       else (case re_json r of None \<Rightarrow> Inl bad | Some j \<Rightarrow> Inr (Some j)))"

section \<open>Preferences\<close>

type_synonym prefs = "string \<rightharpoonup> string"

definition PREF_DEFAULTS :: prefs where
  "PREF_DEFAULTS = [''theme'' \<mapsto> ''dark'', ''accent'' \<mapsto> ''violet'', ''fontPair'' \<mapsto> ''jetbrains-inter'',
     ''density'' \<mapsto> ''cozy'', ''dashboardLayout'' \<mapsto> ''overview'', ''traceStyle'' \<mapsto> ''timeline'']"

text \<open>The stored text parsed; \<open>None\<close> when reading or parsing throws.\<close>

definition load_prefs :: "prefs option \<Rightarrow> prefs" where
  "load_prefs stored = (case stored of None \<Rightarrow> PREF_DEFAULTS | Some p \<Rightarrow> PREF_DEFAULTS ++ p)"

text \<open>The new preferences and what is stored.\<close>

definition set_tweak :: "bool \<Rightarrow> prefs \<Rightarrow> prefs \<times> prefs option \<Rightarrow> prefs \<times> prefs option" where
  "set_tweak writable patch s = (let n = fst s ++ patch in (n, if writable then Some n else snd s))"

definition FONT_PAIRS :: "string list" where
  "FONT_PAIRS = [''jetbrains-inter'', ''ibm-inter'', ''mono-only'']"

definition font_pair :: "prefs \<Rightarrow> string" where
  "font_pair t = (case t ''fontPair'' of Some f \<Rightarrow> if f \<in> set FONT_PAIRS then f else ''jetbrains-inter'' | None \<Rightarrow> ''jetbrains-inter'')"

section \<open>Routes\<close>

definition ROUTE_TITLE :: "(string \<times> string) list" where
  "ROUTE_TITLE = [(''dashboard'', ''dashboard''), (''messages'', ''messages''), (''queue'', ''queue''), (''providers'', ''providers''),
     (''rules'', ''routing-rules''), (''domains'', ''relay-domains''), (''accounts'', ''accounts''), (''settings'', ''settings''),
     (''ratelimits_in'', ''inbound-limits''), (''ratelimits_out'', ''outbound-limits''), (''relayclients'', ''relay-clients''),
     (''dkim'', ''dkim-keys''), (''deliverability'', ''deliverability''), (''notifications'', ''notifications''),
     (''suppressions'', ''suppressions''), (''audit'', ''audit-log''), (''operators'', ''operators'')]"

text \<open>The routes for which \<open>App\<close> has a screen; for any other \<open>main\<close> stays undefined.\<close>

definition SCREENS :: "string list" where
  "SCREENS = [''dashboard'', ''messages'', ''queue'', ''providers'', ''rules'', ''domains'', ''ratelimits_in'', ''ratelimits_out'',
     ''accounts'', ''relayclients'', ''dkim'', ''deliverability'', ''notifications'', ''suppressions'', ''audit'', ''operators'',
     ''settings'']"

definition SIDEBAR :: "(string option \<times> string list) list" where
  "SIDEBAR =
    [(None, [''dashboard'']),
     (Some ''incoming'', [''relayclients'', ''accounts'', ''ratelimits_in'']),
     (Some ''routing'', [''domains'', ''rules'']),
     (Some ''outgoing'', [''providers'', ''dkim'', ''deliverability'', ''ratelimits_out'']),
     (Some ''observe'', [''messages'', ''queue'', ''suppressions'', ''notifications'', ''audit'', ''operators'', ''settings''])]"

text \<open>The numbers beside the items; \<open>None\<close> shows nothing.\<close>

definition sidebar_hint :: "nm_data \<Rightarrow> nat \<Rightarrow> string \<Rightarrow> string option" where
  "sidebar_hint d queueDepth i =
     (if i = ''relayclients'' then (if nm_clients d = [] then None else Some (nat_str (length (nm_clients d))))
      else if i = ''accounts'' then Some (nat_str (length (filter ua_enabled (nm_accounts d))))
      else if i = ''domains'' then Some (nat_str (length (nm_domains d)))
      else if i = ''providers'' then Some (nat_str (length (filter up_enabled (nm_providers d))))
      else if i = ''messages'' then Some ''trace''
      else if i = ''queue'' then Some (nat_str queueDepth)
      else if i = ''suppressions'' then (if nm_suppressions d = [] then None else Some (nat_str (length (nm_suppressions d))))
      else None)"

definition live_telemetry :: "nm_data \<Rightarrow> rat \<times> int \<times> int" where
  "live_telemetry d =
     (or_else (nm_metrics d ''queueDepth'') 0,
      foldl (\<lambda>a q. a + qi_in q) 0 (nm_queues d), foldl (\<lambda>a q. a + qi_out q) 0 (nm_queues d))"

section \<open>The session\<close>

text \<open>\<open>authed\<close> is \<open>None\<close> while the session is being checked. Timers run only while signed in.\<close>

record app =
  app_authed :: "bool option"
  app_route :: string
  app_msg :: "string option"
  app_sidebar :: bool
  app_palette :: bool
  app_timers :: nat

definition app_init :: app where
  "app_init = \<lparr>app_authed = None, app_route = ''dashboard'', app_msg = None, app_sidebar = True, app_palette = False,
     app_timers = 0\<rparr>"

text \<open>The effect on \<open>authed\<close>: its cleanup clears both intervals, its body sets them.\<close>

definition set_authed :: "bool \<Rightarrow> app \<Rightarrow> app" where
  "set_authed b s =
     (if app_authed s = Some b then s
      else s\<lparr>app_authed := Some b,
             app_timers := (if app_authed s = Some True then app_timers s - 2 else app_timers s) + (if b then 2 else 0)\<rparr>)"

datatype key = Meta char | Other

definition on_key :: "key \<Rightarrow> app \<Rightarrow> app" where
  "on_key k s = (case k of
     Meta c \<Rightarrow> if lower_char c = CHR ''k'' then s\<lparr>app_palette := True\<rparr>
               else if lower_char c = CHR ''b'' then s\<lparr>app_sidebar := \<not> app_sidebar s\<rparr> else s
   | Other \<Rightarrow> s)"

definition navigate :: "string \<Rightarrow> app \<Rightarrow> app" where
  "navigate r s = s\<lparr>app_route := r\<rparr>"

definition open_message :: "string option \<Rightarrow> app \<Rightarrow> app" where
  "open_message i s = s\<lparr>app_msg := (if given i then i else None), app_route := ''messages''\<rparr>"

datatype view = Checking | LoginView | Screen string | NoScreen

definition app_view :: "app \<Rightarrow> view" where
  "app_view s = (case app_authed s of
     None \<Rightarrow> Checking
   | Some False \<Rightarrow> LoginView
   | Some True \<Rightarrow> if app_route s \<in> set SCREENS then Screen (app_route s) else NoScreen)"

inductive app_step :: "app \<Rightarrow> app \<Rightarrow> bool" where
  step_session: "app_authed s = None \<Longrightarrow> app_step s (set_authed b s)"
| step_sign_in: "app_authed s = Some False \<Longrightarrow> app_step s (set_authed True s)"
| step_logout: "app_authed s = Some True \<Longrightarrow> app_step s (set_authed False s)"
| step_key: "app_step s (on_key k s)"
| step_navigate: "app_authed s = Some True \<Longrightarrow> app_step s (navigate r s)"
| step_message: "app_authed s = Some True \<Longrightarrow> app_step s (open_message i s)"
| step_palette: "app_authed s = Some True \<Longrightarrow> app_step s (s\<lparr>app_palette := b\<rparr>)"

inductive_cases app_stepE: "app_step s s'"

text \<open>\<open>doLogin\<close>: the error shown, or signing in.\<close>

definition doLogin :: "string option \<Rightarrow> app \<Rightarrow> app \<times> string" where
  "doLogin err s = (case err of
     None \<Rightarrow> (set_authed True s, [])
   | Some e \<Rightarrow> (s, if strip_status e = [] then ''login failed'' else strip_status e))"

section \<open>The command palette\<close>

record nav_item =
  nv_id :: string
  nv_label :: string

definition PALETTE_NAV :: "nav_item list" where
  "PALETTE_NAV = map (\<lambda>(i, l). \<lparr>nv_id = i, nv_label = l\<rparr>)
    [(''dashboard'', ''Go to Dashboard''), (''messages'', ''Go to Messages''), (''queue'', ''Go to Queue monitor''),
     (''providers'', ''Go to Providers''), (''rules'', ''Go to Routing rules''), (''domains'', ''Go to Relay domains''),
     (''ratelimits'', ''Go to Rate limits''), (''accounts'', ''Go to Accounts''), (''settings'', ''Go to Settings'')]"

record action_item = nav_item +
  at_nav :: string
  at_coll :: "coll option"

definition PALETTE_ACTIONS :: "action_item list" where
  "PALETTE_ACTIONS = map (\<lambda>(i, l, n, c). \<lparr>nv_id = i, nv_label = l, at_nav = n, at_coll = c\<rparr>)
    [(''a_provider'', ''New provider'', ''providers'', Some Providers), (''a_rule'', ''New routing rule'', ''rules'', Some Rules),
     (''a_domain'', ''Add relay domain'', ''domains'', Some Domains), (''a_account'', ''New account'', ''accounts'', Some Accounts),
     (''a_purge'', ''Purge dead-letter queue'', ''queue'', None)]"

datatype entry = Nav nav_item | Action action_item | Msg ui_message

definition text_match :: "string \<Rightarrow> string \<Rightarrow> bool" where
  "text_match s t \<longleftrightarrow> js_includes (js_lower t) s"

definition message_match :: "string \<Rightarrow> ui_message \<Rightarrow> bool" where
  "message_match s m \<longleftrightarrow> text_match s (um_subject m) \<or> text_match s (um_mail_from m) \<or>
     text_match s (js_join '' '' (um_rcpt_to m)) \<or> text_match s (um_id m)"

definition palette_entries :: "ui_message list \<Rightarrow> string \<Rightarrow> entry list" where
  "palette_entries messages q =
     (let s = js_trim (js_lower q) in
      map Nav (filter (\<lambda>n. s = [] \<or> text_match s (nv_label n)) PALETTE_NAV) @
      map Action (filter (\<lambda>a. s = [] \<or> text_match s (nv_label a)) PALETTE_ACTIONS) @
      map Msg (if s = [] then [] else take 5 (filter (message_match s) messages)))"

record palette =
  pl_q :: string
  pl_sel :: int

definition palette_open :: palette where
  "palette_open = \<lparr>pl_q = [], pl_sel = 0\<rparr>"

definition palette_type :: "string \<Rightarrow> palette \<Rightarrow> palette" where
  "palette_type q p = \<lparr>pl_q = q, pl_sel = 0\<rparr>"

definition palette_down :: "ui_message list \<Rightarrow> palette \<Rightarrow> palette" where
  "palette_down messages p = p\<lparr>pl_sel := min (int (length (palette_entries messages (pl_q p))) - 1) (pl_sel p + 1)\<rparr>"

definition palette_up :: "palette \<Rightarrow> palette" where
  "palette_up p = p\<lparr>pl_sel := max 0 (pl_sel p - 1)\<rparr>"

inductive palette_step :: "ui_message list \<Rightarrow> palette \<Rightarrow> palette \<Rightarrow> bool" for messages where
  pal_type: "palette_step messages p (palette_type q p)"
| pal_down: "palette_step messages p (palette_down messages p)"
| pal_up: "palette_step messages p (palette_up p)"
| pal_hover: "i < length (palette_entries messages (pl_q p)) \<Longrightarrow> palette_step messages p (p\<lparr>pl_sel := int i\<rparr>)"

inductive_cases palette_stepE: "palette_step messages p p'"

text \<open>What running an entry does, in order.\<close>

datatype pal_effect = Navigate string | OpenMessage string | OpenForm coll | ShowToast string string | ClosePalette

definition palette_run :: "entry option \<Rightarrow> pal_effect list" where
  "palette_run e = (case e of
     None \<Rightarrow> []
   | Some (Msg m) \<Rightarrow> [OpenMessage (um_id m), ClosePalette]
   | Some (Action a) \<Rightarrow> [Navigate (at_nav a), ClosePalette] @
       (case at_coll a of
          Some c \<Rightarrow> [OpenForm c]
        | None \<Rightarrow> if nv_id a = ''a_purge'' then [ShowToast ''Dead-letter queue purged'' ''danger''] else [])
   | Some (Nav n) \<Rightarrow> [Navigate (nv_id n), ClosePalette])"

text \<open>\<open>flat[sel]\<close>, undefined outside the list.\<close>

definition palette_enter :: "ui_message list \<Rightarrow> palette \<Rightarrow> pal_effect list" where
  "palette_enter messages p =
     (let flat = palette_entries messages (pl_q p) in
      palette_run (if 0 \<le> pl_sel p \<and> pl_sel p < int (length flat) then Some (flat ! nat (pl_sel p)) else None))"

section \<open>Facts\<close>

definition timers_ok :: "app \<Rightarrow> bool" where
  "timers_ok s \<longleftrightarrow> app_timers s = (if app_authed s = Some True then 2 else 0)"

lemma app_step_timers: "timers_ok s \<Longrightarrow> app_step s s' \<Longrightarrow> timers_ok s'"
  by (elim app_stepE)
     (auto simp: timers_ok_def set_authed_def on_key_def navigate_def open_message_def split: key.splits)

interpretation app_machine: machine_invariant "\<lambda>s. s = app_init" app_step timers_ok
  by unfold_locales (simp add: timers_ok_def app_init_def, rule app_step_timers)

definition palette_ok :: "ui_message list \<Rightarrow> palette \<Rightarrow> bool" where
  "palette_ok messages p \<longleftrightarrow>
     (let n = int (length (palette_entries messages (pl_q p))) in n > 0 \<longrightarrow> 0 \<le> pl_sel p \<and> pl_sel p < n)"

lemma palette_step_ok: "palette_ok messages p \<Longrightarrow> palette_step messages p p' \<Longrightarrow> palette_ok messages p'"
  by (elim palette_stepE)
     (auto simp: palette_ok_def palette_type_def palette_down_def palette_up_def Let_def)

lemma palette_open_ok: "palette_ok messages palette_open"
  by (simp add: palette_ok_def palette_open_def Let_def)

interpretation palette_machine: machine_invariant "\<lambda>p. p = palette_open" "palette_step messages" "palette_ok messages" for messages
  by unfold_locales (simp add: palette_open_ok, rule palette_step_ok)

lemma strip_status_code: "d \<noteq> [] \<Longrightarrow> \<not> is_ws (hd d) \<Longrightarrow> strip_status (nat_str n @ '' '' @ d) = d"
proof -
  assume d: "d \<noteq> []" "\<not> is_ws (hd d)"
  have digits: "\<forall>c \<in> set (nat_str n). is_digit c" using nat_str_digits by blast
  have "\<not> is_digit CHR '' ''" by code_simp
  with digits have "dropWhile is_digit (nat_str n @ '' '' @ d) = '' '' @ d" by (simp add: dropWhile_append2)
  moreover obtain c cs where "nat_str n = c # cs" using nat_str_not_Nil by (metis neq_Nil_conv)
  moreover have "dropWhile is_ws ('' '' @ d) = d" using d by (cases d) simp_all
  ultimately show ?thesis using digits by (simp add: strip_status_def)
qed

section \<open>Properties\<close>

text \<open>
  Polling follows the session. In every reachable state of the console the two refresh timers
  run exactly when the user is signed in, and a screen is shown only then, so that signing out
  and in again neither leaks nor doubles them.
\<close>
theorem app_session:
  assumes "reach (\<lambda>s. s = app_init) app_step s"
  shows "app_timers s = (if app_authed s = Some True then 2 else 0) \<and>
     (app_view s \<in> {Checking, LoginView} \<longleftrightarrow> app_timers s = 0)"
  using app_machine.reach_inv [OF assms]
  by (auto simp: timers_ok_def app_view_def split: option.splits bool.splits if_splits)

theorem app_session_witness:
  "\<exists>s. reach (\<lambda>s. s = app_init) app_step s \<and> app_view s = LoginView \<and> app_timers s = 0"
proof -
  let ?s1 = "set_authed True app_init" and ?s2 = "set_authed False (set_authed True app_init)"
  have "reach (\<lambda>s. s = app_init) app_step app_init" by (rule reach_init) simp
  then have "reach (\<lambda>s. s = app_init) app_step ?s1" by (rule reach_step) (rule step_session, simp add: app_init_def)
  then have r: "reach (\<lambda>s. s = app_init) app_step ?s2" by (rule reach_step) (rule step_logout, simp add: set_authed_def app_init_def)
  have "app_view ?s2 = LoginView" by (simp add: app_view_def set_authed_def app_init_def)
  with app_session [OF r] r show ?thesis by auto
qed

text \<open>
  The navigation is complete. The sidebar lists every screen once, every screen has a title
  and nothing else does; of the palette's destinations exactly the rate limits have no screen.
\<close>
theorem navigation_complete:
  "distinct (concat (map snd SIDEBAR)) \<and> set (concat (map snd SIDEBAR)) = set SCREENS \<and>
   distinct SCREENS \<and> set (map fst ROUTE_TITLE) = set SCREENS \<and>
   {n \<in> set (map nv_id PALETTE_NAV @ map at_nav PALETTE_ACTIONS). app_view (navigate n (set_authed True app_init)) = NoScreen} =
     {''ratelimits''}"
proof -
  have "distinct (concat (map snd SIDEBAR))" by code_simp
  moreover have "set (concat (map snd SIDEBAR)) = set SCREENS" by code_simp
  moreover have "distinct SCREENS" by code_simp
  moreover have "set (map fst ROUTE_TITLE) = set SCREENS" by code_simp
  moreover have view: "app_view (navigate n (set_authed True app_init)) = NoScreen \<longleftrightarrow> n \<notin> set SCREENS" for n
    by (simp add: app_view_def navigate_def set_authed_def app_init_def)
  have "filter (\<lambda>n. n \<notin> set SCREENS) (map nv_id PALETTE_NAV @ map at_nav PALETTE_ACTIONS) = [''ratelimits'']"
    by code_simp
  then have "{n \<in> set (map nv_id PALETTE_NAV @ map at_nav PALETTE_ACTIONS). n \<notin> set SCREENS} = {''ratelimits''}"
    unfolding set_filter [symmetric] by (simp only: list.set)
  ultimately show ?thesis unfolding view by blast
qed

text \<open>
  Enter runs what is highlighted. However the user types, moves and hovers, while anything is
  listed the selection is one of the listed entries and Enter runs it.
\<close>
theorem palette_enter_runs:
  assumes "reach (\<lambda>p. p = palette_open) (palette_step messages) p" and "palette_entries messages (pl_q p) \<noteq> []"
  shows "\<exists>i < length (palette_entries messages (pl_q p)). pl_sel p = int i \<and>
     palette_enter messages p = palette_run (Some (palette_entries messages (pl_q p) ! i))"
proof -
  from palette_machine.reach_inv [OF assms(1)] assms(2)
  have sel: "0 \<le> pl_sel p" "pl_sel p < int (length (palette_entries messages (pl_q p)))"
    by (simp_all add: palette_ok_def Let_def)
  then show ?thesis by (intro exI [of _ "nat (pl_sel p)"]) (simp add: palette_enter_def Let_def nat_less_iff)
qed

theorem palette_enter_runs_witness:
  "palette_enter [] (palette_type ''queue mon'' palette_open) = [Navigate ''queue'', ClosePalette]"
proof -
  let ?p = "palette_type ''queue mon'' palette_open"
  have r: "reach (\<lambda>p. p = palette_open) (palette_step []) ?p"
    by (rule reach_step [OF reach_init]) (rule refl, rule pal_type)
  have flat: "palette_entries [] ''queue mon'' = [Nav \<lparr>nv_id = ''queue'', nv_label = ''Go to Queue monitor''\<rparr>]" by code_simp
  have q: "pl_q ?p = ''queue mon''" by (simp add: palette_type_def)
  have "palette_entries [] (pl_q ?p) \<noteq> []" unfolding q flat by simp
  from palette_enter_runs [OF r this] obtain i where "i < 1"
    "palette_enter [] ?p = palette_run (Some ([Nav \<lparr>nv_id = ''queue'', nv_label = ''Go to Queue monitor''\<rparr>] ! i))"
    unfolding q flat by auto
  then show ?thesis by (simp add: palette_run_def)
qed

text \<open>
  A refused sign-in shows the server's words. When the API answers with an error body whose
  error is a text, or an object with a message, that text is what the form shows, without the
  status code, and the session does not change.
\<close>
theorem login_error_text:
  assumes "api_result str net bad (Some r) = Inl e" and "re_json r = Some (JObj [(''error'', v)])"
    and "v = JStr msg \<or> v = JObj [(''message'', JStr msg)]" and "msg \<noteq> []" and "\<not> is_ws (hd msg)"
  shows "doLogin (Some e) s = (s, msg)"
proof -
  have "error_detail str r = msg"
    using assms(2,3)
    by (auto simp: error_detail_def get_field_def get_opt_def nullish_def first_defined_def Let_def)
  with assms(1,2) have "e = nat_str (re_status r) @ '' '' @ msg"
    by (auto simp: api_result_def split: if_splits)
  with strip_status_code [OF assms(4,5), of "re_status r"] assms(4) show ?thesis by (simp add: doLogin_def)
qed

theorem login_error_text_witness:
  "\<exists>e. api_result (\<lambda>j. []) [] [] (Some \<lparr>re_status = 401, re_statusText = ''Unauthorized'',
       re_json = Some (JObj [(''error'', JStr ''bad password'')])\<rparr>) = Inl e \<and> snd (doLogin (Some e) app_init) = ''bad password''"
proof -
  let ?r = "\<lparr>re_status = 401, re_statusText = ''Unauthorized'', re_json = Some (JObj [(''error'', JStr ''bad password'')])\<rparr>"
  obtain e where e: "api_result (\<lambda>j. []) [] [] (Some ?r) = Inl e" by (simp add: api_result_def)
  have "re_json ?r = Some (JObj [(''error'', JStr ''bad password'')])" by simp
  moreover have "\<not> is_ws (hd ''bad password'')" by code_simp
  ultimately have "doLogin (Some e) app_init = (app_init, ''bad password'')"
    by (intro login_error_text [OF e, where v = "JStr ''bad password''"]) (assumption | simp)+
  with e show ?thesis by simp
qed

text \<open>Purging from the palette reports success without a request.\<close>

lemma palette_purge_unsent:
  "palette_run (Some (Action \<lparr>nv_id = ''a_purge'', nv_label = ''Purge dead-letter queue'', at_nav = ''queue'', at_coll = None\<rparr>)) =
     [Navigate ''queue'', ClosePalette, ShowToast ''Dead-letter queue purged'' ''danger'']"
  by (simp add: palette_run_def)

end
