(* ===== verification/WebScreens.thy ===== *)
theory WebScreens
  imports WebShell DnsStore AlertChannels
begin

text \<open>
  The screens of the console, without their layout: message tracing (\<open>messages.jsx\<close>),
  deliverability (\<open>deliverability.jsx\<close>), notifications (\<open>notifications.jsx\<close>), settings
  (\<open>settings.jsx\<close>), the queue monitor (\<open>queue.jsx\<close>), the tables (\<open>tables.jsx\<close>, \<open>screens2.jsx\<close>)
  and the charts (\<open>dashboard.jsx\<close>, \<open>ui.jsx\<close>). Coordinates are rationals; a random number is an
  argument; \<open>None\<close> as a screen is a render that throws.
\<close>

section \<open>Message tracing\<close>

definition middot :: string where "middot = '' '' @ [CHR 0xC2, CHR 0xB7] @ '' ''"
definition ellipsis :: string where "ellipsis = [CHR 0xE2, CHR 0x80, CHR 0xA6]"

definition STATUS_FILTERS :: "string list" where
  "STATUS_FILTERS = [''all'', ''relayed'', ''queued'', ''deferred'', ''bounced'', ''failed'']"

text \<open>\<open>initialId || MESSAGES[0].id\<close>.\<close>

definition initial_selection :: "string option \<Rightarrow> ui_message list \<Rightarrow> string option" where
  "initial_selection initialId messages =
     (if given initialId then initialId else case messages of [] \<Rightarrow> None | m # _ \<Rightarrow> Some (um_id m))"

definition message_rows :: "string \<Rightarrow> string \<Rightarrow> ui_message list \<Rightarrow> ui_message list" where
  "message_rows flt q messages = filter (\<lambda>m.
     if flt \<noteq> ''all'' \<and> um_status m \<noteq> flt then False
     else if q \<noteq> [] then
       (let s = js_lower q in
        text_match s (um_mail_from m) \<or> text_match s (js_join '' '' (um_rcpt_to m)) \<or> text_match s (um_subject m) \<or>
        text_match s (um_id m))
     else True) messages"

definition selected_message :: "string \<Rightarrow> ui_message list \<Rightarrow> ui_message option" where
  "selected_message i messages = find (\<lambda>m. um_id m = i) messages"

text \<open>The log treatment of a timeline: its lines and the last time, cut to eight characters.\<close>

definition trace_log :: "ui_event list \<Rightarrow> ((string \<times> string \<times> string) list \<times> string) option" where
  "trace_log events =
     (if events = [] then None
      else Some (map (\<lambda>e. (ue_at e, ue_kind e,
          (if given (ue_provider e) then the (ue_provider e) @ middot else []) @ ue_detail e)) events,
        take 8 (ue_at (last events))))"

definition message_summary :: "ui_message \<Rightarrow> string" where
  "message_summary m = (case um_rcpt_to m of
     [] \<Rightarrow> []
   | [r] \<Rightarrow> r
   | r # rs \<Rightarrow> r @ '' +'' @ nat_str (length rs))"

section \<open>Deliverability\<close>

definition DELIV_TONE :: "status \<Rightarrow> string" where
  "DELIV_TONE s = (case s of Ok \<Rightarrow> ''good'' | Warning \<Rightarrow> ''warn'' | Error \<Rightarrow> ''danger'' | Info \<Rightarrow> ''accent'')"

definition DELIV_DOT :: "status \<Rightarrow> string" where
  "DELIV_DOT s = (case s of Ok \<Rightarrow> ''healthy'' | Warning \<Rightarrow> ''degraded'' | Error \<Rightarrow> ''failed'' | Info \<Rightarrow> ''queued'')"

definition AUTH_RECORDS :: "rtype list" where
  "AUTH_RECORDS = [Spf, Grading.Dkim, Dmarc]"

text \<open>\<open>relTime\<close>: milliseconds of the time (\<open>None\<close> when it does not parse) and of now.\<close>

definition relTime :: "int option \<Rightarrow> int \<Rightarrow> string" where
  "relTime t now = (case t of
     None \<Rightarrow> []
   | Some t \<Rightarrow>
       (let ms = max 0 (now - t) in
        if ms < 60000 then ''just now''
        else if ms < 3600000 then nat_str (nat (ms div 60000)) @ ''m ago''
        else if ms < 86400000 then nat_str (nat (ms div 3600000)) @ ''h ago''
        else nat_str (nat (ms div 86400000)) @ ''d ago''))"

definition auth_records :: "DomainReport \<Rightarrow> RecordReport list" where
  "auth_records r = filter (\<lambda>x. rr_record x \<in> set AUTH_RECORDS) (dr_records r)"

definition hygiene_records :: "DomainReport \<Rightarrow> RecordReport list" where
  "hygiene_records r = filter (\<lambda>x. rr_record x \<notin> set AUTH_RECORDS) (dr_records r)"

text \<open>Whether a card is open: initially, and after the effect on a new status.\<close>

definition card_initial :: "status \<Rightarrow> bool" where
  "card_initial s \<longleftrightarrow> s \<noteq> Ok"

definition card_effect :: "status \<Rightarrow> bool \<Rightarrow> bool" where
  "card_effect s was_open \<longleftrightarrow> s \<noteq> Ok \<or> was_open"

record deliv =
  dv_reports :: "DomainReport list option"
  dv_err :: "string option"
  dv_checking :: "string \<Rightarrow> bool"
  dv_busy :: bool

definition deliv_load :: "string + DomainReport list \<Rightarrow> deliv \<Rightarrow> deliv" where
  "deliv_load ans s = (case ans of
     Inl e \<Rightarrow> s\<lparr>dv_err := Some e, dv_reports := None\<rparr>
   | Inr rs \<Rightarrow> s\<lparr>dv_err := None, dv_reports := Some rs\<rparr>)"

text \<open>\<open>recheckAll\<close>: the guard and the request, then the answer.\<close>

definition recheck_start :: "deliv \<Rightarrow> deliv \<times> bool" where
  "recheck_start s = (if dv_busy s then (s, False) else (s\<lparr>dv_busy := True\<rparr>, True))"

definition recheck_done :: "string + DomainReport list \<Rightarrow> deliv \<Rightarrow> deliv \<times> (string \<times> string)" where
  "recheck_done ans s = (case ans of
     Inl e \<Rightarrow> (s\<lparr>dv_busy := False\<rparr>, (e, ''danger''))
   | Inr rs \<Rightarrow> (s\<lparr>dv_reports := Some rs, dv_busy := False\<rparr>, (''Re-checked all domains'', ''good'')))"

definition check_start :: "string \<Rightarrow> deliv \<Rightarrow> deliv \<times> http_request" where
  "check_start d s = (s\<lparr>dv_checking := (dv_checking s)(d := True)\<rparr>,
     \<lparr>hr_method = ''POST'', hr_path = ''/deliverability/'' @ encodeURIComponent d @ ''/check'', hr_body = None\<rparr>)"

definition check_done :: "string \<Rightarrow> string + DomainReport \<Rightarrow> deliv \<Rightarrow> deliv \<times> (string \<times> string)" where
  "check_done d ans s = (case ans of
     Inl e \<Rightarrow> (s\<lparr>dv_checking := (dv_checking s)(d := False)\<rparr>, (e, ''danger''))
   | Inr r \<Rightarrow>
       (s\<lparr>dv_reports := Some (map (\<lambda>x. if dr_domain x = d then r else x) (or_else (dv_reports s) [])),
          dv_checking := (dv_checking s)(d := False)\<rparr>,
        (d @ '': '' @ status_str (dr_status r),
         if dr_status r = Ok then ''good'' else if dr_status r = Error then ''danger'' else ''warn'')))"

definition deliv_count :: "DomainReport list \<Rightarrow> status \<Rightarrow> nat" where
  "deliv_count rs st = foldl (\<lambda>n r. if dr_status r = st then n + 1 else n) 0 rs"

definition last_checked :: "DomainReport list \<Rightarrow> string" where
  "last_checked rs = foldl (\<lambda>m r. if dr_checkedAt r \<noteq> [] \<and> dr_checkedAt r > m then dr_checkedAt r else m) [] rs"

section \<open>Notifications\<close>

record channel_form =
  nf_name :: string
  nf_type :: string
  nf_url :: string
  nf_target :: string
  nf_min_severity :: string

text \<open>\<open>add\<close>: the complaint, or the body posted.\<close>

definition channel_add :: "channel_form \<Rightarrow> string + channel_body" where
  "channel_add f =
     (if nf_name f = [] then Inl ''name required''
      else if nf_type f = ''webhook'' \<and> nf_url f = [] then Inl ''webhook URL required''
      else if nf_type f = ''email'' \<and> nf_target f = [] then Inl ''recipient address required''
      else Inr \<lparr>cb_name = Some (nf_name f), cb_type = Some (nf_type f), cb_url = Some (nf_url f),
                cb_target = Some (nf_target f), cb_min_severity = Some (nf_min_severity f), cb_enabled = None\<rparr>)"

definition channel_added :: "channel_form \<Rightarrow> channel_form" where
  "channel_added f = \<lparr>nf_name = [], nf_type = nf_type f, nf_url = [], nf_target = [], nf_min_severity = ''warning''\<rparr>"

text \<open>\<open>test\<close>: the two toasts; the answer is the flag and the detail.\<close>

definition channel_test :: "string \<Rightarrow> string + bool \<times> string \<Rightarrow> (string \<times> string) list" where
  "channel_test name ans =
     [(''testing '' @ name @ ellipsis, ''info''),
      (case ans of
         Inl e \<Rightarrow> (e, ''danger'')
       | Inr (ok, detail) \<Rightarrow> (if ok then (name @ '': delivered ('' @ detail @ '')'', ''good'') else (name @ '': '' @ detail, ''danger'')))]"

definition provider_tested :: "string \<Rightarrow> bool \<times> string option \<Rightarrow> (string \<times> string) list" where
  "provider_tested name ans =
     [(''testing '' @ name @ ellipsis, ''info''),
      (if fst ans then (name @ '': connection OK'', ''good'') else (name @ '': '' @ or_str (snd ans) ''failed'', ''danger''))]"

section \<open>Settings\<close>

text \<open>\<open>Number(v) || d\<close> on a setting that is absent or a scalar.\<close>

definition setting_number :: "json option \<Rightarrow> rat \<Rightarrow> jsnum" where
  "setting_number v d =
     (let n = (case v of
         None \<Rightarrow> NaN
       | Some (JNum r) \<Rightarrow> Fin r
       | Some (JStr s) \<Rightarrow> js_number s
       | Some (JBool b) \<Rightarrow> Fin (if b then 1 else 0)
       | Some JNull \<Rightarrow> Fin 0
       | Some _ \<Rightarrow> NaN) in
      if n = NaN \<or> n = Fin 0 then Fin d else n)"

definition maxMiB :: "(string \<rightharpoonup> json) \<Rightarrow> int option" where
  "maxMiB S = (case setting_number (S ''max_message_bytes'') 52428800 of Fin r \<Rightarrow> Some (js_round (r / 1048576)) | _ \<Rightarrow> None)"

definition retention :: "(string \<rightharpoonup> json) \<Rightarrow> jsnum" where
  "retention S = setting_number (S ''retention_days'') 30"

definition check_interval :: "(string \<rightharpoonup> json) \<Rightarrow> jsnum" where
  "check_interval S = setting_number (S ''deliverability_interval_hours'') 6"

definition save_setting :: "string \<Rightarrow> json \<Rightarrow> http_request" where
  "save_setting key v = \<lparr>hr_method = ''PUT'', hr_path = ''/settings/'' @ encodeURIComponent key, hr_body = Some [(''value'', v)]\<rparr>"

text \<open>The value the size field saves; what the text fields save and when they differ.\<close>

definition save_max_size :: "rat \<Rightarrow> http_request" where
  "save_max_size v = save_setting ''max_message_bytes'' (JNum (v * 1048576))"

definition text_dirty :: "string \<Rightarrow> string option \<Rightarrow> bool" where
  "text_dirty v stored \<longleftrightarrow> js_trim v \<noteq> js_trim (or_str stored [])"

section \<open>The queue monitor\<close>

text \<open>
  The depths shown start from the measured ones and then drift: every tick adds a random number
  to each, bounded by 1.8 times the measured depth. \<open>None\<close> is the \<open>NaN\<close> that the drift of a
  queue without an entry gives.
\<close>

definition queue_depths :: "queue_info list \<Rightarrow> string \<rightharpoonup> int option" where
  "queue_depths qs = map_of (rev (map (\<lambda>q. (qi_name q, Some (int (qi_depth q)))) qs))"

definition queue_drift :: "rat \<Rightarrow> queue_kind \<Rightarrow> int" where
  "queue_drift random kind = js_round ((random - 48 / 100) * (if kind = Work then 18 else 4))"

definition drifted :: "(string \<Rightarrow> rat) \<Rightarrow> queue_info \<Rightarrow> int option option \<Rightarrow> int option" where
  "drifted random q prev = (case prev of
     Some (Some d) \<Rightarrow> Some (max 0 (min (js_round (of_nat (qi_depth q) * (18 / 10)))
        (d + queue_drift (random (qi_name q)) (qi_kind q))))
   | _ \<Rightarrow> None)"

definition queue_tick :: "(string \<Rightarrow> rat) \<Rightarrow> queue_info list \<Rightarrow> (string \<rightharpoonup> int option) \<Rightarrow> string \<rightharpoonup> int option" where
  "queue_tick random qs prev = fold (\<lambda>q next. next(qi_name q \<mapsto> drifted random q (prev (qi_name q)))) qs prev"

definition queue_consumers :: "queue_info list \<Rightarrow> nat" where
  "queue_consumers qs = foldl (\<lambda>a q. a + qi_consumers q) 0 qs"

section \<open>Tables\<close>

definition rate_rows :: "string \<Rightarrow> ui_rate list \<Rightarrow> ui_rate list" where
  "rate_rows direction rates = filter (\<lambda>r. or_str (Some (ut_direction r)) ''out'' = direction) rates"

definition dkim_status :: "string \<Rightarrow> string" where
  "dkim_status rotation = (if rotation = ''active'' then ''active'' else if rotation = ''retiring'' then ''pending'' else ''idle'')"

definition reason_tone :: "string \<Rightarrow> string option" where
  "reason_tone = map_of [(''hard_bounce'', ''danger''), (''complaint'', ''warn''), (''manual'', ''accent'')]"

text \<open>A click on the row of a rule opens its form unless it is the default rule.\<close>

definition rule_click :: "ui_rule \<Rightarrow> string option" where
  "rule_click r = (if ur_isDefault r then None else Some (ur_id r))"

definition usage_tone :: "rat \<Rightarrow> string" where
  "usage_tone v = (if v > 8 / 10 then ''danger'' else if v > 6 / 10 then ''warn'' else ''good'')"

definition STATUS_TONE :: "(string \<times> string) list" where
  "STATUS_TONE = [(''relayed'', ''good''), (''delivered'', ''good''), (''healthy'', ''good''), (''active'', ''good''),
     (''verified'', ''good''), (''running'', ''good''), (''enabled'', ''good''),
     (''queued'', ''accent''), (''signing'', ''accent''), (''accepted'', ''accent''), (''relay-attempt'', ''accent''),
     (''deferred'', ''warn''), (''throttled'', ''warn''), (''pending'', ''warn''), (''degraded'', ''warn''), (''ttl'', ''warn''),
     (''draining'', ''warn''), (''bounced'', ''danger''), (''failed'', ''danger''), (''down'', ''danger''), (''dsn'', ''danger''),
     (''rejected'', ''danger''), (''idle'', ''muted''), (''disabled'', ''muted'')]"

definition toneFor :: "string \<Rightarrow> string" where
  "toneFor st = or_else (map_of STATUS_TONE st) ''muted''"

section \<open>Charts\<close>

definition series_max :: "rat list \<Rightarrow> rat" where
  "series_max xs = (case xs of [] \<Rightarrow> 0 | x # r \<Rightarrow> foldl max x r)"

text \<open>The throughput chart: 12 pixels above, 22 below; the scale is that of the relayed series.\<close>

definition chart_max :: "rat list \<Rightarrow> rat" where
  "chart_max relayed = max 1 (series_max relayed * (108 / 100))"

definition chart_x :: "rat \<Rightarrow> nat \<Rightarrow> nat \<Rightarrow> rat" where
  "chart_x w n i = of_nat i / (of_nat n - 1) * w"

definition chart_y :: "rat \<Rightarrow> rat list \<Rightarrow> rat \<Rightarrow> rat" where
  "chart_y height relayed v = (let innerH = height - 12 - 22 in 12 + innerH - v / chart_max relayed * innerH)"

definition chart_line :: "rat \<Rightarrow> rat \<Rightarrow> rat list \<Rightarrow> rat list \<Rightarrow> (rat \<times> rat) list" where
  "chart_line w height relayed arr =
     map (\<lambda>(i, v). (chart_x w (length relayed) i, chart_y height relayed v)) (enumerate 0 arr)"

definition pad2 :: "rat list \<Rightarrow> rat list" where
  "pad2 xs = xs @ replicate (2 - length xs) 0"

definition spark_points :: "rat \<Rightarrow> rat \<Rightarrow> rat list \<Rightarrow> (rat \<times> rat) list" where
  "spark_points w h raw =
     (let data = pad2 raw;
          mx = foldl max (hd data) (tl data); mn = foldl min (hd data) (tl data);
          range = (if mx - mn = 0 then 1 else mx - mn) in
      map (\<lambda>(i, v). (of_nat i / (of_nat (length data) - 1) * w, h - (v - mn) / range * (h - 4) - 2)) (enumerate 0 data))"

definition recent_messages :: "bool \<Rightarrow> ui_message list \<Rightarrow> ui_message list" where
  "recent_messages dense ms = take (if dense then 8 else 6) ms"

definition healthy_nodes :: "(string \<times> string \<times> string) list \<Rightarrow> nat" where
  "healthy_nodes nodes = length (filter (\<lambda>(i, role, st). st = ''healthy'') nodes)"

section \<open>Facts\<close>

lemma deliv_count_filter: "deliv_count rs st = length (filter (\<lambda>r. dr_status r = st) rs)"
proof -
  have "foldl (\<lambda>n r. if dr_status r = st then n + 1 else n) k rs = k + length (filter (\<lambda>r. dr_status r = st) rs)" for k
    by (induction rs arbitrary: k) auto
  then show ?thesis by (simp add: deliv_count_def)
qed

lemma last_checked_max:
  "rs \<noteq> [] \<Longrightarrow> \<forall>r \<in> set rs. dr_checkedAt r \<noteq> [] \<Longrightarrow> last_checked rs = Max (dr_checkedAt ` set rs)"
proof -
  assume rs: "rs \<noteq> []" "\<forall>r \<in> set rs. dr_checkedAt r \<noteq> []"
  have nil: "s \<noteq> [] \<Longrightarrow> [] < s" for s :: string by (cases s) auto
  have "foldl (\<lambda>m r. if dr_checkedAt r \<noteq> [] \<and> dr_checkedAt r > m then dr_checkedAt r else m) k xs =
      Max (insert k (dr_checkedAt ` set xs))" if "\<forall>r \<in> set xs. dr_checkedAt r \<noteq> []" for k xs
    using that
  proof (induction xs arbitrary: k)
    case (Cons x xs)
    have "Max (insert k (insert t A)) = Max (insert (max k t) A)" if "finite A" for t and A :: "string set"
      using that by (cases "A = {}") (auto simp: max.assoc)
    with Cons show ?case by (simp add: max_def)
  qed simp
  from this [OF rs(2), of "[]"] have "last_checked rs = Max (insert [] (dr_checkedAt ` set rs))"
    by (simp add: last_checked_def)
  also have "\<dots> = max [] (Max (dr_checkedAt ` set rs))" using rs(1) by (intro Max_insert) auto
  also have "\<dots> = Max (dr_checkedAt ` set rs)"
  proof -
    have "Max (dr_checkedAt ` set rs) \<in> dr_checkedAt ` set rs" using rs(1) by (intro Max_in) auto
    then obtain r where "r \<in> set rs" "Max (dr_checkedAt ` set rs) = dr_checkedAt r" by blast
    with rs(2) nil [of "dr_checkedAt r"] have "[] < Max (dr_checkedAt ` set rs)" by simp
    then show ?thesis by (simp add: max_def)
  qed
  finally show ?thesis .
qed

lemma foldl_max: "foldl max (k :: rat) xs \<ge> k \<and> (\<forall>x \<in> set xs. x \<le> foldl max k xs)"
  by (induction xs arbitrary: k) (auto intro: order_trans simp: max.coboundedI2, (meson max.bounded_iff)+)

lemma series_max_le: "x \<in> set xs \<Longrightarrow> x \<le> series_max xs"
  using foldl_max by (cases xs) (auto simp: series_max_def)

lemma fold_upd: "fold (\<lambda>q m. m(g q \<mapsto> f q)) qs m n =
    (if \<exists>q \<in> set qs. g q = n then Some (f (last (filter (\<lambda>q. g q = n) qs))) else m n)"
  by (induction qs arbitrary: m) (auto simp: filter_empty_conv)

section \<open>Properties\<close>

text \<open>
  The deliverability screen counts what the summary tile counts. For reports as the checker
  produces them (no domain is merely informational), the healthy, warning and error numbers of
  the screen are those of the server's summary, and both name the same last check.
\<close>
theorem screen_agrees_summary:
  assumes "\<forall>r \<in> set rs. dr_status r \<noteq> Info \<and> dr_checkedAt r \<noteq> []" and "rs \<noteq> []"
  shows "deliv_count rs Ok = sm_ok (summarize rs) \<and> deliv_count rs Warning = sm_warning (summarize rs) \<and>
     deliv_count rs Error = sm_error (summarize rs) \<and> sm_lastChecked (summarize rs) = Some (last_checked rs)"
proof -
  have lt: "s < Warning \<longleftrightarrow> s = Ok \<or> s = Info" for s by (cases s) (simp_all add: status_order)
  have "filter (\<lambda>r. dr_status r < Warning) rs = filter (\<lambda>r. dr_status r = Ok) rs"
    using assms(1) by (intro filter_cong) (auto simp: lt)
  moreover have "sm_lastChecked (summarize rs) = Some (Max (dr_checkedAt ` set rs))"
    using summary_last [OF assms(2)] assms(1) by (simp add: summarize_def)
  ultimately show ?thesis
    using last_checked_max [OF assms(2)] assms(1) by (simp add: summarize_def summary_fold deliv_count_filter)
qed

theorem screen_agrees_summary_witness:
  "deliv_count [sample_report, sample_report\<lparr>dr_checkedAt := ''t7'', dr_status := Ok\<rparr>] Error = 1 \<and>
   last_checked [sample_report, sample_report\<lparr>dr_checkedAt := ''t7'', dr_status := Ok\<rparr>] = ''t7'' \<and>
   sm_error (summarize [sample_report, sample_report\<lparr>dr_checkedAt := ''t7'', dr_status := Ok\<rparr>]) = 1"
proof -
  let ?rs = "[sample_report, sample_report\<lparr>dr_checkedAt := ''t7'', dr_status := Ok\<rparr>]"
  have h: "\<forall>r \<in> set ?rs. dr_status r \<noteq> Info \<and> dr_checkedAt r \<noteq> []" "?rs \<noteq> []" by (simp_all add: sample_report_def)
  have "deliv_count ?rs Error = 1" "last_checked ?rs = ''t7''" by code_simp+
  with screen_agrees_summary [OF h] show ?thesis by simp
qed

text \<open>
  A size limit is shown as it was saved. Saving a positive whole number of mebibytes in the
  settings and reloading them shows that number again, and changes no other setting.
\<close>
theorem max_size_roundtrip:
  assumes "0 < n" and "put_setting True ''max_message_bytes'' (map_of (the (hr_body (save_max_size (of_int n)))) ''value'') tbl =
     (tbl', code, published)"
  shows "maxMiB (map_of tbl') = Some n \<and> (\<forall>k. k \<noteq> ''max_message_bytes'' \<longrightarrow> map_of tbl' k = map_of tbl k)"
proof -
  have t: "tbl' = AList.update ''max_message_bytes'' (JNum (of_int n * 1048576)) tbl"
    using assms(2) by (simp add: save_max_size_def save_setting_def put_setting_def announce_def)
  have "map_of tbl' = (map_of tbl)(''max_message_bytes'' \<mapsto> JNum (of_int n * 1048576))"
    unfolding t by (rule update_conv')
  moreover have "js_round (of_int n) = n" unfolding js_round_def by linarith
  ultimately show ?thesis using assms(1) by (simp add: maxMiB_def setting_number_def)
qed

theorem max_size_roundtrip_witness:
  "\<exists>tbl' code published. put_setting True ''max_message_bytes'' (map_of (the (hr_body (save_max_size (of_int 25)))) ''value'')
       [(''retention_days'', JNum 7)] = (tbl', code, published) \<and>
     maxMiB (map_of tbl') = Some 25 \<and> map_of tbl' ''retention_days'' = Some (JNum 7)"
proof -
  obtain tbl' code published where p: "put_setting True ''max_message_bytes''
      (map_of (the (hr_body (save_max_size (of_int 25)))) ''value'') [(''retention_days'', JNum 7)] = (tbl', code, published)"
    by (metis prod.exhaust)
  have "(0::int) < 25" by simp
  from max_size_roundtrip [OF this p] p show ?thesis by fastforce
qed

text \<open>
  The notification form is as strict as the server. The form posts exactly when the fields
  its type needs are filled, and for what it posts the server's only complaint can be a webhook
  URL that is none; an accepted channel has the name, type and severity of the form.
\<close>
theorem channel_form_accepted:
  assumes "channel_add f = Inr b" and "nf_type f \<in> {''webhook'', ''email''}"
    and "post_channel parse enc new_id b tbl = (tbl', code)"
  shows "(code = 400 \<longleftrightarrow> nf_type f = ''webhook'' \<and> \<not> validWebhookURL parse (nf_url f)) \<and>
     (code = 201 \<longrightarrow> (\<exists>ch. tbl' = tbl @ [ch] \<and> ch_name ch = nf_name f \<and> ch_type ch = nf_type f \<and>
        ch_min_severity ch = severity_of (Some (nf_min_severity f)) \<and> ch_enabled ch)) \<and>
     (code \<noteq> 201 \<longrightarrow> tbl' = tbl)"
proof -
  have b: "b = \<lparr>cb_name = Some (nf_name f), cb_type = Some (nf_type f), cb_url = Some (nf_url f),
      cb_target = Some (nf_target f), cb_min_severity = Some (nf_min_severity f), cb_enabled = None\<rparr>"
    and ne: "nf_name f \<noteq> []" "nf_type f = ''webhook'' \<Longrightarrow> nf_url f \<noteq> []" "nf_type f = ''email'' \<Longrightarrow> nf_target f \<noteq> []"
    using assms(1) by (auto simp: channel_add_def split: if_splits)
  from assms(2) show ?thesis
    using assms(3) ne unfolding b post_channel_def Let_def
    by (auto simp: truthy_def split: if_splits sum.splits)
qed

theorem channel_form_accepted_witness:
  "\<exists>b tbl' code. channel_add \<lparr>nf_name = ''ops'', nf_type = ''email'', nf_url = [], nf_target = ''a@b.io'', nf_min_severity = ''error''\<rparr> = Inr b \<and>
     post_channel (\<lambda>u. None) sample_enc ''7'' b [] = (tbl', code) \<and> code \<noteq> 400"
proof -
  let ?f = "\<lparr>nf_name = ''ops'', nf_type = ''email'', nf_url = [], nf_target = ''a@b.io'', nf_min_severity = ''error''\<rparr>"
  obtain b where b: "channel_add ?f = Inr b" by (simp add: channel_add_def)
  obtain tbl' code where p: "post_channel (\<lambda>u. None) sample_enc ''7'' b [] = (tbl', code)" by (metis prod.exhaust)
  have "nf_type ?f \<in> {''webhook'', ''email''}" by simp
  from channel_form_accepted [OF b this p] have "code \<noteq> 400" by simp
  with b p show ?thesis by blast
qed

text \<open>
  The chart's scale covers the relayed series only. Its points stay between the top and the
  base line, while a point of the deferred series lies above the top exactly when its value
  exceeds the scale, which the relayed numbers alone determine.
\<close>
theorem chart_scale:
  assumes "34 < height" and "0 \<le> v"
  shows "chart_y height relayed v \<le> height - 22 \<and> (chart_y height relayed v < 12 \<longleftrightarrow> chart_max relayed < v) \<and>
     (v \<in> set relayed \<longrightarrow> 12 \<le> chart_y height relayed v)"
proof -
  define H where "H = height - 12 - 22"
  define M where "M = chart_max relayed"
  have H: "0 < H" using assms(1) by (simp add: H_def)
  have M: "1 \<le> M" by (simp add: M_def chart_max_def)
  have y: "chart_y height relayed v = 12 + H - v / M * H" by (simp add: chart_y_def H_def M_def Let_def)
  have "0 \<le> v / M * H" using assms(2) H M by simp
  then have base: "chart_y height relayed v \<le> height - 22" by (simp add: y H_def)
  have "chart_y height relayed v < 12 \<longleftrightarrow> 1 * H < v / M * H" by (simp add: y)
  also have "\<dots> \<longleftrightarrow> M < v" using H M by (subst mult_less_cancel_right_pos) (simp_all add: less_divide_eq)
  finally have top: "chart_y height relayed v < 12 \<longleftrightarrow> M < v" .
  have "v \<le> M" if "v \<in> set relayed"
  proof -
    have "v \<le> series_max relayed" using that by (rule series_max_le)
    moreover from this have "series_max relayed \<le> series_max relayed * (108 / 100)" using assms(2) by simp
    ultimately show ?thesis by (simp add: M_def chart_max_def)
  qed
  with base top show ?thesis by (auto simp: M_def)
qed

theorem chart_scale_witness:
  "chart_y 210 [0, 3] 3 \<ge> 12 \<and> chart_y 210 [0, 3] 9 < 12"
proof -
  have max: "chart_max [0, 3] < 9" by (simp add: chart_max_def series_max_def)
  have h: "(34 :: rat) < 210" and v: "(0 :: rat) \<le> 3" "(0 :: rat) \<le> 9" by simp_all
  from chart_scale [OF h v(1), of "[0, 3]"] chart_scale [OF h v(2), of "[0, 3]"] max show ?thesis by simp
qed

section \<open>Empty inputs and simulated numbers\<close>

text \<open>The message screen and the log of a message without events cannot be rendered.\<close>

lemma no_messages: "initial_selection None [] = None" and no_events: "trace_log [] = None"
  by (simp_all add: initial_selection_def given_def trace_log_def)

text \<open>The tests of a provider and of a channel show a toast that cannot be rendered.\<close>

lemma test_toasts:
  "render_toasts (nmToast 1 (fst (hd (provider_tested n a))) (Some (snd (hd (provider_tested n a)))) []) = None"
  "render_toasts (nmToast 1 (fst (hd (channel_test n b))) (Some (snd (hd (channel_test n b)))) []) = None"
  by (simp_all add: provider_tested_def channel_test_def render_toasts_def nmToast_def or_else_def TONE_def)

text \<open>A queue of measured depth 100 is shown as 101 after a tick, whatever the broker holds.\<close>

lemma queue_simulated:
  "queue_tick (\<lambda>n. 53 / 100) [q\<lparr>qi_name := ''relay.work'', qi_depth := 100, qi_kind := Work\<rparr>] [''relay.work'' \<mapsto> Some 100] ''relay.work'' =
     Some (Some 101)"
proof -
  have "js_round (100 * (18 / 10)) = 180" "queue_drift (53 / 100) Work = 1" by code_simp+
  then show ?thesis by (simp add: queue_tick_def drifted_def)
qed

lemma queue_tick_bounds:
  "q \<in> set qs \<Longrightarrow> distinct (map qi_name qs) \<Longrightarrow> queue_tick random qs prev (qi_name q) = Some (Some d) \<Longrightarrow>
     0 \<le> d \<and> d \<le> max 0 (js_round (of_nat (qi_depth q) * (18 / 10)))"
proof -
  assume q: "q \<in> set qs" "distinct (map qi_name qs)" and t: "queue_tick random qs prev (qi_name q) = Some (Some d)"
  have "filter (\<lambda>x. qi_name x = qi_name q) qs = [q]"
    using q by (induction qs) (auto simp: filter_empty_conv image_iff)
  with q t have "drifted random q (prev (qi_name q)) = Some d" by (auto simp: queue_tick_def fold_upd split: if_splits)
  then show ?thesis by (auto simp: drifted_def split: option.splits)
qed

end
