(* ===== verification/WebTables.thy ===== *)
theory WebTables
  imports WebScreens
begin

text \<open>
  The list screens of the console (\<open>tables.jsx\<close>, \<open>screens2.jsx\<close>): each is a table given by its
  columns, its rows and what a click does. A click bubbles from the control to the row; the
  controls stop it. The last part follows a click through the store's request to the generic
  handlers of \<open>routes.ts\<close> and back to the screen. Their elements are in UiTables.
\<close>

section \<open>Cells and columns\<close>

text \<open>A number is shown as it is, with its unit, or grouped (\<open>toLocaleString\<close>).\<close>

datatype cell =
    Plain string
  | Num rat string
  | Count nat
  | Chips "(string \<times> string option) list"
  | Badge string
  | Tick
  | Usage rat
  | Switch bool
  | RowActions bool bool

record 'r column =
  cn_key :: string
  cn_label :: string
  cn_render :: "'r \<Rightarrow> cell"

text \<open>\<open>sc_edit\<close>: whether a click on the row opens its form; \<open>sc_new\<close>: the dialog of the header's button.\<close>

record 'r screen =
  sc_title :: string
  sc_coll :: coll
  sc_rows :: "'r list"
  sc_key :: "'r \<Rightarrow> string"
  sc_item :: "'r \<Rightarrow> item"
  sc_edit :: "'r \<Rightarrow> bool"
  sc_new :: "modal_cfg option"
  sc_cols :: "'r column list"

text \<open>\<open>DataTable\<close>: the head and, per row, its React key and its cells.\<close>

definition data_table :: "'r screen \<Rightarrow> string list \<times> (string \<times> cell list) list" where
  "data_table s = (map cn_label (sc_cols s), map (\<lambda>r. (sc_key s r, map (\<lambda>c. cn_render c r) (sc_cols s))) (sc_rows s))"

datatype effect = Toggled coll item | Edited coll item | Deleted coll item

datatype spot = OnCell | OnSwitch | OnEdit | OnDelete

text \<open>
  A click on a spot of the cell in row \<open>i\<close> and column \<open>j\<close>: the handlers that run. The switch and
  the action buttons sit in an element that stops the click before it reaches the row.
\<close>

definition click_row :: "'r screen \<Rightarrow> 'r \<Rightarrow> effect list" where
  "click_row s r = (if sc_edit s r then [Edited (sc_coll s) (sc_item s r)] else [])"

definition click :: "'r screen \<Rightarrow> nat \<Rightarrow> nat \<Rightarrow> spot \<Rightarrow> effect list" where
  "click s i j spot =
     (if i < length (sc_rows s) \<and> j < length (sc_cols s) then
        (let r = sc_rows s ! i in
         case cn_render (sc_cols s ! j) r of
           Switch on \<Rightarrow> if spot = OnSwitch then [Toggled (sc_coll s) (sc_item s r)] else []
         | RowActions edit delete \<Rightarrow>
             if spot = OnEdit \<and> edit then [Edited (sc_coll s) (sc_item s r)]
             else if spot = OnDelete \<and> delete then [Deleted (sc_coll s) (sc_item s r)]
             else []
         | _ \<Rightarrow> if spot = OnCell then click_row s r else [])
      else [])"

definition create_cfg :: "coll \<Rightarrow> modal_cfg option" where
  "create_cfg c = Some \<lparr>mc_kind = None, mc_coll = Some c, mc_item = None\<rparr>"

definition edit_cfg :: "coll \<Rightarrow> item \<Rightarrow> modal_cfg" where
  "edit_cfg c it = \<lparr>mc_kind = None, mc_coll = Some c, mc_item = Some it\<rparr>"

definition delete_cfg :: "coll \<Rightarrow> item \<Rightarrow> modal_cfg" where
  "delete_cfg c it = \<lparr>mc_kind = Some ''confirm'', mc_coll = Some c, mc_item = Some it\<rparr>"

definition col :: "string \<Rightarrow> string \<Rightarrow> ('r \<Rightarrow> cell) \<Rightarrow> 'r column" where
  "col key label render = \<lparr>cn_key = key, cn_label = label, cn_render = render\<rparr>"

definition plain_chips :: "string list \<Rightarrow> cell" where
  "plain_chips xs = Chips (map (\<lambda>x. (x, None)) xs)"

section \<open>The screens of tables.jsx\<close>

definition rule_item :: "ui_rule \<Rightarrow> item" where
  "rule_item r = \<lparr>it_id = ur_id r, it_domain = [], it_address = [], it_enabled = ur_enabled r\<rparr>"

text \<open>A rule's \<open>matched24h\<close> is the zero of its mapper; so are an account's \<open>sent24h\<close> and a limit's \<open>usage\<close>.\<close>

definition RoutingRules :: "ui_provider list \<Rightarrow> ui_rule list \<Rightarrow> ui_rule screen" where
  "RoutingRules providers rules =
     \<lparr>sc_title = ''Routing rules'', sc_coll = Rules, sc_rows = rules, sc_key = ur_id, sc_item = rule_item,
      sc_edit = (\<lambda>r. rule_click r \<noteq> None), sc_new = create_cfg Rules,
      sc_cols =
        [col ''priority'' ''Prio'' (\<lambda>r. if ur_isDefault r then plain_chips [''default''] else Num (ur_priority r) []),
         col ''recipient_domain'' ''Recipient'' (\<lambda>r. Plain (ur_recipient_domain r)),
         col ''sender_domain'' ''Sender'' (\<lambda>r. Plain (ur_sender_domain r)),
         col ''provider_chain'' ''Provider chain'' (\<lambda>r. Chips (map (\<lambda>(i, p).
             (chain_name providers p, if i = 0 then Some ''accent'' else None)) (enumerate 0 (ur_provider_chain r)))),
         col ''matched24h'' ''Matched 24h'' (\<lambda>r. Count 0),
         col ''enabled'' ''On'' (\<lambda>r. Switch (ur_enabled r)),
         col ''act'' [] (\<lambda>r. RowActions True True)]\<rparr>"

definition domain_item :: "ui_domain \<Rightarrow> item" where
  "domain_item r = \<lparr>it_id = [], it_domain = ud_domain r, it_address = [], it_enabled = ud_enabled r\<rparr>"

definition RelayDomains :: "ui_domain list \<Rightarrow> ui_domain screen" where
  "RelayDomains domains =
     \<lparr>sc_title = ''Relay domains'', sc_coll = Domains, sc_rows = domains, sc_key = ud_domain, sc_item = domain_item,
      sc_edit = (\<lambda>r. True), sc_new = create_cfg Domains,
      sc_cols =
        [col ''domain'' ''Domain'' (\<lambda>r. Plain (ud_domain r)),
         col ''dkim_selector'' ''DKIM selector'' (\<lambda>r. Plain (ud_dkim_selector r @ ''._domainkey'')),
         col ''dkim'' ''DKIM'' (\<lambda>r. Badge (ud_dkim r)),
         col ''verified'' ''Verified'' (\<lambda>r. if ud_verified r then Tick else Plain ''awaiting DNS''),
         col ''messages24h'' ''Messages 24h'' (\<lambda>r. Count (ud_messages24h r)),
         col ''act'' [] (\<lambda>r. RowActions True True)]\<rparr>"

definition rate_item :: "ui_rate \<Rightarrow> item" where
  "rate_item r = \<lparr>it_id = ut_id r, it_domain = ut_domain r, it_address = [], it_enabled = ut_enabled r\<rparr>"

definition RateLimitsAll :: "ui_rate list \<Rightarrow> ui_rate screen" where
  "RateLimitsAll rates =
     \<lparr>sc_title = ''Rate limits'', sc_coll = RateLimits, sc_rows = rates, sc_key = ut_domain, sc_item = rate_item,
      sc_edit = (\<lambda>r. True), sc_new = create_cfg RateLimits,
      sc_cols =
        [col ''domain'' ''Domain'' (\<lambda>r. Chips ((ut_domain r, None) #
             (case ut_note r of None \<Rightarrow> [] | Some n \<Rightarrow> [(n, None)]))),
         col ''per_second'' ''Per second'' (\<lambda>r. Num (ut_per_second r) ''/s''),
         col ''burst'' ''Burst'' (\<lambda>r. Num (ut_burst r) []),
         col ''usage'' ''Current usage'' (\<lambda>r. Usage 0),
         col ''enabled'' ''On'' (\<lambda>r. Switch (ut_enabled r)),
         col ''act'' [] (\<lambda>r. RowActions True True)]\<rparr>"

definition account_item :: "ui_account \<Rightarrow> item" where
  "account_item r = \<lparr>it_id = ua_id r, it_domain = [], it_address = [], it_enabled = ua_enabled r\<rparr>"

definition AccountsScreen :: "ui_account list \<Rightarrow> ui_account screen" where
  "AccountsScreen accounts =
     \<lparr>sc_title = ''Accounts'', sc_coll = Accounts, sc_rows = accounts, sc_key = ua_id, sc_item = account_item,
      sc_edit = (\<lambda>r. True), sc_new = create_cfg Accounts,
      sc_cols =
        [col ''username'' ''Username'' (\<lambda>r. Plain (ua_username r)),
         col ''allowed_sender_domains'' ''Allowed sender domains'' (\<lambda>r. plain_chips (ua_domains r)),
         col ''sent24h'' ''Sent 24h'' (\<lambda>r. Count 0),
         col ''lastAuth'' ''Last auth'' (\<lambda>r. Plain mdash),
         col ''enabled'' ''On'' (\<lambda>r. Switch (ua_enabled r)),
         col ''act'' [] (\<lambda>r. RowActions True True)]\<rparr>"

section \<open>The screens of screens2.jsx\<close>

definition client_item :: "ui_client \<Rightarrow> item" where
  "client_item r = \<lparr>it_id = uc_id r, it_domain = [], it_address = [], it_enabled = uc_enabled r\<rparr>"

definition RelayClientsScreen :: "ui_client list \<Rightarrow> ui_client screen" where
  "RelayClientsScreen clients =
     \<lparr>sc_title = ''Relay clients'', sc_coll = RelayClients, sc_rows = clients, sc_key = uc_id, sc_item = client_item,
      sc_edit = (\<lambda>r. True), sc_new = create_cfg RelayClients,
      sc_cols =
        [col ''cidr'' ''Source range'' (\<lambda>r. Plain (uc_cidr r)),
         col ''description'' ''Description'' (\<lambda>r. Plain (or_str (Some (uc_description r)) mdash)),
         col ''allowed_sender_domains'' ''Allowed senders''
           (\<lambda>r. plain_chips (if uc_domains r \<noteq> [] then uc_domains r else [''any''])),
         col ''enabled'' ''On'' (\<lambda>r. Switch (uc_enabled r)),
         col ''act'' [] (\<lambda>r. RowActions True True)]\<rparr>"

definition RateLimitTable :: "string \<Rightarrow> ui_rate list \<Rightarrow> ui_rate screen" where
  "RateLimitTable direction rates =
     (let inbound = (direction = ''in'') in
      \<lparr>sc_title = (if inbound then ''Inbound rate limits'' else ''Outbound rate limits''), sc_coll = RateLimits,
       sc_rows = rate_rows direction rates, sc_key = ut_id, sc_item = rate_item,
       sc_edit = (\<lambda>r. True), sc_new = create_cfg RateLimits,
       sc_cols =
         [col ''scope'' ''Scope'' (\<lambda>r. Chips [(or_str (Some (ut_scope r)) (if inbound then ''global'' else ''recipient_domain''),
              Some ''accent'')]),
          col ''domain'' ''Key'' (\<lambda>r. Plain (if ut_domain r = ''*'' then ''all'' else ut_domain r)),
          col ''per_second'' ''Per second'' (\<lambda>r. Num (ut_per_second r) ''/s''),
          col ''burst'' ''Burst'' (\<lambda>r. Num (ut_burst r) []),
          col ''enabled'' ''On'' (\<lambda>r. Switch (ut_enabled r)),
          col ''act'' [] (\<lambda>r. RowActions True True)]\<rparr>)"

text \<open>A key is its id, domain, selector and rotation; it has no form, the button generates one.\<close>

type_synonym ui_dkim = "string \<times> string \<times> string \<times> string"

definition dkim_item :: "ui_dkim \<Rightarrow> item" where
  "dkim_item k = (case k of (kid, d, s, rot) \<Rightarrow> \<lparr>it_id = kid, it_domain = d, it_address = [], it_enabled = False\<rparr>)"

definition DKIMKeys :: "ui_dkim list \<Rightarrow> ui_dkim screen" where
  "DKIMKeys keys =
     \<lparr>sc_title = ''DKIM keys'', sc_coll = Dkim, sc_rows = keys, sc_key = fst, sc_item = dkim_item,
      sc_edit = (\<lambda>r. False), sc_new = Some \<lparr>mc_kind = Some ''dkimgen'', mc_coll = None, mc_item = None\<rparr>,
      sc_cols =
        [col ''domain'' ''Domain'' (\<lambda>(kid, d, s, rot). Plain d),
         col ''selector'' ''Selector'' (\<lambda>(kid, d, s, rot). Plain (s @ ''._domainkey'')),
         col ''rotation'' ''Status'' (\<lambda>(kid, d, s, rot). Badge (dkim_status rot)),
         col ''act'' [] (\<lambda>r. RowActions False True)]\<rparr>"

definition suppression_item :: "string \<times> string \<times> string \<times> nat \<Rightarrow> item" where
  "suppression_item s = (case s of (a, reason, source, t) \<Rightarrow>
     \<lparr>it_id = [], it_domain = [], it_address = a, it_enabled = False\<rparr>)"

definition Suppressions_screen ::
  "(nat \<Rightarrow> string) \<Rightarrow> (string \<times> string \<times> string \<times> nat) list \<Rightarrow> (string \<times> string \<times> string \<times> nat) screen" where
  "Suppressions_screen fmtWhen rows =
     \<lparr>sc_title = ''Suppressions'', sc_coll = Suppressions, sc_rows = rows, sc_key = fst, sc_item = suppression_item,
      sc_edit = (\<lambda>r. False), sc_new = create_cfg Suppressions,
      sc_cols =
        [col ''address'' ''Address'' (\<lambda>(a, reason, source, t). Plain a),
         col ''reason'' ''Reason'' (\<lambda>(a, reason, source, t). Chips [(reason, reason_tone reason)]),
         col ''source'' ''Source'' (\<lambda>(a, reason, source, t). Plain source),
         col ''created_at'' ''Added'' (\<lambda>(a, reason, source, t). Plain (fmtWhen t)),
         col ''act'' [] (\<lambda>r. RowActions False True)]\<rparr>"

definition operator_item :: "ui_operator \<Rightarrow> item" where
  "operator_item u = \<lparr>it_id = uo_id u, it_domain = [], it_address = [], it_enabled = uo_enabled u\<rparr>"

definition Operators_screen :: "ui_operator list \<Rightarrow> ui_operator screen" where
  "Operators_screen users =
     \<lparr>sc_title = ''Operators'', sc_coll = Operators, sc_rows = users, sc_key = uo_id, sc_item = operator_item,
      sc_edit = (\<lambda>r. False), sc_new = create_cfg Operators,
      sc_cols =
        [col ''username'' ''Username'' (\<lambda>u. Plain (uo_username u)),
         col ''role'' ''Role'' (\<lambda>u. Chips [(uo_role u, if uo_role u = ''admin'' then Some ''accent'' else None)]),
         col ''enabled'' ''Status'' (\<lambda>u. Badge (if uo_enabled u then ''active'' else ''idle'')),
         col ''act'' [] (\<lambda>u. RowActions False True)]\<rparr>"

text \<open>The audit log has no controls: its columns only.\<close>

definition AuditLog :: "(nat \<Rightarrow> string) \<Rightarrow> (string \<times> string \<times> string \<times> nat) column list" where
  "AuditLog fmtWhen =
     [col ''at'' ''When'' (\<lambda>(actor, action, target, t). Plain (fmtWhen t)),
      col ''actor'' ''Actor'' (\<lambda>(actor, action, target, t).
        Chips [(actor, if actor = ''api-key'' then None else Some ''accent'')]),
      col ''action'' ''Action'' (\<lambda>(actor, action, target, t). Plain action),
      col ''target'' ''Target'' (\<lambda>(actor, action, target, t). Plain target)]"

section \<open>What a click can ask for\<close>

fun effect_coll :: "effect \<Rightarrow> coll" where
  "effect_coll (Toggled c it) = c"
| "effect_coll (Edited c it) = c"
| "effect_coll (Deleted c it) = c"

fun effect_item :: "effect \<Rightarrow> item" where
  "effect_item (Toggled c it) = it"
| "effect_item (Edited c it) = it"
| "effect_item (Deleted c it) = it"

text \<open>A toggle has a request, an edit a form, a deletion its confirmation.\<close>

fun supported :: "effect \<Rightarrow> bool" where
  "supported (Toggled c it) \<longleftrightarrow> toggle_request c it \<noteq> None"
| "supported (Edited c it) \<longleftrightarrow> modal_dialog (edit_cfg c it) = Some (Form c (Some it))"
| "supported (Deleted c it) \<longleftrightarrow> modal_dialog (delete_cfg c it) = Some (ConfirmDelete c it)"

definition screen_sound :: "'r screen \<Rightarrow> bool" where
  "screen_sound s \<longleftrightarrow>
     (\<forall>i j spot. length (click s i j spot) \<le> 1 \<and>
        (\<forall>e \<in> set (click s i j spot). supported e \<and> i < length (sc_rows s) \<and>
           effect_coll e = sc_coll s \<and> effect_item e = sc_item s (sc_rows s ! i))) \<and>
     (case sc_new s of None \<Rightarrow> False | Some m \<Rightarrow> modal_dialog m \<noteq> None)"

text \<open>What the columns of a screen may contain, given its collection.\<close>

definition cell_fits :: "coll \<Rightarrow> cell \<Rightarrow> bool" where
  "cell_fits c x = (case x of
     Switch on \<Rightarrow> c \<notin> {Suppressions, Operators, Dkim}
   | RowActions edit delete \<Rightarrow> edit \<longrightarrow> c \<noteq> Dkim
   | _ \<Rightarrow> True)"

lemma modal_edit: "c \<noteq> Dkim \<Longrightarrow> modal_dialog (edit_cfg c it) = Some (Form c (Some it))"
  by (simp add: modal_dialog_def edit_cfg_def)

lemma modal_delete: "modal_dialog (delete_cfg c it) = Some (ConfirmDelete c it)"
  by (simp add: modal_dialog_def delete_cfg_def)

lemma modal_create: "c \<noteq> Dkim \<Longrightarrow> create_cfg c = Some m \<Longrightarrow> modal_dialog m = Some (Form c None)"
  by (auto simp: modal_dialog_def create_cfg_def)

lemma toggle_supported: "(\<exists>q. toggle_request c it = Some q) \<longleftrightarrow> c \<notin> {Suppressions, Operators, Dkim}"
  by (cases c) (auto simp: toggle_request_def)

lemma screen_soundI:
  assumes "\<And>r cn. r \<in> set (sc_rows s) \<Longrightarrow> cn \<in> set (sc_cols s) \<Longrightarrow> cell_fits (sc_coll s) (cn_render cn r)"
    and "\<And>r. sc_edit s r \<Longrightarrow> sc_coll s \<noteq> Dkim"
    and "case sc_new s of None \<Rightarrow> False | Some m \<Rightarrow> modal_dialog m \<noteq> None"
  shows "screen_sound s"
proof -
  have "length (click s i j spot) \<le> 1 \<and>
      (\<forall>e \<in> set (click s i j spot). supported e \<and> i < length (sc_rows s) \<and>
         effect_coll e = sc_coll s \<and> effect_item e = sc_item s (sc_rows s ! i))" for i j spot
  proof (cases "i < length (sc_rows s) \<and> j < length (sc_cols s)")
    case True
    then have "cell_fits (sc_coll s) (cn_render (sc_cols s ! j) (sc_rows s ! i))" using assms(1) by simp
    with True assms(2) [of "sc_rows s ! i"] show ?thesis
      by (cases "cn_render (sc_cols s ! j) (sc_rows s ! i)")
         (auto simp: click_def click_row_def cell_fits_def Let_def modal_edit modal_delete toggle_supported split: if_splits)
  qed (auto simp: click_def)
  with assms(3) show ?thesis by (simp add: screen_sound_def)
qed

lemmas screens = RoutingRules_def RelayDomains_def RateLimitsAll_def AccountsScreen_def RelayClientsScreen_def
  RateLimitTable_def DKIMKeys_def Suppressions_screen_def Operators_screen_def col_def cell_fits_def plain_chips_def
  create_cfg_def modal_dialog_def Let_def

text \<open>
  Every click on a list does one supported thing. On each of the list screens, whatever
  the rows and wherever the click, at most one handler acts; it acts on the row that was clicked and on the
  screen's collection; a switch has a request, an edit a form, a deletion its confirmation; and
  the button of the header opens a dialog.
\<close>
theorem clicks_supported:
  "screen_sound (RoutingRules providers rules) \<and> screen_sound (RelayDomains domains) \<and>
   screen_sound (RateLimitsAll rates) \<and> screen_sound (AccountsScreen accounts) \<and>
   screen_sound (RelayClientsScreen clients) \<and> screen_sound (RateLimitTable direction rates) \<and>
   screen_sound (DKIMKeys keys) \<and> screen_sound (Suppressions_screen fw suppressions) \<and>
   screen_sound (Operators_screen users)"
  by (intro conjI; rule screen_soundI) (auto simp: screens)

section \<open>From a click to the table\<close>

text \<open>
  The routes \<open>/api/NAME/:id\<close> of the generic handlers over a database of tables. \<open>route\<close> is
  the router's reading of a path: the resource and the decoded id.
\<close>

definition serve_crud ::
  "(string \<Rightarrow> (string \<times> string) option) \<Rightarrow> bool \<Rightarrow> (string \<Rightarrow> json row list \<Rightarrow> bool) \<Rightarrow> http_request \<Rightarrow>
     (string \<Rightarrow> json row list) \<Rightarrow> (string \<Rightarrow> json row list) outcome" where
  "serve_crud route pub_up ok q db = (case route (''/api'' @ hr_path q) of
     None \<Rightarrow> refuse db 404
   | Some (n, v) \<Rightarrow> (case map_of RESOURCES n of
       None \<Rightarrow> refuse db 404
     | Some r \<Rightarrow>
         (let rid = Some (JStr v) in
          case (if hr_method q = ''PUT'' then put_row pub_up (ok n) r rid (map_of (or_else (hr_body q) [])) (db n)
                else if hr_method q = ''DELETE'' then delete_row pub_up (ok n) r rid (db n)
                else refuse (db n) 404) of
            (t, outcome) \<Rightarrow> (db(n := t), outcome))))"

text \<open>The documented behaviour of the router: a parameter is one segment of the path, decoded.\<close>

definition routes :: "(string \<Rightarrow> (string \<times> string) option) \<Rightarrow> bool" where
  "routes route \<longleftrightarrow> (\<forall>n v. n \<in> fst ` set RESOURCES \<longrightarrow> v \<noteq> [] \<longrightarrow>
     route (''/api/'' @ n @ ''/'' @ encodeURIComponent v) = Some (n, v))"

text \<open>The list endpoint: the rows in the order of their key.\<close>

definition row_key :: "resource \<Rightarrow> json row \<Rightarrow> string" where
  "row_key r row = or_else (row_str row (rs_pk r)) []"

definition list_rows :: "resource \<Rightarrow> json row list \<Rightarrow> json row list" where
  "list_rows r tbl = sort_key (row_key r) tbl"

text \<open>Every row has its own key, which is a text; an id is made of characters that a URL shows as they are.\<close>

definition keyed :: "resource \<Rightarrow> json row list \<Rightarrow> bool" where
  "keyed r tbl \<longleftrightarrow> distinct (map (row_key r) tbl) \<and>
     list_all (\<lambda>row. row (rs_pk r) = Some (JStr (row_key r row)) \<and> row_key r row \<noteq> [] \<and>
       (rs_pk r = ''id'' \<longrightarrow> list_all uri_plain (row_key r row))) tbl"

definition item_key :: "coll \<Rightarrow> item \<Rightarrow> string" where
  "item_key c it = (if c = Domains then it_domain it else it_id it)"

lemma encode_plain: "list_all uri_plain s \<Longrightarrow> encodeURIComponent s = s"
  by (induction s) auto

lemma filter_key_nth:
  "distinct (map f xs) \<Longrightarrow> i < length xs \<Longrightarrow>
     filter (\<lambda>x. f x \<noteq> f (xs ! i)) xs = take i xs @ drop (Suc i) xs"
proof (induction xs arbitrary: i)
  case (Cons x xs)
  show ?case
  proof (cases i)
    case 0
    from Cons.prems(1) have "filter (\<lambda>y. f y \<noteq> f x) xs = xs" by (auto simp: filter_id_conv image_iff)
    with 0 show ?thesis by simp
  next
    case (Suc k)
    with Cons show ?thesis by (auto simp: image_iff)
  qed
qed simp

lemma map_key_nth:
  "distinct (map f xs) \<Longrightarrow> i < length xs \<Longrightarrow>
     map (\<lambda>x. if f x = f (xs ! i) then g x else x) xs = xs[i := g (xs ! i)]"
  by (intro nth_equalityI) (auto simp: nth_list_update distinct_conv_nth)

lemma keyed_list_rows:
  assumes "keyed r tbl"
  shows "distinct (map (row_key r) (list_rows r tbl))"
    and "row \<in> set (list_rows r tbl) \<Longrightarrow> row \<in> set tbl \<and> row (rs_pk r) = Some (JStr (row_key r row)) \<and>
      row_key r row \<noteq> [] \<and> (rs_pk r = ''id'' \<longrightarrow> list_all uri_plain (row_key r row))"
proof -
  have "mset (map (row_key r) (list_rows r tbl)) = mset (map (row_key r) tbl)" by (simp add: list_rows_def)
  with assms show "distinct (map (row_key r) (list_rows r tbl))"
    unfolding keyed_def by (metis mset_eq_imp_distinct_iff)
  show "row \<in> set (list_rows r tbl) \<Longrightarrow> row \<in> set tbl \<and> row (rs_pk r) = Some (JStr (row_key r row)) \<and>
      row_key r row \<noteq> [] \<and> (rs_pk r = ''id'' \<longrightarrow> list_all uri_plain (row_key r row))"
    using assms by (auto simp: keyed_def list_rows_def list_all_iff)
qed

lemma row_key_eq:
  "keyed r tbl \<Longrightarrow> x \<in> set tbl \<Longrightarrow> (x (rs_pk r) = Some (JStr k)) = (row_key r x = k)"
  by (auto simp: keyed_def list_all_iff)

lemma delete_row_keyed:
  assumes "keyed r tbl" and "row \<in> set tbl" and "delete_row True ok r (Some (JStr (row_key r row))) tbl = (tbl', code, pb)"
  shows "(code = 204 \<and> pb = [[rs_slice r]] \<and> tbl' = filter (\<lambda>x. row_key r x \<noteq> row_key r row) tbl) \<or>
    (code = 500 \<and> pb = [] \<and> tbl' = tbl)"
proof -
  have "filter (\<lambda>x. x (rs_pk r) \<noteq> Some (JStr (row_key r row))) tbl = filter (\<lambda>x. row_key r x \<noteq> row_key r row) tbl"
    by (intro filter_cong refl arg_cong [where f = Not] row_key_eq [OF assms(1)])
  moreover have "list_ex (\<lambda>x. x (rs_pk r) = Some (JStr (row_key r row))) tbl"
    using assms(2) row_key_eq [OF assms(1)] by (auto simp: list_ex_iff)
  ultimately show ?thesis using assms(3)
    by (auto simp: delete_row_def Let_def announce_def refuse_def split: if_splits)
qed

lemma put_flag_keyed:
  assumes "keyed r tbl" and "row \<in> set tbl" and "''enabled'' \<in> set (rs_cols r)"
    and "put_row True ok r (Some (JStr (row_key r row))) [''enabled'' \<mapsto> v] tbl = (tbl', code, pb)"
  shows "(code = 200 \<and> pb = [[rs_slice r]] \<and>
      tbl' = map (\<lambda>x. if row_key r x = row_key r row then x(''enabled'' \<mapsto> v) else x) tbl) \<or>
    (code = 500 \<and> pb = [] \<and> tbl' = tbl)"
proof -
  obtain keys vals where p: "pick [''enabled'' \<mapsto> v] (rs_cols r) = (keys, vals)"
    by (cases "pick [''enabled'' \<mapsto> v] (rs_cols r)")
  have "keys \<noteq> []" using pick_facts [OF p] assms(3) by (auto simp: filter_empty_conv)
  have upd: "x ++ map_of (zip keys vals) = x(''enabled'' \<mapsto> v)" for x
    using pick_map_of [OF p] assms(3) by (auto simp: fun_eq_iff map_add_def split: option.splits)
  have "map (\<lambda>x. if x (rs_pk r) = Some (JStr (row_key r row)) then x ++ map_of (zip keys vals) else x) tbl =
      map (\<lambda>x. if row_key r x = row_key r row then x(''enabled'' \<mapsto> v) else x) tbl"
    unfolding upd by (intro map_cong refl if_cong row_key_eq [OF assms(1)])
  moreover have "list_ex (\<lambda>x. x (rs_pk r) = Some (JStr (row_key r row))) tbl"
    using assms(2) row_key_eq [OF assms(1)] by (auto simp: list_ex_iff)
  ultimately show ?thesis using assms(4) p \<open>keys \<noteq> []\<close>
    by (auto simp: put_row_def Let_def announce_def refuse_def split: if_splits)
qed

section \<open>The contract of a list over a resource\<close>

text \<open>
  What a list screen owes the generic handlers: the item it hands to the store carries the key
  of the row shown. A screen with a switch shows the flag of the row and nothing else of it.
\<close>

locale row_screen =
  fixes c :: coll and r :: resource and shown :: "json row \<Rightarrow> 'u" and item_of :: "'u \<Rightarrow> item"
  assumes res: "resource_of c = Some r"
    and item: "row (rs_pk r) = Some (JStr k) \<Longrightarrow> item_key c (item_of (shown row)) = k"
begin

lemma resource_facts:
  "c \<notin> {Accounts, Suppressions, Operators}" "c \<noteq> Domains \<Longrightarrow> rs_pk r = ''id''" "rs_pk r \<noteq> ''enabled''"
  "map_of RESOURCES (coll_path c) = Some r" "coll_path c \<in> fst ` set RESOURCES"
  using res by (cases c; auto simp: resource_of_def coll_path_def RESOURCES_def mk_def)+

lemma item_path:
  assumes "keyed r tbl" and "row \<in> set tbl"
  shows "hr_path (remove_request c (item_of (shown row))) = ''/'' @ coll_path c @ ''/'' @ encodeURIComponent (row_key r row)"
    and "c \<noteq> Domains \<Longrightarrow> it_id (item_of (shown row)) = encodeURIComponent (row_key r row)"
proof -
  have row: "row (rs_pk r) = Some (JStr (row_key r row))" "row_key r row \<noteq> []"
    "rs_pk r = ''id'' \<longrightarrow> list_all uri_plain (row_key r row)"
    using assms by (auto simp: keyed_def list_all_iff)
  have i: "item_key c (item_of (shown row)) = row_key r row"
    by (rule item) (rule row(1))
  then show "c \<noteq> Domains \<Longrightarrow> it_id (item_of (shown row)) = encodeURIComponent (row_key r row)"
    using row(3) resource_facts(2) encode_plain [of "row_key r row"] by (auto simp: item_key_def)
  with i show "hr_path (remove_request c (item_of (shown row))) =
      ''/'' @ coll_path c @ ''/'' @ encodeURIComponent (row_key r row)"
    using row(2,3) resource_facts(1,2) encode_plain [of "row_key r row"]
    by (cases "c = Domains") (auto simp: remove_request_def item_key_def)
qed

lemma served:
  assumes "routes route" and "v \<noteq> []" and "hr_path q = ''/'' @ coll_path c @ ''/'' @ encodeURIComponent v"
  shows "serve_crud route pub ok q db =
    (case (if hr_method q = ''PUT'' then put_row pub (ok (coll_path c)) r (Some (JStr v)) (map_of (or_else (hr_body q) [])) (db (coll_path c))
           else if hr_method q = ''DELETE'' then delete_row pub (ok (coll_path c)) r (Some (JStr v)) (db (coll_path c))
           else refuse (db (coll_path c)) 404) of (t, outcome) \<Rightarrow> (db(coll_path c := t), outcome))"
proof -
  have "route (''/api'' @ hr_path q) = Some (coll_path c, v)"
    using assms resource_facts(5) by (simp add: routes_def)
  then show ?thesis using resource_facts(4) by (simp add: serve_crud_def Let_def)
qed

lemma deletes:
  assumes "routes route" and "keyed r (db (coll_path c))"
    and "scr = map shown (list_rows r (db (coll_path c)))" and "i < length scr"
    and "serve_crud route True ok (remove_request c (item_of (scr ! i))) db = (db', code, pb)"
  shows "(code = 204 \<and> pb = [[rs_slice r]] \<and>
      map shown (list_rows r (db' (coll_path c))) = take i scr @ drop (Suc i) scr \<and>
      (\<forall>n. n \<noteq> coll_path c \<longrightarrow> db' n = db n)) \<or>
    (code = 500 \<and> pb = [] \<and> db' = db)"
proof -
  let ?tbl = "db (coll_path c)" and ?rows = "list_rows r (db (coll_path c))"
  let ?row = "?rows ! i" and ?q = "remove_request c (item_of (scr ! i))"
  have i: "i < length ?rows" and si: "scr ! i = shown ?row" using assms(3,4) by simp_all
  then have "?row \<in> set ?rows" by simp
  from keyed_list_rows(2) [OF assms(2) this] have row: "?row \<in> set ?tbl" "row_key r ?row \<noteq> []" by blast+
  have "hr_method ?q = ''DELETE''" using resource_facts(1) by (simp add: remove_request_def)
  then have "serve_crud route True ok ?q db =
      (case delete_row True (ok (coll_path c)) r (Some (JStr (row_key r ?row))) ?tbl of (t, outcome) \<Rightarrow> (db(coll_path c := t), outcome))"
    using served [OF assms(1) row(2) item_path(1) [OF assms(2) row(1)]] unfolding si by simp
  with assms(5) obtain t where t: "delete_row True (ok (coll_path c)) r (Some (JStr (row_key r ?row))) ?tbl = (t, code, pb)"
    and db': "db' = db(coll_path c := t)" by (auto split: prod.splits)
  from delete_row_keyed [OF assms(2) row(1) t] show ?thesis
  proof
    assume d: "code = 204 \<and> pb = [[rs_slice r]] \<and> t = filter (\<lambda>x. row_key r x \<noteq> row_key r ?row) ?tbl"
    then have "list_rows r t = filter (\<lambda>x. row_key r x \<noteq> row_key r ?row) ?rows" by (simp add: list_rows_def filter_sort)
    also have "\<dots> = take i ?rows @ drop (Suc i) ?rows" using keyed_list_rows(1) [OF assms(2)] i by (rule filter_key_nth)
    finally have "map shown (list_rows r t) = take i scr @ drop (Suc i) scr" using assms(3) by (simp add: take_map drop_map)
    with d db' show ?thesis by simp
  qed (use db' in simp)
qed

end

locale switch_screen = row_screen +
  fixes set_on :: "bool \<Rightarrow> 'u \<Rightarrow> 'u"
  assumes switch: "shown (row(''enabled'' \<mapsto> JBool b)) = set_on b (shown row)"
    and coll: "c \<in> {Rules, RateLimits, RelayClients}"
begin

lemma toggles:
  assumes "routes route" and "keyed r (db (coll_path c))"
    and "scr = map shown (list_rows r (db (coll_path c)))" and "i < length scr"
    and "toggle_request c (item_of (scr ! i)) = Some q"
    and "serve_crud route True ok q db = (db', code, pb)"
  shows "(code = 200 \<and> pb = [[rs_slice r]] \<and>
      map shown (list_rows r (db' (coll_path c))) = scr[i := set_on (\<not> it_enabled (item_of (scr ! i))) (scr ! i)] \<and>
      (\<forall>n. n \<noteq> coll_path c \<longrightarrow> db' n = db n)) \<or>
    (code = 500 \<and> pb = [] \<and> db' = db)"
proof -
  let ?tbl = "db (coll_path c)" and ?rows = "list_rows r (db (coll_path c))"
  let ?row = "?rows ! i" and ?v = "JBool (\<not> it_enabled (item_of (scr ! i)))"
  have i: "i < length ?rows" and si: "scr ! i = shown ?row" using assms(3,4) by simp_all
  then have "?row \<in> set ?rows" by simp
  from keyed_list_rows(2) [OF assms(2) this] have row: "?row \<in> set ?tbl" "row_key r ?row \<noteq> []" by blast+
  have cD: "c \<noteq> Domains" using coll by auto
  have q: "hr_method q = ''PUT''" "hr_body q = Some [(''enabled'', ?v)]"
    "hr_path q = ''/'' @ coll_path c @ ''/'' @ encodeURIComponent (row_key r ?row)"
    using assms(5) coll item_path(2) [OF assms(2) row(1) cD] by (auto simp: toggle_request_def si)
  have "serve_crud route True ok q db =
      (case put_row True (ok (coll_path c)) r (Some (JStr (row_key r ?row))) [''enabled'' \<mapsto> ?v] ?tbl of
         (t, outcome) \<Rightarrow> (db(coll_path c := t), outcome))"
    using served [OF assms(1) row(2) q(3)] q(1,2) by (simp add: or_else_def)
  with assms(6) obtain t where t: "put_row True (ok (coll_path c)) r (Some (JStr (row_key r ?row))) [''enabled'' \<mapsto> ?v] ?tbl = (t, code, pb)"
    and db': "db' = db(coll_path c := t)" by (auto split: prod.splits)
  have en: "''enabled'' \<in> set (rs_cols r)" using resource_enabled [OF res] coll by blast
  from put_flag_keyed [OF assms(2) row(1) en t] show ?thesis
  proof
    let ?g = "\<lambda>x. if row_key r x = row_key r ?row then x(''enabled'' \<mapsto> ?v) else x"
    assume d: "code = 200 \<and> pb = [[rs_slice r]] \<and> t = map ?g ?tbl"
    have "row_key r (?g x) = row_key r x" for x using resource_facts(3) by (simp add: row_key_def row_str_def)
    with d have "list_rows r t = map ?g ?rows" by (simp add: list_rows_def sort_key_keep)
    also have "\<dots> = ?rows[i := ?row(''enabled'' \<mapsto> ?v)]" using keyed_list_rows(1) [OF assms(2)] i by (rule map_key_nth)
    finally have "map shown (list_rows r t) = scr[i := set_on (\<not> it_enabled (item_of (scr ! i))) (scr ! i)]"
      unfolding si by (simp add: map_update switch assms(3) i del: fun_upd_apply)
    with d db' show ?thesis by simp
  qed (use db' in simp)
qed

end

section \<open>The screens over the generic handlers\<close>

definition rate_of_row :: "json row \<Rightarrow> api_rate" where
  "rate_of_row row =
     \<lparr>rt_id = or_else (row_str row ''id'') [], rt_direction = or_else (row_str row ''direction'') [],
      rt_scope = or_else (row_str row ''scope'') [], rt_scope_value = or_else (row_str row ''scope_value'') [],
      rt_per_second = (case row ''per_second'' of Some (JNum n) \<Rightarrow> n | _ \<Rightarrow> 0),
      rt_burst = (case row ''burst'' of Some (JNum n) \<Rightarrow> n | _ \<Rightarrow> 0),
      rt_enabled = (row ''enabled'' = Some (JBool True))\<rparr>"

definition row_strs :: "json row \<Rightarrow> string \<Rightarrow> string list option" where
  "row_strs row c = (case row c of
     Some (JArr xs) \<Rightarrow> Some (map (\<lambda>x. case x of JStr s \<Rightarrow> s | _ \<Rightarrow> []) xs) | _ \<Rightarrow> None)"

definition row_bool :: "json row \<Rightarrow> string \<Rightarrow> bool option" where
  "row_bool row c = (case row c of Some (JBool b) \<Rightarrow> Some b | _ \<Rightarrow> None)"

definition client_of_row :: "json row \<Rightarrow> api_client" where
  "client_of_row row =
     \<lparr>cl_id = or_else (row_str row ''id'') [], cl_cidr = or_else (row_str row ''cidr'') [],
      cl_description = row_str row ''description'', cl_domains = row_strs row ''allowed_sender_domains'',
      cl_enabled = row_bool row ''enabled''\<rparr>"

definition domain_of_row :: "json row \<Rightarrow> api_domain" where
  "domain_of_row row = \<lparr>ad_domain = or_else (row_str row ''domain'') [], ad_enabled = row_bool row ''enabled''\<rparr>"

definition dkim_of_row :: "json row \<Rightarrow> api_dkim" where
  "dkim_of_row row =
     \<lparr>dk_id = or_else (row_str row ''id'') [], dki_domain = or_else (row_str row ''domain'') [],
      dki_selector = or_else (row_str row ''selector'') [], dki_rotation = row_str row ''rotation''\<rparr>"

definition mk_of :: "coll \<Rightarrow> resource" where
  "mk_of c = or_else (resource_of c) (mk [] [] [])"

lemma mk_of_simps:
  "rs_pk (mk_of Rules) = ''id''" "rs_slice (mk_of Rules) = ''routing_rules''"
  "rs_pk (mk_of RateLimits) = ''id''" "rs_pk (mk_of RelayClients) = ''id''" "rs_pk (mk_of Dkim) = ''id''"
  "rs_pk (mk_of Domains) = ''domain''" "rs_slice (mk_of Domains) = ''relay_domains''"
  "c \<in> {Rules, RateLimits, RelayClients, Dkim, Domains} \<Longrightarrow> resource_of c = Some (mk_of c)"
  by (auto simp: mk_of_def resource_of_def coll_path_def RESOURCES_def mk_def or_else_def)

lemmas shown_simps = mk_of_simps item_key_def row_str_def row_bool_def row_strs_def or_else_def

interpretation rule_screen: switch_screen Rules "mk_of Rules" "\<lambda>row. mapRule (rule_of_row row)" rule_item
    "\<lambda>b u. u\<lparr>ur_enabled := b\<rparr>"
  by unfold_locales (auto simp: shown_simps rule_item_def mapRule_def rule_of_row_def)

interpretation rate_screen: switch_screen RateLimits "mk_of RateLimits" "\<lambda>row. mapRate (rate_of_row row)" rate_item
    "\<lambda>b u. u\<lparr>ut_enabled := b\<rparr>"
  by unfold_locales (auto simp: shown_simps rate_item_def mapRate_def rate_of_row_def)

interpretation client_screen: switch_screen RelayClients "mk_of RelayClients" "\<lambda>row. map_client (client_of_row row)" client_item
    "\<lambda>b u. u\<lparr>uc_enabled := b\<rparr>"
  by unfold_locales (auto simp: shown_simps client_item_def map_client_def client_of_row_def)

interpretation domain_screen: row_screen Domains "mk_of Domains" "\<lambda>row. mapDomain dk vol (domain_of_row row)" domain_item for dk vol
  by unfold_locales (auto simp: shown_simps domain_item_def mapDomain_def domain_of_row_def Let_def)

interpretation key_screen: row_screen Dkim "mk_of Dkim" "\<lambda>row. map_dkim (dkim_of_row row)" dkim_item
  by unfold_locales (auto simp: shown_simps dkim_item_def map_dkim_def dkim_of_row_def)

text \<open>What the console shows of the rules and of the relay domains of a database.\<close>

definition rules_of :: "(string \<Rightarrow> json row list) \<Rightarrow> ui_rule list" where
  "rules_of db = map (\<lambda>row. mapRule (rule_of_row row)) (list_rows (mk_of Rules) (db ''routing-rules''))"

definition domains_of :: "api_dkim list \<Rightarrow> volume \<Rightarrow> (string \<Rightarrow> json row list) \<Rightarrow> ui_domain list" where
  "domains_of dk vol db = map (\<lambda>row. mapDomain dk vol (domain_of_row row)) (list_rows (mk_of Domains) (db ''relay-domains''))"

lemma coll_paths: "coll_path Rules = ''routing-rules''" "coll_path Domains = ''relay-domains''"
  by (simp_all add: coll_path_def)

section \<open>Properties\<close>

text \<open>
  C23: the switch of a rule, from the click to the reloaded screen. A click on the switch of
  row \<open>i\<close> is one toggle of that row's rule; its request, served by the API with the bus up, either fails with
  500 and leaves everything as it was, or is announced, and then the reloaded screen is the
  old one with that switch turned and nothing else changed, in any row or other table.
\<close>
theorem rule_switch_click:
  assumes "routes route" and "keyed (mk_of Rules) (db ''routing-rules'')"
    and "i < length (rules_of db)" and "it = rule_item (rules_of db ! i)" and "toggle_request Rules it = Some q"
    and "serve_crud route True ok q db = (db', code, pb)"
  shows "click (RoutingRules providers (rules_of db)) i 5 OnSwitch = [Toggled Rules it] \<and>
     (code = 200 \<and> pb = [[''routing_rules'']] \<and>
        rules_of db' = (rules_of db)[i := (rules_of db ! i)\<lparr>ur_enabled := \<not> ur_enabled (rules_of db ! i)\<rparr>] \<and>
        (\<forall>n. n \<noteq> ''routing-rules'' \<longrightarrow> db' n = db n) \<or>
      code = 500 \<and> pb = [] \<and> db' = db)"
proof -
  have "click (RoutingRules providers (rules_of db)) i 5 OnSwitch = [Toggled Rules it]"
    using assms(3,4) by (simp add: click_def screens)
  moreover note rule_screen.toggles [unfolded coll_paths mk_of_simps, OF assms(1,2) rules_of_def assms(3)
      assms(5) [unfolded assms(4)] assms(6)]
  ultimately show ?thesis by (simp add: rules_of_def rule_item_def)
qed

text \<open>
  Deleting a relay domain, from the click to the reloaded screen. The delete button of row
  \<open>i\<close> opens the confirmation for that domain; confirming it sends one request, which reaches
  the row whatever characters the domain contains; it either fails with 500 and leaves
  everything as it was, or is announced, and the reloaded screen is the old one without that row.
\<close>
theorem domain_delete_click:
  assumes "routes route" and "keyed (mk_of Domains) (db ''relay-domains'')"
    and "i < length (domains_of dk vol db)" and "it = domain_item (domains_of dk vol db ! i)"
    and "fst (confirm_delete api Domains it) = q"
    and "serve_crud route True ok q db = (db', code, pb)"
  shows "click (RelayDomains (domains_of dk vol db)) i 5 OnDelete = [Deleted Domains it] \<and>
     modal_dialog (delete_cfg Domains it) = Some (ConfirmDelete Domains it) \<and>
     (code = 204 \<and> pb = [[''relay_domains'']] \<and>
        domains_of dk vol db' = take i (domains_of dk vol db) @ drop (Suc i) (domains_of dk vol db) \<and>
        (\<forall>n. n \<noteq> ''relay-domains'' \<longrightarrow> db' n = db n) \<or>
      code = 500 \<and> pb = [] \<and> db' = db)"
proof -
  have "click (RelayDomains (domains_of dk vol db)) i 5 OnDelete = [Deleted Domains it]"
    using assms(3,4) by (simp add: click_def screens)
  moreover have "q = remove_request Domains it"
    using assms(5) by (auto simp: confirm_delete_def Let_def split: option.splits)
  with domain_screen.deletes [where dk = dk and vol = vol and db = db and scr = "domains_of dk vol db", unfolded coll_paths mk_of_simps,
      OF assms(1,2) _ assms(3)] assms(4,6)
  have "code = 204 \<and> pb = [[''relay_domains'']] \<and>
        domains_of dk vol db' = take i (domains_of dk vol db) @ drop (Suc i) (domains_of dk vol db) \<and>
        (\<forall>n. n \<noteq> ''relay-domains'' \<longrightarrow> db' n = db n) \<or> code = 500 \<and> pb = [] \<and> db' = db"
    by (simp add: domains_of_def)
  ultimately show ?thesis using modal_delete by blast
qed

text \<open>A router with the documented behaviour, and a database with one rule and one domain.\<close>

definition sample_route :: "string \<Rightarrow> (string \<times> string) option" where
  "sample_route p = (let q = drop 5 p in
     case decodeURIComponent (drop 1 (dropWhile (\<lambda>c. c \<noteq> CHR ''/'') q)) of
       None \<Rightarrow> None
     | Some v \<Rightarrow> Some (takeWhile (\<lambda>c. c \<noteq> CHR ''/'') q, v))"

lemma sample_route_ok: "routes sample_route"
proof -
  have split: "takeWhile (\<lambda>c. c \<noteq> CHR ''/'') (n @ CHR ''/'' # t) = n \<and>
      dropWhile (\<lambda>c. c \<noteq> CHR ''/'') (n @ CHR ''/'' # t) = CHR ''/'' # t" if "CHR ''/'' \<notin> set n" for n t
    using that by (induction n) auto
  have "list_all (\<lambda>n. CHR ''/'' \<notin> set n) (map fst RESOURCES)" by code_simp
  then have "CHR ''/'' \<notin> set n" if "n \<in> fst ` set RESOURCES" for n
    using that by (auto simp: list_all_iff)
  with split show ?thesis by (auto simp: routes_def sample_route_def Let_def)
qed

definition sample_db :: "string \<Rightarrow> json row list" where
  "sample_db n =
     (if n = ''routing-rules''
      then [[''id'' \<mapsto> JStr ''7'', ''recipient_domain'' \<mapsto> JStr ''a.io'', ''enabled'' \<mapsto> JBool True]]
      else if n = ''relay-domains'' then [[''domain'' \<mapsto> JStr ''a/b.io'', ''enabled'' \<mapsto> JBool True]]
      else [])"

lemma sample_db_keyed:
  "keyed (mk_of Rules) (sample_db ''routing-rules'')" "keyed (mk_of Domains) (sample_db ''relay-domains'')"
  by (simp_all add: keyed_def sample_db_def row_key_def row_str_def or_else_def mk_of_simps) code_simp

lemma sample_rules: "length (rules_of sample_db) = 1" "rules_of sample_db ! 0 = mapRule (rule_of_row (hd (sample_db ''routing-rules'')))"
  by (simp_all add: rules_of_def sample_db_def list_rows_def)

theorem rule_switch_click_witness:
  "\<exists>q db' pb. toggle_request Rules (rule_item (rules_of sample_db ! 0)) = Some q \<and>
     serve_crud sample_route True (\<lambda>n t. True) q sample_db = (db', 200, pb) \<and>
     ur_enabled (rules_of sample_db ! 0) \<and> \<not> ur_enabled (rules_of db' ! 0)"
proof -
  let ?it = "rule_item (rules_of sample_db ! 0)"
  let ?q = "\<lparr>hr_method = ''PUT'', hr_path = ''/routing-rules/7'', hr_body = Some [(''enabled'', JBool False)]\<rparr>"
  have on: "ur_enabled (rules_of sample_db ! 0)"
    by (simp add: sample_rules mapRule_def rule_of_row_def sample_db_def)
  have q: "toggle_request Rules ?it = Some ?q"
    by (simp add: sample_rules toggle_request_def coll_path_def rule_item_def mapRule_def rule_of_row_def sample_db_def
        row_str_def or_else_def)
  obtain db' code pb where s: "serve_crud sample_route True (\<lambda>n t. True) ?q sample_db = (db', code, pb)"
    by (metis prod.exhaust)
  have r: "sample_route (''/api/routing-rules/7'') = Some (''routing-rules'', ''7'')" by code_simp
  have "fst (snd (serve_crud sample_route True (\<lambda>n t. True) ?q sample_db)) = 200"
    by (simp add: serve_crud_def r RESOURCES_def mk_def sample_db_def put_row_def or_else_def announce_def)
  with s have c: "code = 200" by simp
  have l: "0 < length (rules_of sample_db)" by (simp add: sample_rules)
  from rule_switch_click [OF sample_route_ok sample_db_keyed(1) l refl q s] c l on
  have "\<not> ur_enabled (rules_of db' ! 0)" by simp
  with q s c on show ?thesis by blast
qed

theorem domain_delete_click_witness:
  "\<exists>db' pb. serve_crud sample_route True (\<lambda>n t. True)
       (fst (confirm_delete (\<lambda>q. None) Domains (domain_item (domains_of [] Map.empty sample_db ! 0)))) sample_db = (db', 204, pb) \<and>
     length (domains_of [] Map.empty sample_db) = 1 \<and> domains_of [] Map.empty db' = []"
proof -
  let ?it = "domain_item (domains_of [] Map.empty sample_db ! 0)"
  let ?q = "fst (confirm_delete (\<lambda>q. None) Domains ?it)"
  have l: "length (domains_of [] Map.empty sample_db) = 1" by (simp add: domains_of_def sample_db_def list_rows_def)
  have e: "encodeURIComponent ''a/b.io'' = ''a%2Fb.io''" by code_simp
  have p: "hr_path ?q = ''/relay-domains/a%2Fb.io''" "hr_method ?q = ''DELETE''"
    by (simp_all add: confirm_delete_def Let_def remove_request_def coll_path_def domain_item_def domains_of_def
        sample_db_def list_rows_def mapDomain_def domain_of_row_def row_str_def or_else_def e
        del: encodeURIComponent.simps)
  obtain db' code pb where s: "serve_crud sample_route True (\<lambda>n t. True) ?q sample_db = (db', code, pb)"
    by (metis prod.exhaust)
  have r: "sample_route (''/api/relay-domains/a%2Fb.io'') = Some (''relay-domains'', ''a/b.io'')" by code_simp
  have "fst (snd (serve_crud sample_route True (\<lambda>n t. True) ?q sample_db)) = 204"
    by (simp add: serve_crud_def p r RESOURCES_def mk_def sample_db_def delete_row_def or_else_def announce_def)
  with s have c: "code = 204" by simp
  have "0 < length (domains_of [] Map.empty sample_db)" using l by simp
  from domain_delete_click [OF sample_route_ok sample_db_keyed(2) this refl refl s] c l
  have "domains_of [] Map.empty db' = []" by simp
  with s c l show ?thesis by blast
qed

text \<open>The default rule: a click on its row does nothing, its buttons edit and delete it all the same.\<close>

lemma default_rule_buttons:
  "let s = RoutingRules [] [mapRule \<lparr>ar_id = ''7'', ar_recipient_domain = None, ar_sender_domain = None,
       ar_provider_chain = None, ar_priority = 0, ar_enabled = True\<rparr>]; it = sc_item s (sc_rows s ! 0) in
   click s 0 1 OnCell = [] \<and> click s 0 6 OnEdit = [Edited Rules it] \<and> click s 0 6 OnDelete = [Deleted Rules it]"
  by (simp add: screens click_def click_row_def rule_click_def mapRule_def given_def)

text \<open>The list of all limits takes the domain as React key, which two limits may share.\<close>

lemma rate_keys_clash:
  "map fst (snd (data_table (RateLimitsAll (map mapRate
     [\<lparr>rt_id = ''1'', rt_direction = ''in'', rt_scope = ''global'', rt_scope_value = ''*'', rt_per_second = 1, rt_burst = 1, rt_enabled = True\<rparr>,
      \<lparr>rt_id = ''2'', rt_direction = ''out'', rt_scope = ''global'', rt_scope_value = ''*'', rt_per_second = 1, rt_burst = 1, rt_enabled = True\<rparr>])))) =
   [''*'', ''*'']"
  by (simp add: data_table_def screens mapRate_def)

end
