(* ===== verification/WebHome.thy ===== *)
theory WebHome
  imports WebTables
begin

text \<open>
  The dashboard (\<open>dashboard.jsx\<close>), the provider cards (\<open>providers.jsx\<close>), the state of the message
  screen (\<open>messages.jsx\<close>), the user menu (\<open>main.jsx\<close>) and the one-off actions of \<open>store.jsx\<close>: what
  they show and what they send. Their elements are in UiShell and UiApp.
\<close>

section \<open>Grouped numbers\<close>

text \<open>\<open>n.toLocaleString('en-US')\<close> of a non-negative integer: commas between groups of three.\<close>

fun commas :: "string \<Rightarrow> string" where
  "commas (a # b # c # d # s) = a # b # c # CHR '','' # commas (d # s)"
| "commas s = s"

definition fmtNum :: "nat \<Rightarrow> string" where
  "fmtNum n = rev (commas (rev (nat_str n)))"

section \<open>The dashboard\<close>

datatype panel = StatCards | QueueCard | ChartCard nat | HealthCard | TileCard | RecentCard bool

text \<open>The panels of a layout in order; the chart with its height, the recent messages with their density.\<close>

definition dashboard_panels :: "string \<Rightarrow> panel list" where
  "dashboard_panels layout =
     (if layout = ''focus'' then [ChartCard 280, StatCards, QueueCard, HealthCard, TileCard, RecentCard False]
      else if layout = ''stream'' then [StatCards, ChartCard 210, QueueCard, RecentCard True, HealthCard]
      else [StatCards, QueueCard, ChartCard 210, HealthCard, RecentCard False])"

text \<open>The statistics: label, metric and series. The rate has no series.\<close>

definition STATS :: "(string \<times> string \<times> string option) list" where
  "STATS = [(''Relayed'' @ middot @ ''24h'', ''relayed24h'', Some ''relayed''), (''Accept rate'', ''acceptRate'', None),
     (''Deferred'' @ middot @ ''24h'', ''deferred24h'', Some ''deferred''), (''Bounced'' @ middot @ ''24h'', ''bounced24h'', Some ''bounced'')]"

definition stat_cards :: "nm_data \<Rightarrow> (string \<times> rat option \<times> nat list option) list" where
  "stat_cards d = map (\<lambda>(label, m, series). (label, nm_metrics d m, Option.bind series (nm_series d))) STATS"

text \<open>The tile fetches the summary: \<open>None\<close> while it waits, \<open>Some None\<close> when the request failed.\<close>

datatype tile = TileChecking | TileUnavailable | TileCounts nat nat nat

definition tile_view :: "summary option option \<Rightarrow> tile" where
  "tile_view s = (case s of
     None \<Rightarrow> TileChecking
   | Some None \<Rightarrow> TileUnavailable
   | Some (Some x) \<Rightarrow> TileCounts (sm_ok x) (sm_warning x) (sm_error x))"

text \<open>The rows of the health list: name, volume, status, and whether the dot pulses.\<close>

definition health_rows :: "ui_provider list \<Rightarrow> (string \<times> string \<times> string \<times> bool) list" where
  "health_rows providers =
     map (\<lambda>p. (up_name p, fmtNum (up_sent24h p), up_status p, up_status p = ''healthy'')) (filter up_enabled providers)"

text \<open>A click on a recent message opens it, the link above the list opens the message screen.\<close>

definition recent_open :: "string option \<Rightarrow> app \<Rightarrow> app" where
  "recent_open i s = (if given i then open_message i s else navigate ''messages'' s)"

section \<open>Provider cards\<close>

text \<open>The curve of a card: the relayed series of all providers, scaled by the provider's total, plus the index.\<close>

definition provider_spark :: "nat \<Rightarrow> rat list \<Rightarrow> rat list" where
  "provider_spark sent series = map (\<lambda>(i, v). v * (2 / 10 + of_nat sent / 32000) + of_nat i) (enumerate 0 series)"

record provider_card =
  pc_endpoint :: string
  pc_auth :: string
  pc_secret :: "string option"
  pc_sent :: nat
  pc_spark :: "rat list option"

definition card_of :: "rat list \<Rightarrow> ui_provider \<Rightarrow> provider_card" where
  "card_of series p =
     \<lparr>pc_endpoint = up_endpoint p, pc_auth = up_auth_mode p,
      pc_secret = (if up_secret_ref p \<noteq> mdash then Some (up_secret_ref p) else None),
      pc_sent = up_sent24h p,
      pc_spark = (if up_sent24h p > 0 then Some (provider_spark (up_sent24h p) series) else None)\<rparr>"

definition active_providers :: "ui_provider list \<Rightarrow> string" where
  "active_providers providers = nat_str (length (filter up_enabled providers)) @ '' active''"

section \<open>The message screen\<close>

text \<open>
  Its state and its property. It mounts with a selection; a changed property is an effect that
  selects the message; a click selects.
\<close>

record msg_screen =
  ms_initial :: "string option"
  ms_sel :: "string option"

definition msg_mount :: "string option \<Rightarrow> ui_message list \<Rightarrow> msg_screen" where
  "msg_mount i messages = \<lparr>ms_initial = i, ms_sel = initial_selection i messages\<rparr>"

definition msg_props :: "string option \<Rightarrow> msg_screen \<Rightarrow> msg_screen" where
  "msg_props i s = (if i = ms_initial s then s
     else \<lparr>ms_initial = i, ms_sel = (if given i then i else ms_sel s)\<rparr>)"

definition msg_click :: "string \<Rightarrow> msg_screen \<Rightarrow> msg_screen" where
  "msg_click i s = s\<lparr>ms_sel := Some i\<rparr>"

section \<open>The user menu\<close>

datatype menu_entry = MenuProfile | MenuPassword | MenuLogout

definition menu_name :: "(string \<times> string \<times> string) option \<Rightarrow> string" where
  "menu_name op = (case op of None \<Rightarrow> ''operator'' | Some (u, r, i) \<Rightarrow> if u = [] then ''operator'' else u)"

definition menu_initial :: "(string \<times> string \<times> string) option \<Rightarrow> string" where
  "menu_initial op = WebStore.js_upper (take 1 (menu_name op))"

text \<open>An entry closes the menu and opens a dialog or logs out.\<close>

definition menu_click :: "menu_entry \<Rightarrow> bool \<Rightarrow> bool \<times> (modal_cfg + unit)" where
  "menu_click e menu = (False, case e of
     MenuProfile \<Rightarrow> Inl \<lparr>mc_kind = Some ''profile'', mc_coll = None, mc_item = None\<rparr>
   | MenuPassword \<Rightarrow> Inl \<lparr>mc_kind = Some ''password'', mc_coll = None, mc_item = None\<rparr>
   | MenuLogout \<Rightarrow> Inr ())"

definition toggle_theme :: "prefs \<Rightarrow> prefs" where
  "toggle_theme t = [''theme'' \<mapsto> (if t ''theme'' = Some ''dark'' then ''light'' else ''dark'')]"

section \<open>One-off actions\<close>

definition post_request :: "string \<Rightarrow> (string \<times> json) list option \<Rightarrow> http_request" where
  "post_request path body = \<lparr>hr_method = ''POST'', hr_path = path, hr_body = body\<rparr>"

definition login_request :: "string \<Rightarrow> string \<Rightarrow> http_request" where
  "login_request email password =
     post_request ''/auth/sign-in/email'' (Some [(''email'', JStr email), (''password'', JStr password)])"

text \<open>\<open>logout\<close>: the request, whose failure is ignored, and the operator forgotten.\<close>

definition logout :: "bool \<Rightarrow> nm_data \<Rightarrow> http_request \<times> nm_data" where
  "logout succeeds d = (post_request ''/auth/sign-out'' (Some []), d\<lparr>nm_operator := None\<rparr>)"

definition purge_request :: "string \<Rightarrow> http_request" where
  "purge_request name = post_request (''/queues/'' @ encodeURIComponent name @ ''/purge'') None"

definition requeue_request :: "string \<Rightarrow> http_request" where
  "requeue_request i = post_request (''/messages/'' @ i @ ''/requeue'') None"

text \<open>\<open>testProvider\<close>: a rejected request becomes a failed result.\<close>

definition test_provider :: "(http_request \<Rightarrow> string + bool \<times> string option) \<Rightarrow> string \<Rightarrow> bool \<times> string option" where
  "test_provider api i = (case api (post_request (''/providers/'' @ i @ ''/test'') None) of
     Inl err \<Rightarrow> (False, Some err) | Inr r \<Rightarrow> r)"

text \<open>The button of the queue monitor purges the dead-letter queue and says so.\<close>

definition purge_click :: "(http_request \<Rightarrow> string option) \<Rightarrow> http_request \<times> (string \<times> string)" where
  "purge_click api = (let q = purge_request ''relay.dlq'' in
     (q, case api q of None \<Rightarrow> (''Dead-letter queue purged'', ''danger'') | Some err \<Rightarrow> (err, ''danger'')))"

section \<open>Facts\<close>

lemma commas_filter: "CHR '','' \<notin> set s \<Longrightarrow> filter (\<lambda>c. c \<noteq> CHR '','') (commas s) = s"
  by (induction s rule: commas.induct) auto

lemma comma_no_digit: "\<not> is_digit CHR '',''"
  by code_simp

lemma nat_str_no_comma: "CHR '','' \<notin> set (nat_str n)"
  using nat_str_digits [of "CHR '',''" n] comma_no_digit by blast

lemma commas_groups: "i < length (commas s) \<Longrightarrow> CHR '','' \<notin> set s \<Longrightarrow> commas s ! i = CHR '','' \<longleftrightarrow> i mod 4 = 3"
proof (induction s arbitrary: i rule: commas.induct)
  case (1 a b c d s)
  show ?case
  proof (cases "i < 4")
    case True
    then consider "i = 0" | "i = 1" | "i = 2" | "i = 3" by linarith
    then show ?thesis using "1.prems" by cases auto
  next
    case False
    then obtain k where k: "i = k + 4" by (metis add.commute le_Suc_ex not_less)
    then have "commas (a # b # c # d # s) ! i = commas (d # s) ! k" by (simp add: numeral_eq_Suc)
    moreover have "k < length (commas (d # s))" using "1.prems"(1) k by simp
    ultimately show ?thesis using "1.IH" [of k] "1.prems"(2) k by simp
  qed
qed (auto simp: nth_Cons' split: if_splits)

lemma fold_min_max:
  fixes k :: rat
  shows "foldl min k xs \<le> k" "x \<in> set xs \<Longrightarrow> foldl min k xs \<le> x" "k \<le> foldl max k xs" "x \<in> set xs \<Longrightarrow> x \<le> foldl max k xs"
proof -
  have "foldl min k xs \<le> k \<and> (\<forall>x \<in> set xs. foldl min k xs \<le> x)"
    by (induction xs arbitrary: k) (auto intro: order_trans simp: min.coboundedI2, (meson min.bounded_iff)+)
  with foldl_max [of k xs] show "foldl min k xs \<le> k" "x \<in> set xs \<Longrightarrow> foldl min k xs \<le> x"
    "k \<le> foldl max k xs" "x \<in> set xs \<Longrightarrow> x \<le> foldl max k xs" by auto
qed

lemma scale_range:
  fixes v mn mx h :: rat
  assumes "mn \<le> v" "v \<le> mx" "4 \<le> h" "r = (if mx - mn = 0 then 1 else mx - mn)"
  shows "2 \<le> h - (v - mn) / r * (h - 4) - 2" "h - (v - mn) / r * (h - 4) - 2 \<le> h - 2"
proof -
  have r: "0 < r" "v - mn \<le> r" using assms by (auto split: if_splits)
  have q: "0 \<le> (v - mn) / r" "(v - mn) / r \<le> 1" using assms(1) r by simp_all
  have h: "0 \<le> h - 4" using assms(3) by simp
  from mult_nonneg_nonneg [OF q(1) h] mult_right_mono [OF q(2) h]
  show "2 \<le> h - (v - mn) / r * (h - 4) - 2" "h - (v - mn) / r * (h - 4) - 2 \<le> h - 2" by simp_all
qed

section \<open>Properties\<close>

text \<open>
  A sparkline stays in its box. Whatever the series, empty or constant ones included, the
  curve has at least two points, they run from the left edge to the right edge, and all of them
  lie at least two pixels from the top and the bottom.
\<close>
theorem spark_in_box:
  assumes "0 \<le> w" and "4 \<le> h"
  shows "2 \<le> length (spark_points w h raw) \<and> fst (hd (spark_points w h raw)) = 0 \<and>
     fst (last (spark_points w h raw)) = w \<and>
     (\<forall>(x, y) \<in> set (spark_points w h raw). 0 \<le> x \<and> x \<le> w \<and> 2 \<le> y \<and> y \<le> h - 2)"
proof -
  let ?d = "pad2 raw"
  define n where "n = length ?d"
  define mn where "mn = foldl min (hd ?d) (tl ?d)"
  define mx where "mx = foldl max (hd ?d) (tl ?d)"
  define r where "r = (if mx - mn = 0 then 1 else mx - mn)"
  have n: "2 \<le> n" by (simp add: n_def pad2_def)
  then have ne: "?d \<noteq> []" by (auto simp: n_def)
  have pts: "spark_points w h raw = map (\<lambda>(i, v). (of_nat i / (of_nat n - 1) * w, h - (v - mn) / r * (h - 4) - 2)) (enumerate 0 ?d)"
    by (simp add: spark_points_def Let_def n_def mn_def mx_def r_def)
  have x: "0 \<le> of_nat i / (of_nat n - 1) * w" "of_nat i / (of_nat n - 1) * w \<le> w" if "i < n" for i
  proof -
    have q: "0 \<le> of_nat i / (of_nat n - 1 :: rat)" "of_nat i / (of_nat n - 1 :: rat) \<le> 1"
      using that n by (simp_all add: divide_le_eq_1)
    show "0 \<le> of_nat i / (of_nat n - 1) * w" using q(1) assms(1) by (rule mult_nonneg_nonneg)
    show "of_nat i / (of_nat n - 1) * w \<le> w" using mult_right_mono [OF q(2) assms(1)] by simp
  qed
  have v: "mn \<le> ?d ! i \<and> ?d ! i \<le> mx" if "i < n" for i
    using fold_min_max [where k = "hd ?d" and xs = "tl ?d"] that ne
    by (cases ?d; cases i) (auto simp: mn_def mx_def n_def)
  have len: "length (spark_points w h raw) = n" by (simp add: pts n_def)
  have all: "\<forall>(x, y) \<in> set (spark_points w h raw). 0 \<le> x \<and> x \<le> w \<and> 2 \<le> y \<and> y \<le> h - 2"
    using x scale_range [OF _ _ assms(2) r_def] v
    by (fastforce simp: pts in_set_enumerate_eq n_def)
  have "hd (spark_points w h raw) = spark_points w h raw ! 0" "last (spark_points w h raw) = spark_points w h raw ! (n - 1)"
    using len n by (simp_all add: hd_conv_nth last_conv_nth flip: length_0_conv)
  moreover have "spark_points w h raw ! i = (of_nat i / (of_nat n - 1) * w, h - (?d ! i - mn) / r * (h - 4) - 2)" if "i < n" for i
    using that by (simp add: pts n_def nth_enumerate_eq)
  moreover have "of_nat (n - 1) / (of_nat n - 1 :: rat) = 1" using n by (simp add: of_nat_diff)
  ultimately have "fst (hd (spark_points w h raw)) = 0 \<and> fst (last (spark_points w h raw)) = w" using n by simp
  with all len n show ?thesis by simp
qed

text \<open>
  Grouped numbers read back. Without its commas the text is the number's decimal digits, so two
  numbers never look the same, and a comma stands exactly at every fourth place from the right.
\<close>
theorem fmtNum_reads:
  "filter (\<lambda>c. c \<noteq> CHR '','') (fmtNum n) = nat_str n \<and> (fmtNum n = fmtNum m \<longleftrightarrow> n = m) \<and>
   (\<forall>i < length (fmtNum n). rev (fmtNum n) ! i = CHR '','' \<longleftrightarrow> i mod 4 = 3)"
proof -
  have f: "filter (\<lambda>c. c \<noteq> CHR '','') (fmtNum k) = nat_str k" for k
    using commas_filter [of "rev (nat_str k)"] nat_str_no_comma [of k] by (simp add: fmtNum_def rev_filter [symmetric])
  then have "fmtNum n = fmtNum m \<longleftrightarrow> n = m" by (metis dec_val_nat_str)
  moreover have "\<forall>i < length (fmtNum n). rev (fmtNum n) ! i = CHR '','' \<longleftrightarrow> i mod 4 = 3"
    using commas_groups [of _ "rev (nat_str n)"] nat_str_no_comma [of n] by (simp add: fmtNum_def)
  ultimately show ?thesis using f by blast
qed

text \<open>
  Every queue on the queue screen can be purged. For a queue the API lists, the console's
  purge request, decoded by the router, names that queue; the guard lets it pass, and the broker
  is asked to empty exactly it. The answer is 200 exactly when the broker agrees.
\<close>
theorem shown_queue_purge:
  assumes "\<And>n. n \<noteq> [] \<Longrightarrow> route (''/api/queues/'' @ encodeURIComponent n @ ''/purge'') = Some n"
    and "q \<in> set (getQueues qs)"
  shows "route (''/api'' @ hr_path (purge_request (qi_name q))) = Some (qi_name q) \<and>
     purge_queue base del (qi_name q) =
       (let url = base @ ''/api/queues/%2F/'' @ encodeURIComponent (qi_name q) @ ''/contents'' in
        (Some url, if del url then 200 else 502))"
proof -
  have r: "relay_queue (qi_name q)" using assms(2) by (auto simp: getQueues_def queue_row_def Let_def)
  then have "qi_name q \<noteq> []" by (auto simp: relay_queue_def js_startsWith_def)
  with assms(1) have "route (''/api'' @ hr_path (purge_request (qi_name q))) = Some (qi_name q)"
    by (simp add: purge_request_def post_request_def)
  moreover have "js_startsWith (qi_name q) ''relay.'' \<or> js_startsWith (qi_name q) ''wait.''" using r by (simp add: relay_queue_def)
  ultimately show ?thesis by (auto simp: purge_queue_def Let_def)
qed

theorem shown_queue_purge_witness:
  "\<exists>q \<in> set (getQueues (Some [\<lparr>rq_name = ''relay.dlq'', rq_messages = Some 3, rq_consumers = None, rq_state = None,
      rq_publish = None, rq_deliver = None, rq_ack = None\<rparr>])).
     purge_queue ''http://b'' (\<lambda>u. True) (qi_name q) = (Some ''http://b/api/queues/%2F/relay.dlq/contents'', 200)"
proof -
  let ?qs = "Some [\<lparr>rq_name = ''relay.dlq'', rq_messages = Some 3, rq_consumers = None, rq_state = None,
      rq_publish = None, rq_deliver = None, rq_ack = None\<rparr>]"
  let ?route = "\<lambda>p. decodeURIComponent (takeWhile (\<lambda>c. c \<noteq> CHR ''/'') (drop 12 p))"
  have take: "takeWhile (\<lambda>c. c \<noteq> CHR ''/'') (t @ CHR ''/'' # u) = t" if "CHR ''/'' \<notin> set t" for t u
    using that by (induction t) auto
  have "\<not> uri_plain CHR ''/''" by code_simp
  then have "CHR ''/'' \<notin> set (encodeURIComponent n)" for n using uri_encode_plain [of "CHR ''/''" n] by auto
  then have r: "?route (''/api/queues/'' @ encodeURIComponent n @ ''/purge'') = Some n" for n by (simp add: take)
  have "js_startsWith ''relay.dlq'' ''relay.''" by code_simp
  then obtain q where q: "q \<in> set (getQueues ?qs)" and n: "qi_name q = ''relay.dlq''"
    by (auto simp: getQueues_def relay_queue_def queue_row_def Let_def or_else_def)
  have e: "encodeURIComponent ''relay.dlq'' = ''relay.dlq''" by code_simp
  from shown_queue_purge [of ?route q ?qs "''http://b''" "\<lambda>u. True", OF r q]
  have "purge_queue ''http://b'' (\<lambda>u. True) (qi_name q) = (Some ''http://b/api/queues/%2F/relay.dlq/contents'', 200)"
    by (simp add: n e Let_def del: encodeURIComponent.simps)
  with q show ?thesis by blast
qed

theorem spark_in_box_witness:
  "\<forall>(x, y) \<in> set (spark_points 120 32 []). 0 \<le> x \<and> x \<le> 120 \<and> 2 \<le> y \<and> y \<le> 30"
proof -
  have "(0 :: rat) \<le> 120" "(4 :: rat) \<le> 32" by simp_all
  from spark_in_box [OF this, of "[]"] show ?thesis by simp
qed

text \<open>The tile's numbers add up to the domains checked.\<close>

lemma tile_adds_up:
  "tile_view (Some (Some (summarize rs))) = TileCounts a b c \<Longrightarrow> a + b + c = length rs"
proof -
  assume "tile_view (Some (Some (summarize rs))) = TileCounts a b c"
  then have abc: "a = length (filter (\<lambda>r. dr_status r < Warning) rs)" "b = length (filter (\<lambda>r. dr_status r = Warning) rs)"
    "c = length (filter (\<lambda>r. dr_status r = Error) rs)"
    by (auto simp: tile_view_def summarize_def summary_fold)
  have one: "of_bool (s < Warning) + of_bool (s = Warning) + of_bool (s = Error) = (1 :: nat)" for s
    by (cases s) (simp_all add: status_order)
  have "length (filter P rs) = sum_list (map (\<lambda>r. of_bool (P r)) rs)" for P by (induction rs) auto
  then have "a + b + c = sum_list (map (\<lambda>r. of_bool (dr_status r < Warning) + of_bool (dr_status r = Warning) + of_bool (dr_status r = Error)) rs)"
    by (simp add: abc sum_list_addf)
  then show ?thesis by (simp only: one) (simp add: sum_list_triv)
qed

text \<open>The menu's dialogs exist, whatever the state of the menu, and it is closed afterwards.\<close>

lemma menu_dialogs:
  "menu_click e b = (False, Inl m) \<Longrightarrow> modal_dialog m \<in> {Some ProfileModal, Some ChangePasswordModal}"
  by (cases e) (auto simp: menu_click_def modal_dialog_def)

section \<open>What the screens do not show\<close>

text \<open>The summary tile is a panel of one layout only, which is not the default.\<close>

lemma tile_layout:
  "TileCard \<in> set (dashboard_panels layout) \<longleftrightarrow> layout = ''focus''"
  "PREF_DEFAULTS ''dashboardLayout'' = Some ''overview''"
  by (auto simp: dashboard_panels_def PREF_DEFAULTS_def)

text \<open>
  Opening a message that was opened before does not select it again: the property has not changed,
  so the effect does not run.
\<close>

lemma reopen_unselected:
  "ms_sel (msg_props (Some ''a'') (msg_click ''b'' (msg_mount (Some ''a'') ms))) = Some ''b''"
  by (simp add: msg_props_def msg_click_def msg_mount_def)

text \<open>The curve of a provider card rises although nothing was relayed.\<close>

lemma provider_spark_rises: "provider_spark 5 [0, 0, 0] = [0, 1, 2]"
  by (simp add: provider_spark_def numeral_eq_Suc)

end
