(* ===== verification/WebViews.thy ===== *)
theory WebViews
  imports WebHome
begin

text \<open>
  What two screens put on the page: the deliverability screen (\<open>deliverability.jsx\<close>) with its cards
  and records, and the settings screen (\<open>settings.jsx\<close>) with its fields, whose drafts live beside the
  stored values they edit. Their elements are in UiScreens and UiApp.
\<close>

section \<open>Records and cards\<close>

definition REC_LABEL :: "rtype \<Rightarrow> string" where
  "REC_LABEL r = (case r of
     Spf \<Rightarrow> ''SPF'' | Grading.Dkim \<Rightarrow> ''DKIM'' | Dmarc \<Rightarrow> ''DMARC'' | Mx \<Rightarrow> ''MX'' | MtaSts \<Rightarrow> ''MTA-STS''
   | Bimi \<Rightarrow> ''BIMI'' | TlsRpt \<Rightarrow> ''TLS-RPT'')"

text \<open>A record: dot, label, pill, detail, and the found value and the fix when there are any.\<close>

record record_view =
  rv_dot :: string
  rv_label :: string
  rv_pill :: "string \<times> string"
  rv_detail :: string
  rv_found :: "string option"
  rv_fix :: "string option"

definition non_empty :: "string option \<Rightarrow> string option" where
  "non_empty v = (if given v then v else None)"

definition deliv_record :: "RecordReport \<Rightarrow> record_view" where
  "deliv_record r =
     \<lparr>rv_dot = DELIV_DOT (rr_status r),
      rv_label = REC_LABEL (rr_record r) @ (if given (rr_selector r) then middot @ the (rr_selector r) else []),
      rv_pill = (status_str (rr_status r), DELIV_TONE (rr_status r)), rv_detail = rr_detail r,
      rv_found = non_empty (rr_found r), rv_fix = non_empty (rr_fix r)\<rparr>"

text \<open>The copy button: the text copied, and the toast.\<close>

definition copy_fix :: "bool \<Rightarrow> string \<Rightarrow> string option \<times> string \<times> string" where
  "copy_fix clipboard fixed =
     (if clipboard then (Some fixed, ''Copied fix'', ''good'')
      else (None, ''Copy failed '' @ mdash @ '' select and copy manually'', ''danger''))"

text \<open>A card: its pills, and when it is open its two groups, the second one titled when it is not empty.\<close>

record card_view =
  cv_dot :: string
  cv_pulse :: bool
  cv_title :: string
  cv_pills :: "(string \<times> string) list"
  cv_body :: "(record_view list \<times> bool \<times> record_view list) option"

definition deliv_card :: "bool \<Rightarrow> DomainReport \<Rightarrow> card_view" where
  "deliv_card is_shown r =
     \<lparr>cv_dot = DELIV_DOT (dr_status r), cv_pulse = (dr_status r = Ok), cv_title = dr_domain r,
      cv_pills = map (\<lambda>x. (REC_LABEL (rr_record x), DELIV_TONE (rr_status x))) (auth_records r),
      cv_body = (if is_shown then Some (map deliv_record (auth_records r), hygiene_records r \<noteq> [],
        map deliv_record (hygiene_records r)) else None)\<rparr>"

text \<open>The body of the screen: its parts in order.\<close>

datatype deliv_part =
    LoadError string
  | Resolving
  | NoDomains
  | Totals nat nat nat
  | Card card_view

definition deliv_body :: "(string \<Rightarrow> bool) \<Rightarrow> deliv \<Rightarrow> deliv_part list" where
  "deliv_body shown s =
     (if given (dv_err s) then [LoadError (the (dv_err s))] else []) @
     (if dv_reports s = None \<and> \<not> given (dv_err s) then [Resolving] else []) @
     (case dv_reports s of
        None \<Rightarrow> []
      | Some rs \<Rightarrow>
          if rs = [] then [NoDomains]
          else Totals (deliv_count rs Ok) (deliv_count rs Warning) (deliv_count rs Error) #
               map (\<lambda>r. Card (deliv_card (shown (dr_domain r)) r)) rs)"

section \<open>Settings fields\<close>

text \<open>
  A field keeps the value it was given and a draft. A new value replaces the draft, an equal one
  does not; \<open>norm\<close> is what the field saves for a draft, and what it compares.
\<close>

record field =
  fd_value :: string
  fd_draft :: string

definition field_mount :: "string option \<Rightarrow> field" where
  "field_mount v = \<lparr>fd_value = or_str v [], fd_draft = or_str v []\<rparr>"

definition field_props :: "string option \<Rightarrow> field \<Rightarrow> field" where
  "field_props v f = (if or_str v [] = fd_value f then f else field_mount v)"

definition field_type :: "string \<Rightarrow> field \<Rightarrow> field" where
  "field_type s f = f\<lparr>fd_draft := s\<rparr>"

definition field_dirty :: "field \<Rightarrow> bool" where
  "field_dirty f \<longleftrightarrow> text_dirty (fd_draft f) (Some (fd_value f))"

definition field_save :: "string \<Rightarrow> field \<Rightarrow> http_request" where
  "field_save key f = save_setting key (JStr (js_trim (fd_draft f)))"

text \<open>The text settings and the numeric ones, with default, unit and the factor of what is saved.\<close>

definition TEXT_SETTINGS :: "(string \<times> string) list" where
  "TEXT_SETTINGS = [(''Hostname'', ''hostname''), (''Alert sender'', ''alert_from''), (''Direct-to-MX HELO'', ''direct_helo'')]"

definition NUMBER_SETTINGS :: "(string \<times> string \<times> rat \<times> string \<times> rat) list" where
  "NUMBER_SETTINGS =
     [(''Max message size'', ''max_message_bytes'', 52428800, ''MiB'', 1048576),
      (''Retention'', ''retention_days'', 30, ''days'', 1),
      (''Deliverability check interval'', ''deliverability_interval_hours'', 6, ''hrs'', 1)]"

text \<open>What the nodes of the cluster show: state, leadership, id, role.\<close>

definition node_rows :: "(string \<times> string \<times> string) list \<Rightarrow> (string \<times> bool \<times> string \<times> string) list" where
  "node_rows nodes = map (\<lambda>(i, role, st). (st, role = ''leader'', i, role)) nodes"

lemma or_str_blank [simp]: "or_str (Some v) [] = v" "or_str None [] = []"
  by (simp_all add: or_str_def)

section \<open>Properties\<close>

text \<open>
  An edit of a text setting survives the periodic reloads and is settled by its own save. As long
  as the stored value does not change, any number of reloads leaves the draft alone; once the
  saved value is stored and loaded, the field shows exactly it and is clean, and the setting holds
  the trimmed draft; every other setting is as it was.
\<close>
theorem field_edit_cycle:
  assumes "f = field_type s (field_mount (stored key))"
    and "stored = (\<lambda>k. case map_of tbl k of Some (JStr v) \<Rightarrow> Some v | _ \<Rightarrow> None)"
    and "put_setting True key (map_of (the (hr_body (field_save key f))) ''value'') tbl = (tbl', code, published)"
    and "stored' = (\<lambda>k. case map_of tbl' k of Some (JStr v) \<Rightarrow> Some v | _ \<Rightarrow> None)"
  shows "(field_props (stored key) ^^ n) f = f \<and> code = 200 \<and> stored' key = Some (js_trim s) \<and>
     (\<forall>k. k \<noteq> key \<longrightarrow> map_of tbl' k = map_of tbl k) \<and>
     fd_value (field_props (stored' key) f) = js_trim s \<and> \<not> field_dirty (field_props (stored' key) f)"
proof -
  have keep: "field_props (stored key) f = f" by (simp add: assms(1) field_props_def field_mount_def field_type_def)
  then have "(field_props (stored key) ^^ n) f = f" by (induction n) simp_all
  moreover have t: "tbl' = AList.update key (JStr (js_trim s)) tbl" "code = 200"
    using assms(1,3) by (simp_all add: field_save_def save_setting_def put_setting_def announce_def field_type_def)
  then have m: "map_of tbl' = (map_of tbl)(key \<mapsto> JStr (js_trim s))" by (simp add: update_conv')
  have s': "stored' key = Some (js_trim s)" unfolding assms(4) m by simp
  moreover have trim: "js_trim (js_trim s) = js_trim s"
  proof (cases "js_trim s = []")
    case True
    then show ?thesis by (simp only: True) (simp add: js_trim_def)
  qed (intro trimmed_js_trim_id trimmed_js_trim)
  have props: "field_props (stored' key) f =
      (if js_trim s = or_str (stored key) [] then f else \<lparr>fd_value = js_trim s, fd_draft = js_trim s\<rparr>)"
    by (simp add: s' field_props_def field_mount_def assms(1) field_type_def)
  have "fd_value (field_props (stored' key) f) = js_trim s \<and> \<not> field_dirty (field_props (stored' key) f)"
  proof (cases "js_trim s = or_str (stored key) []")
    case True
    then have "field_props (stored' key) f = f" by (simp add: props)
    moreover have "fd_value f = js_trim s" "fd_draft f = s"
      using True by (simp_all add: assms(1) field_mount_def field_type_def)
    ultimately show ?thesis using trim by (simp add: field_dirty_def text_dirty_def)
  next
    case False
    then show ?thesis using trim by (simp add: props field_dirty_def text_dirty_def)
  qed
  ultimately show ?thesis using t(2) m by simp
qed

theorem field_edit_cycle_witness:
  "\<exists>tbl' code published. put_setting True ''hostname''
       (map_of (the (hr_body (field_save ''hostname'' (field_type '' mx.b.io '' (field_mount (Some ''mx.a.io'')))))) ''value'')
       [(''hostname'', JStr ''mx.a.io'')] = (tbl', code, published) \<and>
     map_of tbl' ''hostname'' = Some (JStr ''mx.b.io'')"
proof -
  let ?tbl = "[(''hostname'', JStr ''mx.a.io'')]"
  let ?st = "\<lambda>tbl k. case map_of tbl k of Some (JStr v) \<Rightarrow> Some v | _ \<Rightarrow> None"
  let ?f = "field_type '' mx.b.io '' (field_mount (?st ?tbl ''hostname''))"
  obtain tbl' code published where
    p: "put_setting True ''hostname'' (map_of (the (hr_body (field_save ''hostname'' ?f))) ''value'') ?tbl = (tbl', code, published)"
    by (metis prod.exhaust)
  from field_edit_cycle [OF refl refl p refl] have "?st tbl' ''hostname'' = Some (js_trim '' mx.b.io '')" by blast
  moreover have "js_trim '' mx.b.io '' = ''mx.b.io''" by code_simp
  ultimately have "map_of tbl' ''hostname'' = Some (JStr ''mx.b.io'')" by (simp split: option.splits json.splits)
  with p show ?thesis by auto
qed

text \<open>
  An open card shows every record of its report exactly once, with the fix when there is one: the
  required ones in the first group and the others in the second, each in the report's order.
\<close>
theorem card_shows_all:
  assumes "cv_body (deliv_card True r) = Some (auth, titled, hygiene)"
  shows "mset (auth @ hygiene) = mset (map deliv_record (dr_records r)) \<and> (titled \<longleftrightarrow> hygiene \<noteq> []) \<and>
     length (cv_pills (deliv_card True r)) = length auth \<and>
     (\<forall>x \<in> set (dr_records r). given (rr_fix x) \<longrightarrow>
        (\<exists>v \<in> set auth \<union> set hygiene. rv_fix v = rr_fix x))"
proof -
  have ah: "auth = map deliv_record (auth_records r)" "hygiene = map deliv_record (hygiene_records r)"
    "titled \<longleftrightarrow> hygiene_records r \<noteq> []"
    using assms by (auto simp: deliv_card_def)
  have "mset (filter P xs @ filter (\<lambda>x. \<not> P x) xs) = mset xs" for P and xs :: "RecordReport list"
    by (simp add: multiset_partition [symmetric])
  then have "mset (auth_records r @ hygiene_records r) = mset (dr_records r)"
    by (simp add: auth_records_def hygiene_records_def)
  then have m: "mset (auth @ hygiene) = mset (map deliv_record (dr_records r))"
    by (metis ah(1,2) map_append mset_map)
  then have "set auth \<union> set hygiene = deliv_record ` set (dr_records r)" by (metis set_append set_map set_mset_mset)
  then have "\<forall>x \<in> set (dr_records r). given (rr_fix x) \<longrightarrow> (\<exists>v \<in> set auth \<union> set hygiene. rv_fix v = rr_fix x)"
    by (force simp: deliv_record_def non_empty_def)
  with m ah show ?thesis by (simp add: deliv_card_def)
qed

theorem card_shows_all_witness:
  "\<exists>auth titled hygiene. cv_body (deliv_card True sample_report) = Some (auth, titled, hygiene) \<and>
     length (auth @ hygiene) = length (dr_records sample_report)"
proof -
  obtain auth titled hygiene where b: "cv_body (deliv_card True sample_report) = Some (auth, titled, hygiene)"
    by (simp add: deliv_card_def)
  from card_shows_all [OF b] have "mset (auth @ hygiene) = mset (map deliv_record (dr_records sample_report))" by blast
  then have "length (auth @ hygiene) = length (dr_records sample_report)" by (metis length_map size_mset)
  with b show ?thesis by blast
qed

section \<open>Stale and surprising views\<close>

text \<open>A successful re-check does not clear the error of a failed load: both are shown.\<close>

lemma stale_load_error:
  "let s = fst (recheck_done (Inr []) (deliv_load (Inl ''502'')
       \<lparr>dv_reports = None, dv_err = None, dv_checking = (\<lambda>d. False), dv_busy = False\<rparr>)) in
   deliv_body (\<lambda>d. True) s = [LoadError ''502'', NoDomains]"
  by (simp add: deliv_load_def recheck_done_def deliv_body_def given_def Let_def)

text \<open>A maximum size of zero, which an emptied number field saves, is shown as the default of 50 MiB.\<close>

lemma zero_size_shown_as_default:
  "hr_body (save_max_size 0) = Some [(''value'', JNum 0)] \<and> maxMiB [''max_message_bytes'' \<mapsto> JNum 0] = Some 50"
  by (simp add: save_max_size_def save_setting_def maxMiB_def setting_number_def js_round_def floor_eq_iff)

end
