(* ===== verification/Db.thy ===== *)
theory Db
  imports Prelude
begin

text \<open>
  The database client of \<open>services/admin-api/src/db.ts\<close>: the TLS configuration read from mounted
  files, and the configuration epochs drawn from a sequence. The pool and the queries themselves
  are the driver's.
\<close>

record pg_ssl =
  ssl_ca :: string
  ssl_cert :: "string option"
  ssl_key :: "string option"
  ssl_rejectUnauthorized :: bool
  ssl_servername :: string

definition env_or :: "string option \<Rightarrow> string \<Rightarrow> string" where
  "env_or v d = (case v of None \<Rightarrow> d | Some s \<Rightarrow> if s = [] then d else s)"

definition PGTLS :: "string option \<Rightarrow> string" where
  "PGTLS dir = env_or dir ''/etc/novamail/pgtls''"

text \<open>\<open>files\<close> gives the contents of an existing file; \<open>None\<close> as result is a connection without TLS.\<close>

definition pgSSL :: "(string \<rightharpoonup> string) \<Rightarrow> string option \<Rightarrow> string option \<Rightarrow> pg_ssl option" where
  "pgSSL files dir host =
     (let ca = PGTLS dir @ ''/ca.crt''; cert = PGTLS dir @ ''/tls.crt''; key = PGTLS dir @ ''/tls.key'' in
      case files ca of
        None \<Rightarrow> None
      | Some ca_text \<Rightarrow> Some \<lparr>ssl_ca = ca_text, ssl_cert = files cert, ssl_key = files key,
          ssl_rejectUnauthorized = True, ssl_servername = env_or host ''novamail-pg-rw''\<rparr>)"

text \<open>\<open>nextval\<close> of the sequence: the epoch and the new state.\<close>

definition nextEpoch :: "nat \<Rightarrow> nat \<times> nat" where
  "nextEpoch seq = (seq + 1, seq + 1)"

primrec epochs :: "nat \<Rightarrow> nat \<Rightarrow> nat list" where
  "epochs seq 0 = []"
| "epochs seq (Suc n) = (case nextEpoch seq of (e, seq') \<Rightarrow> e # epochs seq' n)"

text \<open>Without a CA there is no TLS; with one the server is always verified, under a name.\<close>

lemma pgSSL_verifies:
  "(pgSSL files dir host = None \<longleftrightarrow> files (PGTLS dir @ ''/ca.crt'') = None) \<and>
   (pgSSL files dir host = Some s \<longrightarrow> ssl_rejectUnauthorized s \<and> ssl_servername s \<noteq> [] \<and>
      files (PGTLS dir @ ''/ca.crt'') = Some (ssl_ca s))"
  by (auto simp: pgSSL_def env_or_def Let_def split: option.splits)

text \<open>Epochs only grow.\<close>

lemma epochs_greater: "e \<in> set (epochs seq n) \<Longrightarrow> seq < e"
  by (induction n arbitrary: seq) (fastforce simp: nextEpoch_def)+

lemma epochs_sorted: "sorted_wrt (<) (epochs seq n)"
proof (induction n arbitrary: seq)
  case (Suc n)
  then show ?case using epochs_greater [of _ "seq + 1" n] by (simp add: nextEpoch_def)
qed simp

end
