(* ===== verification/System.thy ===== *)
theory System
  imports Scheduler Auth Dkim Feedback Messages Accounts Telemetry Db
begin

text \<open>
  The admin API as one machine: the tables, the bus and the scheduler's memory as one state; an
  endpoint of \<open>routes.ts\<close>, \<open>deliverability.ts\<close>, \<open>alerts.ts\<close>, \<open>telemetry.ts\<close> and \<open>server.ts\<close> as one
  constructor of \<open>call\<close>; a request as the hooks of Auth around the handler of the component.
  The components' own tables are views of the database: the keys, rules and providers the
  domain check reads are rows of the generic resources, the cadence and the alert sender are
  settings. Requests, ticks, transactions that nobody awaits and bus events interleave.
\<close>

section \<open>The state\<close>

record sys =
  sy_rows :: "string \<Rightarrow> json row list"
  sy_accounts :: "account list"
  sy_settings :: settings
  sy_secrets :: secret_table
  sy_suppressions :: "suppression list"
  sy_channels :: "channel list"
  sy_checks :: "check_row list"
  sy_history :: "(string \<times> status) list"
  sy_alerts :: alert_table
  sy_lastGoodHours :: rat
  sy_operators :: "(string \<times> string) list"
  sy_audit :: "(Auth.audit_row \<times> nat) list"
  sy_pending :: "DomainReport list"
  sy_bus :: bus
  sy_epoch :: nat
  sy_published :: "config_event list"

definition sys_init :: sys where
  "sys_init = \<lparr>sy_rows = (\<lambda>n. []), sy_accounts = [], sy_settings = [], sy_secrets = Map.empty,
     sy_suppressions = [], sy_channels = [], sy_checks = [], sy_history = [], sy_alerts = Map.empty,
     sy_lastGoodHours = 6, sy_operators = [], sy_audit = [], sy_pending = [], sy_bus = bus_init,
     sy_epoch = 0, sy_published = []\<rparr>"

text \<open>
  What one step finds in its surroundings: constraints and defaults of the schema, which
  statements succeed, the libraries, the network, the clock. \<open>en_uuid\<close> reads a text as a key of
  type \<open>uuid\<close>, \<open>en_numeric\<close> casts one to a number (both \<open>None\<close> where the query rejects).
\<close>

record env =
  en_api_key :: "string option"
  en_audit_up :: bool
  en_now :: nat
  en_up :: "nat \<Rightarrow> bool"
  en_read_up :: "string \<Rightarrow> bool"
  en_uuid :: "string \<Rightarrow> string option"
  en_numeric :: "string \<Rightarrow> rat option option"
  en_ok :: "string \<Rightarrow> json row list \<Rightarrow> bool"
  en_defaults :: "string \<Rightarrow> json row"
  en_accounts_ok :: "account list \<Rightarrow> bool"
  en_hash :: "string \<Rightarrow> string"
  en_new_id :: string
  en_enc :: "string \<Rightarrow> secret_error + envelope"
  en_decrypt :: "envelope option \<Rightarrow> secret_error + string"
  en_keypair :: keypair
  en_json :: "string \<Rightarrow> json option"
  en_sql :: "json \<Rightarrow> string"
  en_parseURL :: "string \<Rightarrow> url option"
  en_messages :: "message list"
  en_events :: "message_event list"
  en_room :: bool
  en_chan_later :: "nat option"
  en_epoch_up :: bool
  en_auth :: "(string \<times> string) list \<Rightarrow> (string \<times> string) list \<times> nat"
  en_delivery :: string
  en_fetch :: "string \<Rightarrow> (nat \<times> bool) option"
  en_mgmt :: "(string \<times> string) option"
  en_broker :: "string \<Rightarrow> string \<Rightarrow> (bool \<times> rmq_queue list option) option"
  en_purge :: "string \<Rightarrow> bool"
  en_net :: net
  en_time :: "string \<Rightarrow> string"
  en_err :: string
  en_order :: "string list \<Rightarrow> string list"
  en_persist_up :: "string \<Rightarrow> nat \<Rightarrow> bool"
  en_alert_up :: "string \<Rightarrow> nat \<Rightarrow> bool"
  en_alert_env :: "string \<Rightarrow> string \<Rightarrow> alert_env"
  en_ids :: "string \<Rightarrow> string \<Rightarrow> string"

section \<open>Views of the tables\<close>

definition text_col :: "json row \<Rightarrow> string \<Rightarrow> string" where
  "text_col row c = (case row c of Some (JStr s) \<Rightarrow> s | _ \<Rightarrow> [])"

definition null_col :: "json row \<Rightarrow> string \<Rightarrow> string option" where
  "null_col row c = (case row c of Some (JStr s) \<Rightarrow> Some s | _ \<Rightarrow> None)"

definition texts_col :: "json row \<Rightarrow> string \<Rightarrow> string list" where
  "texts_col row c = (case row c of
     Some (JArr vs) \<Rightarrow> List.map_filter (\<lambda>v. case v of JStr s \<Rightarrow> Some s | _ \<Rightarrow> None) vs | _ \<Rightarrow> [])"

definition key_of_row :: "json row \<Rightarrow> dkim_row" where
  "key_of_row row = \<lparr>dk_domain = text_col row ''domain'', dk_selector = text_col row ''selector'',
     dk_public_key = text_col row ''public_key'', dk_rotation = text_col row ''rotation'',
     dk_private_ref = text_col row ''private_ref''\<rparr>"

definition routing_of_row :: "json row \<Rightarrow> routing_rule" where
  "routing_of_row row = \<lparr>ru_sender_domain = null_col row ''sender_domain'',
     ru_provider_chain = texts_col row ''provider_chain'',
     ru_priority = (case row ''priority'' of Some (JNum n) \<Rightarrow> \<lfloor>n\<rfloor> | _ \<Rightarrow> 0),
     ru_enabled = (row ''enabled'' = Some (JBool True))\<rparr>"

definition provider_of_row :: "json row \<Rightarrow> provider" where
  "provider_of_row row = \<lparr>pv_id = text_col row ''id'', pv_type = text_col row ''type'',
     pv_enabled = (row ''enabled'' = Some (JBool True))\<rparr>"

text \<open>The keys written back: a key goes to the row it was read from, a new one to a new row.\<close>

definition set_key :: "dkim_row \<Rightarrow> json row \<Rightarrow> json row" where
  "set_key k row = row(''domain'' \<mapsto> JStr (dk_domain k), ''selector'' \<mapsto> JStr (dk_selector k),
     ''public_key'' \<mapsto> JStr (dk_public_key k), ''rotation'' \<mapsto> JStr (dk_rotation k),
     ''private_ref'' \<mapsto> JStr (dk_private_ref k))"

fun put_keys :: "json row \<Rightarrow> dkim_row list \<Rightarrow> json row list \<Rightarrow> json row list" where
  "put_keys d (k # ks) (row # rows) = (if key_of_row row = k then row else set_key k row) # put_keys d ks rows"
| "put_keys d ks [] = map (\<lambda>k. set_key k d) ks"
| "put_keys d [] rows = []"

definition keys_of :: "sys \<Rightarrow> dkim_row list" where
  "keys_of s = map key_of_row (sy_rows s ''dkim-keys'')"

definition relay_domains :: "sys \<Rightarrow> string list" where
  "relay_domains s = map (\<lambda>row. text_col row ''domain'') (sy_rows s ''relay-domains'')"

definition dns_view :: "sys \<Rightarrow> dns_store" where
  "dns_view s = \<lparr>st_relay_domains = relay_domains s, st_checks = sy_checks s, st_history = sy_history s\<rparr>"

definition put_dns :: "dns_store \<Rightarrow> sys \<Rightarrow> sys" where
  "put_dns st s = s\<lparr>sy_checks := st_checks st, sy_history := st_history st\<rparr>"

text \<open>The configuration a domain check reads, and the two settings the background job reads.\<close>

definition config_of :: "env \<Rightarrow> sys \<Rightarrow> config" where
  "config_of E s =
     \<lparr>cf_dkim_keys = (if en_read_up E ''dkim-keys'' then Some (map dkim_key.truncate (keys_of s)) else None),
      cf_routing_rules = (if en_read_up E ''routing-rules'' then Some (map routing_of_row (sy_rows s ''routing-rules'')) else None),
      cf_providers = (if en_read_up E ''providers'' then Some (map provider_of_row (sy_rows s ''providers'')) else None)\<rparr>"

definition interval_setting :: "env \<Rightarrow> sys \<Rightarrow> rat option option" where
  "interval_setting E s =
     (if \<not> en_read_up E ''settings'' then None
      else (case map_of (sy_settings s) ''deliverability_interval_hours'' of
        None \<Rightarrow> Some None
      | Some JNull \<Rightarrow> Some None
      | Some (JNum h) \<Rightarrow> Some (Some h)
      | Some (JStr t) \<Rightarrow> en_numeric E t
      | Some v \<Rightarrow> None))"

definition alert_from_setting :: "env \<Rightarrow> sys \<Rightarrow> string option option" where
  "alert_from_setting E s =
     (if \<not> en_read_up E ''settings'' then None
      else Some (case map_of (sy_settings s) ''alert_from'' of
        None \<Rightarrow> None
      | Some JNull \<Rightarrow> None
      | Some (JStr t) \<Rightarrow> Some t
      | Some v \<Rightarrow> Some (en_sql E v)))"

definition alert_env_of :: "env \<Rightarrow> sys \<Rightarrow> string \<Rightarrow> string \<Rightarrow> alert_env" where
  "alert_env_of E s ch d = (en_alert_env E ch d)\<lparr>ae_from := alert_from_setting E s, ae_chan := bus_chan (sy_bus s),
     ae_room := en_room E, ae_parseURL := en_parseURL E, ae_decrypt := en_decrypt E\<rparr>"

section \<open>The endpoints\<close>

text \<open>One constructor per registration, with the parameters of its path, then query and body.\<close>

datatype call =
    Healthz | Readyz | AuthTraffic
  | ListRows string | PostRow string "json row" | PutRow string string "json row" | DeleteRow string string
  | TestProvider string
  | GetAccounts | PostAccount account_body | PutAccount string account_body | DeleteAccount string
  | GetSecrets | PutSecret string "string option" | DeleteSecret string
  | GetSettings | PutSetting string "json option"
  | Requeue string | GetMessages message_query | GetEvents string | GetAudit "string option"
  | GenerateKey "string option" "string option"
  | GetSuppressions | PostSuppression "string option" "string option" | DeleteSuppression string
  | PostFeedback string "json option"
  | GetDeliverability | GetSummary | RecheckAll | RecheckDomain string | GetDomain string
  | GetQueues | GetMetrics | PurgeQueue string
  | GetChannels | PostChannel channel_body | PutChannel string channel_body | DeleteChannel string | TestChannel string

datatype seg = Lit string | Par string

text \<open>The registrations: method and path pattern, a pattern being its segments.\<close>

fun endpoint :: "call \<Rightarrow> string \<times> seg list" where
  "endpoint Healthz = (''GET'', [Lit ''healthz''])"
| "endpoint Readyz = (''GET'', [Lit ''readyz''])"
| "endpoint AuthTraffic = (''*'', [Lit ''api'', Lit ''auth'', Lit ''*''])"
| "endpoint (ListRows n) = (''GET'', [Lit ''api'', Lit n])"
| "endpoint (PostRow n b) = (''POST'', [Lit ''api'', Lit n])"
| "endpoint (PutRow n i b) = (''PUT'', [Lit ''api'', Lit n, Par ''id''])"
| "endpoint (DeleteRow n i) = (''DELETE'', [Lit ''api'', Lit n, Par ''id''])"
| "endpoint (TestProvider i) = (''POST'', [Lit ''api'', Lit ''providers'', Par ''id'', Lit ''test''])"
| "endpoint GetAccounts = (''GET'', [Lit ''api'', Lit ''accounts''])"
| "endpoint (PostAccount b) = (''POST'', [Lit ''api'', Lit ''accounts''])"
| "endpoint (PutAccount i b) = (''PUT'', [Lit ''api'', Lit ''accounts'', Par ''id''])"
| "endpoint (DeleteAccount i) = (''DELETE'', [Lit ''api'', Lit ''accounts'', Par ''id''])"
| "endpoint GetSecrets = (''GET'', [Lit ''api'', Lit ''secrets''])"
| "endpoint (PutSecret r v) = (''PUT'', [Lit ''api'', Lit ''secrets'', Par ''ref''])"
| "endpoint (DeleteSecret r) = (''DELETE'', [Lit ''api'', Lit ''secrets'', Par ''ref''])"
| "endpoint GetSettings = (''GET'', [Lit ''api'', Lit ''settings''])"
| "endpoint (PutSetting k v) = (''PUT'', [Lit ''api'', Lit ''settings'', Par ''key''])"
| "endpoint (Requeue i) = (''POST'', [Lit ''api'', Lit ''messages'', Par ''id'', Lit ''requeue''])"
| "endpoint (GetMessages q) = (''GET'', [Lit ''api'', Lit ''messages''])"
| "endpoint (GetEvents i) = (''GET'', [Lit ''api'', Lit ''messages'', Par ''id'', Lit ''events''])"
| "endpoint (GetAudit l) = (''GET'', [Lit ''api'', Lit ''audit''])"
| "endpoint (GenerateKey d se) = (''POST'', [Lit ''api'', Lit ''dkim-keys'', Lit ''generate''])"
| "endpoint GetSuppressions = (''GET'', [Lit ''api'', Lit ''suppressions''])"
| "endpoint (PostSuppression a r) = (''POST'', [Lit ''api'', Lit ''suppressions''])"
| "endpoint (DeleteSuppression a) = (''DELETE'', [Lit ''api'', Lit ''suppressions'', Par ''address''])"
| "endpoint (PostFeedback p b) = (''POST'', [Lit ''api'', Lit ''feedback'', Par ''provider''])"
| "endpoint GetDeliverability = (''GET'', [Lit ''api'', Lit ''deliverability''])"
| "endpoint GetSummary = (''GET'', [Lit ''api'', Lit ''deliverability'', Lit ''summary''])"
| "endpoint RecheckAll = (''POST'', [Lit ''api'', Lit ''deliverability'', Lit ''check''])"
| "endpoint (RecheckDomain d) = (''POST'', [Lit ''api'', Lit ''deliverability'', Par ''domain'', Lit ''check''])"
| "endpoint (GetDomain d) = (''GET'', [Lit ''api'', Lit ''deliverability'', Par ''domain''])"
| "endpoint GetQueues = (''GET'', [Lit ''api'', Lit ''queues''])"
| "endpoint GetMetrics = (''GET'', [Lit ''api'', Lit ''metrics''])"
| "endpoint (PurgeQueue q) = (''POST'', [Lit ''api'', Lit ''queues'', Par ''name'', Lit ''purge''])"
| "endpoint GetChannels = (''GET'', [Lit ''api'', Lit ''alert-channels''])"
| "endpoint (PostChannel b) = (''POST'', [Lit ''api'', Lit ''alert-channels''])"
| "endpoint (PutChannel i b) = (''PUT'', [Lit ''api'', Lit ''alert-channels'', Par ''id''])"
| "endpoint (DeleteChannel i) = (''DELETE'', [Lit ''api'', Lit ''alert-channels'', Par ''id''])"
| "endpoint (TestChannel i) = (''POST'', [Lit ''api'', Lit ''alert-channels'', Par ''id'', Lit ''test''])"

text \<open>The generic registrations exist for the names of \<open>RESOURCES\<close> only.\<close>

fun registered :: "call \<Rightarrow> bool" where
  "registered (ListRows n) \<longleftrightarrow> n \<in> fst ` set RESOURCES"
| "registered (PostRow n b) \<longleftrightarrow> n \<in> fst ` set RESOURCES"
| "registered (PutRow n i b) \<longleftrightarrow> n \<in> fst ` set RESOURCES"
| "registered (DeleteRow n i) \<longleftrightarrow> n \<in> fst ` set RESOURCES"
| "registered _ \<longleftrightarrow> True"

text \<open>
  A path fits a pattern segment by segment. The router is Fastify's; of its documented behaviour
  only this is used: the call it picks for a request is registered, its method is the request's
  (\<open>HEAD\<close> goes to the handler of \<open>GET\<close>), and the request's path fits its pattern. Session traffic
  is everything below \<open>/api/auth/\<close>.
\<close>

fun fits :: "seg list \<Rightarrow> string list \<Rightarrow> bool" where
  "fits [] xs \<longleftrightarrow> xs = []"
| "fits (Lit l # ps) xs \<longleftrightarrow> xs \<noteq> [] \<and> hd xs = l \<and> fits ps (tl xs)"
| "fits (Par p # ps) xs \<longleftrightarrow> xs \<noteq> [] \<and> fits ps (tl xs)"

definition path_segs :: "request \<Rightarrow> string list" where
  "path_segs req = js_split CHR ''/'' (before CHR ''?'' (rq_url req))"

definition addressed :: "request \<Rightarrow> call \<Rightarrow> bool" where
  "addressed req c \<longleftrightarrow> registered c \<and>
     (if c = AuthTraffic then js_startsWith (before CHR ''?'' (rq_url req)) ''/api/auth/''
      else (rq_method req = fst (endpoint c) \<or> rq_method req = ''HEAD'' \<and> fst (endpoint c) = ''GET'') \<and>
        (\<exists>segs. path_segs req = [] # segs \<and> fits (snd (endpoint c)) segs))"

definition seg_text :: "seg \<Rightarrow> string" where
  "seg_text sg = (case sg of Lit l \<Rightarrow> l | Par p \<Rightarrow> CHR '':'' # p)"

text \<open>The route as the audit log shows it.\<close>

definition route_text :: "call \<Rightarrow> string" where
  "route_text c = concat (map (\<lambda>sg. CHR ''/'' # seg_text sg) (snd (endpoint c)))"

section \<open>The handlers on the state\<close>

text \<open>What leaves the process besides replies and configuration events.\<close>

datatype sent = Job requeued | Alert effect | Purged string | Probed string

definition publish :: "env \<Rightarrow> sys \<Rightarrow> string list \<Rightarrow> publish_error + (nat \<times> config_event) option" where
  "publish E s slices = publishConfigChanged (bus_chan (sy_bus s))
     (if en_epoch_up E then Some (fst (nextEpoch (sy_epoch s))) else None) (en_chan_later E) slices"

definition pub_up :: "env \<Rightarrow> sys \<Rightarrow> bool" where
  "pub_up E s \<longleftrightarrow> \<not> isl (publish E s [])"

primrec emit :: "env \<Rightarrow> string list list \<Rightarrow> sys \<Rightarrow> sys" where
  "emit E [] s = s"
| "emit E (sl # sls) s = emit E sls (case publish E s sl of
     Inr (Some (c, ev)) \<Rightarrow> s\<lparr>sy_epoch := ev_epoch ev, sy_published := sy_published s @ [ev]\<rparr>
   | _ \<Rightarrow> s)"

type_synonym reaction = "sys \<times> nat \<times> sent list"

definition answer :: "sys \<Rightarrow> nat \<Rightarrow> reaction" where
  "answer s code = (s, code, [])"

definition read_reply :: "env \<Rightarrow> string \<Rightarrow> sys \<Rightarrow> reaction" where
  "read_reply E tbl s = answer s (if en_read_up E tbl then 200 else 500)"

text \<open>A handler that changed its table to that of the outcome.\<close>

definition wrote :: "env \<Rightarrow> ('t \<Rightarrow> sys \<Rightarrow> sys) \<Rightarrow> 't outcome \<Rightarrow> sys \<Rightarrow> reaction" where
  "wrote E put oc s = answer (emit E (snd (snd oc)) (put (fst oc) s)) (fst (snd oc))"

definition put_rows :: "string \<Rightarrow> json row list \<Rightarrow> sys \<Rightarrow> sys" where
  "put_rows n t s = s\<lparr>sy_rows := (sy_rows s)(n := t)\<rparr>"

definition row_key_of :: "env \<Rightarrow> resource \<Rightarrow> string \<Rightarrow> json option" where
  "row_key_of E r v = (if rs_pk r = ''id'' then map_option JStr (en_uuid E v) else Some (JStr v))"

definition on_resource :: "string \<Rightarrow> sys \<Rightarrow> (resource \<Rightarrow> reaction) \<Rightarrow> reaction" where
  "on_resource n s f = (case map_of RESOURCES n of None \<Rightarrow> answer s 404 | Some r \<Rightarrow> f r)"

definition put_dkim :: "env \<Rightarrow> dkim_state \<Rightarrow> sys \<Rightarrow> sys" where
  "put_dkim E st s = (put_rows ''dkim-keys''
     (put_keys (en_defaults E ''dkim-keys'') (ds_keys st) (sy_rows s ''dkim-keys'')) s)\<lparr>sy_secrets := ds_secrets st\<rparr>"

definition all_reports :: "env \<Rightarrow> sys \<Rightarrow> reaction" where
  "all_reports E s = (case getAllReports (en_net E) (config_of E s) (en_time E) (en_err E)
       (en_read_up E ''relay-domains'') (en_read_up E ''checks'') (dns_view s) of
     None \<Rightarrow> answer s 500
   | Some (reports, live) \<Rightarrow> answer (s\<lparr>sy_pending := sy_pending s @ live\<rparr>) 200)"

definition recheck_all :: "env \<Rightarrow> sys \<Rightarrow> reaction" where
  "recheck_all E s =
     (if \<not> en_read_up E ''relay-domains'' then answer s 500
      else (case refreshAll (en_net E) (config_of E s) (en_time E) (en_persist_up E) (en_order E (relay_domains s)) (dns_view s) of
        (st, reports) \<Rightarrow> all_reports E (put_dns st s)))"

text \<open>The transaction of a single re-check is not awaited: it joins the pending ones.\<close>

definition recheck_domain :: "env \<Rightarrow> string \<Rightarrow> sys \<Rightarrow> reaction" where
  "recheck_domain E d s =
     (if \<not> en_read_up E ''relay-domains'' then answer s 500
      else (case snd (post_check (en_net E) (config_of E s) (en_time E) (\<lambda>k. False) d (dns_view s)) of
        NotFound \<Rightarrow> answer s 404
      | Failed \<Rightarrow> answer s 500
      | Sent rep \<Rightarrow> answer (s\<lparr>sy_pending := sy_pending s @ [rep]\<rparr>) 200))"

definition read_domain :: "env \<Rightarrow> string \<Rightarrow> sys \<Rightarrow> reaction" where
  "read_domain E d s =
     (if \<not> en_read_up E ''relay-domains'' then answer s 500
      else (case get_domain (en_net E) (config_of E s) (en_time E) (en_read_up E ''checks'') d (dns_view s) of
        NotFound \<Rightarrow> answer s 404 | Failed \<Rightarrow> answer s 500 | Sent rep \<Rightarrow> answer s 200))"

definition put_channels :: "channel list \<times> nat \<Rightarrow> sys \<Rightarrow> reaction" where
  "put_channels oc s = answer (s\<lparr>sy_channels := fst oc\<rparr>) (snd oc)"

definition with_uuid :: "env \<Rightarrow> string \<Rightarrow> sys \<Rightarrow> (string \<Rightarrow> reaction) \<Rightarrow> reaction" where
  "with_uuid E i s f = (case en_uuid E i of None \<Rightarrow> answer s 500 | Some u \<Rightarrow> f u)"

section \<open>One request\<close>

fun run :: "env \<Rightarrow> call \<Rightarrow> sys \<Rightarrow> reaction" where
  "run E Healthz s = answer s 200"
| "run E Readyz s = answer s (readyz (en_read_up E ''ping'') (ready (sy_bus s)))"
| "run E AuthTraffic s = (case en_auth E (sy_operators s) of (ops, code) \<Rightarrow> answer (s\<lparr>sy_operators := ops\<rparr>) code)"
| "run E (ListRows n) s = on_resource n s (\<lambda>r. read_reply E n s)"
| "run E (PostRow n b) s = on_resource n s (\<lambda>r.
     wrote E (put_rows n) (post_row (pub_up E s) (en_ok E n) (en_defaults E n) r b (sy_rows s n)) s)"
| "run E (PutRow n i b) s = on_resource n s (\<lambda>r.
     wrote E (put_rows n) (put_row (pub_up E s) (en_ok E n) r (row_key_of E r i) b (sy_rows s n)) s)"
| "run E (DeleteRow n i) s = on_resource n s (\<lambda>r.
     wrote E (put_rows n) (delete_row (pub_up E s) (en_ok E n) r (row_key_of E r i) (sy_rows s n)) s)"
| "run E (TestProvider i) s = (case provider_test (en_api_key E) (en_delivery E) (en_fetch E) i of
     (url, code) \<Rightarrow> (s, code, map Probed (case url of None \<Rightarrow> [] | Some u \<Rightarrow> [u])))"
| "run E GetAccounts s = read_reply E ''accounts'' s"
| "run E (PostAccount b) s = wrote E (\<lambda>t s. s\<lparr>sy_accounts := t\<rparr>)
     (fst (post_account (pub_up E s) (en_accounts_ok E) (en_hash E) (en_new_id E) (en_now E) b (sy_accounts s))) s"
| "run E (PutAccount i b) s = wrote E (\<lambda>t s. s\<lparr>sy_accounts := t\<rparr>)
     (fst (put_account (pub_up E s) (en_accounts_ok E) (en_hash E) (en_uuid E i) b (sy_accounts s))) s"
| "run E (DeleteAccount i) s = wrote E (\<lambda>t s. s\<lparr>sy_accounts := t\<rparr>)
     (delete_account (pub_up E s) (en_uuid E i) (sy_accounts s)) s"
| "run E GetSecrets s = read_reply E ''secrets'' s"
| "run E (PutSecret r v) s = wrote E (\<lambda>t s. s\<lparr>sy_secrets := t\<rparr>)
     (put_secret (pub_up E s) (en_enc E) r v (sy_secrets s)) s"
| "run E (DeleteSecret r) s = wrote E (\<lambda>t s. s\<lparr>sy_secrets := t\<rparr>)
     (delete_secret (pub_up E s) r (sy_secrets s)) s"
| "run E GetSettings s = read_reply E ''settings'' s"
| "run E (PutSetting k v) s = wrote E (\<lambda>t s. s\<lparr>sy_settings := t\<rparr>)
     (put_setting (pub_up E s) k v (sy_settings s)) s"
| "run E (Requeue i) s = (case requeue (bus_chan (sy_bus s)) (en_room E) (en_uuid E i) (en_messages E) of
     (code, job) \<Rightarrow> (s, code, map Job (case job of None \<Rightarrow> [] | Some j \<Rightarrow> [j])))"
| "run E (GetMessages q) s = answer s (if get_messages q (en_messages E) = None then 500 else 200)"
| "run E (GetEvents i) s = answer s (fst (get_events (en_uuid E i) (en_events E) (en_messages E)))"
| "run E (GetAudit l) s = answer s (if sql_limit (audit_limit l) = None then 500 else 200)"
| "run E (GenerateKey d se) s = wrote E (put_dkim E)
     (fst (generate_key (en_up E) (pub_up E s) (en_enc E) (en_keypair E) d se
       \<lparr>ds_secrets = sy_secrets s, ds_keys = keys_of s\<rparr>)) s"
| "run E GetSuppressions s = read_reply E ''suppressions'' s"
| "run E (PostSuppression a r) s = wrote E (\<lambda>t s. s\<lparr>sy_suppressions := t\<rparr>)
     (post_suppression (pub_up E s) (en_now E) a r (sy_suppressions s)) s"
| "run E (DeleteSuppression a) s = wrote E (\<lambda>t s. s\<lparr>sy_suppressions := t\<rparr>)
     (delete_suppression (pub_up E s) a (sy_suppressions s)) s"
| "run E (PostFeedback p b) s = wrote E (\<lambda>t s. s\<lparr>sy_suppressions := t\<rparr>)
     (fst (feedback (pub_up E s) (en_now E) (en_json E) (en_sql E) p b (sy_suppressions s))) s"
| "run E GetDeliverability s = all_reports E s"
| "run E GetSummary s = all_reports E s"
| "run E RecheckAll s = recheck_all E s"
| "run E (RecheckDomain d) s = recheck_domain E d s"
| "run E (GetDomain d) s = read_domain E d s"
| "run E GetQueues s = answer s (if queues_reply (en_mgmt E) (en_broker E) = None then 500 else 200)"
| "run E GetMetrics s = (if en_mgmt E = None then answer s 500 else read_reply E ''metrics'' s)"
| "run E (PurgeQueue q) s = (if relay_queue q \<and> en_mgmt E = None then answer s 500
     else case purge_queue (case en_mgmt E of Some (base, auth) \<Rightarrow> base | None \<Rightarrow> []) (en_purge E) q of
     (url, code) \<Rightarrow> (s, code, map Purged (case url of None \<Rightarrow> [] | Some u \<Rightarrow> [u])))"
| "run E GetChannels s = read_reply E ''alert-channels'' s"
| "run E (PostChannel b) s = put_channels (post_channel (en_parseURL E) (en_enc E) (en_new_id E) b (sy_channels s)) s"
| "run E (PutChannel i b) s = with_uuid E i s (\<lambda>u.
     put_channels (put_channel (en_parseURL E) (en_enc E) u b (sy_channels s)) s)"
| "run E (DeleteChannel i) s = with_uuid E i s (\<lambda>u. put_channels (delete_channel u (sy_channels s)) s)"
| "run E (TestChannel i) s = with_uuid E i s (\<lambda>u.
     (case test_channel (alert_env_of E s u ''test.example'') (en_ids E u ''test.example'')
             (en_time E ''test.example'') u (sy_channels s) of
        (code, effs) \<Rightarrow> (s, code, map Alert effs)))"

text \<open>
  The whole path of a request: the hook \<open>onRequest\<close>, the handler, the hook \<open>onResponse\<close>. A
  rejected request does not reach its handler.
\<close>

definition handle :: "env \<Rightarrow> request \<Rightarrow> call \<Rightarrow> sys \<Rightarrow> reaction" where
  "handle E req c s = (case run E c s of (s1, code1, sent1) \<Rightarrow>
     (case serve (en_api_key E) (\<lambda>_. code1) (Some (route_text c)) (en_audit_up E) req of
        (code, who, rows) \<Rightarrow>
          (let log = (\<lambda>s. s\<lparr>sy_audit := sy_audit s @ map (\<lambda>row. (row, en_now E)) rows\<rparr>) in
           if who = None then (log s, code, []) else (log s1, code, sent1))))"

section \<open>The background job\<close>

text \<open>A tick is one step: what it reads does not change while it runs.\<close>

definition tick_env_of :: "env \<Rightarrow> sys \<Rightarrow> tick_env" where
  "tick_env_of E s =
     \<lparr>te_net = en_net E, te_config = config_of E s, te_now = en_time E,
      te_domains_up = en_read_up E ''relay-domains'', te_persist_up = en_persist_up E,
      te_order = en_order E (relay_domains s),
      te_channels = (if en_read_up E ''alert-channels'' then Some (sy_channels s) else None),
      te_alert_up = en_alert_up E, te_alert_env = alert_env_of E s, te_ids = en_ids E,
      te_interval = interval_setting E s\<rparr>"

definition scheduler_view :: "sys \<Rightarrow> scheduler" where
  "scheduler_view s = \<lparr>sc_store = dns_view s, sc_alerts = sy_alerts s, sc_lastGoodHours = sy_lastGoodHours s\<rparr>"

definition run_tick :: "env \<Rightarrow> sys \<Rightarrow> sys \<times> effect list \<times> int" where
  "run_tick E s = (case tick (tick_env_of E s) (scheduler_view s) of (sc, effs, ms) \<Rightarrow>
     ((put_dns (sc_store sc) s)\<lparr>sy_alerts := sc_alerts sc, sy_lastGoodHours := sc_lastGoodHours sc\<rparr>, effs, ms))"

text \<open>
  One of the transactions in flight ends. The process starts again: its memory is that of a new
  process, the tables are what they were, and it seeds its operator.
\<close>

definition run_persist :: "(nat \<Rightarrow> bool) \<Rightarrow> nat \<Rightarrow> sys \<Rightarrow> sys" where
  "run_persist up i s =
     (put_dns (fst (persistCheck up (sy_pending s ! i) (dns_view s))) s)
       \<lparr>sy_pending := take i (sy_pending s) @ drop (Suc i) (sy_pending s)\<rparr>"

definition run_start :: "bool \<Rightarrow> string option \<Rightarrow> (nat \<Rightarrow> bool) \<Rightarrow> sys \<Rightarrow> sys" where
  "run_start dialed email up s =
     s\<lparr>sy_operators := fst (start dialed email up True (sy_operators s)), sy_pending := [],
       sy_lastGoodHours := 6, sy_bus := bus_init\<rparr>"

section \<open>The machine\<close>

text \<open>
  The laws of the surroundings: the cipher, and the constraints of the schema that the
  invariant rests on (unique user names, primary keys of the domains, unique selectors).
\<close>

definition domains_ok :: "json row list \<Rightarrow> bool" where
  "domains_ok t \<longleftrightarrow> distinct (map (\<lambda>row. text_col row ''domain'') t) \<and>
     (\<forall>row \<in> set t. row ''domain'' = Some (JStr (text_col row ''domain'')))"

definition key_rows_ok :: "json row list \<Rightarrow> bool" where
  "key_rows_ok t \<longleftrightarrow> distinct (map key_id (map key_of_row t))"

definition env_ok :: "cipher \<Rightarrow> string option \<Rightarrow> (string \<Rightarrow> url option) \<Rightarrow> env \<Rightarrow> bool" where
  "env_ok C key parse E \<longleftrightarrow>
     (\<exists>rnd. entropy_ok rnd \<and> en_enc E = encrypt C key rnd) \<and> en_decrypt E = decrypt C key \<and> en_parseURL E = parse \<and>
     (\<forall>t. en_ok E ''relay-domains'' t \<longrightarrow> domains_ok t) \<and> (\<forall>t. en_ok E ''dkim-keys'' t \<longrightarrow> key_rows_ok t) \<and>
     (\<forall>t. en_accounts_ok E t \<longrightarrow> distinct (map ac_username t))"

inductive sys_step :: "cipher \<Rightarrow> string option \<Rightarrow> (string \<Rightarrow> url option) \<Rightarrow> sys \<Rightarrow> sys \<Rightarrow> bool"
  for C key parse where
  step_request: "env_ok C key parse E \<Longrightarrow> addressed req c \<Longrightarrow> handle E req c s = (s', code, out1) \<Longrightarrow>
     sys_step C key parse s s'"
| step_tick: "env_ok C key parse E \<Longrightarrow> run_tick E s = (s', effs, ms) \<Longrightarrow> sys_step C key parse s s'"
| step_persist: "i < length (sy_pending s) \<Longrightarrow> sys_step C key parse s (run_persist up i s)"
| step_start: "sys_step C key parse s (run_start dialed email up s)"
| step_bus: "bus_step (sy_bus s) b \<Longrightarrow> sys_step C key parse s (s\<lparr>sy_bus := b\<rparr>)"
| step_epoch: "sy_epoch s \<le> n \<Longrightarrow> sys_step C key parse s (s\<lparr>sy_epoch := n\<rparr>)"

inductive_cases sys_stepE: "sys_step C key parse s s'"

end
