(* ===== verification/SystemFacts.thy ===== *)
theory SystemFacts
  imports System
begin

text \<open>
  Facts about the whole admin API (\<open>System\<close>): which tables a request can change, one lemma per
  table; the invariant of all reachable states, put together from the invariants of the
  components; which endpoints the hooks leave open; and the contract between what a request changes and
  what it announces, put together from the interpretations of \<open>config_write\<close>.
\<close>

section \<open>What a step touches\<close>

lemma emit_frame [simp]:
  "sy_rows (emit E sls s) = sy_rows s" "sy_accounts (emit E sls s) = sy_accounts s"
  "sy_settings (emit E sls s) = sy_settings s" "sy_secrets (emit E sls s) = sy_secrets s"
  "sy_suppressions (emit E sls s) = sy_suppressions s" "sy_channels (emit E sls s) = sy_channels s"
  "sy_checks (emit E sls s) = sy_checks s" "sy_history (emit E sls s) = sy_history s"
  "sy_alerts (emit E sls s) = sy_alerts s" "sy_lastGoodHours (emit E sls s) = sy_lastGoodHours s"
  "sy_operators (emit E sls s) = sy_operators s" "sy_audit (emit E sls s) = sy_audit s"
  "sy_pending (emit E sls s) = sy_pending s" "sy_bus (emit E sls s) = sy_bus s"
  by (induction sls arbitrary: s) (auto split: sum.splits option.splits prod.splits)

declare emit.simps [simp del]

lemma emit_Nil [simp]: "emit E [] s = s"
  by (simp add: emit.simps)

lemma reaction_simps [simp]:
  "answer s n = (s, n, [])" "read_reply E t s = (s, if en_read_up E t then 200 else 500, [])"
  "wrote E put oc s = (emit E (snd (snd oc)) (put (fst oc) s), fst (snd oc), [])"
  "put_channels ch s = (s\<lparr>sy_channels := fst ch\<rparr>, snd ch, [])"
  by (simp_all add: answer_def read_reply_def wrote_def put_channels_def)

lemma put_frame [simp]:
  "sy_rows (put_rows n t s) = (sy_rows s)(n := t)" "sy_accounts (put_rows n t s) = sy_accounts s"
  "sy_settings (put_rows n t s) = sy_settings s" "sy_secrets (put_rows n t s) = sy_secrets s"
  "sy_suppressions (put_rows n t s) = sy_suppressions s" "sy_channels (put_rows n t s) = sy_channels s"
  "sy_checks (put_rows n t s) = sy_checks s" "sy_history (put_rows n t s) = sy_history s"
  "sy_alerts (put_rows n t s) = sy_alerts s" "sy_lastGoodHours (put_rows n t s) = sy_lastGoodHours s"
  "sy_operators (put_rows n t s) = sy_operators s" "sy_audit (put_rows n t s) = sy_audit s"
  "sy_pending (put_rows n t s) = sy_pending s" "sy_bus (put_rows n t s) = sy_bus s"
  "sy_epoch (put_rows n t s) = sy_epoch s" "sy_published (put_rows n t s) = sy_published s"
  by (simp_all add: put_rows_def)

lemma all_reports_state: "\<exists>p. fst (all_reports E s) = s\<lparr>sy_pending := p\<rparr>"
  by (auto simp: all_reports_def split: option.splits prod.splits) (metis sys.surjective sys.update_convs(13))

lemma recheck_all_state:
  "fst (recheck_all E s) = s \<or> (\<exists>p. fst (recheck_all E s) =
     (put_dns (fst (refreshAll (en_net E) (config_of E s) (en_time E) (en_persist_up E) (en_order E (relay_domains s)) (dns_view s))) s)
       \<lparr>sy_pending := p\<rparr>)"
  by (auto simp: recheck_all_def all_reports_state split: prod.splits)

lemma recheck_domain_state: "\<exists>p. fst (recheck_domain E d s) = s\<lparr>sy_pending := p\<rparr>"
  by (auto simp: recheck_domain_def split: reply.splits) (metis sys.surjective sys.update_convs(13))+

lemma read_domain_state: "fst (read_domain E d s) = s"
  by (auto simp: read_domain_def split: reply.splits)

lemma all_reports_frame [simp]:
  "sy_rows (fst (all_reports E s)) = sy_rows s"
  "sy_accounts (fst (all_reports E s)) = sy_accounts s"
  "sy_settings (fst (all_reports E s)) = sy_settings s"
  "sy_secrets (fst (all_reports E s)) = sy_secrets s"
  "sy_suppressions (fst (all_reports E s)) = sy_suppressions s"
  "sy_channels (fst (all_reports E s)) = sy_channels s"
  "sy_alerts (fst (all_reports E s)) = sy_alerts s"
  "sy_lastGoodHours (fst (all_reports E s)) = sy_lastGoodHours s"
  "sy_operators (fst (all_reports E s)) = sy_operators s"
  "sy_audit (fst (all_reports E s)) = sy_audit s"
  "sy_bus (fst (all_reports E s)) = sy_bus s"
  "sy_epoch (fst (all_reports E s)) = sy_epoch s"
  "sy_published (fst (all_reports E s)) = sy_published s"
  "sy_checks (fst (all_reports E s)) = sy_checks s"
  "sy_history (fst (all_reports E s)) = sy_history s"
  using all_reports_state [of E s] by auto

lemma recheck_all_frame [simp]:
  "sy_rows (fst (recheck_all E s)) = sy_rows s"
  "sy_accounts (fst (recheck_all E s)) = sy_accounts s"
  "sy_settings (fst (recheck_all E s)) = sy_settings s"
  "sy_secrets (fst (recheck_all E s)) = sy_secrets s"
  "sy_suppressions (fst (recheck_all E s)) = sy_suppressions s"
  "sy_channels (fst (recheck_all E s)) = sy_channels s"
  "sy_alerts (fst (recheck_all E s)) = sy_alerts s"
  "sy_lastGoodHours (fst (recheck_all E s)) = sy_lastGoodHours s"
  "sy_operators (fst (recheck_all E s)) = sy_operators s"
  "sy_audit (fst (recheck_all E s)) = sy_audit s"
  "sy_bus (fst (recheck_all E s)) = sy_bus s"
  "sy_epoch (fst (recheck_all E s)) = sy_epoch s"
  "sy_published (fst (recheck_all E s)) = sy_published s"
  using recheck_all_state [of E s] by (auto simp: put_dns_def)

lemma recheck_domain_frame [simp]:
  "sy_rows (fst (recheck_domain E d s)) = sy_rows s"
  "sy_accounts (fst (recheck_domain E d s)) = sy_accounts s"
  "sy_settings (fst (recheck_domain E d s)) = sy_settings s"
  "sy_secrets (fst (recheck_domain E d s)) = sy_secrets s"
  "sy_suppressions (fst (recheck_domain E d s)) = sy_suppressions s"
  "sy_channels (fst (recheck_domain E d s)) = sy_channels s"
  "sy_alerts (fst (recheck_domain E d s)) = sy_alerts s"
  "sy_lastGoodHours (fst (recheck_domain E d s)) = sy_lastGoodHours s"
  "sy_operators (fst (recheck_domain E d s)) = sy_operators s"
  "sy_audit (fst (recheck_domain E d s)) = sy_audit s"
  "sy_bus (fst (recheck_domain E d s)) = sy_bus s"
  "sy_epoch (fst (recheck_domain E d s)) = sy_epoch s"
  "sy_published (fst (recheck_domain E d s)) = sy_published s"
  "sy_checks (fst (recheck_domain E d s)) = sy_checks s"
  "sy_history (fst (recheck_domain E d s)) = sy_history s"
  using recheck_domain_state [of E d s] by auto

lemmas run_defs = on_resource_def with_uuid_def put_dkim_def read_domain_state Let_def

lemmas run_splits = option.splits prod.splits

lemma run_suppressions:
  "sy_suppressions (fst (run E c s)) = sy_suppressions s \<or>
     suppression_step (sy_suppressions s) (sy_suppressions (fst (run E c s)))"
  by (cases c) (auto simp: run_defs split: run_splits intro: suppression_step.intros)

lemma run_channels:
  assumes "env_ok C key parse E"
  shows "sy_channels (fst (run E c s)) = sy_channels s \<or>
     channel_step C key parse (sy_channels s) (sy_channels (fst (run E c s)))"
proof -
  from assms obtain rnd where "entropy_ok rnd" "en_enc E = encrypt C key rnd" "en_parseURL E = parse"
    by (auto simp: env_ok_def)
  then show ?thesis
    by (cases c) (auto simp: run_defs split: run_splits intro: channel_step.step_delete [OF prod.collapse [symmetric]]
      channel_step.step_post [OF _ prod.collapse [symmetric]] channel_step.step_put [OF _ prod.collapse [symmetric]])
qed

lemma run_memory:
  "sy_alerts (fst (run E c s)) = sy_alerts s" "sy_lastGoodHours (fst (run E c s)) = sy_lastGoodHours s"
  "sy_bus (fst (run E c s)) = sy_bus s" "sy_audit (fst (run E c s)) = sy_audit s"
  by (cases c; auto simp: run_defs split: run_splits)+

lemma run_settings:
  "sy_settings (fst (run E c s)) = sy_settings s \<or> (\<exists>k v. sy_settings (fst (run E c s)) = AList.update k v (sy_settings s))"
  by (cases c) (auto simp: run_defs put_setting_def split: run_splits)

definition opens :: "cipher \<Rightarrow> string option \<Rightarrow> secret_table \<Rightarrow> bool" where
  "opens C key tbl \<longleftrightarrow> (\<forall>e \<in> ran tbl. \<exists>p. decrypt C key (Some e) = Inr p)"

lemma opens_update: "opens C key tbl \<Longrightarrow> decrypt C key (Some e) = Inr p \<Longrightarrow> opens C key (tbl(r \<mapsto> e))"
  "opens C key tbl \<Longrightarrow> opens C key (tbl(r := None))"
  by (auto simp: opens_def ran_def split: if_splits)

lemma generate_key_secrets:
  "ds_secrets (fst (fst (generate_key up pu enc kp d se st))) = ds_secrets st \<or>
     (\<exists>r e p. enc p = Inr e \<and> ds_secrets (fst (fst (generate_key up pu enc kp d se st))) = (ds_secrets st)(r \<mapsto> e))"
  by (auto simp: generate_key_def Let_def split: sum.splits)

lemma run_secrets:
  assumes "env_ok C key parse E" "cipher_ok C" "opens C key (sy_secrets s)"
  shows "opens C key (sy_secrets (fst (run E c s)))"
proof -
  from assms(1) obtain rnd where r: "entropy_ok rnd" "en_enc E = encrypt C key rnd" by (auto simp: env_ok_def)
  then have enc: "en_enc E p = Inr e \<Longrightarrow> decrypt C key (Some e) = Inr p" for p e using sealed [OF assms(2) r(1)] by simp
  show ?thesis
  proof (cases c)
    case (GenerateKey d se)
    then show ?thesis
      using generate_key_secrets [of "en_up E" "pub_up E s" "en_enc E" "en_keypair E" d se
          "\<lparr>ds_secrets = sy_secrets s, ds_keys = keys_of s\<rparr>"] assms(3) opens_update(1) enc
      by (auto simp: put_dkim_def)
  qed (use assms(3) opens_update enc in \<open>auto simp: run_defs put_secret_def delete_secret_def split: run_splits sum.splits\<close>)
qed

lemma key_of_set_key [simp]: "key_of_row (set_key k row) = k"
  by (simp add: key_of_row_def set_key_def text_col_def)

lemma keys_put [simp]: "map key_of_row (put_keys d ks rows) = ks"
  by (induction d ks rows rule: put_keys.induct) (auto simp: o_def)

lemma put_keys_same [simp]: "put_keys d (map key_of_row rows) rows = rows"
  by (induction rows) auto

lemma generate_key_ids:
  assumes "distinct (map key_id (ds_keys st))"
  shows "distinct (map key_id (ds_keys (fst (fst (generate_key up pu enc kp d se st)))))"
proof -
  obtain st' code published dns where g: "generate_key up pu enc kp d se st = ((st', code, published), dns)"
    by (cases "generate_key up pu enc kp d se st", cases "fst (generate_key up pu enc kp d se st)") auto
  from generate_key_keys [OF g] assms show ?thesis using upsert_ids retire_ids
    by (auto simp: g simp del: map_map)
qed

lemma crud_ok:
  "fst (post_row pu ok d r b t) \<noteq> t \<Longrightarrow> ok (fst (post_row pu ok d r b t))"
  "fst (put_row pu ok r i b t) \<noteq> t \<Longrightarrow> ok (fst (put_row pu ok r i b t))"
  "fst (delete_row pu ok r i t) \<noteq> t \<Longrightarrow> ok (fst (delete_row pu ok r i t))"
  by (auto simp: post_row_def put_row_def delete_row_def Let_def split: prod.splits)

lemma run_rows:
  "sy_rows (fst (run E c s)) n = sy_rows s n \<or> en_ok E n (sy_rows (fst (run E c s)) n) \<or>
     (n = ''dkim-keys'' \<and> (\<exists>up pu enc kp d se. map key_of_row (sy_rows (fst (run E c s)) n) =
        ds_keys (fst (fst (generate_key up pu enc kp d se \<lparr>ds_secrets = sy_secrets s, ds_keys = keys_of s\<rparr>)))))"
proof (cases c)
  case (GenerateKey d se)
  then show ?thesis by (cases "n = ''dkim-keys''") (auto simp: run_defs simp del: map_map, blast)
qed (auto simp: run_defs split: run_splits dest: crud_ok)

lemma run_key_rows:
  assumes "env_ok C key parse E" "key_rows_ok (sy_rows s ''dkim-keys'')"
  shows "key_rows_ok (sy_rows (fst (run E c s)) ''dkim-keys'')"
  using run_rows [of E c s "''dkim-keys''"] assms generate_key_ids
  by (auto simp: env_ok_def key_rows_ok_def keys_of_def simp del: map_map)

lemma run_domains:
  assumes "env_ok C key parse E" "domains_ok (sy_rows s ''relay-domains'')"
  shows "domains_ok (sy_rows (fst (run E c s)) ''relay-domains'')"
  using run_rows [of E c s "''relay-domains''"] assms by (auto simp: env_ok_def)

lemma run_accounts:
  assumes "env_ok C key parse E" "distinct (map ac_username (sy_accounts s))"
  shows "distinct (map ac_username (sy_accounts (fst (run E c s))))"
proof -
  have ok: "en_accounts_ok E t \<Longrightarrow> distinct (map ac_username t)" for t using assms(1) by (simp add: env_ok_def)
  have "fst (fst (post_account pu (en_accounts_ok E) h i n b t)) = t \<or> en_accounts_ok E (fst (fst (post_account pu (en_accounts_ok E) h i n b t)))"
    "fst (fst (put_account pu (en_accounts_ok E) h i2 b t)) = t \<or> en_accounts_ok E (fst (fst (put_account pu (en_accounts_ok E) h i2 b t)))"
    "\<exists>P. fst (delete_account pu i2 t) = filter P t" for pu h i i2 n b t
    by (auto simp: post_account_def put_account_def delete_account_def Let_def split: option.splits intro: filter_True [symmetric])
  then have acc: "distinct (map ac_username (fst (fst (post_account pu (en_accounts_ok E) h i n b (sy_accounts s)))))"
    "distinct (map ac_username (fst (fst (put_account pu (en_accounts_ok E) h i2 b (sy_accounts s)))))"
    "distinct (map ac_username (fst (delete_account pu i2 (sy_accounts s))))" for pu h i i2 n b
    using ok assms(2) by (metis distinct_map_filter)+
  show ?thesis using acc assms(2) by (cases c) (auto simp: run_defs split: run_splits)
qed

definition dns_ok :: "dns_store \<Rightarrow> bool" where
  "dns_ok st \<longleftrightarrow> distinct (map DnsStore.row_key (st_checks st))"

lemma insert_rows_distinct:
  "insert_rows up k rs tbl = Some tbl' \<Longrightarrow> distinct (map DnsStore.row_key tbl) \<Longrightarrow> distinct (map DnsStore.row_key tbl')"
  by (induction rs arbitrary: k tbl) (auto simp: insert_row_def split: if_splits option.splits)

lemma persistCheck_dns_ok: "dns_ok st \<Longrightarrow> dns_ok (fst (persistCheck up rep st))"
  by (auto simp: persistCheck_def dns_ok_def Let_def distinct_map_filter dest: insert_rows_distinct split: option.splits)

lemma refresh_run_dns_ok: "dns_ok st \<Longrightarrow> dns_ok (fst (refresh_run n cf now up ds st))"
proof (induction ds arbitrary: st)
  case (Cons d ds)
  have "dns_ok (fst (refresh_one n cf now up d st))"
    using Cons.prems persistCheck_dns_ok [OF Cons.prems] by (auto simp: refresh_one_def split: option.splits prod.splits) (metis fst_conv)
  from Cons.IH [OF this] show ?case by (auto split: prod.splits)
qed simp

lemma refreshAll_dns_ok: "dns_ok st \<Longrightarrow> dns_ok (fst (refreshAll n cf now up ds st))"
  using refresh_run_dns_ok [of st n cf now up ds] by (auto simp: refreshAll_def split: prod.splits)

lemma dns_view_put [simp]: "dns_ok (dns_view (put_dns st s)) = dns_ok st" "dns_ok (dns_view (s\<lparr>sy_pending := p\<rparr>)) = dns_ok (dns_view s)"
  by (simp_all add: dns_view_def put_dns_def dns_ok_def)

lemma run_dns:
  assumes "dns_ok (dns_view s)"
  shows "dns_ok (dns_view (fst (run E c s)))"
proof -
  have "dns_ok (dns_view (fst (recheck_all E s)))"
    using recheck_all_state [of E s] assms refreshAll_dns_ok by auto
  then show ?thesis using assms
    by (cases c) (auto simp: run_defs dns_view_def dns_ok_def split: run_splits)
qed

definition epochs_ok :: "sys \<Rightarrow> bool" where
  "epochs_ok s \<longleftrightarrow> sorted_wrt (<) (map ev_epoch (sy_published s)) \<and> (\<forall>ev \<in> set (sy_published s). ev_epoch ev \<le> sy_epoch s)"

lemma publish_event: "publish E s sl = Inr (Some (c, ev)) \<Longrightarrow> ev_epoch ev = Suc (sy_epoch s) \<and> ev_slices ev = sl"
  by (auto simp: publish_def publishConfigChanged_def nextEpoch_def split: option.splits if_splits)

lemma emit_epochs: "epochs_ok s \<Longrightarrow> epochs_ok (emit E sls s)"
proof (induction sls arbitrary: s)
  case (Cons sl sls)
  show ?case
  proof (cases "\<exists>c ev. publish E s sl = Inr (Some (c, ev))")
    case True
    then obtain c ev where p: "publish E s sl = Inr (Some (c, ev))" by blast
    have "epochs_ok (s\<lparr>sy_epoch := ev_epoch ev, sy_published := sy_published s @ [ev]\<rparr>)"
      using Cons.prems publish_event [OF p] by (fastforce simp: epochs_ok_def sorted_wrt_append)
    from Cons.IH [OF this] show ?thesis by (simp add: emit.simps p)
  next
    case False
    then have "emit E (sl # sls) s = emit E sls s" by (auto simp: emit.simps split: sum.splits option.splits)
    then show ?thesis using Cons by simp
  qed
qed simp

lemma run_epochs: "epochs_ok s \<Longrightarrow> epochs_ok (fst (run E c s))"
proof -
  assume ok: "epochs_ok s"
  have "epochs_ok (emit E sls t)" if "sy_epoch t = sy_epoch s" "sy_published t = sy_published s" for sls t
    using ok that by (intro emit_epochs) (simp add: epochs_ok_def)
  moreover have "epochs_ok t" if "sy_epoch t = sy_epoch s" "sy_published t = sy_published s" for t
    using ok that by (simp add: epochs_ok_def)
  ultimately show ?thesis
    using ok by (cases c) (auto simp: run_defs split: run_splits)
qed

text \<open>The whole request: rejected, or the handler's state; an audit row may follow.\<close>

lemma handle_state:
  assumes "handle E req c s = (s', code, sent)"
  shows "\<exists>log. s' = s\<lparr>sy_audit := log\<rparr> \<or> s' = fst (run E c s)\<lparr>sy_audit := log\<rparr>"
  using assms by (auto simp: handle_def Let_def split: prod.splits if_splits)

lemma run_tick_state:
  assumes "run_tick E s = (s', effs, ms)"
  shows "\<exists>sc. tick (tick_env_of E s) (scheduler_view s) = (sc, effs, ms) \<and>
     s' = (put_dns (sc_store sc) s)\<lparr>sy_alerts := sc_alerts sc, sy_lastGoodHours := sc_lastGoodHours sc\<rparr>"
  using assms by (auto simp: run_tick_def split: prod.splits)

lemma dispatch_loop_alert_ok:
  "\<forall>r \<in> ran tbl. alert_ok r \<Longrightarrow> \<forall>r \<in> ran (fst (dispatch_loop env ids up channels reps tbl)). alert_ok r"
proof (induction reps arbitrary: tbl)
  case (Cons rep reps)
  obtain tbl1 res where ev: "evalTransition (up (dr_domain rep)) (dr_domain rep) (dr_status rep) tbl = (tbl1, res)"
    by (cases "evalTransition (up (dr_domain rep)) (dr_domain rep) (dr_status rep) tbl")
  from Cons.IH [OF alert_ok_step [OF Cons.prems ev]] show ?case by (simp add: ev Let_def split: prod.splits)
qed simp

lemma dispatchAlerts_alert_ok:
  "\<forall>r \<in> ran tbl. alert_ok r \<Longrightarrow> \<forall>r \<in> ran (fst (dispatchAlerts env ids up table reps tbl)). alert_ok r"
  using dispatch_loop_alert_ok [of tbl] by (auto simp: dispatchAlerts_def Let_def split: option.splits)

lemma tick_keeps:
  assumes "tick E s = (s', effs, ms)" "dns_ok (sc_store s)" "\<forall>r \<in> ran (sc_alerts s). alert_ok r" "0 < sc_lastGoodHours s"
  shows "dns_ok (sc_store s') \<and> (\<forall>r \<in> ran (sc_alerts s'). alert_ok r) \<and> 0 < sc_lastGoodHours s'"
proof -
  obtain st reports where r: "refreshAll (te_net E) (te_config E) (te_now E) (te_persist_up E) (te_order E) (sc_store s) = (st, reports)"
    by (cases "refreshAll (te_net E) (te_config E) (te_now E) (te_persist_up E) (te_order E) (sc_store s)")
  have "dns_ok st" using refreshAll_dns_ok [OF assms(2)] r by (metis fst_conv)
  moreover have "\<forall>r \<in> ran (fst (dispatchAlerts (te_alert_env E) (te_ids E) (te_alert_up E) (te_channels E) reports (sc_alerts s))). alert_ok r"
    by (rule dispatchAlerts_alert_ok [OF assms(3)])
  moreover have "0 < sc_lastGoodHours s'"
    using tick_lastGood [of E s] intervalHours_pos [OF assms(4)] assms(1) by simp
  ultimately show ?thesis using assms(1,2,3) r by (auto simp: tick_def Let_def split: prod.splits if_splits)
qed

section \<open>The invariant\<close>

text \<open>
  What every reachable state of the API satisfies: addresses are suppressed once and in lower
  case, channels can be delivered to, alert rows are consistent, the bus has one connection
  attempt, the cadence is positive, the keys of the tables are unique, every stored secret
  can be opened, and the epochs announced so far increase.
\<close>

definition sys_ok :: "cipher \<Rightarrow> string option \<Rightarrow> (string \<Rightarrow> url option) \<Rightarrow> sys \<Rightarrow> bool" where
  "sys_ok C key parse s \<longleftrightarrow>
     suppressions_ok (sy_suppressions s) \<and> (\<forall>c \<in> set (sy_channels s). channel_ok C key parse c) \<and>
     (\<forall>r \<in> ran (sy_alerts s). alert_ok r) \<and> bus_inv (sy_bus s) \<and> 0 < sy_lastGoodHours s \<and>
     domains_ok (sy_rows s ''relay-domains'') \<and> key_rows_ok (sy_rows s ''dkim-keys'') \<and>
     distinct (map ac_username (sy_accounts s)) \<and> opens C key (sy_secrets s) \<and> dns_ok (dns_view s) \<and>
     distinct (map fst (sy_settings s)) \<and> epochs_ok s"

lemma sys_ok_audit [simp]: "sys_ok C key parse (s\<lparr>sy_audit := a\<rparr>) = sys_ok C key parse s"
  by (simp add: sys_ok_def dns_view_def dns_ok_def epochs_ok_def)

lemma sys_ok_run:
  assumes "env_ok C key parse E" "cipher_ok C" "sys_ok C key parse s"
  shows "sys_ok C key parse (fst (run E c s))"
proof -
  note I = assms(3) [unfolded sys_ok_def]
  have "suppressions_ok (sy_suppressions (fst (run E c s)))"
    using I run_suppressions [of E c s] suppression_step_ok by metis
  moreover have "\<forall>x \<in> set (sy_channels (fst (run E c s))). channel_ok C key parse x"
    using I run_channels [OF assms(1), of c s] channel_step_ok [OF assms(2)] by metis
  moreover have "distinct (map fst (sy_settings (fst (run E c s))))"
    using I run_settings [of E c s] distinct_update by metis
  ultimately show ?thesis
    using I run_secrets [OF assms(1,2), of s c] run_key_rows [OF assms(1), of s c] run_domains [OF assms(1), of s c]
      run_accounts [OF assms(1), of s c] run_dns [of s E c] run_epochs [of s E c]
    unfolding sys_ok_def run_memory by blast
qed

lemma sys_ok_tick:
  assumes "run_tick E s = (s', effs, ms)" "sys_ok C key parse s"
  shows "sys_ok C key parse s'"
proof -
  from run_tick_state [OF assms(1)] obtain sc where t: "tick (tick_env_of E s) (scheduler_view s) = (sc, effs, ms)"
    and s': "s' = (put_dns (sc_store sc) s)\<lparr>sy_alerts := sc_alerts sc, sy_lastGoodHours := sc_lastGoodHours sc\<rparr>" by blast
  have "dns_ok (sc_store sc) \<and> (\<forall>r \<in> ran (sc_alerts sc). alert_ok r) \<and> 0 < sc_lastGoodHours sc"
    using assms(2) by (intro tick_keeps [OF t]) (simp_all add: sys_ok_def scheduler_view_def)
  with assms(2) show ?thesis
    unfolding s' by (simp add: sys_ok_def put_dns_def dns_view_def dns_ok_def epochs_ok_def)
qed

lemma sys_ok_step:
  assumes "cipher_ok C" "sys_ok C key parse s" "sys_step C key parse s s'"
  shows "sys_ok C key parse s'"
  using assms(3)
proof (cases rule: sys_step.cases)
  case (step_request E req c code out1)
  from handle_state [OF step_request(3)] sys_ok_run [OF step_request(1) assms(1,2), of c] assms(2)
  show ?thesis by auto
next
  case (step_tick E effs ms)
  from sys_ok_tick [OF step_tick(2) assms(2)] show ?thesis .
next
  case (step_persist i up)
  have "dns_ok (fst (persistCheck up (sy_pending s ! i) (dns_view s)))"
    using assms(2) by (intro persistCheck_dns_ok) (simp add: sys_ok_def)
  with assms(2) show ?thesis
    unfolding step_persist by (simp add: run_persist_def sys_ok_def put_dns_def dns_view_def dns_ok_def epochs_ok_def)
next
  case (step_start dialed email up)
  with assms(2) bus_inv_init show ?thesis
    by (simp add: run_start_def sys_ok_def dns_view_def dns_ok_def epochs_ok_def)
next
  case (step_bus b)
  with assms(2) bus_inv_step show ?thesis by (simp add: sys_ok_def dns_view_def dns_ok_def epochs_ok_def) blast
next
  case (step_epoch n)
  with assms(2) show ?thesis by (fastforce simp add: sys_ok_def dns_view_def dns_ok_def epochs_ok_def)
qed

lemma sys_ok_init: "sys_ok C key parse sys_init"
  by (simp add: sys_ok_def sys_init_def suppressions_ok_def bus_inv_init domains_ok_def key_rows_ok_def opens_def
    dns_ok_def dns_view_def epochs_ok_def)

interpretation api: machine_invariant "\<lambda>s. s = sys_init" "sys_step C key parse"
    "\<lambda>s. cipher_ok C \<longrightarrow> sys_ok C key parse s" for C key parse
  by unfold_locales (auto intro: sys_ok_init sys_ok_step)

section \<open>Routes and hooks\<close>

lemma js_split_Cons_sep [simp]: "js_split c (c # s) = [] # js_split c s"
  by simp

lemma split_api_auth: "js_split CHR ''/'' (''/api/auth/'' @ rest) = [] # ''api'' # ''auth'' # js_split CHR ''/'' rest"
  using js_split_append_sep [of "CHR ''/''" "''api''" "''auth/'' @ rest"] js_split_append_sep [of "CHR ''/''" "''auth''" rest]
  by simp

lemma resource_names: "fst ` set RESOURCES =
   {''providers'', ''routing-rules'', ''relay-domains'', ''rate-limits'', ''relay-clients'', ''dkim-keys'', ''tls-policy''}"
  by (simp add: RESOURCES_def)

lemma api_path:
  assumes "registered c" "fits (snd (endpoint c)) ss" "c \<notin> {Healthz, Readyz, AuthTraffic}"
  shows "\<exists>n rest. ss = ''api'' # n # rest \<and> n \<noteq> ''auth''"
proof -
  have "\<exists>n pat. snd (endpoint c) = Lit ''api'' # Lit n # pat \<and> n \<noteq> ''auth''"
  proof (cases c)
    case (ListRows n)
    with assms(1) resource_names show ?thesis by (intro exI [of _ n]) auto
  next
    case (PostRow n b)
    with assms(1) resource_names show ?thesis by (intro exI [of _ n]) auto
  next
    case (PutRow n i b)
    with assms(1) resource_names show ?thesis by (intro exI [of _ n]) auto
  next
    case (DeleteRow n i)
    with assms(1) resource_names show ?thesis by (intro exI [of _ n]) auto
  qed (use assms(3) in simp_all)
  then obtain n pat where "snd (endpoint c) = Lit ''api'' # Lit n # pat" "n \<noteq> ''auth''" by blast
  with assms(2) show ?thesis by (cases ss; cases "tl ss") auto
qed

text \<open>Nothing but the health endpoints and the session traffic is open.\<close>

lemma open_calls:
  assumes "addressed req c" "is_open req"
  shows "c \<in> {Healthz, Readyz, AuthTraffic}"
proof -
  let ?p = "before CHR ''?'' (rq_url req)"
  have "js_startsWith ?p x \<Longrightarrow> \<exists>rest. ?p = x @ rest" for x
    unfolding js_startsWith_def by (metis append_take_drop_id)
  with assms(2) consider "?p = ''/healthz''" | "?p = ''/readyz''" | rest where "?p = ''/api/auth/'' @ rest"
    unfolding is_open_def OPEN_PATHS_def by blast
  then have segs: "path_segs req \<in> {[[], ''healthz''], [[], ''readyz'']} \<or> (\<exists>rest. path_segs req = [] # ''api'' # ''auth'' # rest)"
    by cases (simp_all add: path_segs_def split_api_auth)
  show ?thesis
  proof (rule ccontr)
    assume c: "c \<notin> {Healthz, Readyz, AuthTraffic}"
    with assms(1) obtain ss where f: "path_segs req = [] # ss" "fits (snd (endpoint c)) ss" "registered c"
      by (auto simp: addressed_def)
    from api_path [OF f(3,2) c] obtain n rest where "path_segs req = [] # ''api'' # n # rest" "n \<noteq> ''auth''"
      using f(1) by blast
    with segs show False by auto
  qed
qed

lemma addressed_method:
  assumes "addressed req c" "\<not> mutating req" "c \<noteq> AuthTraffic"
  shows "fst (endpoint c) = ''GET''"
proof (rule ccontr)
  assume n: "fst (endpoint c) \<noteq> ''GET''"
  with assms(1,3) have m: "rq_method req = fst (endpoint c)" by (auto simp: addressed_def)
  have "js_upper ''POST'' \<in> MUTATING" "js_upper ''PUT'' \<in> MUTATING" "js_upper ''DELETE'' \<in> MUTATING" by code_simp+
  with n assms(2,3) m show False by (cases c) (simp_all add: mutating_def)
qed

lemma addressed_mutating:
  assumes "addressed req c" "fst (endpoint c) \<noteq> ''GET''" "c \<noteq> AuthTraffic"
  shows "mutating req"
  using addressed_method assms by blast

text \<open>The reads: no table changes, nothing is sent.\<close>

lemma read_same:
  assumes "fst (endpoint c) = ''GET''" "c \<notin> {GetDeliverability, GetSummary}"
  shows "fst (run E c s) = s \<and> snd (snd (run E c s)) = []"
proof (cases c)
  case (ListRows n)
  then show ?thesis by (simp add: run_defs split: option.splits)
next
  case (GetDomain d)
  then show ?thesis by (simp add: read_domain_def split: reply.splits)
qed (use assms in simp_all)

lemma read_only:
  assumes "fst (endpoint c) = ''GET''"
  shows "\<exists>live. fst (run E c s) = s\<lparr>sy_pending := sy_pending s @ live\<rparr> \<and> snd (snd (run E c s)) = [] \<and>
     (live \<noteq> [] \<longrightarrow> c \<in> {GetDeliverability, GetSummary})"
proof (cases "c \<in> {GetDeliverability, GetSummary}")
  case True
  have "\<exists>live. fst (all_reports E s) = s\<lparr>sy_pending := sy_pending s @ live\<rparr> \<and> snd (snd (all_reports E s)) = []"
    by (auto simp: all_reports_def split: option.splits intro: exI [of _ "[]"])
  with True show ?thesis by (elim insertE) simp_all
next
  case False
  with read_same [OF assms False, of E s] show ?thesis by (intro exI [of _ "[]"]) simp
qed

definition unprivileged :: "env \<Rightarrow> request \<Rightarrow> bool" where
  "unprivileged E req \<longleftrightarrow> (case rq_session req of
     Some se \<Rightarrow> se_role se \<noteq> Some ''admin''
   | None \<Rightarrow> en_api_key E \<in> {None, Some []} \<or> rq_api_key req \<noteq> en_api_key E)"

lemma rejected_4xx: "onRequest key req = Reject code \<Longrightarrow> code \<in> {401, 403}"
  by (auto simp: onRequest_def Let_def split: if_splits option.splits)

lemma handle_rejected:
  "onRequest (en_api_key E) req = Reject code \<Longrightarrow> handle E req c s = (s, code, [])"
  using rejected_4xx [of "en_api_key E" req code]
  by (auto simp: handle_def serve_def onResponse_def split: prod.splits)

lemma handle_accepted:
  assumes "onRequest (en_api_key E) req = Proceed actor role" "run E c s = (s1, code, out1)"
  shows "handle E req c s =
    (s1\<lparr>sy_audit := sy_audit s1 @ (if en_audit_up E then
        (case onResponse req actor (Some (route_text c)) code of Some row \<Rightarrow> [(row, en_now E)] | None \<Rightarrow> []) else [])\<rparr>,
     code, out1)"
  using assms by (auto simp: handle_def serve_def Let_def split: option.splits)

lemma get_not_mutating:
  assumes "addressed req c" "fst (endpoint c) = ''GET''" "c \<noteq> AuthTraffic"
  shows "\<not> mutating req"
proof -
  have "js_upper ''GET'' \<notin> MUTATING" "js_upper ''HEAD'' \<notin> MUTATING" by code_simp+
  with assms show ?thesis by (auto simp: addressed_def mutating_def)
qed

section \<open>Changes and announcements\<close>

text \<open>
  The slices of configuration in which two states differ. A secret counts for the keys (the
  endpoint of the secrets announces the providers too).
\<close>

definition slices_changed :: "sys \<Rightarrow> sys \<Rightarrow> string set" where
  "slices_changed s s' =
     {rs_slice r | n r. (n, r) \<in> set RESOURCES \<and> sy_rows s' n \<noteq> sy_rows s n} \<union>
     (if sy_accounts s' = sy_accounts s then {} else {''accounts''}) \<union>
     (if sy_settings s' = sy_settings s then {} else {''settings''}) \<union>
     (if sy_secrets s' = sy_secrets s then {} else {''dkim_keys''}) \<union>
     (if sy_suppressions s' = sy_suppressions s then {} else {''suppressions''})"

definition announced :: "sys \<Rightarrow> sys \<Rightarrow> string set" where
  "announced s s' = (\<Union>ev \<in> set (drop (length (sy_published s)) (sy_published s')). set (ev_slices ev))"

definition bus_up :: "env \<Rightarrow> sys \<Rightarrow> bool" where
  "bus_up E s \<longleftrightarrow> bus_chan (sy_bus s) \<noteq> None \<and> en_epoch_up E \<and> en_chan_later E \<noteq> None"

lemma bus_up_pub_up: "bus_up E s \<Longrightarrow> pub_up E s"
  by (auto simp: bus_up_def pub_up_def publish_def publishConfigChanged_def)

lemma emit_one:
  assumes "bus_up E s" "sy_bus t = sy_bus s"
  shows "emit E [sl] t = t\<lparr>sy_epoch := Suc (sy_epoch t), sy_published := sy_published t @ [\<lparr>ev_epoch = Suc (sy_epoch t), ev_slices = sl\<rparr>]\<rparr>"
  using assms by (auto simp: emit.simps bus_up_def publish_def publishConfigChanged_def nextEpoch_def)

lemma slices_changed_simps [simp]:
  "slices_changed s (emit E sls t) = slices_changed s t" "slices_changed s s = {}"
  "slices_changed s (t\<lparr>sy_audit := a\<rparr>) = slices_changed s t"
  "slices_changed s (t\<lparr>sy_epoch := n, sy_published := ps\<rparr>) = slices_changed s t"
  by (simp_all add: slices_changed_def)

lemma slices_put:
  "slices_changed s (put_rows n t s) \<subseteq> {rs_slice r | r. (n, r) \<in> set RESOURCES}"
  "slices_changed s (s\<lparr>sy_accounts := a\<rparr>) \<subseteq> {''accounts''}" "slices_changed s (s\<lparr>sy_settings := e\<rparr>) \<subseteq> {''settings''}"
  "slices_changed s (s\<lparr>sy_secrets := m\<rparr>) \<subseteq> {''dkim_keys''}"
  "slices_changed s (s\<lparr>sy_suppressions := u\<rparr>) \<subseteq> {''suppressions''}"
  by (auto simp: slices_changed_def)

lemma announce_one:
  assumes "bus_up E s" "sy_bus t = sy_bus s" "sy_published t = sy_published s" "slices_changed s t \<subseteq> set sl"
  shows "slices_changed s (emit E [sl] t) \<subseteq> announced s (emit E [sl] t)"
  using assms(3,4) unfolding emit_one [OF assms(1,2)] by (simp add: announced_def)

text \<open>A refused request changes nothing; what an accepted one changes it announces.\<close>

abbreviation contract :: "sys \<Rightarrow> reaction \<Rightarrow> bool" where
  "contract s x \<equiv> (400 \<le> fst (snd x) \<longrightarrow> fst x = s) \<and> (fst (snd x) < 400 \<longrightarrow> slices_changed s (fst x) \<subseteq> announced s (fst x))"

lemma wrote_contract:
  assumes "bus_up E s" "config_write r sl" "put t0 s = s" "\<And>t. slices_changed s (put t s) \<subseteq> set sl"
    and "\<And>t. sy_published (put t s) = sy_published s" "\<And>t. sy_bus (put t s) = sy_bus s"
  shows "contract s (wrote E put (r t0) s)"
proof (cases "400 \<le> fst (snd (r t0))")
  case True
  with config_write.refused [OF assms(2), of t0] assms(3) show ?thesis by simp
next
  case False
  with config_write.announced [OF assms(2), of t0]
  have "fst (wrote E put (r t0) s) = emit E [sl] (put (fst (r t0)) s)" by simp
  with announce_one [OF assms(1,6,5,4), of "fst (r t0)"] False show ?thesis by simp
qed

text \<open>Handlers of several statements, which may stop half-way.\<close>

fun several :: "call \<Rightarrow> bool" where
  "several (GenerateKey d se) \<longleftrightarrow> True"
| "several (PostFeedback p b) \<longleftrightarrow> True"
| "several RecheckAll \<longleftrightarrow> True"
| "several _ \<longleftrightarrow> False"

lemma resource_slice:
  assumes "map_of RESOURCES n = Some r"
  shows "slices_changed s (put_rows n t s) \<subseteq> set [rs_slice r]"
proof -
  have "distinct (map fst RESOURCES)" by code_simp
  with assms have "(n, r') \<in> set RESOURCES \<Longrightarrow> r' = r" for r' by (metis map_of_is_SomeI option.inject)
  with slices_put(1) [of s n t] show ?thesis by auto
qed

lemma put_rows_same [simp]: "put_rows n (sy_rows s n) s = s"
  by (simp add: put_rows_def)

lemma slices_local [simp]: "slices_changed s (s\<lparr>sy_pending := p\<rparr>) = {}" "slices_changed s (s\<lparr>sy_channels := t\<rparr>) = {}"
  by (simp_all add: slices_changed_def)

lemma row_contract:
  assumes "bus_up E s" "\<And>r. config_write (f r) [rs_slice r]"
  shows "contract s (on_resource n s (\<lambda>r. wrote E (put_rows n) (f r (sy_rows s n)) s))"
proof (cases "map_of RESOURCES n")
  case (Some r)
  have "contract s (wrote E (put_rows n) (f r (sy_rows s n)) s)"
    by (rule wrote_contract [where put = "put_rows n" and sl = "[rs_slice r]" and ?t0.0 = "sy_rows s n", OF assms])
       (simp_all only: put_rows_same put_frame resource_slice [OF Some])
  then show ?thesis by (simp only: on_resource_def Some option.case)
qed (simp add: on_resource_def)

lemma account_contract:
  "bus_up E s \<Longrightarrow> config_write r [''accounts''] \<Longrightarrow> contract s (wrote E (\<lambda>t s. s\<lparr>sy_accounts := t\<rparr>) (r (sy_accounts s)) s)"
  by (rule wrote_contract [where put = "\<lambda>t s. s\<lparr>sy_accounts := t\<rparr>" and sl = "[''accounts'']"])
     (simp_all only: set_simps slices_put, simp_all)

lemma setting_contract:
  "bus_up E s \<Longrightarrow> config_write r [''settings''] \<Longrightarrow> contract s (wrote E (\<lambda>t s. s\<lparr>sy_settings := t\<rparr>) (r (sy_settings s)) s)"
  by (rule wrote_contract [where put = "\<lambda>t s. s\<lparr>sy_settings := t\<rparr>" and sl = "[''settings'']"])
     (simp_all only: set_simps slices_put, simp_all)

lemma secret_contract:
  "bus_up E s \<Longrightarrow> config_write r [''providers'', ''dkim_keys''] \<Longrightarrow>
     contract s (wrote E (\<lambda>t s. s\<lparr>sy_secrets := t\<rparr>) (r (sy_secrets s)) s)"
  by (rule wrote_contract [where put = "\<lambda>t s. s\<lparr>sy_secrets := t\<rparr>" and sl = "[''providers'', ''dkim_keys'']"])
     (use slices_put(4) [of s] in auto)

lemma suppression_contract:
  "bus_up E s \<Longrightarrow> config_write r [''suppressions''] \<Longrightarrow>
     contract s (wrote E (\<lambda>t s. s\<lparr>sy_suppressions := t\<rparr>) (r (sy_suppressions s)) s)"
  by (rule wrote_contract [where put = "\<lambda>t s. s\<lparr>sy_suppressions := t\<rparr>" and sl = "[''suppressions'']"])
     (simp_all only: set_simps slices_put, simp_all)

lemma channel_refused:
  "400 \<le> snd (post_channel parse enc i b tbl) \<Longrightarrow> fst (post_channel parse enc i b tbl) = tbl"
  "400 \<le> snd (put_channel parse enc i b tbl) \<Longrightarrow> fst (put_channel parse enc i b tbl) = tbl"
  "400 \<le> snd (delete_channel i tbl) \<Longrightarrow> fst (delete_channel i tbl) = tbl"
  by (auto simp: post_channel_def put_channel_def delete_channel_def Let_def split: sum.splits if_splits)

lemma channel_contract:
  assumes "400 \<le> snd x \<Longrightarrow> fst x = sy_channels s"
  shows "contract s (put_channels x s)"
  using assms by simp

lemma uuid_contract:
  assumes "\<And>u. contract s (f u)"
  shows "contract s (with_uuid E i s f)"
  using assms by (cases "en_uuid E i") (simp_all add: with_uuid_def)

lemma answer_contract: "contract s (s, code, sent)"
  by simp

lemma reports_contract: "contract s (all_reports E s)" "contract s (recheck_domain E d s)"
proof -
  show "contract s (all_reports E s)"
    by (cases "getAllReports (en_net E) (config_of E s) (en_time E) (en_err E)
       (en_read_up E ''relay-domains'') (en_read_up E ''checks'') (dns_view s)") (simp_all add: all_reports_def split_beta)
  show "contract s (recheck_domain E d s)"
    by (cases "snd (post_check (en_net E) (config_of E s) (en_time E) (\<lambda>k. False) d (dns_view s))") (simp_all add: recheck_domain_def)
qed

lemma run_contract:
  assumes "bus_up E s" "c \<noteq> AuthTraffic" "\<not> several c"
  shows "contract s (run E c s)"
proof -
  note pu = eqTrueI [OF bus_up_pub_up [OF assms(1)]] and B = assms(1)
  show ?thesis
  proof (cases c)
    case (ListRows n)
    show ?thesis unfolding ListRows run.simps by (cases "map_of RESOURCES n") (simp_all add: on_resource_def)
  next
    case (PostRow n b)
    show ?thesis unfolding PostRow run.simps pu by (rule row_contract [OF B post.config_write_axioms])
  next
    case (PutRow n i b)
    show ?thesis unfolding PutRow run.simps pu by (rule row_contract [OF B put.config_write_axioms])
  next
    case (DeleteRow n i)
    show ?thesis unfolding DeleteRow run.simps pu by (rule row_contract [OF B delete.config_write_axioms])
  next
    case (PostAccount b)
    show ?thesis unfolding PostAccount run.simps pu by (rule account_contract [OF B post_account.config_write_axioms])
  next
    case (PutAccount i b)
    show ?thesis unfolding PutAccount run.simps pu by (rule account_contract [OF B put_account.config_write_axioms])
  next
    case (DeleteAccount i)
    show ?thesis unfolding DeleteAccount run.simps pu by (rule account_contract [OF B delete_account.config_write_axioms])
  next
    case (PutSecret r v)
    show ?thesis unfolding PutSecret run.simps pu by (rule secret_contract [OF B put_secret.config_write_axioms])
  next
    case (DeleteSecret r)
    show ?thesis unfolding DeleteSecret run.simps pu by (rule secret_contract [OF B delete_secret.config_write_axioms])
  next
    case (PutSetting k v)
    show ?thesis unfolding PutSetting run.simps pu by (rule setting_contract [OF B put_setting.config_write_axioms])
  next
    case (PostSuppression a r)
    show ?thesis unfolding PostSuppression run.simps pu by (rule suppression_contract [OF B post_suppression.config_write_axioms])
  next
    case (DeleteSuppression a)
    show ?thesis unfolding DeleteSuppression run.simps pu by (rule suppression_contract [OF B delete_suppression.config_write_axioms])
  next
    case (PostChannel b)
    show ?thesis unfolding PostChannel run.simps by (intro channel_contract channel_refused)
  next
    case (PutChannel i b)
    show ?thesis unfolding PutChannel run.simps by (intro uuid_contract channel_contract channel_refused)
  next
    case (DeleteChannel i)
    show ?thesis unfolding DeleteChannel run.simps by (intro uuid_contract channel_contract channel_refused)
  next
    case (TestChannel i)
    show ?thesis unfolding TestChannel run.simps by (intro uuid_contract) (simp add: split_beta)
  next
    case (GetDomain d)
    show ?thesis unfolding GetDomain run.simps using read_domain_state [of E d s] by simp
  next
    case (RecheckDomain d)
    show ?thesis unfolding RecheckDomain run.simps by (rule reports_contract)
  next
    case GetDeliverability
    show ?thesis unfolding GetDeliverability run.simps by (rule reports_contract)
  next
    case GetSummary
    show ?thesis unfolding GetSummary run.simps by (rule reports_contract)
  qed (use assms(2,3) in \<open>simp_all add: split_beta\<close>)
qed

lemma feedback_accepted:
  assumes "fst (snd (fst (feedback True now parse conv p b tbl))) < 400"
  shows "fst (fst (feedback True now parse conv p b tbl)) = tbl \<or>
     snd (snd (fst (feedback True now parse conv p b tbl))) = [[''suppressions'']]"
proof (cases "read_feedback parse b")
  case (Inr r)
  obtain addrs reason where r: "r = (addrs, reason)" by (cases r)
  obtain tbl' ok where t: "suppress_all now conv reason p addrs tbl = (tbl', ok)"
    by (cases "suppress_all now conv reason p addrs tbl")
  show ?thesis
  proof (cases "addrs = []")
    case True
    with Inr r t show ?thesis by (simp add: feedback_def)
  next
    case False
    with Inr r t assms show ?thesis by (cases ok) (simp_all add: feedback_def)
  qed
qed (use assms in \<open>simp add: feedback_def\<close>)

text \<open>An accepted request announces what it changed, the handlers of several statements included.\<close>

lemma accepted_announced:
  assumes "bus_up E s" "c \<noteq> AuthTraffic" "fst (snd (run E c s)) < 400"
  shows "slices_changed s (fst (run E c s)) \<subseteq> announced s (fst (run E c s))"
proof -
  note pu = bus_up_pub_up [OF assms(1)]
  consider (one) "\<not> several c" | (key) d se where "c = GenerateKey d se" | (fb) p b where "c = PostFeedback p b" | "c = RecheckAll"
    by (cases c) simp_all
  then show ?thesis
  proof cases
    case one
    with run_contract [OF assms(1,2)] assms(3) show ?thesis by blast
  next
    case (key d se)
    note GenerateKey = this
    let ?g = "generate_key (en_up E) True (en_enc E) (en_keypair E) d se \<lparr>ds_secrets = sy_secrets s, ds_keys = keys_of s\<rparr>"
    have "fst (snd (fst ?g)) < 400"
      using assms(3) pu unfolding GenerateKey by simp
    then have "snd (snd (fst ?g)) = [[''dkim_keys'']]"
      by (auto simp: generate_key_def Let_def split: if_splits sum.splits)
    then have "fst (run E c s) = emit E [[''dkim_keys'']] (put_dkim E (fst (fst ?g)) s)"
      using pu unfolding GenerateKey by simp
    moreover have "slices_changed s (put_dkim E st s) \<subseteq> {''dkim_keys''}" for st
    proof -
      have "map_of RESOURCES ''dkim-keys'' \<noteq> None" "map_option rs_slice (map_of RESOURCES ''dkim-keys'') = Some ''dkim_keys''" by code_simp+
      then obtain r where r: "map_of RESOURCES ''dkim-keys'' = Some r" "rs_slice r = ''dkim_keys''" by auto
      have "slices_changed s (put_dkim E st s) \<subseteq> slices_changed s (put_rows ''dkim-keys''
          (put_keys (en_defaults E ''dkim-keys'') (ds_keys st) (sy_rows s ''dkim-keys'')) s) \<union> {''dkim_keys''}"
        by (auto simp: slices_changed_def put_dkim_def)
      with resource_slice [OF r(1)] r(2) show ?thesis by fastforce
    qed
    moreover have "sy_bus (put_dkim E st s) = sy_bus s" "sy_published (put_dkim E st s) = sy_published s" for st
      by (simp_all add: put_dkim_def)
    ultimately show ?thesis using announce_one [OF assms(1)] by simp
  next
    case (fb p b)
    note PostFeedback = this
    let ?f = "feedback True (en_now E) (en_json E) (en_sql E) p b (sy_suppressions s)"
    have f: "run E c s = wrote E (\<lambda>t s. s\<lparr>sy_suppressions := t\<rparr>) (fst ?f) s" using pu unfolding PostFeedback by simp
    have "fst (snd (fst ?f)) < 400" using assms(3) unfolding f by (simp only: reaction_simps fst_conv snd_conv)
    from feedback_accepted [OF this] show ?thesis
    proof
      assume "snd (snd (fst ?f)) = [[''suppressions'']]"
      then have "fst (run E c s) = emit E [[''suppressions'']] (s\<lparr>sy_suppressions := fst (fst ?f)\<rparr>)"
        unfolding f by (simp only: reaction_simps fst_conv)
      then show ?thesis using announce_one [OF assms(1), of "s\<lparr>sy_suppressions := fst (fst ?f)\<rparr>"] slices_put(5) [of s] by simp
    next
      assume "fst (fst ?f) = sy_suppressions s"
      then show ?thesis unfolding f by (simp del: emit_frame)
    qed
  next
    assume "c = RecheckAll"
    moreover have "slices_changed s (fst (recheck_all E s)) = {}" by (simp add: slices_changed_def)
    ultimately show ?thesis by simp
  qed
qed

end
