(* ===== verification/SystemProps.thy ===== *)
theory SystemProps
  imports SystemFacts
begin

text \<open>
  The properties of the whole admin API: its invariant, what an unprivileged request can do, what
  a configuration change leaves behind, how the settings and the table of relay domains drive the
  background job, and that the routes do not overlap.
\<close>

section \<open>Properties\<close>

text \<open>A surrounding for the witnesses: everything works, no domain resolves.\<close>

definition sample_sys_env :: env where
  "sample_sys_env = \<lparr>en_api_key = Some ''k'', en_audit_up = True, en_now = 7, en_up = (\<lambda>k. True),
     en_read_up = (\<lambda>t. True), en_uuid = Some, en_numeric = (\<lambda>t. Some None),
     en_ok = (\<lambda>n t. (n = ''relay-domains'' \<longrightarrow> domains_ok t) \<and> (n = ''dkim-keys'' \<longrightarrow> key_rows_ok t)),
     en_defaults = (\<lambda>n. Map.empty), en_accounts_ok = (\<lambda>t. distinct (map ac_username t)), en_hash = (\<lambda>p. ''#''),
     en_new_id = ''n1'', en_enc = encrypt sample_cipher sample_key sample_entropy,
     en_decrypt = decrypt sample_cipher sample_key, en_keypair = sample_keypair, en_json = (\<lambda>t. None),
     en_sql = (\<lambda>v. []), en_parseURL = sample_parse, en_messages = [], en_events = [], en_room = True,
     en_chan_later = Some 0, en_epoch_up = True, en_auth = (\<lambda>ops. (ops, 200)), en_delivery = ''http://d'',
     en_fetch = (\<lambda>u. None), en_mgmt = Some (''http://m'', ''Basic ''), en_broker = (\<lambda>u a. None), en_purge = (\<lambda>u. True), en_net = sample_net [],
     en_time = sample_times, en_err = [], en_order = (\<lambda>ds. ds), en_persist_up = (\<lambda>d k. True),
     en_alert_up = (\<lambda>d k. True), en_alert_env = (\<lambda>c d. sample_env []), en_ids = (\<lambda>c d. ''m'')\<rparr>"

lemma sample_sys_env_ok: "env_ok sample_cipher sample_key sample_parse sample_sys_env"
proof -
  have "entropy_ok sample_entropy" by code_simp
  then show ?thesis by (auto simp: env_ok_def sample_sys_env_def)
qed

definition mk_request :: "string \<Rightarrow> string \<Rightarrow> string option \<Rightarrow> session option \<Rightarrow> request" where
  "mk_request m url key se = \<lparr>rq_method = m, rq_url = url, rq_api_key = key, rq_session = se\<rparr>"

definition connected_sys :: sys where
  "connected_sys = sys_init\<lparr>sy_bus := dial_ends 0 Connected bus_init\<rparr>"

lemma connected_reach: "reach (\<lambda>s. s = sys_init) (sys_step C key parse) connected_sys"
proof (rule reach_step [OF reach_init])
  have "bus_step bus_init (dial_ends 0 Connected bus_init)" by (rule step_dial) (simp add: bus_init_def dial_def)
  then show "sys_step C key parse sys_init connected_sys"
    unfolding connected_sys_def by (intro step_bus) (simp add: sys_init_def)
qed simp

lemma post_suppression_first:
  "a \<noteq> [] \<Longrightarrow> map sp_address (fst (post_suppression pu now (Some a) None [])) = [js_lower a]"
  by (simp add: post_suppression_def suppress_def reasons_def)



text \<open>
  C4: an unprivileged request changes nothing and sends nothing. A session without the admin role, and
  a request with neither session nor the configured key, leaves every table, the bus and the
  audit log as they are, whatever it asks for; at most it starts the live checks of relay domains
  that have no cached result. Without session it does not get that far: it is answered 401.
\<close>
theorem unprivileged_harmless:
  assumes "unprivileged E req" and "addressed req c" and "c \<noteq> AuthTraffic" and "handle E req c s = (s', code, out1)"
  shows "\<exists>live. s' = s\<lparr>sy_pending := sy_pending s @ live\<rparr> \<and> out1 = [] \<and>
     (live \<noteq> [] \<longrightarrow> c \<in> {GetDeliverability, GetSummary}) \<and>
     (rq_session req = None \<and> c \<notin> {Healthz, Readyz} \<longrightarrow> s' = s \<and> code = 401)"
proof (cases "onRequest (en_api_key E) req")
  case (Reject n)
  then have "handle E req c s = (s, n, [])" by (rule handle_rejected)
  moreover have "n = 401" if "rq_session req = None"
    using Reject that by (auto simp: onRequest_def split: if_splits)
  ultimately show ?thesis using assms(4) by (intro exI [of _ "[]"]) auto
next
  case (Proceed actor role)
  have get: "fst (endpoint c) = ''GET''"
  proof (cases "is_open req")
    case True
    with open_calls [OF assms(2)] assms(3) show ?thesis by auto
  next
    case False
    with Proceed assms(1) have "\<not> mutating req"
      unfolding onRequest_Proceed by (auto simp: unprivileged_def)
    with addressed_method [OF assms(2)] assms(3) show ?thesis by blast
  qed
  have open_if: "rq_session req = None \<Longrightarrow> c \<in> {Healthz, Readyz}"
    using Proceed assms(1,3) open_calls [OF assms(2)]
    unfolding onRequest_Proceed by (auto simp: unprivileged_def)
  obtain s1 n out2 where r: "run E c s = (s1, n, out2)" by (metis prod.exhaust)
  have "onResponse req actor (Some (route_text c)) n = None"
    using get_not_mutating [OF assms(2) get assms(3)] by (simp add: onResponse_def)
  then have "s' = s1" "out1 = out2"
    using handle_accepted [OF Proceed r] assms(4) by auto
  with read_only [OF get, of E s] open_if r show ?thesis by auto
qed

theorem unprivileged_harmless_witness:
  "\<exists>live code. handle sample_sys_env (mk_request ''DELETE'' ''/api/suppressions/a'' None
      (Some \<lparr>se_email = ''v@x'', se_role = Some ''user''\<rparr>)) (DeleteSuppression ''a'') connected_sys =
     (connected_sys\<lparr>sy_pending := sy_pending connected_sys @ live\<rparr>, code, [])"
proof -
  let ?q = "mk_request ''DELETE'' ''/api/suppressions/a'' None (Some \<lparr>se_email = ''v@x'', se_role = Some ''user''\<rparr>)"
  obtain s code out1 where h: "handle sample_sys_env ?q (DeleteSuppression ''a'') connected_sys = (s, code, out1)"
    by (metis prod.exhaust)
  have "unprivileged sample_sys_env ?q" "addressed ?q (DeleteSuppression ''a'')"
    by (simp_all add: unprivileged_def addressed_def mk_request_def path_segs_def before_def)
  from unprivileged_harmless [OF this _ h] obtain live where
    "s = connected_sys\<lparr>sy_pending := sy_pending connected_sys @ live\<rparr>" "out1 = []" by blast
  with h show ?thesis by blast
qed

text \<open>
  C1: every configuration change is authorised, announced and audited. While bus and audit log work, a
  request that is accepted and changes configuration announces every slice it changed, comes
  from an administrator's session or with the API key, and leaves exactly one audit row with that
  actor, the method and route, and the path. A refused request changes nothing at all, unless its
  handler is one of the three made of several statements.
\<close>
theorem change_announced_audited:
  assumes "addressed req c" and "c \<noteq> AuthTraffic" and "bus_up E s" and "en_audit_up E"
    and "handle E req c s = (s', code, out1)"
  shows "(400 \<le> code \<and> \<not> several c \<longrightarrow> s' = s) \<and>
     (code < 400 \<and> slices_changed s s' \<noteq> {} \<longrightarrow>
        slices_changed s s' \<subseteq> announced s s' \<and> \<not> unprivileged E req \<and>
        (\<exists>row. sy_audit s' = sy_audit s @ [(row, en_now E)] \<and>
          Auth.audit_row.au_actor row = (case rq_session req of Some se \<Rightarrow> se_email se | None \<Rightarrow> ''api-key'') \<and>
          Auth.audit_row.au_action row = js_upper (rq_method req) @ '' '' @ route_text c \<and>
          Auth.audit_row.au_target row = before CHR ''?'' (rq_url req)))"
proof (cases "onRequest (en_api_key E) req")
  case (Reject n)
  then have "handle E req c s = (s, n, [])" by (rule handle_rejected)
  with assms(5) show ?thesis by simp
next
  case (Proceed actor role)
  obtain s1 n out2 where r: "run E c s = (s1, n, out2)" by (metis prod.exhaust)
  have n: "n = code" using handle_accepted [OF Proceed r] assms(5) by simp
  have same_audit: "sy_audit s1 = sy_audit s" using run_memory(4) [of E c s] r by simp
  let ?row = "onResponse req actor (Some (route_text c)) code"
  have s': "s' = s1\<lparr>sy_audit := sy_audit s @ (case ?row of Some row \<Rightarrow> [(row, en_now E)] | None \<Rightarrow> [])\<rparr>"
    using handle_accepted [OF Proceed r] assms(4,5) by (simp add: same_audit n)
  show ?thesis
  proof (intro conjI impI)
    assume "400 \<le> code \<and> \<not> several c"
    moreover from this have "?row = None" by (simp add: onResponse_def)
    ultimately show "s' = s" using s' same_audit run_contract [OF assms(3,2)] r n by simp
  next
    assume "code < 400 \<and> slices_changed s s' \<noteq> {}"
    then have code: "code < 400" and ch: "slices_changed s s1 \<noteq> {}" by (simp_all add: s')
    show "slices_changed s s' \<subseteq> announced s s'"
      using accepted_announced [OF assms(3,2)] r n code by (simp add: s' announced_def)
    have notget: "fst (endpoint c) \<noteq> ''GET''"
    proof
      assume "fst (endpoint c) = ''GET''"
      from read_only [OF this, of E s] r have "\<exists>live. s1 = s\<lparr>sy_pending := sy_pending s @ live\<rparr>" by auto
      with ch show False by auto
    qed
    then have mut: "mutating req" using addressed_mutating assms(1,2) by blast
    have closed: "\<not> is_open req" using open_calls [OF assms(1)] notget assms(2) by auto
    with Proceed mut show "\<not> unprivileged E req"
      unfolding onRequest_Proceed by (auto simp: unprivileged_def)
    have "\<not> js_startsWith (rq_url req) ''/api/auth/''"
      using closed startsWith_before [of "CHR ''?''" "''/api/auth/''" "rq_url req"] by (simp add: is_open_def)
    then have row: "?row = Some \<lparr>Auth.audit_row.au_actor = (case actor of None \<Rightarrow> ''unknown'' | Some a \<Rightarrow> a),
        Auth.audit_row.au_action = js_upper (rq_method req) @ '' '' @ route_text c, Auth.audit_row.au_target = before CHR ''?'' (rq_url req)\<rparr>"
      using mut code by (simp add: onResponse_def)
    have "actor = Some (case rq_session req of Some se \<Rightarrow> se_email se | None \<Rightarrow> ''api-key'')"
      using Proceed closed unfolding onRequest_Proceed by auto
    with row show "\<exists>row. sy_audit s' = sy_audit s @ [(row, en_now E)] \<and>
          Auth.audit_row.au_actor row = (case rq_session req of Some se \<Rightarrow> se_email se | None \<Rightarrow> ''api-key'') \<and>
          Auth.audit_row.au_action row = js_upper (rq_method req) @ '' '' @ route_text c \<and>
          Auth.audit_row.au_target row = before CHR ''?'' (rq_url req)"
      by (simp add: s')
  qed
qed

lemma connected_bus_up: "bus_up sample_sys_env connected_sys"
  by (simp add: bus_up_def connected_sys_def dial_ends_def sample_sys_env_def)

lemma sample_key_proceeds:
  "\<not> is_open (mk_request m url (Some ''k'') None) \<Longrightarrow>
     onRequest (en_api_key sample_sys_env) (mk_request m url (Some ''k'') None) = Proceed (Some ''api-key'') None"
  by (simp add: onRequest_def sample_sys_env_def mk_request_def)

theorem change_announced_audited_witness:
  "\<exists>s code row. handle sample_sys_env (mk_request ''PUT'' ''/api/settings/hostname'' (Some ''k'') None)
       (PutSetting ''hostname'' (Some (JStr ''mx''))) connected_sys = (s, code, []) \<and>
     ''settings'' \<in> announced connected_sys s \<and> sy_audit s = [(row, 7)] \<and> Auth.audit_row.au_actor row = ''api-key'' \<and>
     Auth.audit_row.au_action row = ''PUT /api/settings/:key''"
proof -
  let ?q = "mk_request ''PUT'' ''/api/settings/hostname'' (Some ''k'') None"
  let ?c = "PutSetting ''hostname'' (Some (JStr ''mx''))"
  obtain s1 n out2 where r: "run sample_sys_env ?c connected_sys = (s1, n, out2)" by (metis prod.exhaust)
  have "\<not> is_open ?q" by code_simp
  note h = handle_accepted [OF sample_key_proceeds [OF this] r]
  have c0: "sy_settings connected_sys = []" "sy_audit connected_sys = []" by (simp_all add: connected_sys_def sys_init_def)
  have n: "n = 200" "out2 = []" "sy_settings s1 = [(''hostname'', JStr ''mx'')]"
    using r bus_up_pub_up [OF connected_bus_up] by (auto simp: put_setting_def announce_def c0)
  obtain s where s: "handle sample_sys_env ?q ?c connected_sys = (s, 200, [])" "sy_settings s = sy_settings s1"
    using h n by auto
  then have ch: "''settings'' \<in> slices_changed connected_sys s"
    using n by (simp add: slices_changed_def c0)
  have a: "addressed ?q ?c" by (simp add: addressed_def mk_request_def path_segs_def before_def)
  have up: "js_upper ''PUT'' = ''PUT''" by code_simp
  have "en_audit_up sample_sys_env" "en_now sample_sys_env = 7" by (simp_all add: sample_sys_env_def)
  with c0 change_announced_audited [OF a _ connected_bus_up _ s(1)] ch obtain row where
    "''settings'' \<in> announced connected_sys s" "sy_audit s = [(row, 7)]"
    "Auth.audit_row.au_actor row = ''api-key''" "Auth.audit_row.au_action row = ''PUT'' @ '' '' @ route_text ?c"
    by (auto simp: mk_request_def up)
  with s(1) show ?thesis by (auto simp: route_text_def seg_text_def)
qed

text \<open>
  C38: the cadence follows the settings. After the interval has been set through the API, whatever the
  state of the bus, every tick that reads it arms its timer with that many hours, and later ticks keep this
  cadence while the settings cannot be read.
\<close>
theorem interval_takes_effect:
  assumes "handle E req (PutSetting ''deliverability_interval_hours'' (Some (JNum h))) s = (s1, code, out1)"
    and "onRequest (en_api_key E) req = Proceed actor role" and "0 < h"
    and "en_read_up E1 ''settings''" and "run_tick E1 s1 = (s2, effs2, ms2)"
    and "\<not> en_read_up E2 ''settings''" and "run_tick E2 s2 = (s3, effs3, ms3)"
  shows "ms2 = timer_ms (h * 3600000) \<and> ms3 = ms2 \<and> sy_lastGoodHours s3 = h"
proof -
  obtain t n out2 where r: "run E (PutSetting ''deliverability_interval_hours'' (Some (JNum h))) s = (t, n, out2)"
    by (metis prod.exhaust)
  have "map_of (sy_settings t) ''deliverability_interval_hours'' = Some (JNum h)"
    using r by (auto simp: put_setting_def update_conv')
  then have "map_of (sy_settings s1) ''deliverability_interval_hours'' = Some (JNum h)"
    using handle_accepted [OF assms(2) r] assms(1) by auto
  then have i1: "interval_setting E1 s1 = Some (Some h)" using assms(4) by (simp add: interval_setting_def)
  have i2: "interval_setting E2 s2 = None" using assms(6) by (simp add: interval_setting_def)
  have tick: "ms = timer_ms (fst (intervalHours (interval_setting E s) (sy_lastGoodHours s)) * 3600000) \<and>
      sy_lastGoodHours s' = snd (intervalHours (interval_setting E s) (sy_lastGoodHours s))"
    if t: "run_tick E s = (s', effs, ms)" for E s s' effs ms
    using run_tick_state [OF t] tick_delay [of "tick_env_of E s" "scheduler_view s"] tick_lastGood [of "tick_env_of E s" "scheduler_view s"]
    by (auto simp: tick_env_of_def scheduler_view_def)
  from tick [OF assms(5)] i1 assms(3) have "ms2 = timer_ms (h * 3600000)" "sy_lastGoodHours s2 = h"
    by (simp_all add: intervalHours_def)
  with tick [OF assms(7)] i2 show ?thesis by (simp add: intervalHours_def)
qed

theorem interval_takes_effect_witness:
  "\<exists>s1 code s2 effs. handle sample_sys_env (mk_request ''PUT'' ''/api/settings/deliverability_interval_hours'' (Some ''k'') None)
       (PutSetting ''deliverability_interval_hours'' (Some (JNum 2))) connected_sys = (s1, code, []) \<and>
     run_tick sample_sys_env s1 = (s2, effs, timer_ms (2 * 3600000))"
proof -
  let ?q = "mk_request ''PUT'' ''/api/settings/deliverability_interval_hours'' (Some ''k'') None"
  let ?c = "PutSetting ''deliverability_interval_hours'' (Some (JNum 2))"
  have "\<not> is_open ?q" by code_simp
  note p = sample_key_proceeds [OF this]
  obtain s1 code out1 where h: "handle sample_sys_env ?q ?c connected_sys = (s1, code, out1)" by (metis prod.exhaust)
  obtain t n out2 where r: "run sample_sys_env ?c connected_sys = (t, n, out2)" by (metis prod.exhaust)
  then have "out2 = []" by auto
  then have o: "out1 = []" using handle_accepted [OF p r] h by simp
  let ?E2 = "sample_sys_env\<lparr>en_read_up := \<lambda>t. False\<rparr>"
  obtain s2 effs2 ms2 where t1: "run_tick sample_sys_env s1 = (s2, effs2, ms2)" by (metis prod.exhaust)
  obtain s3 effs3 ms3 where t2: "run_tick ?E2 s2 = (s3, effs3, ms3)" by (metis prod.exhaust)
  have "en_read_up sample_sys_env ''settings''" "\<not> en_read_up ?E2 ''settings''" by (simp_all add: sample_sys_env_def)
  with interval_takes_effect [OF h p _ _ t1 _ t2] have "ms2 = timer_ms (2 * 3600000)" by simp
  with h o t1 show ?thesis by blast
qed

text \<open>A reachable state with a relay domain and an enabled channel, for the witnesses.\<close>

abbreviation sample_reach :: "sys \<Rightarrow> bool" where
  "sample_reach \<equiv> reach (\<lambda>s. s = sys_init) (sys_step sample_cipher sample_key sample_parse)"

lemma sample_request:
  assumes "sample_reach s" "addressed (mk_request m url (Some ''k'') None) c" "c \<notin> {Healthz, Readyz, AuthTraffic}"
  shows "\<exists>log. sample_reach (fst (run sample_sys_env c s)\<lparr>sy_audit := log\<rparr>)"
proof -
  let ?q = "mk_request m url (Some ''k'') None"
  obtain s1 n out1 where r: "run sample_sys_env c s = (s1, n, out1)" by (metis prod.exhaust)
  have "\<not> is_open ?q" using open_calls [OF assms(2)] assms(3) by blast
  note h = handle_accepted [OF sample_key_proceeds [OF this] r]
  obtain x code out2 where x: "handle sample_sys_env ?q c s = (x, code, out2)" by (metis prod.exhaust)
  have "sys_step sample_cipher sample_key sample_parse s x"
    by (rule step_request [OF sample_sys_env_ok assms(2) x])
  with assms(1) have "sample_reach x" by (rule reach_step)
  moreover have "x = s1\<lparr>sy_audit := sy_audit x\<rparr>" using h x by auto
  ultimately show ?thesis unfolding r fst_conv by metis
qed

definition sample_channel_body :: channel_body where
  "sample_channel_body = \<lparr>cb_name = Some ''ops'', cb_type = Some ''email'', cb_url = None, cb_target = Some ''ops@a.io'',
     cb_min_severity = None, cb_enabled = None\<rparr>"

lemma sample_domain_post:
  "sy_rows (fst (run sample_sys_env (PostRow ''relay-domains'' [''domain'' \<mapsto> JStr ''a.io'']) connected_sys)) ''relay-domains'' =
     [[''domain'' \<mapsto> JStr ''a.io'']]"
proof -
  have "map_option rs_cols (map_of RESOURCES ''relay-domains'') = Some [''domain'', ''enabled'']" by code_simp
  then obtain r where r: "map_of RESOURCES ''relay-domains'' = Some r" "rs_cols r = [''domain'', ''enabled'']" by auto
  have "sy_rows connected_sys ''relay-domains'' = []" by (simp add: connected_sys_def sys_init_def)
  moreover have "en_ok sample_sys_env ''relay-domains'' [[''domain'' \<mapsto> JStr ''a.io'']]" "en_defaults sample_sys_env = (\<lambda>n. Map.empty)"
    by (simp_all add: sample_sys_env_def domains_ok_def text_col_def)
  ultimately show ?thesis by (simp add: on_resource_def r post_row_def Let_def)
qed

lemma sample_world:
  "\<exists>s. sample_reach s \<and> relay_domains s = [''a.io''] \<and> keys_of s = [] \<and> list_ex ch_enabled (sy_channels s) \<and>
     bus_up sample_sys_env s"
proof -
  let ?c = "PostRow ''relay-domains'' [''domain'' \<mapsto> JStr ''a.io'']"
  have a: "addressed (mk_request ''POST'' ''/api/relay-domains'' (Some ''k'') None) ?c"
    by (simp add: addressed_def mk_request_def path_segs_def before_def resource_names)
  obtain log where r1: "sample_reach (fst (run sample_sys_env ?c connected_sys)\<lparr>sy_audit := log\<rparr>)" (is "sample_reach ?s1")
    using sample_request [OF connected_reach a] by blast
  have s1: "sy_rows ?s1 ''relay-domains'' = [[''domain'' \<mapsto> JStr ''a.io'']]" "sy_rows ?s1 ''dkim-keys'' = []" "sy_channels ?s1 = []"
    using sample_domain_post run_channels [OF sample_sys_env_ok, of ?c connected_sys]
    by (simp_all add: on_resource_def connected_sys_def sys_init_def split: option.splits)
  let ?d = "PostChannel sample_channel_body"
  have b: "addressed (mk_request ''POST'' ''/api/alert-channels'' (Some ''k'') None) ?d"
    by (simp add: addressed_def mk_request_def path_segs_def before_def)
  obtain log2 where r2: "sample_reach (fst (run sample_sys_env ?d ?s1)\<lparr>sy_audit := log2\<rparr>)" (is "sample_reach ?s2")
    using sample_request [OF r1 b] by blast
  have "sy_bus ?s2 = sy_bus connected_sys" using run_memory(3) [of sample_sys_env ?c connected_sys] by simp
  then have "bus_up sample_sys_env ?s2" using connected_bus_up by (metis bus_up_def)
  moreover have "sy_rows ?s2 = sy_rows ?s1" by simp
  moreover have "list_ex ch_enabled (sy_channels ?s2)"
    using s1(3) by (simp add: post_channel_def sample_channel_body_def Let_def truthy_def)
  ultimately show ?thesis
    using r2 s1 by (intro exI [of _ ?s2]) (simp add: relay_domains_def keys_of_def text_col_def)
qed

text \<open>The hypotheses of the background job's theorem follow from the invariant.\<close>

lemma config_keys_ok:
  assumes "sys_ok C key parse s" "list_all (\<lambda>k. dk_selector k \<noteq> []) (keys_of s)"
  shows "keys_ok (config_of E s)"
proof -
  have "map (\<lambda>k. (dk_domain k, dk_selector k)) (map dkim_key.truncate ks) = map key_id ks" for ks :: "dkim_row list"
    by (simp add: key_id_def dkim_key.truncate_def)
  moreover have "list_all (\<lambda>k. dk_selector k \<noteq> []) (map dkim_key.truncate ks) = list_all (\<lambda>k. dk_selector k \<noteq> []) ks"
    for ks :: "dkim_row list"
    by (induction ks) (simp_all add: dkim_key.truncate_def)
  moreover have "distinct (map key_id (keys_of s))"
    using assms(1) by (simp add: sys_ok_def key_rows_ok_def keys_of_def)
  ultimately show ?thesis
    using assms(2) by (simp add: keys_ok_def config_of_def del: map_map)
qed

lemma tick_domains:
  assumes "sys_ok C key parse s" and "list_all (\<lambda>k. dk_selector k \<noteq> []) (keys_of s)"
    and "run_tick E s = (s', effs, ms)" and "en_read_up E ''relay-domains''" and "en_read_up E ''alert-channels''"
    and "list_ex ch_enabled (sy_channels s)" and "mset (en_order E (relay_domains s)) = mset (relay_domains s)"
  shows "(\<exists>rep. d \<in> set (relay_domains s) \<and> checkDomain (en_net E) (config_of E s) (en_time E d) d = Some rep \<and>
            map_of (readCachedMap (dns_view s')) d = Some rep \<and>
            sy_alerts s' d = fst (evalTransition (en_alert_up E d) d (dr_status rep) (sy_alerts s)) d) \<or>
     (map_of (readCachedMap (dns_view s')) d = map_of (readCachedMap (dns_view s)) d \<and> sy_alerts s' d = sy_alerts s d)"
proof -
  from run_tick_state [OF assms(3)] obtain sc where t: "tick (tick_env_of E s) (scheduler_view s) = (sc, effs, ms)"
    and s': "s' = (put_dns (sc_store sc) s)\<lparr>sy_alerts := sc_alerts sc, sy_lastGoodHours := sc_lastGoodHours sc\<rparr>" by blast
  have read: "readCachedMap (dns_view s') = readCachedMap (sc_store sc)"
    by (simp add: readCachedMap_def s' put_dns_def dns_view_def)
  have dist: "distinct (relay_domains s)" using assms(1) by (simp add: sys_ok_def domains_ok_def relay_domains_def)
  have "distinct (en_order E (relay_domains s))" "set (en_order E (relay_domains s)) = set (relay_domains s)"
    using assms(7) dist by (metis mset_eq_imp_distinct_iff, metis set_mset_mset)
  with tick_consistent [OF t, of "sy_channels s" d] config_keys_ok [OF assms(1,2)] assms(4-6) dist
  show ?thesis unfolding read by (simp add: tick_env_of_def scheduler_view_def dns_view_def s')
qed

text \<open>
  C10: the background job follows the table of relay domains. In every reachable state with an enabled
  channel and non-empty selectors, a tick that can read its tables leaves each
  domain in one of two situations: it is a relay domain, its check ran over the stored keys, rules and providers, the
  report is in the cache and the alert state is the evaluation of its status; or cache and alert
  state are as before, as for every domain that is not in the table.
\<close>
theorem tick_follows_table:
  assumes "reach (\<lambda>s. s = sys_init) (sys_step C key parse) s" and "cipher_ok C"
    and "list_all (\<lambda>k. dk_selector k \<noteq> []) (keys_of s)"
    and "run_tick E s = (s', effs, ms)" and "en_read_up E ''relay-domains''" and "en_read_up E ''alert-channels''"
    and "list_ex ch_enabled (sy_channels s)" and "mset (en_order E (relay_domains s)) = mset (relay_domains s)"
  shows "(\<exists>rep. d \<in> set (relay_domains s) \<and> checkDomain (en_net E) (config_of E s) (en_time E d) d = Some rep \<and>
            map_of (readCachedMap (dns_view s')) d = Some rep \<and>
            sy_alerts s' d = fst (evalTransition (en_alert_up E d) d (dr_status rep) (sy_alerts s)) d) \<or>
     (map_of (readCachedMap (dns_view s')) d = map_of (readCachedMap (dns_view s)) d \<and> sy_alerts s' d = sy_alerts s d)"
proof -
  have "sys_ok C key parse s" using api.reach_inv [OF assms(1)] assms(2) by blast
  from tick_domains [OF this assms(3-8)] show ?thesis .
qed

theorem tick_follows_table_witness:
  "\<exists>s s' effs ms. sample_reach s \<and> run_tick sample_sys_env s = (s', effs, ms) \<and>
     map_of (readCachedMap (dns_view s')) ''b.io'' = map_of (readCachedMap (dns_view s)) ''b.io''"
proof -
  from sample_world obtain s where s: "sample_reach s" "relay_domains s = [''a.io'']" "keys_of s = []"
    "list_ex ch_enabled (sy_channels s)" by blast
  obtain s' effs ms where t: "run_tick sample_sys_env s = (s', effs, ms)" by (metis prod.exhaust)
  have "list_all (\<lambda>k. dk_selector k \<noteq> []) (keys_of s)" by (simp add: s(3))
  moreover have "en_read_up sample_sys_env ''relay-domains''" "en_read_up sample_sys_env ''alert-channels''"
    "mset (en_order sample_sys_env (relay_domains s)) = mset (relay_domains s)" by (simp_all add: sample_sys_env_def)
  ultimately show ?thesis
    using tick_follows_table [OF s(1) sample_cipher_ok _ t _ _ s(4), of "''b.io''"] s t by auto
qed

lemma delete_domain_row:
  assumes "run E (DeleteRow ''relay-domains'' d) s = (s1, 204, out1)"
  shows "sy_rows s1 ''relay-domains'' = filter (\<lambda>row. row ''domain'' \<noteq> Some (JStr d)) (sy_rows s ''relay-domains'')"
proof -
  have "map_option rs_pk (map_of RESOURCES ''relay-domains'') = Some ''domain''" by code_simp
  then obtain r where r: "map_of RESOURCES ''relay-domains'' = Some r" "rs_pk r = ''domain''" by auto
  have "fst (delete_row pu ok r (Some v) t) = filter (\<lambda>row. row ''domain'' \<noteq> Some v) t"
    if "fst (snd (delete_row pu ok r (Some v) t)) = 204" for pu ok v t
    using that r(2) by (auto simp: delete_row_def announce_def refuse_def Let_def split: if_splits)
  with assms r show ?thesis by (auto simp: on_resource_def row_key_of_def)
qed

lemma reports_domains:
  assumes "getAllReports n cf now msg True cu st = Some (reports, live)"
  shows "map dr_domain reports = sort (st_relay_domains st)"
proof -
  have "dr_domain (fst (fill (cached_or_empty cu st) (live_report n cf now msg) d)) = d" for d
    by (auto simp: fill_def cached_or_empty_def readCachedMap_lookup cached_report_def split: option.splits if_splits)
  then have "map (dr_domain \<circ> (fst \<circ> fill (cached_or_empty cu st) (live_report n cf now msg))) ds = ds" for ds
    by (intro map_idI) simp
  then show ?thesis using assms by (auto simp: getAllReports_eq Let_def)
qed

text \<open>
  A deleted domain is gone. After an accepted deletion of a relay domain, every other domain is still
  there, the single-domain endpoints answer 404 for the deleted one, and no list of reports names it, though
  its cached records are still stored.
\<close>
theorem deleted_domain_gone:
  assumes "reach (\<lambda>s. s = sys_init) (sys_step C key parse) s" and "cipher_ok C"
    and "run E (DeleteRow ''relay-domains'' d) s = (s1, 204, out1)" and "en_read_up E1 ''relay-domains''"
  shows "set (relay_domains s1) = set (relay_domains s) - {d} \<and>
     run E1 (GetDomain d) s1 = (s1, 404, []) \<and> run E1 (RecheckDomain d) s1 = (s1, 404, []) \<and>
     (\<forall>reports live. getAllReports (en_net E1) (config_of E1 s1) (en_time E1) (en_err E1) True cu (dns_view s1) =
        Some (reports, live) \<longrightarrow> d \<notin> dr_domain ` set reports) \<and>
     sy_checks s1 = sy_checks s"
proof -
  have "sys_ok C key parse s" using api.reach_inv [OF assms(1)] assms(2) by blast
  then have rows: "\<forall>row \<in> set (sy_rows s ''relay-domains''). row ''domain'' = Some (JStr (text_col row ''domain''))"
    by (simp add: sys_ok_def domains_ok_def)
  then have doms: "set (relay_domains s1) = set (relay_domains s) - {d}"
    unfolding relay_domains_def delete_domain_row [OF assms(3)] by fastforce
  moreover have "d \<notin> dr_domain ` set reports" if "getAllReports (en_net E1) (config_of E1 s1) (en_time E1) (en_err E1) True cu (dns_view s1) = Some (reports, live)"
    for reports live
  proof -
    have "dr_domain ` set reports = set (relay_domains s1)"
      using reports_domains [OF that] by (metis dns_view_def dns_store.select_convs(1) set_map set_sort)
    with doms show ?thesis by blast
  qed
  moreover have "sy_checks s1 = sy_checks s" using assms(3) by (auto simp: on_resource_def split: option.splits)
  ultimately show ?thesis
    using assms(4) by (simp add: read_domain_def recheck_domain_def get_domain_def post_check_def dns_view_def)
qed

theorem deleted_domain_gone_witness:
  "\<exists>s s1. sample_reach s \<and> relay_domains s = [''a.io''] \<and> run sample_sys_env (DeleteRow ''relay-domains'' ''a.io'') s = (s1, 204, []) \<and>
     relay_domains s1 = [] \<and> run sample_sys_env (GetDomain ''a.io'') s1 = (s1, 404, [])"
proof -
  from sample_world obtain s where s: "sample_reach s" "relay_domains s = [''a.io'']" "bus_up sample_sys_env s" by blast
  have "text_col row c = ''a.io'' \<Longrightarrow> row c = Some (JStr ''a.io'')" for row c
    by (auto simp: text_col_def split: option.splits json.splits)
  with s(2) obtain row where row: "sy_rows s ''relay-domains'' = [row]" "row ''domain'' = Some (JStr ''a.io'')"
    by (auto simp: relay_domains_def)
  have "map_option rs_pk (map_of RESOURCES ''relay-domains'') = Some ''domain''" by code_simp
  then obtain r where r: "map_of RESOURCES ''relay-domains'' = Some r" "rs_pk r = ''domain''" by auto
  have "en_ok sample_sys_env ''relay-domains'' []" by (simp add: sample_sys_env_def domains_ok_def)
  then have "delete_row True (en_ok sample_sys_env ''relay-domains'') r (Some (JStr ''a.io'')) [row] = ([], 204, [[rs_slice r]])"
    by (simp add: delete_row_def r(2) row(2) announce_def)
  then obtain s1 where d: "run sample_sys_env (DeleteRow ''relay-domains'' ''a.io'') s = (s1, 204, [])"
    using bus_up_pub_up [OF s(3)] by (simp add: on_resource_def r row_key_of_def row(1))
  have "en_read_up sample_sys_env ''relay-domains''" by (simp add: sample_sys_env_def)
  from deleted_domain_gone [OF s(1) sample_cipher_ok d this] s(2)
  have "relay_domains s1 = []" "run sample_sys_env (GetDomain ''a.io'') s1 = (s1, 404, [])" by auto
  with s d show ?thesis by blast
qed

section \<open>The route table\<close>

text \<open>All registrations, the generic ones for each resource.\<close>

definition crud_routes :: "(string \<times> seg list) list" where
  "crud_routes = concat (map (\<lambda>n. [(''GET'', [Lit ''api'', Lit n]), (''POST'', [Lit ''api'', Lit n]),
     (''PUT'', [Lit ''api'', Lit n, Par ''id'']), (''DELETE'', [Lit ''api'', Lit n, Par ''id''])]) (map fst RESOURCES))"

definition other_routes :: "(string \<times> seg list) list" where
  "other_routes = map endpoint
     [Healthz, Readyz, TestProvider [], GetAccounts, PostAccount undefined, PutAccount [] undefined, DeleteAccount [],
      GetSecrets, PutSecret [] None, DeleteSecret [], GetSettings, PutSetting [] None, Requeue [],
      GetMessages undefined, GetEvents [], GetAudit None, GenerateKey None None, GetSuppressions,
      PostSuppression None None, DeleteSuppression [], PostFeedback [] None, GetDeliverability, GetSummary, RecheckAll,
      RecheckDomain [], GetDomain [], GetQueues, GetMetrics, PurgeQueue [], GetChannels, PostChannel undefined,
      PutChannel [] undefined, DeleteChannel [], TestChannel []]"

fun overlap :: "seg list \<Rightarrow> seg list \<Rightarrow> bool" where
  "overlap [] [] \<longleftrightarrow> True"
| "overlap (Lit a # p) (Lit b # q) \<longleftrightarrow> a = b \<and> overlap p q"
| "overlap (x # p) (y # q) \<longleftrightarrow> overlap p q"
| "overlap _ _ \<longleftrightarrow> False"

lemma fits_overlap: "fits p xs \<Longrightarrow> fits q xs \<Longrightarrow> overlap p q"
proof (induction p arbitrary: q xs)
  case Nil
  then show ?case by (cases q) (auto elim: fits.elims)
next
  case (Cons x p)
  then show ?case by (cases q; cases x; cases "hd q") (auto elim: fits.elims)
qed

lemma endpoint_listed:
  "registered c \<Longrightarrow> c \<noteq> AuthTraffic \<Longrightarrow> endpoint c \<in> set (crud_routes @ other_routes)"
  by (cases c) (auto simp: crud_routes_def other_routes_def)

fun compatible :: "string \<times> seg list \<Rightarrow> string \<times> seg list \<Rightarrow> bool" where
  "compatible (m, p) (m', p') \<longleftrightarrow> length p \<noteq> length p' \<or> m \<noteq> m' \<or> \<not> overlap p p' \<or> p = p' \<or>
     (p = snd (endpoint GetSummary) \<and> p' = snd (endpoint (GetDomain [])))"

fun clash_free :: "(string \<times> seg list) list \<Rightarrow> bool" where
  "clash_free [] \<longleftrightarrow> True"
| "clash_free (r # rs) \<longleftrightarrow> list_all (compatible r) rs \<and> clash_free rs"

lemma routes_clash_free: "clash_free (crud_routes @ other_routes)"
  unfolding other_routes_def list.map endpoint.simps by code_simp

lemma clash_free_pair: "clash_free rs \<Longrightarrow> a \<in> set rs \<Longrightarrow> b \<in> set rs \<Longrightarrow> a = b \<or> compatible a b \<or> compatible b a"
  by (induction rs) (auto simp: list_all_iff simp del: compatible.simps)

lemma fits_length: "fits p xs \<Longrightarrow> length p = length xs"
  by (induction p xs rule: fits.induct) (auto simp: neq_Nil_conv)

lemma compatible_fits:
  assumes "compatible (m, p) (m, q)" "fits p xs" "fits q xs"
  shows "p = q \<or> xs = [''api'', ''deliverability'', ''summary'']"
  using assms(1) fits_length [OF assms(2)] fits_length [OF assms(3)] fits_overlap [OF assms(2,3)] assms(2)
  by (auto simp: neq_Nil_conv)

lemma no_head: "fst (endpoint c) \<noteq> ''HEAD''"
  by (cases c) simp_all

text \<open>
  The routes do not overlap. Two endpoints that fit one request are the same registration, so
  the order of registration does not matter; the one exception is a relay domain named summary, which the
  summary hides.
\<close>
theorem routes_unambiguous:
  assumes "addressed req c" and "addressed req c'" and "c \<noteq> AuthTraffic" and "c' \<noteq> AuthTraffic"
  shows "endpoint c = endpoint c' \<or> path_segs req = [[], ''api'', ''deliverability'', ''summary'']"
proof -
  obtain xs where xs: "path_segs req = [] # xs" "fits (snd (endpoint c)) xs" "fits (snd (endpoint c')) xs"
    using assms by (auto simp: addressed_def)
  have m: "fst (endpoint c) = fst (endpoint c')" using assms no_head [of c] no_head [of c'] by (auto simp: addressed_def)
  have "endpoint c \<in> set (crud_routes @ other_routes)" "endpoint c' \<in> set (crud_routes @ other_routes)"
    using assms by (intro endpoint_listed; simp only: addressed_def)+
  from clash_free_pair [OF routes_clash_free this] m xs compatible_fits
  show ?thesis by (cases "endpoint c"; cases "endpoint c'") (auto simp del: compatible.simps)
qed

theorem routes_unambiguous_witness:
  "\<not> addressed (mk_request ''POST'' ''/api/deliverability/check'' None None) (TestProvider ''p'') \<and>
   addressed (mk_request ''POST'' ''/api/deliverability/check'' None None) RecheckAll"
proof -
  let ?q = "mk_request ''POST'' ''/api/deliverability/check'' None None"
  have p: "path_segs ?q = [[], ''api'', ''deliverability'', ''check'']"
    by (simp add: mk_request_def path_segs_def before_def)
  then have a: "addressed ?q RecheckAll" by (simp add: addressed_def mk_request_def)
  with routes_unambiguous [OF a, of "TestProvider ''p''"] p show ?thesis by auto
qed

section \<open>Gaps between the components\<close>

text \<open>
  The generic endpoint of the keys undoes what key generation maintains: it stores a second active
  key for a domain. The schema does not forbid it.
\<close>

lemma second_active_key:
  assumes "keys_of s = [k]" "dk_domain k = ''a.io''" "dk_selector k = ''s1''" "dk_rotation k = ''active''"
    and "en_ok E ''dkim-keys'' = key_rows_ok" "en_defaults E ''dkim-keys'' = Map.empty" "pub_up E s"
  shows "\<exists>s'. run E (PostRow ''dkim-keys'' [''domain'' \<mapsto> JStr ''a.io'', ''selector'' \<mapsto> JStr ''s2'', ''rotation'' \<mapsto> JStr ''active'']) s =
     (s', 201, []) \<and> length (active_keys ''a.io'' (keys_of s')) = 2"
proof -
  have "map_option rs_cols (map_of RESOURCES ''dkim-keys'') = Some [''domain'', ''selector'', ''private_ref'', ''public_key'', ''rotation'']"
    by code_simp
  then obtain r where r: "map_of RESOURCES ''dkim-keys'' = Some r"
    "rs_cols r = [''domain'', ''selector'', ''private_ref'', ''public_key'', ''rotation'']" by auto
  let ?b = "[''domain'' \<mapsto> JStr ''a.io'', ''selector'' \<mapsto> JStr ''s2'', ''rotation'' \<mapsto> JStr ''active'']"
  obtain x where x: "sy_rows s ''dkim-keys'' = [x]" "key_of_row x = k" using assms(1) by (auto simp: keys_of_def)
  define row where "row = map_of (zip [''domain'', ''selector'', ''rotation''] [JStr ''a.io'', JStr ''s2'', JStr ''active''])"
  have row: "key_of_row row = \<lparr>dk_domain = ''a.io'', dk_selector = ''s2'', dk_public_key = [], dk_rotation = ''active'', dk_private_ref = []\<rparr>"
    by (simp add: row_def key_of_row_def text_col_def)
  have "pick ?b (rs_cols r) = ([''domain'', ''selector'', ''rotation''], [JStr ''a.io'', JStr ''s2'', JStr ''active''])"
    by (simp add: r(2))
  moreover have "key_rows_ok [x, row]" using assms(3) by (simp add: key_rows_ok_def x(2) row key_id_def)
  ultimately have "post_row True (en_ok E ''dkim-keys'') Map.empty r ?b [x] = ([x, row], 201, [[rs_slice r]])"
    by (simp add: post_row_def announce_def assms(5) row_def Let_def)
  then have run: "run E (PostRow ''dkim-keys'' ?b) s = (emit E [[rs_slice r]] (put_rows ''dkim-keys'' [x, row] s), 201, [])"
    using assms(7) by (simp add: on_resource_def r(1) x(1) assms(6))
  have "active_keys ''a.io'' [k, key_of_row row] = [k, key_of_row row]"
    using assms(2,4) by (simp add: active_keys_def row)
  then show ?thesis unfolding run by (simp add: keys_of_def x(2))
qed

text \<open>A write while the API's own bus connection is down is answered with success and never announced.\<close>

lemma outage_unannounced:
  "bus_chan (sy_bus s) = None \<Longrightarrow> run E (PutSetting k (Some v)) s = (s', code, out1) \<Longrightarrow>
     code = 200 \<and> sy_published s' = sy_published s \<and> map_of (sy_settings s') k = Some v"
  by (auto simp: put_setting_def announce_def pub_up_def publish_def publishConfigChanged_def emit.simps update_conv')

text \<open>Deleting a domain keeps its cached records and its alert state, which a domain added again under the same name inherits.\<close>

lemma readded_domain:
  assumes "run E (DeleteRow ''relay-domains'' d) s = (s1, code1, out1)"
    and "run E' (PostRow ''relay-domains'' [''domain'' \<mapsto> JStr d]) s1 = (s2, code2, out2)"
  shows "sy_alerts s2 d = sy_alerts s d \<and> map_of (readCachedMap (dns_view s2)) d = map_of (readCachedMap (dns_view s)) d"
  using assms by (auto simp: on_resource_def readCachedMap_def dns_view_def split: option.splits)

end
