(* ===== verification/WebEdit.thy ===== *)
theory WebEdit
  imports WebHome
begin

text \<open>
  What it means to open a row and save it untouched: the row as the API lists it, the shape of the
  screen (\<open>store.jsx\<close>), the state the dialog starts with (\<open>modals.jsx\<close>), its submission, and
  the update of the generic handler (\<open>routes.ts\<close>). Four collections are edited that way.
\<close>

section \<open>Rows as the list endpoints return them\<close>

definition row_num :: "json row \<Rightarrow> string \<Rightarrow> rat" where
  "row_num row c = (case row c of Some (JNum n) \<Rightarrow> n | _ \<Rightarrow> 0)"

definition row_strs :: "json row \<Rightarrow> string \<Rightarrow> string list option" where
  "row_strs row c = (case row c of Some (JArr xs) \<Rightarrow> Some (map (\<lambda>x. case x of JStr s \<Rightarrow> s | _ \<Rightarrow> []) xs) | _ \<Rightarrow> None)"

definition provider_of_row :: "json row \<Rightarrow> api_provider" where
  "provider_of_row row =
     \<lparr>ap_id = or_else (row_str row ''id'') [], ap_name = or_else (row_str row ''name'') [],
      ap_type = or_else (row_str row ''type'') [], ap_endpoint = row_str row ''endpoint'',
      ap_auth_mode = row_str row ''auth_mode'', ap_enabled = (row ''enabled'' = Some (JBool True)),
      ap_secret_ref = row_str row ''secret_ref''\<rparr>"

definition rate_of_row :: "json row \<Rightarrow> api_rate" where
  "rate_of_row row =
     \<lparr>rt_id = or_else (row_str row ''id'') [], rt_direction = or_else (row_str row ''direction'') [],
      rt_scope = or_else (row_str row ''scope'') [], rt_scope_value = or_else (row_str row ''scope_value'') [],
      rt_per_second = row_num row ''per_second'', rt_burst = row_num row ''burst'',
      rt_enabled = (row ''enabled'' = Some (JBool True))\<rparr>"

definition client_of_row :: "json row \<Rightarrow> api_client" where
  "client_of_row row =
     \<lparr>cl_id = or_else (row_str row ''id'') [], cl_cidr = or_else (row_str row ''cidr'') [],
      cl_description = row_str row ''description'', cl_domains = row_strs row ''allowed_sender_domains'',
      cl_enabled = (case row ''enabled'' of Some (JBool b) \<Rightarrow> Some b | _ \<Rightarrow> None)\<rparr>"

section \<open>Opening and saving\<close>

definition client_of_item :: "ui_client \<Rightarrow> client_form" where
  "client_of_item c = \<lparr>cf_cidr = uc_cidr c, cf_description = uc_description c, cf_domains = uc_domains c, cf_enabled = uc_enabled c\<rparr>"

text \<open>The request sent when the dialog of the row is opened and its save button pressed at once.\<close>

definition resave :: "(nat \<Rightarrow> string) \<Rightarrow> volume \<Rightarrow> health \<Rightarrow> coll \<Rightarrow> json row \<Rightarrow> http_request option" where
  "resave fmtWhen vol health c row = (case c of
     Providers \<Rightarrow> (let p = mapProvider fmtWhen vol health (provider_of_row row) in
       fst (provider_submit (\<lambda>_. None) (provider_of_item p) (Some (up_id p))))
   | Rules \<Rightarrow> (let u = mapRule (rule_of_row row) in fst (rule_submit (\<lambda>_. None) (rule_of_item u) (Some (ur_id u))))
   | RateLimits \<Rightarrow> (let t = mapRate (rate_of_row row) in fst (rate_submit (\<lambda>_. None) (rate_of_item t) (Some (ut_id t))))
   | RelayClients \<Rightarrow> (let k = map_client (client_of_row row) in fst (client_submit (\<lambda>_. None) (client_of_item k) (Some (uc_id k))))
   | _ \<Rightarrow> None)"

section \<open>The tables\<close>

text \<open>The columns of the four tables (migrations 0001, 0006 and 0016).\<close>

definition one_of :: "string list \<Rightarrow> json option \<Rightarrow> bool" where
  "one_of vs v = (case v of Some (JStr s) \<Rightarrow> s \<in> set vs | _ \<Rightarrow> False)"

definition text_val :: "json option \<Rightarrow> bool" where
  "text_val v = (case v of Some (JStr s) \<Rightarrow> True | _ \<Rightarrow> False)"

definition null_or :: "(json option \<Rightarrow> bool) \<Rightarrow> json option \<Rightarrow> bool" where
  "null_or P v \<longleftrightarrow> v = Some JNull \<or> P v"

definition bool_val :: "json option \<Rightarrow> bool" where
  "bool_val v = (case v of Some (JBool b) \<Rightarrow> True | _ \<Rightarrow> False)"

definition num_val :: "json option \<Rightarrow> bool" where
  "num_val v = (case v of Some (JNum n) \<Rightarrow> True | _ \<Rightarrow> False)"

definition texts_val :: "json option \<Rightarrow> bool" where
  "texts_val v = (case v of Some (JArr xs) \<Rightarrow> list_all (\<lambda>x. text_val (Some x)) xs | _ \<Rightarrow> False)"

definition stored :: "coll \<Rightarrow> json row \<Rightarrow> bool" where
  "stored c row \<longleftrightarrow> text_val (row ''id'') \<and> bool_val (row ''enabled'') \<and> (case c of
     Providers \<Rightarrow> text_val (row ''name'') \<and> one_of [''gmail'', ''ses'', ''m365'', ''smtp'', ''direct''] (row ''type'') \<and>
       null_or text_val (row ''endpoint'') \<and> null_or (one_of [''xoauth2'', ''smtp-auth'', ''ip'', ''iam'']) (row ''auth_mode'') \<and>
       null_or text_val (row ''secret_ref'')
   | Rules \<Rightarrow> null_or text_val (row ''recipient_domain'') \<and> null_or text_val (row ''sender_domain'') \<and>
       texts_val (row ''provider_chain'') \<and> num_val (row ''priority'')
   | RateLimits \<Rightarrow> one_of [''in'', ''out''] (row ''direction'') \<and>
       one_of [''account'', ''ip'', ''recipient_domain'', ''provider'', ''global''] (row ''scope'') \<and> text_val (row ''scope_value'') \<and>
       num_val (row ''per_second'') \<and> num_val (row ''burst'')
   | RelayClients \<Rightarrow> text_val (row ''cidr'') \<and> null_or text_val (row ''description'') \<and> texts_val (row ''allowed_sender_domains'')
   | _ \<Rightarrow> False)"

text \<open>The rows the console itself would have written.\<close>

definition canonical :: "coll \<Rightarrow> json row \<Rightarrow> bool" where
  "canonical c row = (case c of
     Providers \<Rightarrow> row ''auth_mode'' \<noteq> Some JNull \<and> row ''endpoint'' \<noteq> Some (JStr []) \<and>
       row ''secret_ref'' \<notin> {Some (JStr []), Some (JStr mdash)} \<and>
       (row ''type'' = Some (JStr ''direct'') \<longrightarrow> row ''endpoint'' = Some JNull \<and> row ''secret_ref'' = Some JNull)
   | Rules \<Rightarrow> row ''recipient_domain'' \<notin> {Some (JStr []), Some (JStr ''*'')} \<and>
       row ''sender_domain'' \<notin> {Some (JStr []), Some (JStr ''*'')}
   | RateLimits \<Rightarrow> row ''scope'' = Some (JStr ''global'') \<longrightarrow> row ''scope_value'' = Some (JStr ''*'')
   | RelayClients \<Rightarrow> row ''description'' \<noteq> Some JNull
   | _ \<Rightarrow> False)"

lemmas val_defs = one_of_def text_val_def null_or_def bool_val_def num_val_def texts_val_def

section \<open>What is sent\<close>

lemma map_add_same: "distinct (map fst body) \<Longrightarrow> row ++ map_of body = row \<longleftrightarrow> list_all (\<lambda>(k, v). row k = Some v) body"
proof (induction body arbitrary: row)
  case (Cons b body)
  obtain k v where b: "b = (k, v)" by fastforce
  have "row ++ map_of (b # body) = row \<longleftrightarrow> row k = Some v \<and> row ++ map_of body = row"
  proof (intro iffI conjI)
    assume e: "row ++ map_of (b # body) = row"
    have "(row ++ map_of (b # body)) k = Some v" by (simp add: b)
    then show k: "row k = Some v" by (simp only: e)
    from Cons.prems have "k \<notin> dom (map_of body)" by (simp add: b dom_map_of_conv_image_fst)
    then have "row ++ map_of (b # body) = (row ++ map_of body)(k \<mapsto> v)" by (simp add: b)
    also have "\<dots> = row ++ map_of body"
      using k \<open>k \<notin> dom (map_of body)\<close> by (auto simp: fun_eq_iff map_add_def domIff split: option.split)
    finally show "row ++ map_of body = row" using e by simp
  next
    assume "row k = Some v \<and> row ++ map_of body = row"
    then show "row ++ map_of (b # body) = row" by (simp add: b fun_upd_idem)
  qed
  also have "\<dots> \<longleftrightarrow> row k = Some v \<and> list_all (\<lambda>(k, v). row k = Some v) body"
    using Cons by (simp add: b)
  finally show ?case by (simp only: b list.pred_inject prod.case)
qed simp

lemma texts_back: "list_all (\<lambda>x. text_val (Some x)) xs \<Longrightarrow> row c = Some (JArr xs) \<Longrightarrow> strs (or_else (row_strs row c) []) = JArr xs"
proof -
  have "list_all (\<lambda>x. text_val (Some x)) xs \<Longrightarrow> map (\<lambda>x. JStr (case x of JStr s \<Rightarrow> s | _ \<Rightarrow> [])) xs = xs"
    by (induction xs) (auto simp: text_val_def split: json.splits)
  then show "list_all (\<lambda>x. text_val (Some x)) xs \<Longrightarrow> row c = Some (JArr xs) \<Longrightarrow> strs (or_else (row_strs row c) []) = JArr xs"
    by (simp add: row_strs_def strs_def or_else_def o_def)
qed

text \<open>
  The body names every writable column once; written over the row it was made from, it leaves it as
  it is exactly if the row is canonical, and the result is canonical.
\<close>

definition faithful :: "coll \<Rightarrow> json row \<Rightarrow> (string \<times> json) list \<Rightarrow> bool" where
  "faithful c row body \<longleftrightarrow> distinct (map fst body) \<and> (list_all (\<lambda>(k, v). row k = Some v) body \<longleftrightarrow> canonical c row) \<and>
     canonical c (row ++ map_of body)"

lemma text_valE: "text_val v \<Longrightarrow> (\<And>s. v = Some (JStr s) \<Longrightarrow> P) \<Longrightarrow> P"
  and bool_valE: "bool_val v \<Longrightarrow> (\<And>b. v = Some (JBool b) \<Longrightarrow> P) \<Longrightarrow> P"
  and num_valE: "num_val v \<Longrightarrow> (\<And>n. v = Some (JNum n) \<Longrightarrow> P) \<Longrightarrow> P"
  and one_ofE: "one_of vs v \<Longrightarrow> (\<And>s. v = Some (JStr s) \<Longrightarrow> s \<in> set vs \<Longrightarrow> P) \<Longrightarrow> P"
  and null_orE: "null_or Q v \<Longrightarrow> (v = Some JNull \<Longrightarrow> P) \<Longrightarrow> (Q v \<Longrightarrow> P) \<Longrightarrow> P"
  and texts_valE: "texts_val v \<Longrightarrow> (\<And>xs. v = Some (JArr xs) \<Longrightarrow> list_all (\<lambda>x. text_val (Some x)) xs \<Longrightarrow> P) \<Longrightarrow> P"
  by (auto simp: val_defs split: option.splits json.splits)

lemmas valEs = text_valE bool_valE num_valE one_ofE null_orE texts_valE

lemma fst_submit: "fst (submit (\<lambda>_. None) invalid f item msg) = (if invalid then None else save f item)"
  by (simp add: submit_def split: option.split)

lemma rule_of_row_simps [simp]:
  "ar_id (rule_of_row row) = or_else (row_str row ''id'') []" "ar_recipient_domain (rule_of_row row) = row_str row ''recipient_domain''"
  "ar_sender_domain (rule_of_row row) = row_str row ''sender_domain''" "ar_provider_chain (rule_of_row row) = row_strs row ''provider_chain''"
  "ar_priority (rule_of_row row) = row_num row ''priority''" "ar_enabled (rule_of_row row) \<longleftrightarrow> row ''enabled'' = Some (JBool True)"
  by (simp_all add: rule_of_row_def row_strs_def row_num_def)

lemma rule_faithful:
  assumes "stored Rules row" and "resave fmtWhen vol health Rules row = Some q"
  shows "hr_method q = ''PUT'' \<and> hr_path q = ''/routing-rules/'' @ or_else (row_str row ''id'') [] \<and>
     (\<exists>body. hr_body q = Some body \<and>
       map fst body = [''recipient_domain'', ''sender_domain'', ''provider_chain'', ''priority'', ''enabled''] \<and> faithful Rules row body)"
proof -
  from assms(1) obtain i e xs n where row: "row ''id'' = Some (JStr i)" "row ''enabled'' = Some (JBool e)"
    "row ''provider_chain'' = Some (JArr xs)" "list_all (\<lambda>x. text_val (Some x)) xs" "row ''priority'' = Some (JNum n)"
    and rd: "null_or text_val (row ''recipient_domain'')" and sd: "null_or text_val (row ''sender_domain'')"
    by (auto simp: stored_def elim!: text_valE bool_valE num_valE texts_valE)
  let ?star = "\<lambda>k. nullable (unstar (star (row_str row k)))"
  have body: "hr_body q = Some [(''recipient_domain'', ?star ''recipient_domain''), (''sender_domain'', ?star ''sender_domain''),
      (''provider_chain'', JArr xs), (''priority'', JNum n), (''enabled'', JBool e)]"
    and head: "hr_method q = ''PUT''" "hr_path q = ''/routing-rules/'' @ or_else (row_str row ''id'') []"
    using assms(2) texts_back [of _ row, OF row(4,3)]
    by (auto simp: resave_def Let_def rule_submit_def fst_submit rule_of_item_def mapRule_def put_or_post_def row row_num_def
        split: if_splits)
  have dom: "(row k = Some (?star k)) = (row k \<notin> {Some (JStr []), Some (JStr ''*'')})" if "null_or text_val (row k)" for k
    using that by (auto simp: row_str_def star_def unstar_def nullable_def elim!: null_orE text_valE)
  have img: "?star k \<notin> {JStr [], JStr ''*''}" for k
    by (auto simp: nullable_def unstar_def split: option.splits)
  show ?thesis
    using body head dom [OF rd] dom [OF sd] img row by (simp add: faithful_def canonical_def)
qed

lemma rate_faithful:
  assumes "stored RateLimits row" and "resave fmtWhen vol health RateLimits row = Some q"
  shows "hr_method q = ''PUT'' \<and> hr_path q = ''/rate-limits/'' @ or_else (row_str row ''id'') [] \<and>
     (\<exists>body. hr_body q = Some body \<and>
       map fst body = [''direction'', ''scope'', ''scope_value'', ''per_second'', ''burst'', ''enabled''] \<and> faithful RateLimits row body)"
proof -
  from assms(1) obtain i e d sc v x y where row: "row ''id'' = Some (JStr i)" "row ''enabled'' = Some (JBool e)"
    "row ''direction'' = Some (JStr d)" "row ''scope'' = Some (JStr sc)" "row ''scope_value'' = Some (JStr v)"
    "row ''per_second'' = Some (JNum x)" "row ''burst'' = Some (JNum y)" and enum: "d \<noteq> []" "sc \<noteq> []"
    by (auto simp: stored_def elim!: text_valE bool_valE num_valE one_ofE)
  have body: "hr_body q = Some [(''direction'', JStr d), (''scope'', JStr sc),
      (''scope_value'', JStr (if sc = ''global'' then ''*'' else v)), (''per_second'', JNum x), (''burst'', JNum y), (''enabled'', JBool e)]"
    and head: "hr_method q = ''PUT''" "hr_path q = ''/rate-limits/'' @ or_else (row_str row ''id'') []"
    using assms(2) enum
    by (auto simp: resave_def Let_def rate_submit_def fst_submit rate_of_item_def mapRate_def rate_of_row_def put_or_post_def row
        row_num_def row_str_def or_else_def or_str_def split: if_splits)
  show ?thesis using body head row by (auto simp: faithful_def canonical_def)
qed

lemma client_faithful:
  assumes "stored RelayClients row" and "resave fmtWhen vol health RelayClients row = Some q"
  shows "hr_method q = ''PUT'' \<and> hr_path q = ''/relay-clients/'' @ or_else (row_str row ''id'') [] \<and>
     (\<exists>body. hr_body q = Some body \<and>
       map fst body = [''cidr'', ''description'', ''allowed_sender_domains'', ''enabled''] \<and> faithful RelayClients row body)"
proof -
  from assms(1) obtain i e xs n where row: "row ''id'' = Some (JStr i)" "row ''enabled'' = Some (JBool e)"
    "row ''allowed_sender_domains'' = Some (JArr xs)" "list_all (\<lambda>x. text_val (Some x)) xs" "row ''cidr'' = Some (JStr n)"
    and desc: "null_or text_val (row ''description'')"
    by (auto simp: stored_def elim!: text_valE bool_valE texts_valE)
  let ?desc = "JStr (or_str (row_str row ''description'') [])"
  have body: "hr_body q = Some [(''cidr'', JStr n), (''description'', ?desc), (''allowed_sender_domains'', JArr xs), (''enabled'', JBool e)]"
    and head: "hr_method q = ''PUT''" "hr_path q = ''/relay-clients/'' @ or_else (row_str row ''id'') []"
    using assms(2) texts_back [of _ row, OF row(4,3)] row
    by (auto simp: resave_def Let_def client_submit_def fst_submit client_of_item_def map_client_def client_of_row_def put_or_post_def
        row_str_def [of row "''cidr''"] or_else_def split: if_splits)
  have "(row ''description'' = Some ?desc) = (row ''description'' \<noteq> Some JNull)"
    using desc by (auto simp: row_str_def or_str_def elim!: null_orE text_valE)
  with body head row show ?thesis by (simp add: faithful_def canonical_def)
qed

lemma provider_body_faithful:
  assumes "row ''enabled'' = Some (JBool e)" "row ''name'' = Some (JStr n)" "row ''type'' = Some (JStr t)"
    and "(row ''auth_mode'' = Some a) = (row ''auth_mode'' \<noteq> Some JNull)"
    and "(row ''endpoint'' = Some ep) = (row ''endpoint'' \<noteq> Some (JStr []) \<and> (t = ''direct'' \<longrightarrow> row ''endpoint'' = Some JNull))"
    and "(row ''secret_ref'' = Some sr) = (row ''secret_ref'' \<notin> {Some (JStr []), Some (JStr mdash)} \<and>
      (t = ''direct'' \<longrightarrow> row ''secret_ref'' = Some JNull))"
    and "a \<noteq> JNull" "ep \<noteq> JStr []" "sr \<noteq> JStr []" "sr \<noteq> JStr mdash" "t = ''direct'' \<longrightarrow> ep = JNull \<and> sr = JNull"
  shows "faithful Providers row [(''name'', JStr n), (''type'', JStr t), (''endpoint'', ep), (''auth_mode'', a),
    (''enabled'', JBool e), (''secret_ref'', sr)]"
  using assms by (simp add: faithful_def canonical_def) blast

lemma provider_faithful:
  assumes "stored Providers row" and "resave fmtWhen vol health Providers row = Some q"
  shows "hr_method q = ''PUT'' \<and> hr_path q = ''/providers/'' @ or_else (row_str row ''id'') [] \<and>
     (\<exists>body. hr_body q = Some body \<and>
       map fst body = [''name'', ''type'', ''endpoint'', ''auth_mode'', ''enabled'', ''secret_ref''] \<and> faithful Providers row body)"
proof -
  from assms(1) obtain i e n t where row: "row ''id'' = Some (JStr i)" "row ''enabled'' = Some (JBool e)"
    "row ''name'' = Some (JStr n)" "row ''type'' = Some (JStr t)"
    and ep: "null_or text_val (row ''endpoint'')" and sr: "null_or text_val (row ''secret_ref'')"
    and auth: "null_or (one_of [''xoauth2'', ''smtp-auth'', ''ip'', ''iam'']) (row ''auth_mode'')"
    by (auto simp: stored_def elim!: text_valE bool_valE one_ofE)
  let ?mode = "case Option.bind (row_str row ''auth_mode'') AUTH_FROM_DB of
      Some a \<Rightarrow> a | None \<Rightarrow> js_upper (or_str (row_str row ''auth_mode'') ''NONE'')"
  let ?auth = "JStr (or_else (AUTH_TO_DB ?mode) ''ip'')"
  let ?ep = "if t = ''direct'' \<or> or_str (row_str row ''endpoint'') [] = [] then JNull else JStr (or_str (row_str row ''endpoint'') [])"
  let ?ref = "or_str (row_str row ''secret_ref'') mdash"
  let ?sr = "if t = ''direct'' \<or> ?ref = [] \<or> ?ref = mdash then JNull else JStr ?ref"
  let ?p = "mapProvider fmtWhen vol health (provider_of_row row)"
  have "resave fmtWhen vol health Providers row = (if provider_invalid (provider_of_item ?p) then None
      else Some (put_or_post ''/providers'' (Some (or_else (row_str row ''id'') []))
        (provider_body n t (or_str (row_str row ''endpoint'') []) ?mode e ?ref)))"
    using row by (simp add: resave_def Let_def provider_submit_def fst_submit provider_of_item_def mapProvider_def provider_of_row_def
        row_str_def [of row "''name''"] row_str_def [of row "''type''"] or_else_def [of "Some _"] cong: option.case_cong)
  with assms(2) have q: "q = put_or_post ''/providers'' (Some (or_else (row_str row ''id'') []))
      (provider_body n t (or_str (row_str row ''endpoint'') []) ?mode e ?ref)"
    by (metis option.distinct(1) option.inject)
  have body: "hr_body q = Some [(''name'', JStr n), (''type'', JStr t), (''endpoint'', ?ep), (''auth_mode'', ?auth),
      (''enabled'', JBool e), (''secret_ref'', ?sr)]"
    and head: "hr_method q = ''PUT''" "hr_path q = ''/providers/'' @ or_else (row_str row ''id'') []"
    by (simp_all add: q put_or_post_def provider_body_def)
  have modes: "?auth = JStr s" if "row ''auth_mode'' = Some (JStr s)" "s \<in> set [''xoauth2'', ''smtp-auth'', ''ip'', ''iam'']" for s
    using that by (auto simp: row_str_def AUTH_FROM_DB_def AUTH_TO_DB_def or_else_def)
  have a: "(row ''auth_mode'' = Some ?auth) = (row ''auth_mode'' \<noteq> Some JNull)"
    using auth modes by (auto elim!: null_orE one_ofE)
  have e': "(row ''endpoint'' = Some ?ep) = (row ''endpoint'' \<noteq> Some (JStr []) \<and> (t = ''direct'' \<longrightarrow> row ''endpoint'' = Some JNull))"
    using ep by (auto simp: row_str_def or_str_def elim!: null_orE text_valE)
  have s: "(row ''secret_ref'' = Some ?sr) = (row ''secret_ref'' \<notin> {Some (JStr []), Some (JStr mdash)} \<and>
      (t = ''direct'' \<longrightarrow> row ''secret_ref'' = Some JNull))"
    using sr by (auto simp: row_str_def or_str_def mdash_def elim!: null_orE text_valE)
  have "faithful Providers row [(''name'', JStr n), (''type'', JStr t), (''endpoint'', ?ep), (''auth_mode'', ?auth),
      (''enabled'', JBool e), (''secret_ref'', ?sr)]"
    by (rule provider_body_faithful [OF row(2-4) a e' s]) auto
  with body head show ?thesis by (intro conjI exI [of _ "the (hr_body q)"]) simp_all
qed

lemma resave_faithful:
  assumes "stored c row" and "resave fmtWhen vol health c row = Some q" and "resource_of c = Some r"
  shows "hr_method q = ''PUT'' \<and> hr_path q = ''/'' @ coll_path c @ ''/'' @ or_else (row_str row ''id'') [] \<and> rs_pk r = ''id'' \<and>
     (\<exists>body. hr_body q = Some body \<and> map fst body = rs_cols r \<and> faithful c row body)"
proof -
  from assms(2) consider "c = Providers" | "c = Rules" | "c = RateLimits" | "c = RelayClients"
    by (cases c) (simp_all add: resave_def)
  then show ?thesis
  proof cases
    case 1
    with provider_faithful assms show ?thesis by (auto simp: resource_of_def coll_path_def RESOURCES_def mk_def)
  next
    case 2
    with rule_faithful assms show ?thesis by (auto simp: resource_of_def coll_path_def RESOURCES_def mk_def)
  next
    case 3
    with rate_faithful assms show ?thesis by (auto simp: resource_of_def coll_path_def RESOURCES_def mk_def)
  next
    case 4
    with client_faithful assms show ?thesis by (auto simp: resource_of_def coll_path_def RESOURCES_def mk_def)
  qed
qed

lemma put_row_whole:
  assumes "put_row True ok r (Some rid) (map_of body) tbl = (tbl', 200, published)" and "map fst body = rs_cols r"
  shows "tbl' = map (\<lambda>x. if x (rs_pk r) = Some rid then x ++ map_of body else x) tbl"
proof (rule nth_equalityI)
  note up = put_row_update [OF assms(1)]
  from up show "length tbl' = length (map (\<lambda>x. if x (rs_pk r) = Some rid then x ++ map_of body else x) tbl)" by simp
  fix k assume "k < length tbl'"
  with up have k: "k < length tbl" by simp
  have cols: "c \<in> set (rs_cols r) \<longleftrightarrow> map_of body c \<noteq> None" for c
    by (simp add: assms(2) [symmetric] map_of_eq_None_iff)
  show "tbl' ! k = map (\<lambda>x. if x (rs_pk r) = Some rid then x ++ map_of body else x) tbl ! k"
    using up k cols by (auto simp: fun_eq_iff map_add_def split: option.split)
qed

text \<open>
  C22: opening a row and saving it untouched. The request is an update of that row, and the
  table is afterwards as it was exactly if the row is one the console could have written: otherwise the
  columns the screen cannot show are rewritten (a missing auth mode, an empty endpoint or domain,
  the endpoint and secret of a direct provider, the key of a global limit, a missing
  description). The rewritten row is canonical, so that a second time changes nothing.
\<close>
theorem unchanged_save:
  assumes "stored c row" and "resave fmtWhen vol health c row = Some q" and "resource_of c = Some r"
    and "row ''id'' = Some (JStr i)" and "row \<in> set tbl" and "\<forall>x \<in> set tbl. x ''id'' = Some (JStr i) \<longrightarrow> x = row"
    and "put_row True ok r (Some (JStr i)) (map_of (the (hr_body q))) tbl = (tbl', 200, published)"
  shows "hr_method q = ''PUT'' \<and> hr_path q = ''/'' @ coll_path c @ ''/'' @ i \<and>
     (tbl' = tbl \<longleftrightarrow> canonical c row) \<and> (\<forall>x \<in> set tbl'. x \<in> set tbl \<and> x \<noteq> row \<or> canonical c x)"
proof -
  from resave_faithful [OF assms(1-3)] obtain body where q: "hr_method q = ''PUT''" "hr_path q = ''/'' @ coll_path c @ ''/'' @ i"
    and pk: "rs_pk r = ''id''" and b: "hr_body q = Some body" "map fst body = rs_cols r" and f: "faithful c row body"
    using assms(4) by (auto simp: row_str_def or_else_def)
  let ?up = "\<lambda>x. if x = row then row ++ map_of body else x"
  from put_row_whole [OF _ b(2)] assms(7) have "tbl' = map (\<lambda>x. if x ''id'' = Some (JStr i) then x ++ map_of body else x) tbl"
    by (simp add: b pk)
  also have "\<dots> = map ?up tbl"
  proof (rule map_cong [OF refl])
    fix x assume x: "x \<in> set tbl"
    have "x ''id'' = Some (JStr i) \<longleftrightarrow> x = row" using assms(4) bspec [OF assms(6) x] by blast
    then show "(if x ''id'' = Some (JStr i) then x ++ map_of body else x) = ?up x" by (simp only:) (cases "x = row", simp_all)
  qed
  finally have tbl': "tbl' = map ?up tbl" .
  have same: "row ++ map_of body = row \<longleftrightarrow> canonical c row" and canon: "canonical c (row ++ map_of body)"
    using f by (simp_all add: faithful_def map_add_same)
  have "tbl' = tbl \<longleftrightarrow> row ++ map_of body = row"
  proof
    assume "tbl' = tbl"
    then have "map ?up tbl = map (\<lambda>x. x) tbl" by (simp add: tbl')
    with assms(5) show "row ++ map_of body = row" by (simp only: map_eq_conv) (drule bspec, assumption, simp)
  next
    assume "row ++ map_of body = row"
    then have "?up x = x" for x by simp
    then show "tbl' = tbl" by (simp only: tbl' map_ident)
  qed
  with same canon show ?thesis by (auto simp: q tbl')
qed

definition relay_row :: "json option \<Rightarrow> json row" where
  "relay_row auth = [''id'' \<mapsto> JStr ''9'', ''name'' \<mapsto> JStr ''relay'', ''type'' \<mapsto> JStr ''smtp'', ''endpoint'' \<mapsto> JStr ''mx:587'',
     ''enabled'' \<mapsto> JBool True, ''secret_ref'' \<mapsto> JNull](''auth_mode'' := auth)"

text \<open>A provider stored without an auth mode is given one by saving it untouched.\<close>

theorem unchanged_save_witness:
  "\<exists>q r tbl' published. resave (\<lambda>_. []) Map.empty Map.empty Providers (relay_row (Some JNull)) = Some q \<and> hr_path q = ''/providers/9'' \<and>
     resource_of Providers = Some r \<and>
     put_row True (\<lambda>_. True) r (Some (JStr ''9'')) (map_of (the (hr_body q))) [relay_row (Some JNull)] = (tbl', 200, published) \<and>
     tbl' \<noteq> [relay_row (Some JNull)]"
proof -
  let ?row = "relay_row (Some JNull)" and ?r = "mk ''providers'' ''id'' [''name'', ''type'', ''endpoint'', ''auth_mode'', ''enabled'', ''secret_ref'']"
  let ?q = "put_or_post ''/providers'' (Some ''9'') (provider_body ''relay'' ''smtp'' ''mx:587'' ''NONE'' True mdash)"
  have row: "stored Providers ?row" "?row ''id'' = Some (JStr ''9'')" by (simp_all add: stored_def val_defs relay_row_def)
  have valid: "\<not> blank ''relay''" "\<not> blank ''mx:587''" "js_upper ''NONE'' = ''NONE''" by code_simp+
  have q: "resave (\<lambda>_. []) Map.empty Map.empty Providers ?row = Some ?q"
    by (simp add: resave_def Let_def provider_submit_def fst_submit provider_of_item_def mapProvider_def provider_of_row_def
        relay_row_def row_str_def or_else_def or_str_def provider_invalid_def valid)
  have r: "resource_of Providers = Some ?r" by (simp add: resource_of_def coll_path_def RESOURCES_def)
  obtain tbl' published where p:
    "put_row True (\<lambda>_. True) ?r (Some (JStr ''9'')) (map_of (the (hr_body ?q))) [?row] = (tbl', 200, published)"
    by (simp add: put_row_def announce_def mk_def pick_def put_or_post_def provider_body_def row Let_def split_beta)
  have "?row \<in> set [?row]" "\<forall>x \<in> set [?row]. x ''id'' = Some (JStr ''9'') \<longrightarrow> x = ?row" by simp_all
  from unchanged_save [OF row(1) q r row(2) this p] have "hr_path ?q = ''/providers/9''" "tbl' \<noteq> [?row]"
    by (simp_all add: coll_path_def canonical_def relay_row_def)
  with q r p show ?thesis by blast
qed

end
