(* ===== verification/Ui.thy ===== *)
theory Ui
  imports WebViews
begin

text \<open>
  What the components of the console return: React elements as trees, the way events travel
  through them, and the shared primitives of \<open>ui.jsx\<close>. An element has a tag, its attributes,
  its handlers and its children. Of a style the entries that depend on the properties of the
  component are kept, under their names; fixed styles and hover effects are left out. Icons
  are leaves with the name of their component.
\<close>

section \<open>Elements\<close>

datatype attr = AStr string | ANum jsnum | ABool bool

text \<open>A handler has a name, whether it stops the event, and what it does with the event's value.\<close>

type_synonym 'a handlers = "(string \<times> bool \<times> (string \<Rightarrow> 'a list)) list"

datatype 'a node =
    Text string
  | Number jsnum
  | Elem string "(string \<times> attr) list" "'a handlers" "'a node list"

definition on :: "string \<Rightarrow> (string \<Rightarrow> 'a list) \<Rightarrow> string \<times> bool \<times> (string \<Rightarrow> 'a list)" where
  "on ev h = (ev, False, h)"

definition stopping :: "string \<Rightarrow> string \<times> bool \<times> (string \<Rightarrow> 'a list)" where
  "stopping ev = (ev, True, \<lambda>_. [])"

definition icon :: "string \<Rightarrow> 'a node" where
  "icon name = Elem name [] [] []"

definition kids :: "'a node \<Rightarrow> 'a node list" where
  "kids n = (case n of Elem t xs es cs \<Rightarrow> cs | _ \<Rightarrow> [])"

definition tag :: "'a node \<Rightarrow> string" where
  "tag n = (case n of Elem t xs es cs \<Rightarrow> t | _ \<Rightarrow> [])"

definition attr_of :: "string \<Rightarrow> 'a node \<Rightarrow> attr option" where
  "attr_of a n = (case n of Elem t xs es cs \<Rightarrow> map_of xs a | _ \<Rightarrow> None)"

text \<open>All nodes in document order, with their paths.\<close>

primrec paths :: "'a node \<Rightarrow> (nat list \<times> 'a node) list" where
  "paths (Text s) = [([], Text s)]"
| "paths (Number x) = [([], Number x)]"
| "paths (Elem t xs es cs) = ([], Elem t xs es cs) #
     concat (map (\<lambda>(i, ps). map (\<lambda>(p, m). (i # p, m)) ps) (enumerate 0 (map paths cs)))"

primrec nodes :: "'a node \<Rightarrow> 'a node list" where
  "nodes (Text s) = [Text s]"
| "nodes (Number x) = [Number x]"
| "nodes (Elem t xs es cs) = Elem t xs es cs # concat (map nodes cs)"

section \<open>Events\<close>

text \<open>
  An event at a node runs the handlers on the way up until one stops it; a disabled button gets
  no clicks. The result says whether the event went on.
\<close>

definition own :: "string \<Rightarrow> string \<Rightarrow> 'a node \<Rightarrow> bool \<times> 'a list" where
  "own ev v n = (case n of
     Elem t xs es cs \<Rightarrow>
       if ev = ''onClick'' \<and> t = ''button'' \<and> map_of xs ''disabled'' = Some (ABool True) then (False, [])
       else (case map_of es ev of None \<Rightarrow> (True, []) | Some (stop, h) \<Rightarrow> (\<not> stop, h v))
   | _ \<Rightarrow> (True, []))"

primrec dispatch :: "string \<Rightarrow> string \<Rightarrow> nat list \<Rightarrow> 'a node \<Rightarrow> bool \<times> 'a list" where
  "dispatch ev v [] n = own ev v n"
| "dispatch ev v (i # p) n =
     (if i < length (kids n) then
        (case dispatch ev v p (kids n ! i) of (go, acts) \<Rightarrow>
           if go then (case own ev v n of (go', acts') \<Rightarrow> (go', acts @ acts')) else (False, acts))
      else (False, []))"

text \<open>
  A click inside a \<open>label\<close> that is not on a control of its own also clicks the label's control, its
  first labelable descendant.
\<close>

definition labelable :: "'a node \<Rightarrow> bool" where
  "labelable n \<longleftrightarrow> tag n \<in> {''button'', ''input'', ''select'', ''textarea''}"

definition first_control :: "'a node \<Rightarrow> nat list option" where
  "first_control n = map_option fst (find (\<lambda>(p, m). labelable m) (tl (paths n)))"

primrec crosses :: "nat list \<Rightarrow> 'a node \<Rightarrow> bool" where
  "crosses [] n \<longleftrightarrow> labelable n"
| "crosses (i # p) n \<longleftrightarrow> labelable n \<or> (i < length (kids n) \<and> crosses p (kids n ! i))"

primrec activated :: "nat list \<Rightarrow> 'a node \<Rightarrow> nat list option" where
  "activated [] n = (if tag n = ''label'' then first_control n else None)"
| "activated (i # p) n =
     (if i < length (kids n) then
        (case activated p (kids n ! i) of
           Some q \<Rightarrow> Some (i # q)
         | None \<Rightarrow> if tag n = ''label'' \<and> \<not> crosses p (kids n ! i) then first_control n else None)
      else None)"

definition user_click :: "nat list \<Rightarrow> 'a node \<Rightarrow> 'a list" where
  "user_click p n = snd (dispatch ''onClick'' [] p n) @
     (case activated p n of None \<Rightarrow> [] | Some q \<Rightarrow> snd (dispatch ''onClick'' [] q n))"

section \<open>Tones, badges and dots\<close>

definition TONE_COLORS :: "string \<Rightarrow> (string \<times> string) option" where
  "TONE_COLORS = map_of
    [(''good'', ''var(--accent-good)'', ''oklch(0.78 0.16 155 / 0.15)''), (''accent'', ''var(--accent)'', ''var(--accent-soft)''),
     (''warn'', ''var(--accent-warn)'', ''oklch(0.82 0.16 75 / 0.15)''),
     (''danger'', ''var(--accent-danger)'', ''oklch(0.7 0.2 25 / 0.15)''), (''muted'', ''var(--fg-3)'', ''var(--bg-2)''),
     (''cyan'', ''var(--accent-2)'', ''oklch(0.78 0.14 200 / 0.15)'')]"

definition tone_colors :: "string \<Rightarrow> string \<times> string" where
  "tone_colors tone = or_else (TONE_COLORS tone) (''var(--fg-3)'', ''var(--bg-2)'')"

definition StatusBadge :: "string \<Rightarrow> bool \<Rightarrow> 'a node" where
  "StatusBadge status dot = (let (fg, soft) = tone_colors (toneFor status) in
     Elem ''span'' [(''className'', AStr ''mono''), (''background'', AStr soft), (''color'', AStr fg)] []
       ((if dot then [Elem ''span'' [(''background'', AStr fg)] [] []] else []) @ [Text status]))"

definition Pill :: "string \<Rightarrow> bool \<Rightarrow> 'a node list \<Rightarrow> 'a node" where
  "Pill tone mono_face cs = (let (fg, soft) = tone_colors tone in
     Elem ''span'' [(''className'', AStr (if mono_face then ''mono'' else [])), (''background'', AStr soft), (''color'', AStr fg)] [] cs)"

definition StatusDot :: "string \<Rightarrow> nat \<Rightarrow> bool \<Rightarrow> 'a node" where
  "StatusDot status sz pulse = (let (fg, soft) = tone_colors (toneFor status) in
     Elem ''span'' [(''className'', AStr (if pulse then ''pulse'' else [])), (''width'', ANum (Fin (of_nat sz))),
       (''height'', ANum (Fin (of_nat sz))), (''background'', AStr fg), (''boxShadow'', AStr (''0 0 0 3px '' @ soft))] [] [])"

section \<open>The sparkline\<close>

text \<open>\<open>x.toFixed(1)\<close>.\<close>

definition fixed1 :: "rat \<Rightarrow> string" where
  "fixed1 x = (let t = nat \<lfloor>\<bar>x\<bar> * 10 + 1 / 2\<rfloor> in
     (if x < 0 then ''-'' else []) @ nat_str (t div 10) @ ''.'' @ nat_str (t mod 10))"

definition spark_path :: "(rat \<times> rat) list \<Rightarrow> string" where
  "spark_path pts = js_join '' '' (map (\<lambda>(i, x, y). (if i = 0 then ''M'' else ''L'') @ fixed1 x @ '' '' @ fixed1 y) (enumerate 0 pts))"

text \<open>The data are counts; the name of the gradient is made of the width and the first of them.\<close>

definition spark_id :: "nat \<Rightarrow> rat list \<Rightarrow> string" where
  "spark_id w raw = ''spk'' @ nat_str (nat (js_round (of_nat w * 1000 + hd (pad2 raw))))"

definition Sparkline :: "rat list \<Rightarrow> nat \<Rightarrow> nat \<Rightarrow> string \<Rightarrow> bool \<Rightarrow> 'a node" where
  "Sparkline raw w h color filled =
     (let pts = spark_points (of_nat w) (of_nat h) raw; line = spark_path pts;
          area = line @ '' L'' @ nat_str w @ '' '' @ nat_str h @ '' L0 '' @ nat_str h @ '' Z''; gid = spark_id w raw in
      Elem ''svg'' [(''width'', ANum (Fin (of_nat w))), (''height'', ANum (Fin (of_nat h)))] []
        ([Elem ''defs'' [] [] [Elem ''linearGradient'' [(''id'', AStr gid)] []
            [Elem ''stop'' [(''offset'', AStr ''0''), (''stopColor'', AStr color)] [] [],
             Elem ''stop'' [(''offset'', AStr ''1''), (''stopColor'', AStr color)] [] []]]] @
         (if filled then [Elem ''path'' [(''d'', AStr area), (''fill'', AStr (''url(#'' @ gid @ '')''))] [] []] else []) @
         [Elem ''path'' [(''d'', AStr line), (''stroke'', AStr color)] [] [],
          Elem ''circle'' [(''cx'', ANum (Fin (fst (last pts)))), (''cy'', ANum (Fin (snd (last pts)))), (''fill'', AStr color)] [] []]))"

section \<open>Controls\<close>

definition px :: "nat \<Rightarrow> attr" where
  "px n = ANum (Fin (of_nat n))"

definition Toggle :: "bool \<Rightarrow> (bool \<Rightarrow> 'a list) \<Rightarrow> string \<Rightarrow> 'a node" where
  "Toggle enabled onChange sz =
     (let w = (if sz = ''sm'' then 30 else 36); h = (if sz = ''sm'' then 17 else 20); k = h - 6 in
      Elem ''button'' [(''width'', px w), (''height'', px h),
          (''background'', AStr (if enabled then ''var(--accent)'' else ''var(--bg-3)'')),
          (''borderColor'', AStr (if enabled then ''var(--accent)'' else ''var(--line)''))]
        [on ''onClick'' (\<lambda>_. onChange (\<not> enabled))]
        [Elem ''span'' [(''left'', px (if enabled then w - k - 3 else 2)), (''width'', px k), (''height'', px k),
           (''background'', AStr (if enabled then ''var(--accent-fg)'' else ''var(--fg-3)''))] [] []])"

definition IconBtn :: "string \<Rightarrow> 'a list \<Rightarrow> bool \<Rightarrow> nat \<Rightarrow> 'a node list \<Rightarrow> 'a node" where
  "IconBtn title onClick active sz cs =
     Elem ''button'' [(''title'', AStr title), (''width'', px sz), (''height'', px sz),
         (''color'', AStr (if active then ''var(--accent)'' else ''var(--fg-3)'')),
         (''background'', AStr (if active then ''var(--accent-soft)'' else ''transparent''))]
       [on ''onClick'' (\<lambda>_. onClick)] cs"

text \<open>An option of a segmented control: value, label, icon. A plain string is its own label.\<close>

definition plain_option :: "string \<Rightarrow> string \<times> string \<times> 'a node list" where
  "plain_option v = (v, v, [])"

definition Segmented :: "(string \<times> string \<times> 'a node list) list \<Rightarrow> string \<Rightarrow> (string \<Rightarrow> 'a list) \<Rightarrow> string \<Rightarrow> 'a node" where
  "Segmented opts val onChange sz = Elem ''div'' [] []
     (map (\<lambda>(v, label, ic).
        Elem ''button'' [(''key'', AStr v), (''className'', AStr ''mono''),
            (''padding'', AStr (if sz = ''sm'' then ''3px 8px'' else ''4px 11px'')), (''fontSize'', px (if sz = ''sm'' then 11 else 12)),
            (''background'', AStr (if v = val then ''var(--accent-soft)'' else ''transparent'')),
            (''color'', AStr (if v = val then ''var(--accent)'' else ''var(--fg-2)''))]
          [on ''onClick'' (\<lambda>_. onChange v)] (ic @ [Text label])) opts)"

text \<open>The properties of a button. \<open>bt_disabled\<close> is passed by the settings screen; \<open>Btn\<close> does not read it.\<close>

record 'a btn_props =
  bt_kind :: string
  bt_size :: string
  bt_danger :: bool
  bt_type :: "string option"
  bt_disabled :: bool
  bt_icon :: "'a node list"
  bt_click :: "'a list"

definition btn :: "'a btn_props" where
  "btn = \<lparr>bt_kind = ''ghost'', bt_size = ''md'', bt_danger = False, bt_type = None, bt_disabled = False,
     bt_icon = [], bt_click = []\<rparr>"

definition Btn :: "'a btn_props \<Rightarrow> 'a node list \<Rightarrow> 'a node" where
  "Btn b cs = Elem ''button''
     ((case bt_type b of None \<Rightarrow> [] | Some t \<Rightarrow> [(''type'', AStr t)]) @
      [(''padding'', AStr (if bt_size b = ''sm'' then ''5px 10px'' else ''7px 13px'')),
       (''fontSize'', ANum (Fin (if bt_size b = ''sm'' then 115 / 10 else 125 / 10)))] @
      (if bt_kind b = ''primary'' then
         [(''background'', AStr ''var(--accent)''), (''color'', AStr ''var(--accent-fg)''), (''fontWeight'', px 600)]
       else if bt_danger b then
         [(''background'', AStr ''transparent''), (''border'', AStr ''1px solid var(--line)''), (''color'', AStr ''var(--accent-danger)'')]
       else [(''background'', AStr ''var(--bg-2)''), (''border'', AStr ''1px solid var(--line)''), (''color'', AStr ''var(--fg-1)'')]))
     [on ''onClick'' (\<lambda>_. bt_click b)] (bt_icon b @ cs)"

definition SearchField :: "string \<Rightarrow> (string \<Rightarrow> 'a list) \<Rightarrow> string \<Rightarrow> 'a list \<Rightarrow> nat \<Rightarrow> 'a node" where
  "SearchField val onChange placeholder onSubmit width = Elem ''div'' [(''width'', px width)] []
     [icon ''I.Search'',
      Elem ''input'' [(''value'', AStr val), (''placeholder'', AStr placeholder), (''className'', AStr ''mono'')]
        [on ''onChange'' onChange, on ''onKeyDown'' (\<lambda>k. if k = ''Enter'' then onSubmit else [])] []]"

section \<open>Frames\<close>

definition given_node :: "string option \<Rightarrow> (string \<Rightarrow> 'a node) \<Rightarrow> 'a node list" where
  "given_node v f = (if given v then [f (the v)] else [])"

definition PageHeader ::
  "'a node \<Rightarrow> string option \<Rightarrow> string \<Rightarrow> string option \<Rightarrow> string option \<Rightarrow> 'a node list \<Rightarrow> 'a node" where
  "PageHeader ic eyebrow title cnt sub actions = Elem ''div'' [] []
     [Elem ''div'' [] []
        [Elem ''span'' [] [] [ic],
         Elem ''div'' [] []
           (given_node eyebrow (\<lambda>s. Elem ''div'' [(''className'', AStr ''mono'')] [] [Text s]) @
            [Elem ''div'' [] [] ([Elem ''h1'' [] [] [Text title]] @
               (case cnt of None \<Rightarrow> [] | Some c \<Rightarrow> [Elem ''span'' [(''className'', AStr ''mono'')] [] [Text c]]))] @
            given_node sub (\<lambda>s. Elem ''div'' [] [] [Text s]))],
      Elem ''div'' [] [] actions]"

text \<open>A card, with whether the pointer is over it.\<close>

definition Card :: "bool \<Rightarrow> bool \<Rightarrow> 'a list option \<Rightarrow> nat \<Rightarrow> (string \<times> attr) list \<Rightarrow> 'a node list \<Rightarrow> 'a node" where
  "Card hovered hover onClick pad style cs = Elem ''div''
     (style @ [(''padding'', px pad), (''borderColor'', AStr (if hover \<and> hovered then ''var(--accent)'' else ''var(--line)'')),
       (''cursor'', AStr (if onClick = None then ''default'' else ''pointer''))])
     (case onClick of None \<Rightarrow> [] | Some h \<Rightarrow> [on ''onClick'' (\<lambda>_. h)]) cs"

definition ScreenBody :: "bool \<Rightarrow> nat \<Rightarrow> 'a node list \<Rightarrow> 'a node" where
  "ScreenBody grid pad cs = Elem ''div'' [(''className'', AStr (if grid then ''bg-grid'' else []))] []
     [Elem ''div'' [(''padding'', px pad)] [] cs]"

definition PROVIDER_TYPE_LABEL :: "(string \<times> string) list" where
  "PROVIDER_TYPE_LABEL = [(''ses'', ''Amazon SES''), (''m365'', ''Microsoft 365''), (''gmail'', ''Gmail / XOAUTH2''),
     (''smtp'', ''Generic SMTP''), (''direct'', ''Direct-to-MX'')]"

definition ProviderType :: "string \<Rightarrow> 'a node" where
  "ProviderType type = Elem ''span'' [(''className'', AStr ''mono'')] []
     [Elem ''span'' [(''background'', AStr (or_str (map_of [(''ses'', ''var(--accent-warn)''), (''m365'', ''var(--accent-2)''),
          (''gmail'', ''var(--accent-danger)''), (''smtp'', ''var(--fg-2)'')] type) ''var(--fg-2)''))] [] [],
      Text (or_str (map_of PROVIDER_TYPE_LABEL type) type)]"

end
