(* ===== verification/UiForms.thy ===== *)
theory UiForms
  imports Ui
begin

text \<open>
  The dialogs of \<open>modals.jsx\<close> as they are rendered: the form primitives and the view of each form,
  over the form states and submissions of WebForms. A view is a tree whose handlers yield the
  actions of the dialog, so what can be done on the screen, what is shown there and what is
  sent can be compared.
\<close>

definition nbsp :: string where "nbsp = [CHR 0xC2, CHR 0xA0]"
definition wide_space :: string where "wide_space = [CHR 0xE3, CHR 0x80, CHR 0x80]"
definition at_least :: string where "at_least = [CHR 0xE2, CHR 0x89, CHR 0xA5]"

section \<open>The state of a dialog\<close>

text \<open>The form, whether it was submitted before, and the drafts of its chip fields.\<close>

record 'f editor =
  ed_form :: 'f
  ed_tried :: bool
  ed_drafts :: "string \<Rightarrow> string"

datatype 'f act = Up "'f \<Rightarrow> 'f" | Draft string string | Save | Close

definition editor_init :: "'f \<Rightarrow> 'f editor" where
  "editor_init f = \<lparr>ed_form = f, ed_tried = False, ed_drafts = (\<lambda>_. [])\<rparr>"

fun perform :: "'f act \<Rightarrow> 'f editor \<Rightarrow> 'f editor" where
  "perform (Up g) s = s\<lparr>ed_form := g (ed_form s)\<rparr>"
| "perform (Draft k v) s = s\<lparr>ed_drafts := (ed_drafts s)(k := v)\<rparr>"
| "perform Save s = s\<lparr>ed_tried := True\<rparr>"
| "perform Close s = s"

section \<open>Form primitives\<close>

definition FRow :: "string \<Rightarrow> string option \<Rightarrow> string option \<Rightarrow> 'a node list \<Rightarrow> 'a node" where
  "FRow label hint error cs = Elem ''label'' [] []
     (Elem ''div'' [] []
        ([Elem ''span'' [(''className'', AStr ''mono'')] [] [Text label]] @
         given_node hint (\<lambda>h. Elem ''span'' [(''className'', AStr ''mono'')] [] [Text h]) @
         given_node error (\<lambda>e. Elem ''span'' [(''className'', AStr ''mono''), (''color'', AStr ''var(--accent-danger)'')] [] [Text e])) # cs)"

record text_props =
  fp_placeholder :: "string option"
  fp_type :: string
  fp_mono :: bool

definition text_field :: "string \<Rightarrow> text_props" where
  "text_field placeholder = \<lparr>fp_placeholder = Some placeholder, fp_type = ''text'', fp_mono = True\<rparr>"

definition secret_field :: text_props where
  "secret_field = (text_field (concat (replicate 12 bullet)))\<lparr>fp_type := ''password''\<rparr>"

definition FText :: "string \<Rightarrow> (string \<Rightarrow> 'a list) \<Rightarrow> text_props \<Rightarrow> bool \<Rightarrow> 'a node" where
  "FText val onChange p invalid = Elem ''input''
     ([(''type'', AStr (fp_type p)), (''value'', AStr val)] @
      (case fp_placeholder p of None \<Rightarrow> [] | Some h \<Rightarrow> [(''placeholder'', AStr h)]) @
      [(''borderColor'', AStr (if invalid then ''var(--accent-danger)'' else ''var(--line)'')),
       (''fontFamily'', AStr (if fp_mono p then ''var(--font-mono)'' else ''var(--font-sans)''))])
     [on ''onChange'' onChange] []"

definition FSelect :: "string \<Rightarrow> (string \<Rightarrow> 'a list) \<Rightarrow> (string \<times> string) list \<Rightarrow> 'a node" where
  "FSelect val onChange opts = Elem ''select'' [(''value'', AStr val)] [on ''onChange'' onChange]
     (map (\<lambda>(v, l). Elem ''option'' [(''key'', AStr v), (''value'', AStr v)] [] [Text l]) opts)"

text \<open>\<open>Number(e.target.value)\<close>; a number input delivers only the empty text and finite numbers.\<close>

definition as_number :: "(rat \<Rightarrow> 'a list) \<Rightarrow> string \<Rightarrow> 'a list" where
  "as_number onChange v = (case js_number v of Fin r \<Rightarrow> onChange r | _ \<Rightarrow> [])"

definition FNumber :: "rat \<Rightarrow> (rat \<Rightarrow> 'a list) \<Rightarrow> nat \<Rightarrow> 'a node" where
  "FNumber val onChange least = Elem ''input''
     [(''type'', AStr ''number''), (''value'', ANum (Fin val)), (''min'', px least)] [on ''onChange'' (as_number onChange)] []"

definition FToggle :: "bool \<Rightarrow> (bool \<Rightarrow> 'a list) \<Rightarrow> string \<Rightarrow> 'a node" where
  "FToggle val onChange label = Elem ''div'' [] [] [Toggle val onChange ''sm'', Elem ''span'' [] [] [Text label]]"

text \<open>The chips with their buttons, and the field for the next one; it adds on enter, comma and blur.\<close>

definition FChips :: "string list \<Rightarrow> (string list \<Rightarrow> 'a list) \<Rightarrow> string \<Rightarrow> string \<Rightarrow> (string \<Rightarrow> 'a list) \<Rightarrow> 'a node" where
  "FChips vals onChange placeholder draft setDraft =
     (let v = js_trim draft; add = (if v \<noteq> [] \<and> v \<notin> set vals then onChange (vals @ [v]) else []) @ setDraft [] in
      Elem ''div'' [] []
        (map (\<lambda>v. Elem ''span'' [(''key'', AStr v), (''className'', AStr ''mono'')] []
            [Text v, Elem ''button'' [] [on ''onClick'' (\<lambda>_. onChange (chip_remove v vals))] [icon ''I.X'']]) vals @
         [Elem ''input'' [(''value'', AStr draft), (''placeholder'', AStr (if vals \<noteq> [] then [] else placeholder)),
              (''className'', AStr ''mono'')]
            [on ''onChange'' setDraft, on ''onKeyDown'' (\<lambda>k. if k = ''Enter'' \<or> k = '','' then add else []),
             on ''onBlur'' (\<lambda>_. add)] []]))"

definition chain_buttons :: "string list \<Rightarrow> (string list \<Rightarrow> 'a list) \<Rightarrow> nat \<Rightarrow> string \<Rightarrow> 'a node list" where
  "chain_buttons chain onChange i v =
     (let move = (\<lambda>d. let j = int i + d in if j < 0 \<or> j \<ge> int (length chain) then [] else onChange (chain_move i d chain)) in
      [IconBtn ''up'' (move (- 1)) False 22 [icon ''I.ArrowUp''], IconBtn ''down'' (move 1) False 22 [icon ''I.ArrowDown''],
       IconBtn ''remove'' (onChange (filter (\<lambda>x. x \<noteq> v) chain)) False 22 [icon ''I.X'']])"

definition chain_row :: "ui_provider list \<Rightarrow> string list \<Rightarrow> (string list \<Rightarrow> 'a list) \<Rightarrow> nat \<times> string \<Rightarrow> 'a node" where
  "chain_row providers chain onChange = (\<lambda>(i, v). Elem ''div'' [(''key'', AStr v)] []
     ([Elem ''span'' [(''className'', AStr ''mono''), (''color'', AStr (if i = 0 then ''var(--accent)'' else ''var(--fg-4)''))] []
         [Text (if i = 0 then ''primary'' else ''fb '' @ nat_str i)],
       Elem ''span'' [] [] [Text (chain_name providers v)]] @ chain_buttons chain onChange i v))"

definition ChainPicker :: "ui_provider list \<Rightarrow> string list \<Rightarrow> (string list \<Rightarrow> 'a list) \<Rightarrow> 'a node" where
  "ChainPicker providers chain onChange =
     (let avail = chain_avail providers chain in
      Elem ''div'' [] []
        (Elem ''div'' [] []
           ((if chain = [] then [Elem ''div'' [(''className'', AStr ''mono'')] []
                [Text (''no providers '' @ mdash @ '' add at least one below'')]] else []) @
            map (chain_row providers chain onChange) (enumerate 0 chain)) #
         (if avail = [] then []
          else [Elem ''div'' [] []
            (map (\<lambda>p. Elem ''button'' [(''key'', AStr (up_id p)), (''className'', AStr ''mono'')]
               [on ''onClick'' (\<lambda>_. onChange (chain @ [up_id p]))] [icon ''I.Plus'', Text (up_name p)]) avail)])))"

section \<open>The shell\<close>

definition ModalShell ::
  "string option \<Rightarrow> string \<Rightarrow> 'a node \<Rightarrow> 'a list \<Rightarrow> nat \<Rightarrow> 'a node list \<Rightarrow> 'a node list \<Rightarrow> 'a node" where
  "ModalShell eyebrow title ic onClose width footer cs = Elem ''div'' [] [on ''onClick'' (\<lambda>_. onClose)]
     [Elem ''div'' [(''width'', px width)] [stopping ''onClick'']
        [Elem ''div'' [] []
           [Elem ''span'' [] [] [ic],
            Elem ''div'' [] [] (given_node eyebrow (\<lambda>s. Elem ''div'' [(''className'', AStr ''mono'')] [] [Text s]) @
              [Elem ''div'' [] [] [Text title]]),
            IconBtn ''Close (esc)'' onClose False 28 [icon ''I.X'']],
         Elem ''div'' [] [] cs,
         Elem ''div'' [] [] footer]]"

text \<open>The listener on the window.\<close>

definition shell_key :: "string \<Rightarrow> 'a list \<Rightarrow> 'a list" where
  "shell_key k onClose = (if k = ''Escape'' then onClose else [])"

definition stack :: "'a node list \<Rightarrow> 'a node" where
  "stack cs = Elem ''div'' [] [] cs"

text \<open>The buttons below a form: cancel, and the one that saves.\<close>

definition form_footer :: "string \<Rightarrow> 'f act node list" where
  "form_footer label = [Btn (btn\<lparr>bt_click := [Close]\<rparr>) [Text ''cancel''],
     Btn (btn\<lparr>bt_kind := ''primary'', bt_icon := [icon ''I.Check''], bt_click := [Save]\<rparr>) [Text label]]"

definition err :: "bool \<Rightarrow> string \<Rightarrow> string option" where
  "err bad msg = (if bad then Some msg else None)"

definition choices :: "string list \<Rightarrow> (string \<times> string) list" where
  "choices vs = map (\<lambda>v. (v, v)) vs"

section \<open>The forms of the collections\<close>

text \<open>\<open>create\<close>: there is no item. A type is one of \<open>AUTH_BY_TYPE\<close>, as the schema demands.\<close>

definition provider_view :: "bool \<Rightarrow> provider_form editor \<Rightarrow> provider_form act node" where
  "provider_view create s =
     (let f = ed_form s; isDirect = (pf_type f = ''direct'');
          bad_name = (ed_tried s \<and> blank (pf_name f)); bad_endpoint = (ed_tried s \<and> \<not> isDirect \<and> blank (pf_endpoint f)) in
      ModalShell (Some ''provider'') (if create then ''New provider'' else ''Edit provider'') (icon ''I.Server'') [Close] 500
        (form_footer (if create then ''create provider'' else ''save changes''))
        [stack
          ([FRow ''name'' None (err bad_name ''required'')
              [FText (pf_name f) (\<lambda>v. [Up (\<lambda>f. f\<lparr>pf_name := v\<rparr>)])
                 ((text_field (''SES'' @ middot @ ''us-east-1''))\<lparr>fp_mono := False\<rparr>) bad_name],
            stack
              [FRow ''type'' None None
                 [FSelect (pf_type f)
                    (\<lambda>v. [Up (\<lambda>f. f\<lparr>pf_type := v\<rparr>), Up (\<lambda>f. f\<lparr>pf_auth_mode := hd (the (map_of AUTH_BY_TYPE v))\<rparr>)])
                    (map (\<lambda>t. (t, the (map_of PROVIDER_TYPE_LABEL t))) (map fst AUTH_BY_TYPE))],
               FRow ''auth mode'' None None
                 [FSelect (pf_auth_mode f) (\<lambda>v. [Up (\<lambda>f. f\<lparr>pf_auth_mode := v\<rparr>)]) (choices (the (map_of AUTH_BY_TYPE (pf_type f))))]]] @
           (if isDirect then
              [Elem ''div'' [] [] [Text (''Direct-to-MX: resolves the recipient domain's MX per message and delivers on port'' @ nbsp @
                 ''25 (opportunistic STARTTLS). No endpoint or credentials '' @ mdash @ '' set the delivery HELO to a real FQDN with PTR, and ensure outbound''
                 @ nbsp @ '':25 egress.'')]]
            else
              [FRow ''endpoint'' (Some ''host:port'') (err bad_endpoint ''required'')
                 [FText (pf_endpoint f) (\<lambda>v. [Up (\<lambda>f. f\<lparr>pf_endpoint := v\<rparr>)])
                    (text_field ''email-smtp.us-east-1.amazonaws.com:587'') bad_endpoint],
               FRow ''secret ref'' (Some ''envelope-encrypted credential'') None
                 [FText (pf_secret_ref f) (\<lambda>v. [Up (\<lambda>f. f\<lparr>pf_secret_ref := v\<rparr>)]) (text_field ''sec/ses-use1'') False]]) @
           [FToggle (pf_enabled f) (\<lambda>v. [Up (\<lambda>f. f\<lparr>pf_enabled := v\<rparr>)]) (''Enabled '' @ mdash @ '' eligible for routing'')])])"

definition rule_view :: "ui_provider list \<Rightarrow> bool \<Rightarrow> rule_form editor \<Rightarrow> rule_form act node" where
  "rule_view providers create s =
     (let f = ed_form s; bad_recipient = (ed_tried s \<and> blank (rf_recipient f)); bad_sender = (ed_tried s \<and> blank (rf_sender f)) in
      ModalShell (Some ''routing'') (if create then ''New routing rule'' else ''Edit routing rule'') (icon ''I.Route'') [Close] 520
        (form_footer (if create then ''create rule'' else ''save changes''))
        [stack
          [stack
            [FRow ''recipient domain'' (Some ''* = any'') (err bad_recipient ''required'')
               [FText (rf_recipient f) (\<lambda>v. [Up (\<lambda>f. f\<lparr>rf_recipient := v\<rparr>)]) (text_field ''gmail.com'') bad_recipient],
             FRow ''sender domain'' (Some ''* = any'') (err bad_sender ''required'')
               [FText (rf_sender f) (\<lambda>v. [Up (\<lambda>f. f\<lparr>rf_sender := v\<rparr>)]) (text_field ''*'') bad_sender]],
           FRow ''priority'' (Some ''lower runs first'') None [FNumber (rf_priority f) (\<lambda>v. [Up (\<lambda>f. f\<lparr>rf_priority := v\<rparr>)]) 0],
           FRow ''provider chain'' (Some ''primary, then failover order'') (err (ed_tried s \<and> rf_chain f = []) (''add '' @ at_least @ ''1''))
             [ChainPicker providers (rf_chain f) (\<lambda>v. [Up (\<lambda>f. f\<lparr>rf_chain := v\<rparr>)])],
           FToggle (rf_enabled f) (\<lambda>v. [Up (\<lambda>f. f\<lparr>rf_enabled := v\<rparr>)]) ''Enabled'']])"

record domain_fields = domain_form +
  dm_dkim :: string
  dm_verified :: bool

definition domain_view :: "bool \<Rightarrow> domain_fields editor \<Rightarrow> domain_fields act node" where
  "domain_view create s =
     (let f = ed_form s; bad_domain = (ed_tried s \<and> blank (df_domain f)); bad_sel = (ed_tried s \<and> blank (df_selector f)) in
      ModalShell (Some ''routing'') (if create then ''Add relay domain'' else ''Edit relay domain'') (icon ''I.Globe'') [Close] 480
        (form_footer (if create then ''add domain'' else ''save changes''))
        [stack
          [FRow ''domain'' None (err bad_domain ''required'')
             [FText (df_domain f) (\<lambda>v. [Up (\<lambda>f. f\<lparr>df_domain := v\<rparr>)]) (text_field ''mail.watteel.com'') bad_domain],
           FRow ''DKIM selector'' (Some ''<selector>._domainkey'') (err bad_sel ''required'')
             [FText (df_selector f) (\<lambda>v. [Up (\<lambda>f. f\<lparr>df_selector := v\<rparr>)]) (text_field ''nova2026'') bad_sel],
           FRow ''DKIM status'' None None
             [FSelect (dm_dkim f) (\<lambda>v. [Up (\<lambda>f. f\<lparr>dm_dkim := v\<rparr>)]) (choices [''pending'', ''active''])],
           FToggle (dm_verified f) (\<lambda>v. [Up (\<lambda>f. f\<lparr>dm_verified := v\<rparr>)]) ''DNS verified'']])"

definition SCOPE_LABELS :: "bool \<Rightarrow> (string \<times> string) list" where
  "SCOPE_LABELS inbound =
     (if inbound then [(''account'', ''account (username key)''), (''ip'', ''source IP/CIDR''), (''global'', ''global (all inbound)'')]
      else [(''recipient_domain'', ''recipient domain''), (''provider'', ''provider name''), (''global'', ''global (all outbound)'')])"

definition key_hint :: "string \<Rightarrow> string option" where
  "key_hint = map_of [(''account'', ''account username''), (''ip'', ''CIDR e.g. 10.0.0.0/8''), (''recipient_domain'', ''gmail.com''),
     (''provider'', ''provider name''), (''global'', ''n/a'')]"

definition rate_view :: "bool \<Rightarrow> rate_form editor \<Rightarrow> rate_form act node" where
  "rate_view create s =
     (let f = ed_form s; isGlobal = (tf_scope f = ''global''); bad = (ed_tried s \<and> rate_invalid f); inbound = (tf_direction f = ''in'') in
      ModalShell (Some (if inbound then ''incoming'' else ''outgoing'')) (if create then ''New rate limit'' else ''Edit rate limit'')
        (icon ''I.Gauge'') [Close] 480 (form_footer (if create then ''create limit'' else ''save changes''))
        [stack
          ([stack
             [FRow ''direction'' None None
                [FSelect (tf_direction f)
                   (\<lambda>v. [Up (\<lambda>f. f\<lparr>tf_direction := v\<rparr>), Up (\<lambda>f. f\<lparr>tf_scope := (if v = ''in'' then ''account'' else ''recipient_domain'')\<rparr>)])
                   [(''in'', ''inbound (submit)''), (''out'', ''outbound (deliver)'')]],
              FRow ''scope'' None None
                [FSelect (tf_scope f) (\<lambda>v. [Up (\<lambda>f. f\<lparr>tf_scope := v\<rparr>)]) (SCOPE_LABELS inbound)]]] @
           (if isGlobal then []
            else [FRow ''key'' (key_hint (tf_scope f)) (err bad ''required'')
                    [FText (tf_domain f) (\<lambda>v. [Up (\<lambda>f. f\<lparr>tf_domain := v\<rparr>)])
                       ((text_field [])\<lparr>fp_placeholder := key_hint (tf_scope f)\<rparr>) bad]]) @
           [stack
             [FRow ''per second'' (Some ''sustained rate'') None
                [FNumber (tf_per_second f) (\<lambda>v. [Up (\<lambda>f. f\<lparr>tf_per_second := v\<rparr>)]) 0],
              FRow ''burst'' (Some ''bucket size'') None [FNumber (tf_burst f) (\<lambda>v. [Up (\<lambda>f. f\<lparr>tf_burst := v\<rparr>)]) 1]],
            FToggle (tf_enabled f) (\<lambda>v. [Up (\<lambda>f. f\<lparr>tf_enabled := v\<rparr>)]) ''Enabled''])])"

definition client_view :: "bool \<Rightarrow> client_form editor \<Rightarrow> client_form act node" where
  "client_view create s =
     (let f = ed_form s; bad = (ed_tried s \<and> blank (cf_cidr f)) in
      ModalShell (Some ''incoming'') (if create then ''Add relay client'' else ''Edit relay client'') (icon ''I.Globe'') [Close] 500
        (form_footer (if create then ''add range'' else ''save changes''))
        [stack
          [FRow ''source range (CIDR)'' (Some ''hosts here relay without AUTH'') (err bad ''required'')
             [FText (cf_cidr f) (\<lambda>v. [Up (\<lambda>f. f\<lparr>cf_cidr := v\<rparr>)]) (text_field ''10.0.0.0/24 or 203.0.113.5/32'') bad],
           FRow ''description'' None None
             [FText (cf_description f) (\<lambda>v. [Up (\<lambda>f. f\<lparr>cf_description := v\<rparr>)])
                ((text_field ''app servers'')\<lparr>fp_mono := False\<rparr>) False],
           FRow ''allowed sender domains'' (Some (''empty = any'' @ middot @ ''enter to add'')) None
             [FChips (cf_domains f) (\<lambda>v. [Up (\<lambda>f. f\<lparr>cf_domains := v\<rparr>)]) ''watteel.com'' (ed_drafts s ''domains'')
                (\<lambda>d. [Draft ''domains'' d])],
           FToggle (cf_enabled f) (\<lambda>v. [Up (\<lambda>f. f\<lparr>cf_enabled := v\<rparr>)]) ''Enabled'']])"

record suppression_form =
  sf_address :: string
  sf_reason :: string

definition suppression_blank :: suppression_form where
  "suppression_blank = \<lparr>sf_address = [], sf_reason = ''manual''\<rparr>"

definition suppression_view :: "suppression_form editor \<Rightarrow> suppression_form act node" where
  "suppression_view s =
     (let f = ed_form s; bad = (ed_tried s \<and> \<not> email_like (sf_address f)) in
      ModalShell (Some ''observe'') ''Suppress address'' (icon ''I.Ban'') [Close] 440
        [Btn (btn\<lparr>bt_click := [Close]\<rparr>) [Text ''cancel''],
         Btn (btn\<lparr>bt_danger := True, bt_icon := [icon ''I.Check''], bt_click := [Save]\<rparr>) [Text ''suppress'']]
        [stack
          [FRow ''address'' None (err bad ''valid email required'')
             [FText (sf_address f) (\<lambda>v. [Up (\<lambda>f. f\<lparr>sf_address := v\<rparr>)]) (text_field ''bounced@example.com'') bad],
           FRow ''reason'' None None
             [FSelect (sf_reason f) (\<lambda>v. [Up (\<lambda>f. f\<lparr>sf_reason := v\<rparr>)]) (choices [''manual'', ''hard_bounce'', ''complaint''])]]])"

record operator_form =
  of_username :: string
  of_password :: string
  of_role :: string

definition operator_blank :: operator_form where
  "operator_blank = \<lparr>of_username = [], of_password = [], of_role = ''admin''\<rparr>"

definition operator_view :: "operator_form editor \<Rightarrow> operator_form act node" where
  "operator_view s =
     (let f = ed_form s; bad_user = (ed_tried s \<and> \<not> email_like (of_username f)); bad_pass = (ed_tried s \<and> length (of_password f) < 8) in
      ModalShell (Some ''observe'') ''New operator'' (icon ''I.Users'') [Close] 440 (form_footer ''create operator'')
        [stack
          [FRow ''email'' None (err bad_user ''valid email required'')
             [FText (of_username f) (\<lambda>v. [Up (\<lambda>f. f\<lparr>of_username := v\<rparr>)]) (text_field ''ops@watteel.com'') bad_user],
           FRow ''password'' (Some ''min 8 characters'') (err bad_pass ''too short'')
             [FText (of_password f) (\<lambda>v. [Up (\<lambda>f. f\<lparr>of_password := v\<rparr>)]) secret_field bad_pass],
           FRow ''role'' (Some (''admin = read/write'' @ middot @ ''user = read-only'')) None
             [FSelect (of_role f) (\<lambda>v. [Up (\<lambda>f. f\<lparr>of_role := v\<rparr>)]) (choices [''admin'', ''user''])]]])"

definition account_dialog :: "bool \<Rightarrow> account_form editor \<Rightarrow> account_form act node" where
  "account_dialog create s =
     (let f = ed_form s; bad_user = (ed_tried s \<and> blank (af_username f)); bad_pass = (ed_tried s \<and> create \<and> af_password f = []) in
      ModalShell (Some ''access'') (if create then ''New account'' else ''Edit account'') (icon ''I.Key'') [Close] 480
        (form_footer (if create then ''create account'' else ''save changes''))
        [stack
          [FRow ''username'' None (err bad_user ''required'')
             [FText (af_username f) (\<lambda>v. [Up (\<lambda>f. f\<lparr>af_username := v\<rparr>)]) (text_field ''app@watteel.com'') bad_user],
           FRow ''password'' (Some (if create then ''envelope-encrypted at rest'' else ''leave blank to keep current'')) (err bad_pass ''required'')
             [FText (af_password f) (\<lambda>v. [Up (\<lambda>f. f\<lparr>af_password := v\<rparr>)]) secret_field bad_pass],
           FRow ''allowed sender domains'' (Some ''enter to add'') None
             [FChips (af_domains f) (\<lambda>v. [Up (\<lambda>f. f\<lparr>af_domains := v\<rparr>)]) ''watteel.com'' (ed_drafts s ''domains'')
                (\<lambda>d. [Draft ''domains'' d])],
           FRow ''source IP allowlist'' (Some (''empty = any'' @ middot @ ''CIDR, enter to add'')) None
             [FChips (af_allowlist f) (\<lambda>v. [Up (\<lambda>f. f\<lparr>af_allowlist := v\<rparr>)]) ''10.0.0.0/8'' (ed_drafts s ''allowlist'')
                (\<lambda>d. [Draft ''allowlist'' d])],
           FToggle (af_enabled f) (\<lambda>v. [Up (\<lambda>f. f\<lparr>af_enabled := v\<rparr>)]) (''Enabled '' @ mdash @ '' may authenticate & submit'')]])"

section \<open>The other dialogs\<close>

text \<open>DKIM generation: the record to publish, once there is one, replaces the form.\<close>

record dkim_form =
  kf_domain :: string
  kf_selector :: string

datatype dkim_act = Key "dkim_form act" | CopyValue string

definition dkim_fields :: "dkim_form editor \<Rightarrow> dkim_act node list" where
  "dkim_fields s =
     (let f = ed_form s; bad_domain = (ed_tried s \<and> blank (kf_domain f)); bad_sel = (ed_tried s \<and> blank (kf_selector f)) in
      [FRow ''domain'' None (err bad_domain ''required'')
         [FText (kf_domain f) (\<lambda>v. [Key (Up (\<lambda>f. f\<lparr>kf_domain := v\<rparr>))]) (text_field ''watteel.com'') bad_domain],
       FRow ''selector'' (Some ''<selector>._domainkey'') (err bad_sel ''required'')
         [FText (kf_selector f) (\<lambda>v. [Key (Up (\<lambda>f. f\<lparr>kf_selector := v\<rparr>))]) ((text_field [])\<lparr>fp_placeholder := None\<rparr>) bad_sel],
       Elem ''div'' [(''className'', AStr ''mono'')] []
         [Text ''An RSA-2048 keypair is minted; the private key is envelope-encrypted and the prior active selector for this domain is retired.'']])"

definition dkim_view :: "(string \<times> string) option \<Rightarrow> bool \<Rightarrow> dkim_form editor \<Rightarrow> dkim_act node" where
  "dkim_view dns waiting s =
     ModalShell (Some ''outgoing'') ''Generate DKIM key'' (icon ''I.Shield'') [Key Close] 560
       (if dns \<noteq> None then [Btn (btn\<lparr>bt_kind := ''primary'', bt_click := [Key Close]\<rparr>) [Text ''done'']]
        else [Btn (btn\<lparr>bt_click := [Key Close]\<rparr>) [Text ''cancel''],
              Btn (btn\<lparr>bt_kind := ''primary'', bt_icon := [icon ''I.Shield''], bt_click := [Key Save]\<rparr>)
                [Text (if waiting then ''generating'' @ ellipsis else ''generate'')]])
       [case dns of
          None \<Rightarrow> stack (dkim_fields s)
        | Some (name, val) \<Rightarrow> stack
            [Elem ''div'' [] [] [Text ''Publish this DNS TXT record, then delivery will sign with the new key:''],
             stack [Elem ''span'' [(''className'', AStr ''mono'')] [] [Text name, Text (wide_space @ ''(TXT)'')],
                     Elem ''textarea'' [(''readOnly'', ABool True), (''value'', AStr val)] [] []],
             Btn (btn\<lparr>bt_size := ''sm'', bt_icon := [icon ''I.Copy''], bt_click := [CopyValue val]\<rparr>) [Text ''copy value'']]]"

definition confirm_view :: "string \<Rightarrow> string \<Rightarrow> unit act node" where
  "confirm_view label name =
     ModalShell (Some ''confirm'') (''Delete '' @ label) (icon ''I.AlertTriangle'') [Close] 420
       [Btn (btn\<lparr>bt_click := [Close]\<rparr>) [Text ''cancel''],
        Btn (btn\<lparr>bt_danger := True, bt_icon := [icon ''I.Trash''], bt_click := [Save]\<rparr>) [Text ''delete'']]
       [Elem ''div'' [] [] [Text ''Permanently delete '', Elem ''span'' [(''className'', AStr ''mono'')] [] [Text name],
          Text ''? This change hot-reloads to the data plane immediately and cannot be undone.'']]"

datatype profile_act = CloseProfile | OpenPassword

definition profile_row :: "string \<Rightarrow> string \<Rightarrow> 'a node" where
  "profile_row label v = Elem ''div'' [] [] [Elem ''span'' [(''className'', AStr ''mono'')] [] [Text label],
     Elem ''span'' [(''className'', AStr ''mono'')] [] [Text (if v = [] then mdash else v)]]"

definition profile_view :: "(string \<times> string \<times> string) option \<Rightarrow> profile_act node" where
  "profile_view operator =
     (let (username, role) = (case operator of None \<Rightarrow> ([], []) | Some (u, r, i) \<Rightarrow> (u, r)) in
      ModalShell (Some ''account'') ''Profile'' (icon ''I.Users'') [CloseProfile] 420
        [Btn (btn\<lparr>bt_click := [CloseProfile]\<rparr>) [Text ''close''],
         Btn (btn\<lparr>bt_kind := ''primary'', bt_icon := [icon ''I.Lock''], bt_click := [CloseProfile, OpenPassword]\<rparr>) [Text ''change password'']]
        [stack [profile_row ''operator'' username, profile_row ''role'' role,
          Elem ''div'' [(''className'', AStr ''mono'')] []
            [Text ''Management-plane login (distinct from SMTP submission accounts). Every config change you make is recorded in the audit log under this name.'']]])"

record password_form =
  wf_current :: string
  wf_next :: string
  wf_confirm :: string

definition password_view :: "bool \<Rightarrow> password_form editor \<Rightarrow> password_form act node" where
  "password_view waiting s =
     (let f = ed_form s; bad_current = (ed_tried s \<and> wf_current f = []); bad_next = (ed_tried s \<and> length (wf_next f) < 8);
          bad_confirm = (ed_tried s \<and> wf_confirm f \<noteq> wf_next f) in
      ModalShell (Some ''account'') ''Change password'' (icon ''I.Lock'') [Close] 420
        (form_footer (if waiting then ''saving'' @ ellipsis else ''update password''))
        [stack
          [FRow ''current password'' None (err bad_current ''required'')
             [FText (wf_current f) (\<lambda>v. [Up (\<lambda>f. f\<lparr>wf_current := v\<rparr>)]) secret_field bad_current],
           FRow ''new password'' (Some ''min 8 characters'') (err bad_next ''too short'')
             [FText (wf_next f) (\<lambda>v. [Up (\<lambda>f. f\<lparr>wf_next := v\<rparr>)]) secret_field bad_next],
           FRow ''confirm new password'' None (err bad_confirm ''does not match'')
             [FText (wf_confirm f) (\<lambda>v. [Up (\<lambda>f. f\<lparr>wf_confirm := v\<rparr>)]) secret_field bad_confirm]]])"

end
