(* ===== verification/UiScreens.thy ===== *)
theory UiScreens
  imports UiForms
begin

text \<open>
  Five pages as they are rendered: settings (\<open>settings.jsx\<close>), the queue monitor (\<open>queue.jsx\<close>), the
  messages (\<open>messages.jsx\<close>), the alert channels (\<open>notifications.jsx\<close>) and the sign-in (\<open>login.jsx\<close>).
  What a page computes and sends is in WebScreens, WebViews and WebShell; here are the elements,
  with the actions of their handlers.
\<close>

definition up_arrow :: string where "up_arrow = [CHR 0xE2, CHR 0x86, CHR 0x91]"
definition down_arrow :: string where "down_arrow = [CHR 0xE2, CHR 0x86, CHR 0x93]"

definition mono_text :: "string \<Rightarrow> 'a node" where
  "mono_text s = Elem ''span'' [(''className'', AStr ''mono'')] [] [Text s]"

text \<open>\<open>Chip\<close> of \<open>tables.jsx\<close>.\<close>

definition Chip :: "string option \<Rightarrow> 'a node list \<Rightarrow> 'a node" where
  "Chip tone cs = (let (fg, soft) = or_else (Option.bind tone TONE_COLORS) (''var(--fg-2)'', ''var(--bg-2)'') in
     Elem ''span'' [(''className'', AStr ''mono''), (''background'', AStr soft), (''color'', AStr fg)] [] cs)"

section \<open>Settings\<close>

text \<open>What the page does: change a preference, type into a field, save a setting.\<close>

datatype settings_act = Tweak string string | TypeText string string | TypeNumber string jsnum | SaveSetting string json

definition SettingRow :: "string \<Rightarrow> string option \<Rightarrow> bool \<Rightarrow> 'a node list \<Rightarrow> 'a node" where
  "SettingRow label desc is_last cs = Elem ''div'' [(''borderBottom'', AStr (if is_last then ''0'' else ''1px solid var(--line)''))] []
     (Elem ''div'' [] [] (Elem ''div'' [] [] [Text label] # given_node desc (\<lambda>s. Elem ''div'' [] [] [Text s])) # cs)"

definition SettingsCard :: "string \<Rightarrow> 'a node list \<Rightarrow> 'a node" where
  "SettingsCard title cs = Elem ''div'' [] [] (Elem ''div'' [(''className'', AStr ''mono'')] [] [Text title] # cs)"

definition save_button :: "bool \<Rightarrow> 'a list \<Rightarrow> 'a node" where
  "save_button dirty onSave = Btn (btn\<lparr>bt_size := ''sm'', bt_kind := (if dirty then ''primary'' else ''ghost''),
     bt_disabled := \<not> dirty, bt_click := onSave\<rparr>) [Text ''save'']"

text \<open>The number field: the stored value and the draft. Two numbers differ as texts when they differ.\<close>

definition SettingNumber :: "jsnum \<Rightarrow> jsnum \<Rightarrow> string \<Rightarrow> (jsnum \<Rightarrow> 'a list) \<Rightarrow> (jsnum \<Rightarrow> 'a list) \<Rightarrow> 'a node" where
  "SettingNumber val draft un setV onSave = Elem ''div'' [] []
     ([Elem ''input'' [(''type'', AStr ''number''), (''value'', ANum draft), (''min'', px 1), (''className'', AStr ''mono'')]
         [on ''onChange'' (\<lambda>v. setV (js_number v))] []] @
      given_node (Some un) mono_text @ [save_button (draft \<noteq> val) (onSave draft)])"

definition SettingText :: "field \<Rightarrow> string \<Rightarrow> (string \<Rightarrow> 'a list) \<Rightarrow> (string \<Rightarrow> 'a list) \<Rightarrow> 'a node" where
  "SettingText f placeholder setV onSave = Elem ''div'' [] []
     [Elem ''input'' [(''value'', AStr (fd_draft f)), (''placeholder'', AStr placeholder), (''spellCheck'', ABool False),
         (''autoComplete'', AStr ''off''), (''className'', AStr ''mono'')] [on ''onChange'' setV] [],
      save_button (field_dirty f) (onSave (js_trim (fd_draft f)))]"

definition text_setting :: "(string \<Rightarrow> field) \<Rightarrow> string \<Rightarrow> string \<Rightarrow> settings_act node" where
  "text_setting texts key placeholder =
     SettingText (texts key) placeholder (\<lambda>v. [TypeText key v]) (\<lambda>v. [SaveSetting key (JStr v)])"

text \<open>A number in JSON; \<open>stringify\<close> writes the others as \<open>null\<close>.\<close>

definition json_num :: "jsnum \<Rightarrow> json" where
  "json_num x = (case x of Fin r \<Rightarrow> JNum r | _ \<Rightarrow> JNull)"

definition num_times :: "jsnum \<Rightarrow> rat \<Rightarrow> jsnum" where
  "num_times x c = (case x of Fin r \<Rightarrow> Fin (r * c) | y \<Rightarrow> y)"

definition number_setting :: "(string \<Rightarrow> jsnum) \<Rightarrow> string \<Rightarrow> jsnum \<Rightarrow> string \<Rightarrow> rat \<Rightarrow> settings_act node" where
  "number_setting nums key val un factor =
     SettingNumber val (nums key) un (\<lambda>v. [TypeNumber key v]) (\<lambda>v. [SaveSetting key (json_num (num_times v factor))])"

definition max_mib :: "(string \<rightharpoonup> json) \<Rightarrow> jsnum" where
  "max_mib S = (case maxMiB S of Some n \<Rightarrow> Fin (of_int n) | None \<Rightarrow> setting_number (S ''max_message_bytes'') 52428800)"

definition ACCENT_SWATCH :: "(string \<times> string) list" where
  "ACCENT_SWATCH = [(''violet'', ''#9b6cf3''), (''cyan'', ''#5cc7d6''), (''green'', ''#5fce99''), (''amber'', ''#e0a557''), (''rose'', ''#e36d7e'')]"

definition FONT_PAIRS_S :: "(string \<times> string) list" where
  "FONT_PAIRS_S = [(''jetbrains-inter'', ''JetBrains Mono + Inter''), (''ibm-inter'', ''IBM Plex Mono + Inter''), (''mono-only'', ''Mono everywhere'')]"

definition pref :: "prefs \<Rightarrow> string \<Rightarrow> string" where
  "pref t k = or_else (t k) []"

definition swatches :: "prefs \<Rightarrow> settings_act node" where
  "swatches t = Elem ''div'' [] []
     (map (\<lambda>(name, c). Elem ''button'' [(''key'', AStr name), (''title'', AStr name), (''background'', AStr c),
          (''borderColor'', AStr (if t ''accent'' = Some name then ''var(--fg)'' else ''transparent'')),
          (''boxShadow'', AStr (if t ''accent'' = Some name then ''0 0 0 2px var(--bg-1)'' else ''none''))]
        [on ''onClick'' (\<lambda>_. [Tweak ''accent'' name])] []) ACCENT_SWATCH)"

definition appearance_card :: "prefs \<Rightarrow> settings_act node" where
  "appearance_card t = SettingsCard ''Appearance''
     [SettingRow ''Theme'' (Some ''Interface color scheme'') False
        [Segmented [(''dark'', ''Dark'', [icon ''I.Moon'']), (''light'', ''Light'', [icon ''I.Sun''])] (pref t ''theme'')
           (\<lambda>v. [Tweak ''theme'' v]) ''sm''],
      SettingRow ''Accent'' (Some ''Used for active states, links and highlights'') False [swatches t],
      SettingRow ''Typography'' (Some ''Mono + sans pairing'') False
        [Elem ''select'' [(''value'', AStr (pref t ''fontPair'')), (''className'', AStr ''mono'')]
           [on ''onChange'' (\<lambda>v. [Tweak ''fontPair'' v])]
           (map (\<lambda>(v, l). Elem ''option'' [(''key'', AStr v), (''value'', AStr v)] [] [Text l]) FONT_PAIRS_S)],
      SettingRow ''Density'' (Some ''Row height across tables and lists'') True
        [Segmented [(''compact'', ''Compact'', []), (''cozy'', ''Cozy'', []), (''comfy'', ''Comfy'', [])] (pref t ''density'')
           (\<lambda>v. [Tweak ''density'' v]) ''sm'']]"

record server_node =
  sn_id :: string
  sn_role :: string
  sn_state :: string
  sn_up :: string

record server_info =
  sv_name :: string
  sv_version :: string
  sv_nodes :: "server_node list"

definition node_line :: "server_node \<Rightarrow> 'a node" where
  "node_line n = Elem ''div'' [(''key'', AStr (sn_id n))] []
     [StatusDot (sn_state n) 6 (sn_role n = ''leader''), mono_text (sn_id n),
      Chip (if sn_role n = ''leader'' then Some ''accent'' else None) [Text (sn_role n)], mono_text (''up '' @ sn_up n)]"

definition identity_card :: "server_info \<Rightarrow> (string \<Rightarrow> field) \<Rightarrow> settings_act node" where
  "identity_card sv texts = SettingsCard ''Server identity''
     [SettingRow ''Hostname''
        (Some ''EHLO/HELO banner the relay presents on the submission/SMTP ports and in bounce (DSN) messages'') False
        [text_setting texts ''hostname'' ''novamail.local''],
      SettingRow ''Relay name'' None False [mono_text (sv_name sv)],
      SettingRow ''Version'' None False [Chip (Some ''accent'') [Text (sv_version sv)]],
      SettingRow ''Cluster nodes'' (Some (''RabbitMQ quorum'' @ middot @ ''nova-bus'')) True
        [Elem ''div'' [] [] (map node_line (sv_nodes sv))]]"

definition delivery_card :: "(string \<Rightarrow> field) \<Rightarrow> settings_act node" where
  "delivery_card texts = SettingsCard ''Delivery identity''
     [SettingRow ''Alert sender''
        (Some ''From address for deliverability alert emails (relayed through NovaMail itself; must be a permitted sender)'') False
        [text_setting texts ''alert_from'' ''alerts@yourdomain.com''],
      SettingRow ''Direct-to-MX HELO''
        (Some (''EHLO/HELO FQDN used when delivering direct-to-MX '' @ mdash @ '' must be a real FQDN with matching reverse (PTR) DNS'')) True
        [text_setting texts ''direct_helo'' ''mail.yourdomain.com'']]"

definition security_card :: "rat option \<Rightarrow> settings_act node" where
  "security_card signed_pct = SettingsCard ''Security''
     [SettingRow ''DKIM signing'' (Some ''All outbound mail signed at delivery'') False
        [Elem ''span'' [] [] [icon ''I.Shield'', Elem ''span'' [(''className'', AStr ''mono'')] []
           ((case signed_pct of None \<Rightarrow> [] | Some r \<Rightarrow> [Number (Fin r)]) @ [Text ''%''])]],
      SettingRow ''Credential storage'' (Some ''Provider creds & DKIM keys envelope-encrypted at rest'') False
        [Pill ''good'' True [icon ''I.Lock'', Text ''encrypted'']],
      SettingRow ''Submission TLS'' (Some ''STARTTLS required on the submission port'') True
        [Pill ''good'' True [icon ''I.CheckCircle'', Text ''enforced'']]]"

definition limits_card :: "(string \<rightharpoonup> json) \<Rightarrow> (string \<Rightarrow> jsnum) \<Rightarrow> settings_act node" where
  "limits_card S nums = SettingsCard ''Operational limits''
     [SettingRow ''Max message size'' (Some ''Submissions over this are rejected 552 (hot-reloaded)'') False
        [number_setting nums ''max_message_bytes'' (max_mib S) ''MiB'' 1048576],
      SettingRow ''Retention'' (Some ''Daily sweep prunes delivered/bounced messages older than this'') False
        [number_setting nums ''retention_days'' (retention S) ''days'' 1],
      SettingRow ''Deliverability check interval''
        (Some ''How often the periodic DNS/deliverability checker refreshes (regression alerts)'') True
        [number_setting nums ''deliverability_interval_hours'' (check_interval S) ''hrs'' 1]]"

definition settings_page ::
  "prefs \<Rightarrow> server_info \<Rightarrow> rat option \<Rightarrow> (string \<rightharpoonup> json) \<Rightarrow> (string \<Rightarrow> field) \<Rightarrow> (string \<Rightarrow> jsnum) \<Rightarrow> settings_act node" where
  "settings_page t sv signed_pct S texts nums = Elem ''div'' [] []
     [PageHeader (icon ''I.Settings'') (Some ''system'') ''Settings'' None
        (Some (''appearance'' @ middot @ ''server identity'' @ middot @ ''security'')) [],
      ScreenBody False 22
        [Elem ''div'' [] [] [appearance_card t, identity_card sv texts, delivery_card texts, security_card signed_pct, limits_card S nums]]]"

section \<open>The queue monitor\<close>

datatype queue_act = TogglePause | PurgeDlq

definition KIND_META :: "queue_kind \<Rightarrow> string \<times> string \<times> string" where
  "KIND_META k = (case k of
     Work \<Rightarrow> (''work'', ''accent'', ''I.Layers'') | Wait \<Rightarrow> (''retry tier'', ''warn'', ''I.Clock'')
   | Dlq \<Rightarrow> (''dead-letter'', ''danger'', ''I.AlertTriangle''))"

text \<open>A depth shown; \<open>None\<close> is \<open>NaN\<close>. \<open>Math.min(100, (d / maxDepth) * 100)\<close>, with the divisions by zero.\<close>

definition depth_num :: "int option \<Rightarrow> jsnum" where
  "depth_num d = (case d of None \<Rightarrow> NaN | Some n \<Rightarrow> Fin (of_int n))"

definition max_depth :: "queue_info list \<Rightarrow> rat" where
  "max_depth qs = of_nat (foldl max 0 (map qi_depth qs)) * (12 / 10)"

definition bar_width :: "rat \<Rightarrow> int option \<Rightarrow> jsnum" where
  "bar_width full d = (case d of
     None \<Rightarrow> NaN
   | Some n \<Rightarrow> if full = 0 then (if n = 0 then NaN else if n > 0 then Fin 100 else Infinity False)
               else Fin (min 100 (of_int n / full * 100)))"

definition queue_total :: "(string \<times> int option) list \<Rightarrow> jsnum" where
  "queue_total depths = (if None \<in> set (map snd depths) then NaN
     else Fin (of_int (foldl (\<lambda>a d. a + the d) 0 (map snd depths))))"

definition total_text :: "jsnum \<Rightarrow> string" where
  "total_text x = (case x of Fin r \<Rightarrow> fmtNum (nat \<lfloor>r\<rfloor>) | _ \<Rightarrow> ''NaN'')"

definition Summary :: "string \<Rightarrow> 'a node \<Rightarrow> string option \<Rightarrow> string option \<Rightarrow> bool \<Rightarrow> 'a node" where
  "Summary label val tone un pulse = Elem ''div'' [] []
     [Elem ''div'' [(''className'', AStr ''mono'')] [] [Text label],
      Elem ''div'' [] [] ([Elem ''span'' [(''color'', AStr (or_str tone ''var(--fg)''))] [] [val]] @ given_node un mono_text @
        (if pulse then [Elem ''span'' [(''className'', AStr ''pulse'')] [] []] else []))]"

definition queue_line :: "queue_info list \<Rightarrow> (string \<times> int option) list \<Rightarrow> nat \<times> queue_info \<Rightarrow> 'a node" where
  "queue_line qs depths = (\<lambda>(i, q).
     let (label, tone, ic) = KIND_META (qi_kind q); d = or_else (map_of depths (qi_name q)) None; fg = fst (tone_colors tone) in
     Elem ''div'' [(''key'', AStr (qi_name q)), (''borderBottom'', AStr (if i < length qs - 1 then ''1px solid var(--line)'' else ''0''))] []
       [Elem ''div'' [] [] [Elem ''span'' [(''color'', AStr fg)] [] [icon ic],
          Elem ''div'' [] [] [Elem ''div'' [(''className'', AStr ''mono'')] [] [Text (qi_name q)],
            Elem ''div'' [(''className'', AStr ''mono'')] [] [Text label]]],
        Elem ''div'' [] [] [Elem ''div'' [] [] [Elem ''div'' [(''width'', ANum (bar_width (max_depth qs) d)), (''background'', AStr fg)] [] []],
          Elem ''span'' [(''className'', AStr ''mono'')] [] (case map_of depths (qi_name q) of None \<Rightarrow> [] | Some x \<Rightarrow> [Number (depth_num x)])],
        Elem ''div'' [(''className'', AStr ''mono'')] [] [Text (up_arrow @ '' ''), Number (Fin (of_int (qi_in q))), Text ''/s''],
        Elem ''div'' [(''className'', AStr ''mono'')] [] [Text (down_arrow @ '' ''), Number (Fin (of_int (qi_out q))), Text ''/s''],
        Elem ''div'' [] [] [Elem ''span'' [(''className'', AStr ''mono'')] [] [Number (Fin (of_nat (qi_consumers q))), Text ''c''],
          StatusBadge (qi_state q) False]])"

definition flow_legend :: "'a node" where
  "flow_legend = Elem ''div'' [] []
     [mono_text ''flow'', Chip (Some ''accent'') [Text ''relay.work''], icon ''I.ArrowRight'', mono_text ''4xx defer'',
      Chip (Some ''warn'') [Text (''wait.30s '' @ arrow @ '' 5m '' @ arrow @ '' 30m'')], icon ''I.ArrowRight'', mono_text ''TTL+DLX requeue'',
      Elem ''span'' [] [] [], mono_text ''5xx / max attempts'', Chip (Some ''danger'') [Text ''relay.dlq''], icon ''I.ArrowRight'',
      mono_text ''DSN bounce'']"

definition queue_page :: "int \<Rightarrow> int \<Rightarrow> bool \<Rightarrow> (string \<times> int option) list \<Rightarrow> queue_info list \<Rightarrow> queue_act node" where
  "queue_page inRate outRate paused depths qs = Elem ''div'' [] []
     [PageHeader (icon ''I.Layers'') (Some ''data plane'') ''Queue monitor'' None
        (Some (''RabbitMQ 4.x'' @ middot @ ''quorum queues'' @ middot @ ''3-node cluster''))
        [Btn (btn\<lparr>bt_icon := [icon (if paused then ''I.Play'' else ''I.Pause'')], bt_size := ''sm'', bt_click := [TogglePause]\<rparr>)
           [Text (if paused then ''resume'' else ''pause''), Text '' stream''],
         Btn (btn\<lparr>bt_icon := [icon ''I.Refresh''], bt_size := ''sm'', bt_click := [PurgeDlq]\<rparr>) [Text ''purge dlq'']],
      ScreenBody False 22
        [Elem ''div'' [] []
           [Summary (''Total queued'' @ middot @ ''live'') (Text (total_text (queue_total depths))) None None (\<not> paused),
            Summary ''Ingress rate'' (Number (Fin (of_int inRate))) (Some ''var(--accent-2)'') (Some ''msg/s'') False,
            Summary ''Delivery rate'' (Number (Fin (of_int outRate))) (Some ''var(--accent-good)'') (Some ''msg/s'') False,
            Elem ''div'' [] [] [Elem ''div'' [(''className'', AStr ''mono'')] [] [Text ''Consumers''],
              Elem ''div'' [] [] [Elem ''span'' [] [] [Number (Fin (of_nat (queue_consumers qs)))], mono_text ''delivery workers'']]],
         flow_legend, Elem ''div'' [] [] (map (queue_line qs depths) (enumerate 0 qs))]]"

section \<open>Messages\<close>

datatype message_act = SetQuery string | SetFilter string | Select string | Toasts string

text \<open>The two treatments of a timeline.\<close>

definition trace_step :: "nat \<Rightarrow> nat \<times> ui_event \<Rightarrow> 'a node" where
  "trace_step n = (\<lambda>(i, e).
     let (fg, soft) = tone_colors (toneFor (ue_kind e)); is_last = (i = n - 1) in
     Elem ''li'' [] []
       [Elem ''div'' [] [] (Elem ''span'' [(''background'', AStr fg), (''boxShadow'', AStr (''0 0 0 3px '' @ soft))] [] [] #
          (if is_last then [] else [Elem ''span'' [(''background'', AStr ''var(--line)'')] [] []])),
        Elem ''div'' [(''paddingBottom'', px (if is_last then 0 else 14))] []
          [Elem ''div'' [] [] ([StatusBadge (ue_kind e) False] @ given_node (ue_provider e) mono_text @ [mono_text (ue_at e)]),
           Elem ''div'' [(''className'', AStr ''mono'')] [] [Text (ue_detail e)]]])"

definition TraceTimeline :: "ui_event list \<Rightarrow> 'a node" where
  "TraceTimeline events = Elem ''ol'' [] [] (map (trace_step (length events)) (enumerate 0 events))"

text \<open>The log reads the last event, and throws when there is none.\<close>

definition TraceLog :: "ui_event list \<Rightarrow> 'a node option" where
  "TraceLog events = (if events = [] then None
     else Some (Elem ''div'' [(''className'', AStr ''mono'')] []
       (map (\<lambda>e. Elem ''div'' [] []
          [Elem ''span'' [] [] [Text (ue_at e)],
           Elem ''span'' [(''color'', AStr (fst (tone_colors (toneFor (ue_kind e)))))] [] [Text (ue_kind e)],
           Elem ''span'' [] [] (given_node (ue_provider e) (\<lambda>p. Elem ''span'' [] [] [Text p, Text middot]) @ [Text (ue_detail e)])]) events @
        [Elem ''div'' [] [] [Elem ''span'' [] [] [Text (take 8 (ue_at (last events)))],
           Elem ''span'' [] [] [Text ''> '', Elem ''span'' [] [] [Text ''_'']]]])))"

definition MetaItem :: "string \<Rightarrow> 'a node \<Rightarrow> 'a node" where
  "MetaItem label c = Elem ''div'' [] [] [Elem ''div'' [(''className'', AStr ''mono'')] [] [Text label], Elem ''div'' [] [] [c]]"

definition detail_button :: "string \<Rightarrow> string \<Rightarrow> message_act list \<Rightarrow> message_act node" where
  "detail_button ic label acts = Elem ''button'' [(''className'', AStr ''mono'')]
     (if acts = [] then [] else [on ''onClick'' (\<lambda>_. acts)]) [icon ic, Text label]"

definition MessageDetail :: "ui_message option \<Rightarrow> string \<Rightarrow> message_act node option" where
  "MessageDetail msg traceStyle = (case msg of
     None \<Rightarrow> Some (Elem ''div'' [(''className'', AStr ''bg-grid'')] [] [Elem ''div'' [] [] [icon ''I.Mail'',
       Elem ''div'' [(''className'', AStr ''mono'')] [] [Text ''select a message to trace'']]])
   | Some m \<Rightarrow> (case (if traceStyle = ''log'' then TraceLog (um_events m) else Some (TraceTimeline (um_events m))) of
       None \<Rightarrow> None
     | Some trace \<Rightarrow> Some (Elem ''div'' [] []
         [Elem ''div'' [] [] [Elem ''div'' [] [] [mono_text (um_id m), Elem ''span'' [] [] [StatusBadge (um_status m) True]],
            Elem ''div'' [] [] [Text (um_subject m)]],
          Elem ''div'' [] []
            [Elem ''div'' [] []
               [MetaItem ''From'' (Text (um_mail_from m)), MetaItem ''To'' (Text (js_join '', '' (um_rcpt_to m))),
                MetaItem ''Provider'' (Text (um_provider m)), MetaItem ''Attempts'' (Number (Fin (of_nat (um_attempts m)))),
                MetaItem ''Size'' (Text (um_size m)), MetaItem ''Created'' (Text (um_created m))],
             Elem ''div'' [(''className'', AStr ''mono'')] [] [Text ''// delivery trace''], trace],
          Elem ''div'' [] []
            [detail_button ''I.Refresh'' ''requeue'' [Toasts ''Message requeued to relay.work''],
             detail_button ''I.Copy'' ''copy id'' [Toasts ''Message ID copied''], detail_button ''I.ExternalLink'' ''raw'' []]])))"

text \<open>A row of the list; the first recipient of a message without recipients is undefined, which shows nothing.\<close>

definition message_line :: "string \<Rightarrow> ui_message \<Rightarrow> message_act node" where
  "message_line selId m = (let chosen = (um_id m = selId) in
     Elem ''button'' [(''key'', AStr (um_id m)), (''background'', AStr (if chosen then ''var(--accent-soft)'' else ''transparent''))]
       [on ''onClick'' (\<lambda>_. [Select (um_id m)])]
       [StatusDot (um_status m) 6 (um_status m = ''queued''),
        Elem ''div'' [] [] [Elem ''div'' [] [] [Text (um_subject m)],
          Elem ''div'' [(''className'', AStr ''mono'')] []
            [Text (um_mail_from m), Text '' '', Elem ''span'' [] [] [Text arrow], Text '' '', Text (message_summary m)]],
        Elem ''div'' [] [] [StatusBadge (um_status m) False, mono_text (drop 11 (um_created m))]])"

record message_state =
  ms_query :: string
  ms_filter :: string
  ms_selected :: string

definition messages_page :: "string \<Rightarrow> ui_message list \<Rightarrow> message_state \<Rightarrow> message_act node option" where
  "messages_page traceStyle messages s =
     (let rows = message_rows (ms_filter s) (ms_query s) messages in
      map_option (\<lambda>detail. Elem ''div'' [] []
        [PageHeader (icon ''I.Mail'') (Some ''observability'') ''Message tracing'' (Some (nat_str (length rows) @ '' shown'')) None
           [SearchField (ms_query s) (\<lambda>v. [SetQuery v]) ''sender / recipient / subject / id'' [] 280,
            Btn (btn\<lparr>bt_icon := [icon ''I.Refresh''], bt_size := ''sm''\<rparr>) [Text ''refresh'']],
         Elem ''div'' [] []
           [Segmented (map plain_option STATUS_FILTERS) (ms_filter s) (\<lambda>v. [SetFilter v]) ''sm'',
            Elem ''span'' [(''className'', AStr ''mono'')] []
              [Text (''live tail'' @ middot), Number (Fin (of_nat (length messages))), Text '' in window'']],
         Elem ''div'' [] []
           [Elem ''div'' [] [] (map (message_line (ms_selected s)) rows @
              (if rows = [] then [Elem ''div'' [(''className'', AStr ''mono'')] [] [Text ''no messages match'']] else [])), detail]])
        (MessageDetail (selected_message (ms_selected s) messages) traceStyle))"

fun message_do :: "message_act \<Rightarrow> message_state \<Rightarrow> message_state" where
  "message_do (SetQuery v) s = s\<lparr>ms_query := v\<rparr>"
| "message_do (SetFilter v) s = s\<lparr>ms_filter := v\<rparr>"
| "message_do (Select i) s = s\<lparr>ms_selected := i\<rparr>"
| "message_do (Toasts t) s = s"

section \<open>Notifications\<close>

datatype notif_act = EditChannel "channel_form \<Rightarrow> channel_form" | AddChannel | TryChannel string string | RemoveChannel channel_view
  | FlipChannel channel_view

definition channel_line :: "channel_view \<Rightarrow> notif_act node" where
  "channel_line ch = Card False False None 14 [(''key'', AStr (cv_id ch)), (''opacity'', ANum (Fin (if cv_enabled ch then 1 else 6 / 10)))]
     [Elem ''div'' [] []
        ([icon ''I.AlertTriangle'', Elem ''span'' [] [] [Text (cv_name ch)]] @
         (if cv_type ch = ''email'' then given_node (cv_target ch) mono_text else []) @
         [Elem ''span'' [] [] [], Pill ''cyan'' True [Text (cv_type ch)],
          Pill (if cv_min_severity ch = ''error'' then ''danger'' else ''warn'') True
            [Text (if cv_min_severity ch = ''error'' then ''errors'' else ''warn+'')]] @
         (if cv_configured ch then [] else [Pill ''muted'' True [Text ''not configured'']]) @
         [Btn (btn\<lparr>bt_size := ''sm'', bt_icon := [icon ''I.Activity''], bt_click := [TryChannel (cv_id ch) (cv_name ch)]\<rparr>) [Text ''test''],
          IconBtn ''Delete'' [RemoveChannel ch] False 26 [icon ''I.Trash''],
          Toggle (cv_enabled ch) (\<lambda>_. [FlipChannel ch]) ''sm''])]"

definition labelled :: "string \<Rightarrow> 'a node \<Rightarrow> 'a node" where
  "labelled label c = Elem ''div'' [] [] [Elem ''label'' [] [] [Text label], c]"

definition plain_input :: "string \<Rightarrow> string \<Rightarrow> (string \<Rightarrow> 'a list) \<Rightarrow> 'a node" where
  "plain_input val placeholder onChange =
     Elem ''input'' [(''value'', AStr val), (''placeholder'', AStr placeholder)] [on ''onChange'' onChange] []"

definition add_card :: "channel_form \<Rightarrow> bool \<Rightarrow> notif_act node" where
  "add_card f waiting = Card False False None 16 []
     ([Elem ''div'' [] [] [mono_text ''Add channel'',
         Segmented [(''webhook'', ''webhook'', []), (''email'', ''email'', [])] (nf_type f) (\<lambda>v. [EditChannel (\<lambda>_. f\<lparr>nf_type := v\<rparr>)]) ''sm''],
       Elem ''div'' [] []
         [labelled ''name'' (plain_input (nf_name f) (if nf_type f = ''email'' then ''ops-email'' else ''ops-slack'')
            (\<lambda>v. [EditChannel (\<lambda>_. f\<lparr>nf_name := v\<rparr>)])),
          (if nf_type f = ''webhook''
           then labelled ''webhook URL (stored encrypted)'' (plain_input (nf_url f) (''https://hooks.slack.com/services/'' @ ellipsis)
             (\<lambda>v. [EditChannel (\<lambda>_. f\<lparr>nf_url := v\<rparr>)]))
           else labelled ''recipient address(es), comma-separated'' (plain_input (nf_target f) ''oncall@example.com, sre@example.com''
             (\<lambda>v. [EditChannel (\<lambda>_. f\<lparr>nf_target := v\<rparr>)]))),
          labelled ''fire on'' (Segmented [(''warning'', ''warn+'', []), (''error'', ''errors'', [])] (nf_min_severity f)
            (\<lambda>v. [EditChannel (\<lambda>_. f\<lparr>nf_min_severity := v\<rparr>)]) ''sm'')]] @
      (if nf_type f = ''email'' then [Elem ''div'' [] [] [Text (''Email is delivered through NovaMail's own relay. Set the alert sender under Settings '' @
         arrow @ '' Delivery identity (must be a permitted sender).'')]] else []) @
      [Elem ''div'' [] [] [Btn (btn\<lparr>bt_kind := ''primary'', bt_size := ''sm'', bt_icon := [icon ''I.Plus''], bt_click := [AddChannel]\<rparr>)
         [Text (if waiting then ''adding'' @ ellipsis else ''add channel'')]]])"

text \<open>The channels are \<open>None\<close> until they are loaded.\<close>

definition notifications_page :: "channel_view list option \<Rightarrow> channel_form \<Rightarrow> bool \<Rightarrow> notif_act node" where
  "notifications_page channels f waiting =
     (let chs = or_else channels [] in
      Elem ''div'' [] []
        [PageHeader (icon ''I.AlertTriangle'') (Some ''observe'') ''Notifications''
           (Some (nat_str (length chs) @ '' channel'' @ (if length chs = 1 then [] else ''s'')))
           (Some (''alerts on deliverability regressions'' @ middot @ ''webhook (Slack/Teams/PagerDuty) or email (via the relay)'' @ middot @
              ''edge-triggered + debounced'')) [],
         ScreenBody False 22
           ([add_card f waiting] @
            (if channels = Some [] then [Elem ''div'' [] [] [Text (''No alert channels. Add a webhook or email above to get notified when a domain's DNS regresses.'')]]
             else []) @
            [Elem ''div'' [] [] (map channel_line chs)])])"

text \<open>The requests of the switch and of the delete button.\<close>

definition flip_channel :: "channel_view \<Rightarrow> http_request" where
  "flip_channel ch = \<lparr>hr_method = ''PUT'', hr_path = ''/alert-channels/'' @ cv_id ch, hr_body = Some [(''enabled'', JBool (\<not> cv_enabled ch))]\<rparr>"

definition remove_channel :: "channel_view \<Rightarrow> http_request" where
  "remove_channel ch = \<lparr>hr_method = ''DELETE'', hr_path = ''/alert-channels/'' @ cv_id ch, hr_body = None\<rparr>"

text \<open>The body as the handler of the PUT reads it.\<close>

definition channel_body_of :: "(string \<times> json) list \<Rightarrow> channel_body" where
  "channel_body_of b =
     (let str = (\<lambda>k. case map_of b k of Some (JStr v) \<Rightarrow> Some v | _ \<Rightarrow> None) in
      \<lparr>cb_name = str ''name'', cb_type = str ''type'', cb_url = str ''url'', cb_target = str ''target'',
       cb_min_severity = str ''min_severity'',
       cb_enabled = (case map_of b ''enabled'' of Some (JBool v) \<Rightarrow> Some v | _ \<Rightarrow> None)\<rparr>)"

section \<open>The sign-in\<close>

datatype login_act = SetUser string | SetPass string | DoLogin

definition LoginField :: "string \<Rightarrow> string \<Rightarrow> string \<Rightarrow> (string \<Rightarrow> 'a list) \<Rightarrow> string \<Rightarrow> bool \<Rightarrow> 'a node" where
  "LoginField label type val onChange placeholder autoFocus = Elem ''label'' [] []
     [mono_text label,
      Elem ''input'' [(''type'', AStr type), (''value'', AStr val), (''placeholder'', AStr placeholder), (''autoFocus'', ABool autoFocus),
        (''className'', AStr ''mono'')] [on ''onChange'' onChange] []]"

definition login_page :: "string \<Rightarrow> string \<Rightarrow> string \<Rightarrow> string \<Rightarrow> bool \<Rightarrow> login_act node" where
  "login_page version user pass complaint waiting = Elem ''div'' [(''className'', AStr ''bg-grid'')] []
     [Elem ''div'' [] [] [],
      Elem ''div'' [] []
        [Elem ''div'' [] [] [icon ''I.Logo'', Elem ''span'' [(''className'', AStr ''mono'')] [] [Text ''nova'', Elem ''span'' [] [] [Text ''mail'']]],
         Elem ''div'' [] []
           [Elem ''div'' [(''className'', AStr ''mono'')] [] [Text ''// authenticate''],
            Elem ''div'' [] [] [Text ''Welcome back''],
            Elem ''div'' [] []
              ([LoginField ''email'' ''text'' user (\<lambda>v. [SetUser v]) ''you@domain.com'' True,
                Elem ''div'' [] [on ''onKeyDown'' (\<lambda>k. if k = ''Enter'' then [DoLogin] else [])]
                  [LoginField ''password'' ''password'' pass (\<lambda>v. [SetPass v]) (concat (replicate 12 bullet)) False]] @
               (if complaint = [] then []
                else [Elem ''div'' [(''className'', AStr ''mono'')] [] [icon ''I.AlertTriangle'', Text complaint]]) @
               [Elem ''button'' [(''disabled'', ABool waiting), (''className'', AStr ''mono''), (''opacity'', ANum (Fin (if waiting then 6 / 10 else 1)))]
                  [on ''onClick'' (\<lambda>_. [DoLogin])] [Text (if waiting then ''signing in'' @ ellipsis else ''sign in''), icon ''I.ArrowRight'']]),
            Elem ''div'' [] [] [Elem ''div'' [(''className'', AStr ''mono'')] []
              [Text (''self-hosted'' @ middot @ ''relay-only'' @ middot @ ''your mail, your infra'')]]],
         Elem ''div'' [] [] [Elem ''span'' [(''className'', AStr ''mono'')] [] [Elem ''span'' [(''className'', AStr ''pulse'')] [] [], Text ''relay online''],
           mono_text version]]]"

end
