(* ===== verification/UiTables.thy ===== *)
theory UiTables
  imports UiScreens
begin

text \<open>
  The list screens as they are rendered (\<open>tables.jsx\<close>, \<open>screens2.jsx\<close>): \<open>DataTable\<close>, the cells of each
  screen, and the pages around them. WebTables says what these screens contain and what a click on
  a cell does; here are the elements that have to do it.
\<close>

section \<open>Tables\<close>

text \<open>What a list page does: act on a row, or open a dialog, with the preset of a new rate limit.\<close>

datatype list_act = Act effect | New modal_cfg "(string \<times> string) option"

record 'r dom_column =
  dc_key :: string
  dc_label :: string
  dc_align :: "string option"
  dc_width :: "nat option"
  dc_mono :: bool
  dc_nowrap :: bool
  dc_render :: "'r \<Rightarrow> list_act node list"

definition dom_col :: "string \<Rightarrow> string \<Rightarrow> ('r \<Rightarrow> list_act node list) \<Rightarrow> 'r dom_column" where
  "dom_col key label render = \<lparr>dc_key = key, dc_label = label, dc_align = None, dc_width = None, dc_mono = False,
     dc_nowrap = False, dc_render = render\<rparr>"

definition mono_col :: "string \<Rightarrow> string \<Rightarrow> ('r \<Rightarrow> list_act node list) \<Rightarrow> 'r dom_column" where
  "mono_col key label render = (dom_col key label render)\<lparr>dc_mono := True\<rparr>"

text \<open>Right-aligned figures.\<close>

definition figure_col :: "string \<Rightarrow> string \<Rightarrow> ('r \<Rightarrow> list_act node list) \<Rightarrow> 'r dom_column" where
  "figure_col key label render = (mono_col key label render)\<lparr>dc_align := Some ''right''\<rparr>"

definition head_cell :: "'r dom_column \<Rightarrow> list_act node" where
  "head_cell c = Elem ''th'' ([(''key'', AStr (dc_key c)), (''className'', AStr ''mono''), (''textAlign'', AStr (or_str (dc_align c) ''left''))] @
     (case dc_width c of None \<Rightarrow> [] | Some w \<Rightarrow> [(''width'', px w)])) [] [Text (dc_label c)]"

definition table_cell :: "'r \<Rightarrow> 'r dom_column \<Rightarrow> list_act node" where
  "table_cell r c = Elem ''td'' [(''key'', AStr (dc_key c)), (''textAlign'', AStr (or_str (dc_align c) ''left'')),
     (''fontFamily'', AStr (if dc_mono c then ''var(--font-mono)'' else ''inherit'')),
     (''whiteSpace'', AStr (if dc_nowrap c then ''nowrap'' else ''normal''))] [] (dc_render c r)"

definition table_row ::
  "'r dom_column list \<Rightarrow> nat \<Rightarrow> ('r \<Rightarrow> string) \<Rightarrow> ('r \<Rightarrow> list_act list) option \<Rightarrow> nat \<times> 'r \<Rightarrow> list_act node" where
  "table_row cols n rowKey onRowClick = (\<lambda>(ri, r).
     Elem ''tr'' [(''key'', AStr (rowKey r)), (''borderBottom'', AStr (if int ri < int n - 1 then ''1px solid var(--line)'' else ''0'')),
         (''cursor'', AStr (if onRowClick = None then ''default'' else ''pointer''))]
       (case onRowClick of None \<Rightarrow> [] | Some h \<Rightarrow> [on ''onClick'' (\<lambda>_. h r)]) (map (table_cell r) cols))"

definition DataTable :: "'r dom_column list \<Rightarrow> 'r list \<Rightarrow> ('r \<Rightarrow> string) \<Rightarrow> ('r \<Rightarrow> list_act list) option \<Rightarrow> list_act node" where
  "DataTable cols rows rowKey onRowClick = Elem ''div'' [] [] [Elem ''div'' [] [] [Elem ''table'' [] []
     [Elem ''thead'' [] [] [Elem ''tr'' [] [] (map head_cell cols)],
      Elem ''tbody'' [] [] (map (table_row cols (length rows) rowKey onRowClick) (enumerate 0 rows))]]]"

text \<open>The two kinds of cells with controls stop a click before it reaches the row.\<close>

definition row_actions :: "'a list option \<Rightarrow> 'a list option \<Rightarrow> 'a node" where
  "row_actions onEdit onDelete = Elem ''div'' [] [stopping ''onClick'']
     ((case onEdit of None \<Rightarrow> [] | Some acts \<Rightarrow> [IconBtn ''Edit'' acts False 26 [icon ''I.Edit'']]) @
      (case onDelete of None \<Rightarrow> [] | Some acts \<Rightarrow> [IconBtn ''Delete'' acts False 26 [icon ''I.Trash'']]))"

definition switch_cell :: "bool \<Rightarrow> 'a list \<Rightarrow> 'a node" where
  "switch_cell b acts = Elem ''div'' [] [stopping ''onClick''] [Toggle b (\<lambda>_. acts) ''sm'']"

definition UsageBar :: "rat \<Rightarrow> 'a node" where
  "UsageBar v = (let pct = Fin (of_int (js_round (v * 100))) in
     Elem ''div'' [] []
       [Elem ''div'' [] [] [Elem ''div'' [(''width'', ANum pct), (''background'', AStr (''var(--accent-'' @ usage_tone v @ '')''))] [] []],
        Elem ''span'' [(''className'', AStr ''mono'')] [] [Number pct, Text ''%'']])"

section \<open>Pages\<close>

definition span :: "'a node list \<Rightarrow> 'a node" where
  "span cs = Elem ''span'' [] [] cs"

text \<open>A pattern, dimmed when it is the wildcard.\<close>

definition pattern_cell :: "string \<Rightarrow> string \<Rightarrow> 'a node" where
  "pattern_cell pat label = Elem ''span'' [(''color'', AStr (if pat = ''*'' then ''var(--fg-4)'' else ''var(--fg-1)''))] [] [Text label]"

definition switch_col :: "coll \<Rightarrow> ('r \<Rightarrow> item) \<Rightarrow> ('r \<Rightarrow> bool) \<Rightarrow> 'r dom_column" where
  "switch_col c item_of b = (dom_col ''enabled'' ''On'' (\<lambda>r. [switch_cell (b r) [Act (Toggled c (item_of r))]]))
     \<lparr>dc_align := Some ''center'', dc_width := Some 60\<rparr>"

definition edit_col :: "coll \<Rightarrow> ('r \<Rightarrow> item) \<Rightarrow> 'r dom_column" where
  "edit_col c item_of = (dom_col ''act'' [] (\<lambda>r. [row_actions (Some [Act (Edited c (item_of r))]) (Some [Act (Deleted c (item_of r))])]))
     \<lparr>dc_align := Some ''right'', dc_width := Some 72\<rparr>"

definition delete_col :: "coll \<Rightarrow> ('r \<Rightarrow> item) \<Rightarrow> 'r dom_column" where
  "delete_col c item_of = (dom_col ''act'' [] (\<lambda>r. [row_actions None (Some [Act (Deleted c (item_of r))])]))
     \<lparr>dc_align := Some ''right'', dc_width := Some 48\<rparr>"

definition new_button :: "string \<Rightarrow> modal_cfg option \<Rightarrow> (string \<times> string) option \<Rightarrow> list_act node list" where
  "new_button label cfg preset = [Btn (btn\<lparr>bt_kind := ''primary'', bt_icon := [icon ''I.Plus''], bt_size := ''sm'',
     bt_click := (case cfg of None \<Rightarrow> [] | Some m \<Rightarrow> [New m preset])\<rparr>) [Text label]]"

definition list_page ::
  "string \<Rightarrow> string \<Rightarrow> string \<Rightarrow> nat \<Rightarrow> string \<Rightarrow> list_act node list \<Rightarrow> list_act node \<Rightarrow> list_act node" where
  "list_page ic eyebrow title n sub actions table = Elem ''div'' [] []
     [PageHeader (icon ic) (Some eyebrow) title (Some (nat_str n)) (Some sub) actions, ScreenBody False 22 [table]]"

definition edit_row :: "coll \<Rightarrow> ('r \<Rightarrow> item) \<Rightarrow> ('r \<Rightarrow> list_act list) option" where
  "edit_row c item_of = Some (\<lambda>r. [Act (Edited c (item_of r))])"

section \<open>The screens of tables.jsx\<close>

definition chain_chips :: "ui_provider list \<Rightarrow> string list \<Rightarrow> 'a node" where
  "chain_chips providers chain = Elem ''div'' [] [] (concat (map (\<lambda>(i, p).
     (if i > 0 then [icon ''I.ArrowRight''] else []) @ [Chip (if i = 0 then Some ''accent'' else None) [Text (chain_name providers p)]])
     (enumerate 0 chain)))"

definition rule_cols :: "ui_provider list \<Rightarrow> ui_rule dom_column list" where
  "rule_cols providers =
     [(mono_col ''priority'' ''Prio'' (\<lambda>r. [if ur_isDefault r then Chip None [Text ''default''] else Number (Fin (ur_priority r))]))
        \<lparr>dc_width := Some 60\<rparr>,
      mono_col ''recipient_domain'' ''Recipient'' (\<lambda>r. [pattern_cell (ur_recipient_domain r) (ur_recipient_domain r)]),
      mono_col ''sender_domain'' ''Sender'' (\<lambda>r. [pattern_cell (ur_sender_domain r) (ur_sender_domain r)]),
      dom_col ''provider_chain'' ''Provider chain'' (\<lambda>r. [chain_chips providers (ur_provider_chain r)]),
      (figure_col ''matched24h'' ''Matched 24h'' (\<lambda>r. [span [Text (fmtNum 0)]]))\<lparr>dc_nowrap := True\<rparr>,
      switch_col Rules rule_item ur_enabled, edit_col Rules rule_item]"

definition rules_page :: "ui_provider list \<Rightarrow> ui_rule list \<Rightarrow> list_act node" where
  "rules_page providers rules = list_page ''I.Route'' ''routing'' ''Routing rules'' (length rules)
     (''recipient-domain '' @ arrow @ '' sender-domain '' @ arrow @ '' default'' @ middot @ ''first match wins'')
     (new_button ''new rule'' (create_cfg Rules) None)
     (DataTable (rule_cols providers) rules ur_id (Some (\<lambda>r. if ur_isDefault r then [] else [Act (Edited Rules (rule_item r))])))"

definition domain_cols :: "ui_domain dom_column list" where
  "domain_cols =
     [mono_col ''domain'' ''Domain'' (\<lambda>r. [span [icon ''I.Globe'', Text (ud_domain r)]]),
      mono_col ''dkim_selector'' ''DKIM selector'' (\<lambda>r. [span [Text (ud_dkim_selector r), Text ''._domainkey'']]),
      dom_col ''dkim'' ''DKIM'' (\<lambda>r. [StatusBadge (ud_dkim r) True]),
      dom_col ''verified'' ''Verified'' (\<lambda>r. [if ud_verified r then span [icon ''I.CheckCircle''] else mono_text ''awaiting DNS'']),
      (figure_col ''messages24h'' ''Messages 24h'' (\<lambda>r. [span [Text (fmtNum (ud_messages24h r))]]))\<lparr>dc_nowrap := True\<rparr>,
      edit_col Domains domain_item]"

definition domains_page :: "ui_domain list \<Rightarrow> list_act node" where
  "domains_page domains = list_page ''I.Globe'' ''routing'' ''Relay domains'' (length domains)
     (''domains this relay is authorized to send for'' @ middot @ ''DKIM signed at delivery'')
     (new_button ''add domain'' (create_cfg Domains) None)
     (DataTable domain_cols domains ud_domain (edit_row Domains domain_item))"

definition per_second :: "rat \<Rightarrow> 'a node" where
  "per_second x = span [Number (Fin x), span [Text ''/s'']]"

definition all_rate_cols :: "ui_rate dom_column list" where
  "all_rate_cols =
     [mono_col ''domain'' ''Domain'' (\<lambda>r. [span (Text (ut_domain r) # given_node (ut_note r) (\<lambda>n. Chip None [Text n]))]),
      figure_col ''per_second'' ''Per second'' (\<lambda>r. [per_second (ut_per_second r)]),
      figure_col ''burst'' ''Burst'' (\<lambda>r. [Number (Fin (ut_burst r))]),
      (dom_col ''usage'' ''Current usage'' (\<lambda>r. [UsageBar 0]))\<lparr>dc_width := Some 180\<rparr>,
      switch_col RateLimits rate_item ut_enabled, edit_col RateLimits rate_item]"

definition all_rates_page :: "ui_rate list \<Rightarrow> list_act node" where
  "all_rates_page rates = list_page ''I.Gauge'' ''routing'' ''Rate limits'' (length rates)
     (''per-recipient-domain token buckets'' @ middot @ ''throttled domains dead-letter to wait tiers'')
     (new_button ''new limit'' (create_cfg RateLimits) None)
     (DataTable all_rate_cols rates ut_domain (edit_row RateLimits rate_item))"

definition chip_list :: "string list \<Rightarrow> 'a node" where
  "chip_list xs = Elem ''div'' [] [] (map (\<lambda>d. Chip None [Text d]) xs)"

definition account_cols :: "ui_account dom_column list" where
  "account_cols =
     [mono_col ''username'' ''Username'' (\<lambda>r. [span [icon ''I.Key'', Text (ua_username r)]]),
      dom_col ''allowed_sender_domains'' ''Allowed sender domains'' (\<lambda>r. [chip_list (ua_domains r)]),
      (figure_col ''sent24h'' ''Sent 24h'' (\<lambda>r. [span [Text (fmtNum 0)]]))\<lparr>dc_nowrap := True\<rparr>,
      (figure_col ''lastAuth'' ''Last auth'' (\<lambda>r. [span [Text mdash]]))\<lparr>dc_nowrap := True\<rparr>,
      switch_col Accounts account_item ua_enabled, edit_col Accounts account_item]"

definition accounts_page :: "ui_account list \<Rightarrow> list_act node" where
  "accounts_page accounts = list_page ''I.Key'' ''access'' ''Accounts'' (length accounts)
     (''SMTP submission credentials'' @ middot @ ''passwords envelope-encrypted at rest'')
     (new_button ''new account'' (create_cfg Accounts) None)
     (DataTable account_cols accounts ua_id (edit_row Accounts account_item))"

section \<open>The screens of screens2.jsx\<close>

definition client_cols :: "ui_client dom_column list" where
  "client_cols =
     [mono_col ''cidr'' ''Source range'' (\<lambda>r. [span [icon ''I.Globe'', Text (uc_cidr r)]]),
      dom_col ''description'' ''Description'' (\<lambda>r. [span [Text (or_str (Some (uc_description r)) mdash)]]),
      dom_col ''allowed_sender_domains'' ''Allowed senders'' (\<lambda>r. [chip_list (if uc_domains r \<noteq> [] then uc_domains r else [''any''])]),
      switch_col RelayClients client_item uc_enabled, edit_col RelayClients client_item]"

definition clients_page :: "ui_client list \<Rightarrow> list_act node" where
  "clients_page clients = list_page ''I.Globe'' ''incoming'' ''Relay clients'' (length clients)
     ''trusted source ranges that may relay WITHOUT SMTP AUTH (IP-authenticated)''
     (new_button ''add range'' (create_cfg RelayClients) None)
     (DataTable client_cols clients uc_id (edit_row RelayClients client_item))"

definition rate_cols :: "string \<Rightarrow> ui_rate dom_column list" where
  "rate_cols direction =
     [mono_col ''scope'' ''Scope'' (\<lambda>r. [Chip (Some ''accent'')
        [Text (or_str (Some (ut_scope r)) (if direction = ''in'' then ''global'' else ''recipient_domain''))]]),
      mono_col ''domain'' ''Key'' (\<lambda>r. [pattern_cell (ut_domain r) (if ut_domain r = ''*'' then ''all'' else ut_domain r)]),
      figure_col ''per_second'' ''Per second'' (\<lambda>r. [per_second (ut_per_second r)]),
      figure_col ''burst'' ''Burst'' (\<lambda>r. [Number (Fin (ut_burst r))]),
      switch_col RateLimits rate_item ut_enabled, edit_col RateLimits rate_item]"

definition rates_page :: "string \<Rightarrow> ui_rate list \<Rightarrow> list_act node" where
  "rates_page direction rates =
     (let rows = rate_rows direction rates; inbound = (direction = ''in'') in
      list_page ''I.Gauge'' (if inbound then ''incoming'' else ''outgoing'')
        (if inbound then ''Inbound rate limits'' else ''Outbound rate limits'') (length rows)
        (if inbound then ''token buckets on submission'' @ middot @ ''per account / source IP / global '' @ arrow @ '' 451 when exceeded''
         else ''token buckets on delivery'' @ middot @ ''per recipient domain / provider / global'')
        (new_button ''new limit'' (create_cfg RateLimits) (Some (direction, if inbound then ''account'' else ''recipient_domain'')))
        (DataTable (rate_cols direction) rows ut_id (edit_row RateLimits rate_item)))"

definition dkim_cols :: "ui_dkim dom_column list" where
  "dkim_cols =
     [mono_col ''domain'' ''Domain'' (\<lambda>(kid, d, s, rot). [span [icon ''I.Shield'', Text d]]),
      mono_col ''selector'' ''Selector'' (\<lambda>(kid, d, s, rot). [span [Text s, Text ''._domainkey'']]),
      dom_col ''rotation'' ''Status'' (\<lambda>(kid, d, s, rot). [StatusBadge (dkim_status rot) True]),
      delete_col Dkim dkim_item]"

definition dkim_page :: "ui_dkim list \<Rightarrow> list_act node" where
  "dkim_page keys = list_page ''I.Shield'' ''outgoing'' ''DKIM keys'' (length keys)
     (''per-domain signing keys'' @ middot @ ''private key envelope-encrypted'' @ middot @ ''publish the DNS TXT to verify'')
     (new_button ''generate key'' (Some \<lparr>mc_kind = Some ''dkimgen'', mc_coll = None, mc_item = None\<rparr>) None)
     (DataTable dkim_cols keys fst None)"

definition suppression_cols :: "(nat \<Rightarrow> string) \<Rightarrow> (string \<times> string \<times> string \<times> nat) dom_column list" where
  "suppression_cols fmtWhen =
     [mono_col ''address'' ''Address'' (\<lambda>(a, reason, source, t). [span [icon ''I.Ban'', Text a]]),
      dom_col ''reason'' ''Reason'' (\<lambda>(a, reason, source, t). [Chip (reason_tone reason) [Text reason]]),
      mono_col ''source'' ''Source'' (\<lambda>(a, reason, source, t). [span [Text source]]),
      (figure_col ''created_at'' ''Added'' (\<lambda>(a, reason, source, t). [span [Text (fmtWhen t)]]))\<lparr>dc_nowrap := True\<rparr>,
      delete_col Suppressions suppression_item]"

definition suppressions_page :: "(nat \<Rightarrow> string) \<Rightarrow> (string \<times> string \<times> string \<times> nat) list \<Rightarrow> list_act node" where
  "suppressions_page fmtWhen rows = list_page ''I.Ban'' ''observe'' ''Suppressions'' (length rows)
     (''recipients skipped on send'' @ middot @ ''auto-added on hard bounce / complaint, or manually'')
     (new_button ''suppress address'' (create_cfg Suppressions) None)
     (DataTable (suppression_cols fmtWhen) rows fst None)"

text \<open>The audit log is read-only; \<open>row_id\<close> reads the id of a row.\<close>

definition audit_cols :: "(nat \<Rightarrow> string) \<Rightarrow> (string \<times> string \<times> string \<times> nat) dom_column list" where
  "audit_cols fmtWhen =
     [(mono_col ''at'' ''When'' (\<lambda>(actor, action, target, t). [span [Text (fmtWhen t)]]))\<lparr>dc_nowrap := True, dc_width := Some 150\<rparr>,
      mono_col ''actor'' ''Actor'' (\<lambda>(actor, action, target, t). [Chip (if actor = ''api-key'' then None else Some ''accent'') [Text actor]]),
      mono_col ''action'' ''Action'' (\<lambda>(actor, action, target, t). [span [Text action]]),
      mono_col ''target'' ''Target'' (\<lambda>(actor, action, target, t). [span [Text target]])]"

definition audit_page :: "(nat \<Rightarrow> string) \<Rightarrow> (string \<times> string \<times> string \<times> nat \<Rightarrow> string) \<Rightarrow>
    (string \<times> string \<times> string \<times> nat) list \<Rightarrow> list_act node" where
  "audit_page fmtWhen row_id rows = list_page ''I.List'' ''observe'' ''Audit log'' (length rows)
     ''every configuration change, attributed to the operator who made it'' []
     (DataTable (audit_cols fmtWhen) rows row_id None)"

definition operator_cols :: "ui_operator dom_column list" where
  "operator_cols =
     [mono_col ''username'' ''Username'' (\<lambda>u. [span [icon ''I.Users'', Text (uo_username u)]]),
      dom_col ''role'' ''Role'' (\<lambda>u. [Chip (if uo_role u = ''admin'' then Some ''accent'' else None) [Text (uo_role u)]]),
      dom_col ''enabled'' ''Status'' (\<lambda>u. [StatusBadge (if uo_enabled u then ''active'' else ''idle'') True]),
      delete_col Operators operator_item]"

definition operators_page :: "ui_operator list \<Rightarrow> list_act node" where
  "operators_page users = list_page ''I.Users'' ''observe'' ''Operators'' (length users)
     (''management-plane logins'' @ middot @ ''distinct from SMTP submission accounts'')
     (new_button ''new operator'' (create_cfg Operators) None)
     (DataTable operator_cols users uo_id None)"

end
