(* ===== verification/UiTableFacts.thy ===== *)
theory UiTableFacts
  imports UiTables
begin

text \<open>
  The rendered list screens do what WebTables says of them: the table shows the cells of the
  screen, and a click anywhere in it runs, by the rules of event propagation, exactly the handlers that
  \<open>click\<close> names. The one place \<open>click\<close> does not speak of is the padding around a cell's content,
  which belongs to the row.
\<close>

section \<open>Paths, texts and inert elements\<close>

primrec on_page :: "nat list \<Rightarrow> 'a node \<Rightarrow> bool" where
  "on_page [] n \<longleftrightarrow> True"
| "on_page (i # p) n \<longleftrightarrow> i < length (kids n) \<and> on_page p (kids n ! i)"

primrec node_at :: "nat list \<Rightarrow> 'a node \<Rightarrow> 'a node" where
  "node_at [] n = n"
| "node_at (i # p) n = node_at p (kids n ! i)"

text \<open>The text of an element; \<open>str\<close> writes a number.\<close>

primrec shown :: "(jsnum \<Rightarrow> string) \<Rightarrow> 'a node \<Rightarrow> string" where
  "shown str (Text s) = s"
| "shown str (Number x) = str x"
| "shown str (Elem t xs es cs) = concat (map (shown str) cs)"

text \<open>Elements without handlers, buttons and labels: they leave every click to their parents.\<close>

primrec inert :: "'a node \<Rightarrow> bool" where
  "inert (Text s) \<longleftrightarrow> True"
| "inert (Number x) \<longleftrightarrow> True"
| "inert (Elem t xs es cs) \<longleftrightarrow> es = [] \<and> t \<noteq> ''button'' \<and> t \<noteq> ''label'' \<and> list_all id (map inert cs)"

primrec label_free :: "'a node \<Rightarrow> bool" where
  "label_free (Text s) \<longleftrightarrow> True"
| "label_free (Number x) \<longleftrightarrow> True"
| "label_free (Elem t xs es cs) \<longleftrightarrow> t \<noteq> ''label'' \<and> list_all id (map label_free cs)"

lemma kids_simps [simp]: "kids (Elem t xs es cs) = cs" "kids (Text s) = []" "kids (Number x) = []"
  by (simp_all add: kids_def)

lemma inert_label_free: "inert n \<Longrightarrow> label_free n"
  by (induction n) (auto simp: list_all_iff)

lemma inert_kid: "inert n \<Longrightarrow> i < length (kids n) \<Longrightarrow> inert (kids n ! i)"
  by (cases n) (auto simp: list_all_iff)

lemma label_free_kid: "label_free n \<Longrightarrow> i < length (kids n) \<Longrightarrow> label_free (kids n ! i)"
  by (cases n) (auto simp: list_all_iff)

lemma activated_label_free: "label_free n \<Longrightarrow> activated p n = None"
proof (induction p arbitrary: n)
  case Nil
  then show ?case by (cases n) (auto simp: tag_def)
next
  case (Cons i p)
  have "tag n \<noteq> ''label''" using Cons.prems by (cases n) (auto simp: tag_def)
  with Cons show ?case by (simp add: label_free_kid)
qed

lemma dispatch_inert: "inert n \<Longrightarrow> on_page p n \<Longrightarrow> dispatch ev v p n = (True, [])"
proof (induction p arbitrary: n)
  case Nil
  then show ?case by (cases n) (auto simp: own_def)
next
  case (Cons i p)
  then have "dispatch ev v p (kids n ! i) = (True, [])" by (simp add: inert_kid)
  moreover have "own ev v n = (True, [])" using Cons.prems by (cases n) (auto simp: own_def)
  ultimately show ?case using Cons.prems by simp
qed

lemma dispatch_through: "i < length cs \<Longrightarrow> t \<noteq> ''button'' \<Longrightarrow>
    dispatch ev v (i # p) (Elem t xs [] cs) = dispatch ev v p (cs ! i)"
  by (simp add: own_def split: prod.split)

lemmas dispatch_steps = dispatch_through on_page.simps node_at.simps

section \<open>Cells\<close>

fun cell_text :: "(jsnum \<Rightarrow> string) \<Rightarrow> cell \<Rightarrow> string" where
  "cell_text str (Plain s) = s"
| "cell_text str (Num r u) = str (Fin r) @ u"
| "cell_text str (Count n) = fmtNum n"
| "cell_text str (Chips cs) = concat (map fst cs)"
| "cell_text str (Badge s) = s"
| "cell_text str Tick = []"
| "cell_text str (Usage u) = str (Fin (of_int (js_round (u * 100)))) @ ''%''"
| "cell_text str (Switch b) = []"
| "cell_text str (RowActions e d) = []"

text \<open>What a place in a cell is: \<open>q\<close> is the path from the cell.\<close>

fun spot_at :: "cell \<Rightarrow> nat list \<Rightarrow> spot" where
  "spot_at (Switch b) (k # m # q) = OnSwitch"
| "spot_at (RowActions e d) (k # m # q) = (if e \<and> m = 0 then OnEdit else OnDelete)"
| "spot_at x q = OnCell"

text \<open>The elements of a cell that fit its description.\<close>

fun cell_nodes :: "(jsnum \<Rightarrow> string) \<Rightarrow> coll \<Rightarrow> item \<Rightarrow> cell \<Rightarrow> list_act node list \<Rightarrow> bool" where
  "cell_nodes str c it (Switch b) ns \<longleftrightarrow> ns = [switch_cell b [Act (Toggled c it)]]"
| "cell_nodes str c it (RowActions e d) ns \<longleftrightarrow>
     ns = [row_actions (if e then Some [Act (Edited c it)] else None) (if d then Some [Act (Deleted c it)] else None)]"
| "cell_nodes str c it x ns \<longleftrightarrow> list_all inert ns \<and> concat (map (shown str) ns) = cell_text str x"

text \<open>What the handlers of a cell do, and whether the click goes on to the row.\<close>

fun cell_acts :: "coll \<Rightarrow> item \<Rightarrow> cell \<Rightarrow> spot \<Rightarrow> bool \<times> list_act list" where
  "cell_acts c it (Switch b) sp = (False, if sp = OnSwitch then [Act (Toggled c it)] else [])"
| "cell_acts c it (RowActions e d) sp = (False,
     if sp = OnEdit \<and> e then [Act (Edited c it)] else if sp = OnDelete \<and> d then [Act (Deleted c it)] else [])"
| "cell_acts c it x sp = (True, [])"

lemma click_switch: "on_page (m # q) (switch_cell b acts) \<Longrightarrow> dispatch ''onClick'' v (m # q) (switch_cell b acts) = (False, acts)"
proof -
  assume p: "on_page (m # q) (switch_cell b acts)"
  then have m: "m = 0" by (simp add: switch_cell_def)
  obtain w h k bg bc cs where t: "Toggle b (\<lambda>_. acts) ''sm'' = Elem ''button'' [(''width'', w), (''height'', h), (''background'', bg), (''borderColor'', bc)]
      [on ''onClick'' (\<lambda>_. acts)] [Elem ''span'' cs [] []]" by (simp add: Toggle_def Let_def)
  show ?thesis
  proof (cases q)
    case Nil
    with m t show ?thesis by (simp add: switch_cell_def own_def on_def stopping_def)
  next
    case (Cons i q')
    with p m t have "i = 0" "q' = []" by (auto simp: switch_cell_def) (cases q'; simp)
    with m t Cons show ?thesis by (simp add: switch_cell_def own_def on_def stopping_def)
  qed
qed

lemma click_icon_button: "on_page q (IconBtn t acts False sz [icon ic]) \<Longrightarrow>
    dispatch ''onClick'' v q (IconBtn t acts False sz [icon ic]) = (True, acts)"
  by (cases q; cases "tl q") (auto simp: IconBtn_def own_def on_def icon_def)

lemma click_row_actions: "on_page (m # q) (row_actions e d) \<Longrightarrow>
    dispatch ''onClick'' v (m # q) (row_actions e d) = (False, if e \<noteq> None \<and> m = 0 then the e else or_else d [])"
  by (cases e; cases d) (auto simp: row_actions_def less_Suc_eq click_icon_button stopping_def own_def or_else_def nth_Cons')

lemma cell_click:
  assumes "cell_nodes str c it x ns" and "k < length ns" and "on_page q (ns ! k)"
  shows "dispatch ''onClick'' v q (ns ! k) = cell_acts c it x (spot_at x (k # q))"
proof (cases x)
  case (Switch b)
  with assms show ?thesis
    by (cases q) (simp_all add: click_switch del: dispatch.simps(2), simp add: switch_cell_def own_def stopping_def)
next
  case (RowActions e d)
  show ?thesis
  proof (cases q)
    case Nil
    with RowActions assms show ?thesis by (auto simp: row_actions_def own_def stopping_def)
  next
    case (Cons m q')
    let ?e = "if e then Some [Act (Edited c it)] else None" and ?d = "if d then Some [Act (Deleted c it)] else None"
    have n: "ns ! k = row_actions ?e ?d" using RowActions assms by simp
    have p: "on_page (m # q') (row_actions ?e ?d)" using assms(3) unfolding n Cons .
    then have "m = 0 \<or> d" by (auto simp: row_actions_def split: if_splits)
    then show ?thesis unfolding n Cons click_row_actions [OF p] by (simp add: RowActions or_else_def)
  qed
qed (use assms in \<open>simp_all add: dispatch_inert list_all_length\<close>)

lemma cell_acts_click: "i < length (sc_rows s) \<Longrightarrow> j < length (sc_cols s) \<Longrightarrow>
    cell_acts (sc_coll s) (sc_item s (sc_rows s ! i)) (cn_render (sc_cols s ! j) (sc_rows s ! i))
      (spot_at (cn_render (sc_cols s ! j) (sc_rows s ! i)) q) = (go, acts) \<Longrightarrow>
    acts @ (if go then map Act (click_row s (sc_rows s ! i)) else []) =
      map Act (click s i j (spot_at (cn_render (sc_cols s ! j) (sc_rows s ! i)) q))"
  by (cases "cn_render (sc_cols s ! j) (sc_rows s ! i)") (auto simp: click_def Let_def)

lemma cell_nodes_text: "cell_nodes str c it x ns \<Longrightarrow> concat (map (shown str) ns) = cell_text str x"
  by (cases x) (auto simp: switch_cell_def Toggle_def row_actions_def IconBtn_def icon_def Let_def)

lemma activated_through: "t \<noteq> ''label'' \<Longrightarrow> i < length cs \<Longrightarrow> activated p (cs ! i) = None \<Longrightarrow>
    activated (i # p) (Elem t xs es cs) = None"
  by (simp add: tag_def)

lemma label_free_Elem: "label_free (Elem t xs es cs) \<longleftrightarrow> t \<noteq> ''label'' \<and> list_all label_free cs"
  by (simp add: list.pred_map)

lemma cell_nodes_label_free: "cell_nodes str c it x ns \<Longrightarrow> list_all label_free ns"
  by (cases x) (auto simp: list_all_iff inert_label_free switch_cell_def Toggle_def row_actions_def IconBtn_def icon_def Let_def)

section \<open>The contract of a list screen\<close>

definition renders :: "'r screen \<Rightarrow> list_act node \<Rightarrow> bool" where
  "renders s page \<longleftrightarrow>
     (let table = node_at [1, 0, 0, 0, 0] page; head = node_at [0, 0] table; body = node_at [1] table in
      (\<forall>str. map (shown str) (kids head) = fst (data_table s)) \<and>
      (\<forall>str. map (\<lambda>tr. (attr_of ''key'' tr, map (shown str) (kids tr))) (kids body) =
         map (\<lambda>(k, xs). (Some (AStr k), map (cell_text str) xs)) (snd (data_table s))) \<and>
      (\<forall>i j q. i < length (sc_rows s) \<and> j < length (sc_cols s) \<and> on_page ([1, 0, 0, 0, 0, 1, i, j] @ q) page \<longrightarrow>
         user_click ([1, 0, 0, 0, 0, 1, i, j] @ q) page = map Act
           (if q = [] then click_row s (sc_rows s ! i)
            else click s i j (spot_at (cn_render (sc_cols s ! j) (sc_rows s ! i)) q))) \<and>
      (\<exists>cfg preset. sc_new s = Some cfg \<and> user_click [0, 1, 0] page = [New cfg preset]))"

locale list_view =
  fixes s :: "'r screen" and cols :: "'r dom_column list" and rowClick :: "('r \<Rightarrow> list_act list) option"
  assumes columns: "list_all2 (\<lambda>c d. cn_label c = dc_label d \<and>
      (\<forall>str r. cell_nodes str (sc_coll s) (sc_item s r) (cn_render c r) (dc_render d r))) (sc_cols s) cols"
    and row_click: "(case rowClick of None \<Rightarrow> [] | Some h \<Rightarrow> h r) = map Act (click_row s r)"
begin

lemma cells: "j < length cols \<Longrightarrow> cell_nodes str (sc_coll s) (sc_item s r) (cn_render (sc_cols s ! j) r) (dc_render (cols ! j) r)"
  using columns by (simp add: list_all2_conv_all_nth)

lemma n_cols: "length cols = length (sc_cols s)"
  using columns by (simp add: list_all2_lengthD)

lemma labels: "map dc_label cols = map cn_label (sc_cols s)"
  using columns by (induction rule: list_all2_induct) auto

lemma row_own: "own ''onClick'' v (table_row cols n key rowClick (i, r)) = (True, map Act (click_row s r))"
  using row_click [of r] by (cases rowClick) (simp_all add: table_row_def own_def on_def)

lemma td_click:
  assumes "i < length (sc_rows s)" and "j < length cols" and "on_page q (table_cell (sc_rows s ! i) (cols ! j))"
  shows "snd (dispatch ''onClick'' v (j # q) (table_row cols n key rowClick (i, sc_rows s ! i))) = map Act
      (if q = [] then click_row s (sc_rows s ! i) else click s i j (spot_at (cn_render (sc_cols s ! j) (sc_rows s ! i)) q))"
proof -
  let ?r = "sc_rows s ! i"
  have tr: "kids (table_row cols n key rowClick (i, ?r)) = map (table_cell ?r) cols" by (simp add: table_row_def)
  show ?thesis
  proof (cases q)
    case Nil
    have "dispatch ''onClick'' v [] (table_cell ?r (cols ! j)) = (True, [])" by (simp add: table_cell_def own_def)
    with Nil assms(2) tr show ?thesis by (simp add: row_own)
  next
    case (Cons k q')
    with assms(3) have k: "k < length (dc_render (cols ! j) ?r)" "on_page q' (dc_render (cols ! j) ?r ! k)"
      by (simp_all add: table_cell_def)
    obtain go acts where d: "cell_acts (sc_coll s) (sc_item s ?r) (cn_render (sc_cols s ! j) ?r)
        (spot_at (cn_render (sc_cols s ! j) ?r) (k # q')) = (go, acts)" by fastforce
    have "dispatch ''onClick'' v q (table_cell ?r (cols ! j)) = (go, acts)"
      unfolding Cons table_cell_def using cell_click [OF cells [OF assms(2)] k] d k(1) by (subst dispatch_through) simp_all
    with assms(2) tr have "snd (dispatch ''onClick'' v (j # q) (table_row cols n key rowClick (i, ?r))) =
        acts @ (if go then map Act (click_row s ?r) else [])" by (simp add: row_own)
    with cell_acts_click [OF assms(1) _ d] assms(2) Cons show ?thesis by (simp add: n_cols)
  qed
qed

lemma td_label_free:
  assumes "c \<in> set cols"
  shows "label_free (table_cell r c)"
proof -
  obtain j where j: "j < length cols" "cols ! j = c" using assms unfolding in_set_conv_nth by blast
  have "list_all label_free (dc_render c r)" using cell_nodes_label_free [OF cells [OF j(1)], of r] unfolding j(2) .
  then show ?thesis by (simp only: table_cell_def label_free_Elem) simp
qed

lemma page_click:
  assumes "i < length (sc_rows s)" and "j < length (sc_cols s)"
    and "on_page ([1, 0, 0, 0, 0, 1, i, j] @ q) (list_page ic eb title n sub actions (DataTable cols (sc_rows s) key rowClick))"
  shows "user_click ([1, 0, 0, 0, 0, 1, i, j] @ q) (list_page ic eb title n sub actions (DataTable cols (sc_rows s) key rowClick)) =
      map Act (if q = [] then click_row s (sc_rows s ! i) else click s i j (spot_at (cn_render (sc_cols s ! j) (sc_rows s ! i)) q))"
proof -
  let ?page = "list_page ic eb title n sub actions (DataTable cols (sc_rows s) key rowClick)" and ?r = "sc_rows s ! i"
  let ?tr = "table_row cols (length (sc_rows s)) key rowClick (i, ?r)"
  from assms have j: "j < length cols" by (simp add: n_cols)
  have q: "on_page q (table_cell ?r (cols ! j))"
    using assms(1,3) j by (simp add: list_page_def ScreenBody_def DataTable_def nth_enumerate_eq table_row_def)
  have "dispatch ''onClick'' [] ([1, 0, 0, 0, 0, 1, i, j] @ q) ?page = dispatch ''onClick'' [] (j # q) ?tr"
    using assms(1) by (simp add: list_page_def ScreenBody_def DataTable_def dispatch_through nth_enumerate_eq del: dispatch.simps(2))
  moreover have "activated (j # q) ?tr = None"
    unfolding table_row_def using j td_label_free by (simp add: activated_through activated_label_free del: activated.simps(2))
  then have "activated ([1, 0, 0, 0, 0, 1, i, j] @ q) ?page = None"
    using assms(1) by (simp add: list_page_def ScreenBody_def DataTable_def activated_through nth_enumerate_eq del: activated.simps(2))
  ultimately show ?thesis using td_click [OF assms(1) j q] by (simp only: user_click_def option.case append_Nil2)
qed

lemma head_shown: "map (shown str) (map head_cell cols) = map cn_label (sc_cols s)"
  unfolding labels [symmetric] by (simp add: head_cell_def)

lemma row_shown: "map (shown str) (map (table_cell r) cols) = map (\<lambda>c. cell_text str (cn_render c r)) (sc_cols s)"
  by (rule nth_equalityI) (simp_all add: n_cols table_cell_def cell_nodes_text [OF cells])

lemma tr_shown: "(attr_of ''key'' (table_row cols n key rowClick (i, r)), map (shown str) (kids (table_row cols n key rowClick (i, r)))) =
    (Some (AStr (key r)), map (\<lambda>c. cell_text str (cn_render c r)) (sc_cols s))"
  by (simp only: table_row_def prod.case kids_simps row_shown) (simp add: attr_of_def)

lemma table_shown: "map (\<lambda>tr. (attr_of ''key'' tr, map (shown str) (kids tr))) (map (table_row cols n key rowClick) (enumerate k rs)) =
    map (\<lambda>r. (Some (AStr (key r)), map (\<lambda>c. cell_text str (cn_render c r)) (sc_cols s))) rs"
  by (induction rs arbitrary: k) (simp_all only: enumerate_simps list.map tr_shown)

lemma page_renders:
  assumes "sc_new s = Some cfg"
  shows "renders s (list_page ic eb title n sub (new_button label (Some cfg) preset) (DataTable cols (sc_rows s) (sc_key s) rowClick))"
  unfolding renders_def Let_def
proof (intro conjI allI impI)
  let ?page = "list_page ic eb title n sub (new_button label (Some cfg) preset) (DataTable cols (sc_rows s) (sc_key s) rowClick)"
  fix str
  show "map (shown str) (kids (node_at [0, 0] (node_at [1, 0, 0, 0, 0] ?page))) = fst (data_table s)"
    using head_shown [of str] by (simp add: list_page_def ScreenBody_def DataTable_def data_table_def)
  show "map (\<lambda>tr. (attr_of ''key'' tr, map (shown str) (kids tr))) (kids (node_at [1] (node_at [1, 0, 0, 0, 0] ?page))) =
      map (\<lambda>(k, xs). (Some (AStr k), map (cell_text str) xs)) (snd (data_table s))"
    using table_shown [of str "length (sc_rows s)" "sc_key s" 0 "sc_rows s"]
    by (simp add: list_page_def ScreenBody_def DataTable_def data_table_def comp_def)
next
  fix i j q
  assume "i < length (sc_rows s) \<and> j < length (sc_cols s) \<and> on_page ([1, 0, 0, 0, 0, 1, i, j] @ q)
    (list_page ic eb title n sub (new_button label (Some cfg) preset) (DataTable cols (sc_rows s) (sc_key s) rowClick))"
  then show "user_click ([1, 0, 0, 0, 0, 1, i, j] @ q)
      (list_page ic eb title n sub (new_button label (Some cfg) preset) (DataTable cols (sc_rows s) (sc_key s) rowClick)) =
      map Act (if q = [] then click_row s (sc_rows s ! i) else click s i j (spot_at (cn_render (sc_cols s ! j) (sc_rows s ! i)) q))"
    by (intro page_click) auto
next
  show "\<exists>cfg' preset'. sc_new s = Some cfg' \<and> user_click [0, 1, 0]
      (list_page ic eb title n sub (new_button label (Some cfg) preset) (DataTable cols (sc_rows s) (sc_key s) rowClick)) = [New cfg' preset']"
    using assms by (simp add: user_click_def list_page_def PageHeader_def new_button_def Btn_def btn_def own_def on_def tag_def)
qed

end

section \<open>Every list screen\<close>

lemmas column_defs = dom_col_def mono_col_def figure_col_def switch_col_def edit_col_def delete_col_def col_def
lemmas piece_defs = span_def pattern_cell_def chip_list_def chain_chips_def per_second_def UsageBar_def Chip_def StatusBadge_def
  mono_text_def icon_def plain_chips_def Let_def

lemma chain_inert: "inert (chain_chips providers chain)"
  by (auto simp: chain_chips_def list_all_iff Chip_def icon_def split_beta Let_def)

lemma chain_text: "shown str (chain_chips providers chain) = concat (map (chain_name providers) chain)"
proof -
  have "concat (map (shown str) (concat (map (\<lambda>(i, p). (if i > 0 then [icon ''I.ArrowRight''] else []) @
      [Chip (if i = 0 then Some ''accent'' else None) [Text (chain_name providers p)]]) (enumerate k chain)))) =
      concat (map (chain_name providers) chain)" for k
    by (induction chain arbitrary: k) (auto simp: Chip_def icon_def split_beta Let_def)
  then show ?thesis by (simp add: chain_chips_def)
qed

lemma enumerate_values: "map (\<lambda>x. f (snd x)) (enumerate k xs) = map f xs"
  by (induction xs arbitrary: k) simp_all

lemma chip_list_text: "shown str (chip_list xs) = concat xs"
  by (induction xs) (auto simp: chip_list_def Chip_def split_beta Let_def)

lemma chip_list_inert: "inert (chip_list xs)"
  by (auto simp: chip_list_def list_all_iff Chip_def split_beta Let_def)

lemma chip_inert [simp]: "inert (Chip tn cs) \<longleftrightarrow> list_all inert cs" "inert (StatusBadge st d)" "inert (mono_text v)" "inert (icon ''I.Globe'')"
  by (auto simp: Chip_def StatusBadge_def mono_text_def icon_def split_beta Let_def list.pred_map)

lemma chip_text [simp]: "shown str (Chip tn cs) = concat (map (shown str) cs)" "shown str (StatusBadge st d) = st"
  "shown str (mono_text v) = v" "shown str (icon ic) = []"
  by (simp_all add: Chip_def StatusBadge_def mono_text_def icon_def split_beta Let_def)

interpretation rules_view: list_view "RoutingRules providers rules" "rule_cols providers"
  "Some (\<lambda>r. if ur_isDefault r then [] else [Act (Edited Rules (rule_item r))])" for providers rules
proof
  show "list_all2 (\<lambda>c d. cn_label c = dc_label d \<and> (\<forall>str r. cell_nodes str (sc_coll (RoutingRules providers rules))
      (sc_item (RoutingRules providers rules) r) (cn_render c r) (dc_render d r))) (sc_cols (RoutingRules providers rules)) (rule_cols providers)"
    by (auto simp: RoutingRules_def rule_cols_def column_defs chain_inert chain_text plain_chips_def pattern_cell_def span_def
        comp_def split_beta enumerate_values)
qed (simp add: RoutingRules_def click_row_def rule_click_def)

interpretation domains_view: list_view "RelayDomains domains" domain_cols "edit_row Domains domain_item" for domains
  by unfold_locales (auto simp: RelayDomains_def domain_cols_def column_defs span_def icon_def click_row_def edit_row_def)

interpretation all_rates_view: list_view "RateLimitsAll rates" all_rate_cols "edit_row RateLimits rate_item" for rates
  by unfold_locales (auto simp: RateLimitsAll_def all_rate_cols_def column_defs span_def per_second_def UsageBar_def given_node_def given_def
      Let_def click_row_def edit_row_def split: option.splits)

interpretation accounts_view: list_view "AccountsScreen accounts" account_cols "edit_row Accounts account_item" for accounts
  by unfold_locales (auto simp: AccountsScreen_def account_cols_def column_defs span_def icon_def plain_chips_def chip_list_text chip_list_inert
      comp_def click_row_def edit_row_def)

interpretation clients_view: list_view "RelayClientsScreen clients" client_cols "edit_row RelayClients client_item" for clients
  by unfold_locales (auto simp: RelayClientsScreen_def client_cols_def column_defs span_def icon_def plain_chips_def chip_list_text chip_list_inert
      comp_def click_row_def edit_row_def)

interpretation rates_view: list_view "RateLimitTable direction rates" "rate_cols direction" "edit_row RateLimits rate_item" for direction rates
  by unfold_locales (auto simp: RateLimitTable_def rate_cols_def column_defs span_def pattern_cell_def per_second_def Let_def click_row_def edit_row_def)

interpretation dkim_view: list_view "DKIMKeys keys" dkim_cols None for keys
  by unfold_locales (auto simp: DKIMKeys_def dkim_cols_def column_defs span_def icon_def click_row_def)

interpretation suppressions_view: list_view "Suppressions_screen fw suppressions" "suppression_cols fw" None for fw suppressions
  by unfold_locales (auto simp: Suppressions_screen_def suppression_cols_def column_defs span_def icon_def click_row_def)

interpretation operators_view: list_view "Operators_screen users" operator_cols None for users
  by unfold_locales (auto simp: Operators_screen_def operator_cols_def column_defs span_def icon_def click_row_def)


section \<open>Surprises\<close>

text \<open>
  The switch stops clicks only inside its own element: a click on the padding of its cell, beside
  the switch, opens the row's form. So does one beside the buttons at the end of the row.
\<close>

lemma beside_switch_edits:
  "user_click [1, 0, 0, 0, 0, 1, 0, 4] (accounts_page [a]) = [Act (Edited Accounts (account_item a))]"
  "user_click [1, 0, 0, 0, 0, 1, 0, 4, 0] (accounts_page [a]) = []"
  "user_click [1, 0, 0, 0, 0, 1, 0, 5] (accounts_page [a]) = [Act (Edited Accounts (account_item a))]"
  using accounts_view.page_click [of 0 "[a]" 4 "[]"] accounts_view.page_click [of 0 "[a]" 4 "[0]"] accounts_view.page_click [of 0 "[a]" 5 "[]"]
  by (simp_all add: accounts_page_def AccountsScreen_def click_row_def click_def list_page_def ScreenBody_def DataTable_def table_row_def
      table_cell_def account_cols_def column_defs edit_row_def del: dispatch.simps activated.simps)

end
