(* ===== verification/UiShell.thy ===== *)
theory UiShell
  imports UiScreens
begin

text \<open>
  The frame of the console and its first page as they are rendered: dashboard (\<open>dashboard.jsx\<close>),
  sidebar (\<open>sidebar.jsx\<close>), command palette (\<open>palette.jsx\<close>), top bar and user menu (\<open>main.jsx\<close>).
\<close>

definition command_key :: string where "command_key = [CHR 0xE2, CHR 0x8C, CHR 0x98]"
definition enter_key :: string where "enter_key = [CHR 0xE2, CHR 0x86, CHR 0xB5]"

section \<open>The dashboard\<close>

datatype dash_act = Goto string | OpenMsg string

text \<open>The chart for a whole number of pixels and the 24 values the API sends.\<close>

definition chart_area :: "nat \<Rightarrow> nat \<Rightarrow> (rat \<times> rat) list \<Rightarrow> string" where
  "chart_area w height pts = (let bottom = nat_str (height - 22) in
     spark_path pts @ '' L'' @ nat_str w @ '' '' @ bottom @ '' L0 '' @ bottom @ '' Z'')"

definition grid_y :: "nat \<Rightarrow> rat list" where
  "grid_y height = (let innerH = of_nat height - 12 - 22 in map (\<lambda>f. 12 + innerH - f * innerH) [0, 25 / 100, 50 / 100, 75 / 100, 1])"

definition pad_hour :: "nat \<Rightarrow> string" where
  "pad_hour h = (if h < 10 then ''0'' else []) @ nat_str h @ '':00''"

definition ThroughputChart :: "nat \<Rightarrow> nat \<Rightarrow> rat list \<Rightarrow> rat list \<Rightarrow> 'a node" where
  "ThroughputChart w height relayed deferred =
     (let W = of_nat w; H = of_nat height; pts = chart_line W H relayed relayed in
      Elem ''div'' [] [] [Elem ''svg'' [(''width'', px w), (''height'', px height)] []
        ([Elem ''defs'' [] [] [Elem ''linearGradient'' [(''id'', AStr ''thru-fill'')] []
            [Elem ''stop'' [(''offset'', AStr ''0'')] [] [], Elem ''stop'' [(''offset'', AStr ''1'')] [] []]]] @
         map (\<lambda>(i, gy). Elem ''line'' [(''x1'', AStr ''0''), (''x2'', px w), (''y1'', ANum (Fin gy)), (''y2'', ANum (Fin gy)),
            (''strokeDasharray'', AStr (if i = 4 then ''0'' else ''2 4''))] [] []) (enumerate 0 (grid_y height)) @
         map (\<lambda>(i, gy). Elem ''text'' [(''x'', AStr ''2''), (''y'', ANum (Fin (gy - 3))), (''className'', AStr ''mono'')] []
            [Text (fmtNum (nat (js_round (of_nat i * (25 / 100) * chart_max relayed))))]) (enumerate 0 (grid_y height)) @
         [Elem ''path'' [(''d'', AStr (chart_area w height pts)), (''fill'', AStr ''url(#thru-fill)'')] [] [],
          Elem ''path'' [(''d'', AStr (spark_path pts)), (''stroke'', AStr ''var(--accent)'')] [] [],
          Elem ''path'' [(''d'', AStr (spark_path (chart_line W H relayed deferred))), (''stroke'', AStr ''var(--accent-warn)'')] [] []] @
         map (\<lambda>h. Elem ''text'' [(''x'', ANum (Fin (chart_x W (length relayed) h))), (''y'', ANum (Fin (H - 6))), (''className'', AStr ''mono''),
            (''textAnchor'', AStr (if h = 0 then ''start'' else if h = 23 then ''end'' else ''middle''))] [] [Text (pad_hour h)])
           [0, 6, 12, 18, 23])])"

record stat_props =
  sp_label :: string
  sp_unit :: "string option"
  sp_delta :: "string option"
  sp_deltaTone :: string
  sp_spark :: "rat list option"
  sp_color :: string
  sp_live :: bool

definition stat :: "string \<Rightarrow> rat list option \<Rightarrow> stat_props" where
  "stat label spark = \<lparr>sp_label = label, sp_unit = None, sp_delta = None, sp_deltaTone = ''good'', sp_spark = spark,
     sp_color = ''var(--accent)'', sp_live = False\<rparr>"

definition StatCard :: "stat_props \<Rightarrow> 'a node \<Rightarrow> 'a node" where
  "StatCard p val = Elem ''div'' [] []
     ([Elem ''div'' [(''className'', AStr ''mono'')] [] [Text (sp_label p)],
       Elem ''div'' [] []
         ([Elem ''div'' [] [] ([Elem ''span'' [] [] [val]] @ given_node (sp_unit p) mono_text @
             (if sp_live p then [Elem ''span'' [(''className'', AStr ''pulse'')] [] []] else []))] @
          (case sp_spark p of None \<Rightarrow> [] | Some xs \<Rightarrow> [Sparkline xs 84 30 (sp_color p) True]))] @
      given_node (sp_delta p) (\<lambda>d. Elem ''div'' [(''className'', AStr ''mono''), (''color'', AStr (fst (tone_colors (sp_deltaTone p))))] []
        [icon (if sp_deltaTone p = ''good'' then ''I.ArrowUp'' else if sp_deltaTone p = ''danger'' then ''I.ArrowDown'' else ''I.Dot''), Text d]))"

definition chart_series :: "nm_data \<Rightarrow> string \<Rightarrow> rat list option" where
  "chart_series d k = map_option (map of_nat) (nm_series d k)"

definition metric :: "nm_data \<Rightarrow> string \<Rightarrow> rat" where
  "metric d k = or_else (nm_metrics d k) 0"

definition stats_row :: "nm_data \<Rightarrow> 'a node list" where
  "stats_row d =
     [StatCard (stat (''Relayed'' @ middot @ ''24h'') (chart_series d ''relayed'')) (Text (fmtNum (nat \<lfloor>metric d ''relayed24h''\<rfloor>))),
      StatCard ((stat ''Accept rate'' None)\<lparr>sp_unit := Some ''%''\<rparr>) (Number (Fin (metric d ''acceptRate''))),
      StatCard ((stat (''Deferred'' @ middot @ ''24h'') (chart_series d ''deferred''))\<lparr>sp_color := ''var(--accent-warn)''\<rparr>)
        (Text (fmtNum (nat \<lfloor>metric d ''deferred24h''\<rfloor>))),
      StatCard ((stat (''Bounced'' @ middot @ ''24h'') (chart_series d ''bounced''))\<lparr>sp_color := ''var(--accent-danger)''\<rparr>)
        (Text (fmtNum (nat \<lfloor>metric d ''bounced24h''\<rfloor>)))]"

definition link_button :: "string \<Rightarrow> 'a list \<Rightarrow> 'a node" where
  "link_button label acts = Elem ''button'' [(''className'', AStr ''mono'')] [on ''onClick'' (\<lambda>_. acts)] [Text label]"

definition tile_row :: "string \<Rightarrow> string \<Rightarrow> nat \<Rightarrow> 'a node" where
  "tile_row color label n = Elem ''div'' [] [] [Elem ''span'' [(''background'', AStr color)] [] [], Elem ''span'' [] [] [Text label],
     Elem ''span'' [(''className'', AStr ''mono'')] [] [Number (Fin (of_nat n))]]"

definition DeliverabilityTile :: "summary option option \<Rightarrow> dash_act node" where
  "DeliverabilityTile s = Elem ''div'' [] []
     ([Elem ''div'' [] [] [mono_text ''Deliverability'', link_button ''all domains'' [Goto ''deliverability'']]] @
      (case tile_view s of
         TileChecking \<Rightarrow> [Elem ''div'' [] [] [Text (''checking'' @ ellipsis)]]
       | TileUnavailable \<Rightarrow> [Elem ''div'' [] [] [Text ''unavailable'']]
       | TileCounts n w e \<Rightarrow> [tile_row ''var(--accent-good)'' ''Healthy'' n, tile_row ''var(--accent-warn)'' ''Warnings'' w,
           tile_row ''var(--accent-danger)'' ''Errors'' e]))"

definition ProviderHealth :: "ui_provider list \<Rightarrow> dash_act node" where
  "ProviderHealth providers = (let rows = filter up_enabled providers in
     Elem ''div'' [] []
       (Elem ''div'' [] [] [mono_text ''Provider health'', link_button ''all providers'' [Goto ''providers'']] #
        map (\<lambda>(i, p). Elem ''div'' [(''key'', AStr (up_id p)),
            (''borderBottom'', AStr (if i < length rows - 1 then ''1px solid var(--line)'' else ''0''))] []
          [StatusDot (up_status p) 6 (up_status p = ''healthy''), Elem ''span'' [] [] [Text (up_name p)],
           mono_text (fmtNum (up_sent24h p)), StatusBadge (up_status p) False]) (enumerate 0 rows)))"

definition ACT_ICON :: "string \<Rightarrow> string" where
  "ACT_ICON st = or_else (map_of [(''relayed'', ''I.CheckCircle''), (''deferred'', ''I.Clock''), (''bounced'', ''I.AlertTriangle''),
     (''failed'', ''I.X''), (''queued'', ''I.Inbox'')] st) ''I.Dot''"

definition RecentActivity :: "bool \<Rightarrow> ui_message list \<Rightarrow> dash_act node" where
  "RecentActivity dense messages = (let ms = recent_messages dense messages in
     Elem ''div'' [] []
       [Elem ''div'' [] [] [mono_text ''Recent messages'', link_button ''trace all'' [Goto ''messages'']],
        Elem ''div'' [] [] (map (\<lambda>(i, m). Elem ''button'' [(''key'', AStr (um_id m)),
            (''borderBottom'', AStr (if i < length ms - 1 then ''1px solid var(--line)'' else ''0''))]
          [on ''onClick'' (\<lambda>_. [if um_id m = [] then Goto ''messages'' else OpenMsg (um_id m)])]
          [Elem ''span'' [(''color'', AStr (fst (tone_colors (toneFor (um_status m)))))] [] [icon (ACT_ICON (um_status m))],
           Elem ''div'' [] [] [Elem ''div'' [] [] [Text (um_subject m)],
             Elem ''div'' [(''className'', AStr ''mono'')] [] [Text (um_mail_from m), Text ('' '' @ arrow @ '' ''), Text (message_summary m)]],
           StatusBadge (um_status m) False]) (enumerate 0 ms))])"

definition queue_card :: "nat \<Rightarrow> int \<Rightarrow> int \<Rightarrow> 'a node" where
  "queue_card depth inRate outRate = Elem ''div'' [] []
     [Elem ''div'' [(''className'', AStr ''mono'')] [] [Text (''Queue depth'' @ middot @ ''live'')],
      Elem ''div'' [] []
        [Elem ''div'' [] [] [Elem ''span'' [] [] [Text (fmtNum depth)], Elem ''span'' [(''className'', AStr ''pulse'')] [] []],
         Elem ''div'' [(''className'', AStr ''mono'')] []
           [Elem ''div'' [] [] [Elem ''span'' [] [] [Text (down_arrow @ '' ''), Number (Fin (of_int outRate))], Text ''/s out''],
            Elem ''div'' [] [] [Elem ''span'' [] [] [Text (up_arrow @ '' ''), Number (Fin (of_int inRate))], Text ''/s in'']]]]"

definition chart_card :: "string \<Rightarrow> nat \<Rightarrow> nm_data \<Rightarrow> 'a node" where
  "chart_card layout w d = Elem ''div'' [] []
     [Elem ''div'' [] [] [mono_text (''Throughput'' @ middot @ ''last 24h''),
        Elem ''span'' [(''className'', AStr ''mono'')] [] [Elem ''span'' [] [] [], Text ''relayed''],
        Elem ''span'' [(''className'', AStr ''mono'')] [] [Elem ''span'' [] [] [], Text ''deferred'']],
      ThroughputChart w (if layout = ''focus'' then 280 else 210) (or_else (chart_series d ''relayed'') []) (or_else (chart_series d ''deferred'') [])]"

text \<open>The width of the chart and the answer of the summary are the state of the components inside.\<close>

definition dashboard_page :: "string \<Rightarrow> nat \<Rightarrow> summary option option \<Rightarrow> nat \<Rightarrow> int \<Rightarrow> int \<Rightarrow> nm_data \<Rightarrow> dash_act node" where
  "dashboard_page layout w tile depth inRate outRate d =
     (let chart = chart_card layout w d; queue = queue_card depth inRate outRate; health = ProviderHealth (nm_providers d);
          box = Elem ''div'' [] [] in
      ScreenBody False 22
        (if layout = ''focus'' then
           [chart, box (stats_row d @ [queue]), box [health, DeliverabilityTile tile, RecentActivity False (nm_messages d)]]
         else if layout = ''stream'' then
           [box [box [box (stats_row d), chart], box [queue, box [RecentActivity True (nm_messages d)], health]]]
         else
           [box (stats_row d @ [queue]), box [chart, health], box [RecentActivity False (nm_messages d)]]))"

section \<open>The sidebar\<close>

datatype side_act = Navigate string | Collapse | OpenPalette

definition SIDEBAR_ITEMS :: "string \<Rightarrow> string \<times> string" where
  "SIDEBAR_ITEMS i = or_else (map_of
     [(''dashboard'', ''Dashboard'', ''I.Activity''), (''relayclients'', ''Relay clients'', ''I.Globe''), (''accounts'', ''Accounts'', ''I.Key''),
      (''ratelimits_in'', ''Inbound limits'', ''I.Gauge''), (''domains'', ''Relay domains'', ''I.Globe''), (''rules'', ''Routing rules'', ''I.Route''),
      (''providers'', ''Providers'', ''I.Server''), (''dkim'', ''DKIM keys'', ''I.Shield''), (''deliverability'', ''Deliverability'', ''I.Activity''),
      (''ratelimits_out'', ''Outbound limits'', ''I.Gauge''), (''messages'', ''Messages'', ''I.Mail''), (''queue'', ''Queue'', ''I.Layers''),
      (''suppressions'', ''Suppressions'', ''I.Ban''), (''notifications'', ''Notifications'', ''I.AlertTriangle''), (''audit'', ''Audit log'', ''I.List''),
      (''operators'', ''Operators'', ''I.Users''), (''settings'', ''Settings'', ''I.Settings'')] i) ([], [])"

definition side_row :: "string \<Rightarrow> nm_data \<Rightarrow> nat \<Rightarrow> string \<Rightarrow> side_act node" where
  "side_row route d depth i = (let active = (route = i); (label, ic) = SIDEBAR_ITEMS i in
     Elem ''button'' [(''color'', AStr (if active then ''var(--fg)'' else ''var(--fg-1)'')),
         (''background'', AStr (if active then ''var(--accent-soft)'' else ''transparent''))]
       [on ''onClick'' (\<lambda>_. [Navigate i])]
       ((if active then [Elem ''span'' [(''background'', AStr ''var(--accent)'')] [] []] else []) @
        [Elem ''span'' [(''color'', AStr (if active then ''var(--accent)'' else ''var(--fg-3)''))] [] [icon ic],
         Elem ''span'' [] [] [Text label]] @
        (case sidebar_hint d depth i of None \<Rightarrow> [] | Some h \<Rightarrow> [mono_text h])))"

definition sidebar_page :: "string \<Rightarrow> server_info \<Rightarrow> nm_data \<Rightarrow> nat \<Rightarrow> side_act node" where
  "sidebar_page route sv d depth = Elem ''aside'' [] []
     [Elem ''div'' [] []
        [Elem ''div'' [] [] [icon ''I.Logo'', Elem ''span'' [(''className'', AStr ''mono'')] [] [Text ''nova'', Elem ''span'' [] [] [Text ''mail'']],
           mono_text (sv_version sv)],
         IconBtn (''Collapse sidebar ('' @ command_key @ ''B)'') [Collapse] False 26 [icon ''I.PanelLeft'']],
      Elem ''div'' [] [] [Elem ''button'' [] [on ''onClick'' (\<lambda>_. [OpenPalette])]
        [icon ''I.Search'', mono_text (''search'' @ ellipsis), Elem ''span'' [(''className'', AStr ''kbd'')] [] [Text (command_key @ ''K'')]]],
      Elem ''div'' [] [] (map (\<lambda>(g, items). Elem ''div'' [] []
        (given_node g (\<lambda>s. Elem ''div'' [(''className'', AStr ''mono'')] [] [Text s]) @
         [Elem ''div'' [] [] (map (side_row route d depth) items)])) SIDEBAR),
      Elem ''div'' [] []
        [Elem ''span'' [] [] [Elem ''span'' [(''className'', AStr ''pulse'')] [] [],
           Number (Fin (of_nat (healthy_nodes (map (\<lambda>n. (sn_id n, sn_role n, sn_state n)) (sv_nodes sv))))), Text ''/'',
           Number (Fin (of_nat (length (sv_nodes sv)))), Text '' nodes''],
         Elem ''span'' [] [] [Text ''nova-bus''], Elem ''div'' [] [] [], Elem ''span'' [(''title'', AStr ''quorum queues'')] [] [Text ''4.x'']]]"

section \<open>The command palette\<close>

datatype pal_act = Run entry | Hover nat | Query string | Dismiss

definition entry_view :: "entry \<Rightarrow> string \<times> string \<times> string option \<times> string option" where
  "entry_view e = (case e of
     Nav n \<Rightarrow> (nv_label n, or_else (map_of [(''dashboard'', ''I.Activity''), (''messages'', ''I.Mail''), (''queue'', ''I.Layers''),
         (''providers'', ''I.Server''), (''rules'', ''I.Route''), (''domains'', ''I.Globe''), (''ratelimits'', ''I.Gauge''),
         (''accounts'', ''I.Key'')] (nv_id n)) ''I.Settings'',
       map_of [(''dashboard'', ''G D''), (''messages'', ''G M''), (''queue'', ''G Q'')] (nv_id n), None)
   | Action a \<Rightarrow> (nv_label a, if nv_id a = ''a_purge'' then ''I.Trash'' else ''I.Plus'', None, None)
   | Msg m \<Rightarrow> (um_subject m, ''I.Mail'', None, Some (um_mail_from m @ '' '' @ arrow @ '' '' @
       (case um_rcpt_to m of [] \<Rightarrow> ''undefined'' | r # rs \<Rightarrow> r))))"

definition palette_item :: "int \<Rightarrow> nat \<times> entry \<Rightarrow> pal_act node" where
  "palette_item sel = (\<lambda>(i, e). let active = (int i = sel); (label, ic, hint, sub) = entry_view e in
     Elem ''button'' [(''background'', AStr (if active then ''var(--accent-soft)'' else ''transparent''))]
       [on ''onMouseMove'' (\<lambda>_. [Hover i]), on ''onClick'' (\<lambda>_. [Run e])]
       ([Elem ''span'' [(''color'', AStr (if active then ''var(--accent)'' else ''var(--fg-3)''))] [] [icon ic],
         Elem ''div'' [] [] (Elem ''div'' [(''color'', AStr (if active then ''var(--fg)'' else ''var(--fg-1)''))] [] [Text label] #
           given_node sub (\<lambda>s. Elem ''div'' [(''className'', AStr ''mono'')] [] [Text s]))] @
        given_node hint (\<lambda>s. Elem ''span'' [(''className'', AStr ''kbd'')] [] [Text s])))"

definition is_nav :: "entry \<Rightarrow> bool" where "is_nav e = (case e of Nav _ \<Rightarrow> True | _ \<Rightarrow> False)"
definition is_action :: "entry \<Rightarrow> bool" where "is_action e = (case e of Action _ \<Rightarrow> True | _ \<Rightarrow> False)"
definition is_msg :: "entry \<Rightarrow> bool" where "is_msg e = (case e of Msg _ \<Rightarrow> True | _ \<Rightarrow> False)"

text \<open>The entries of one kind under their title; each keeps its index in the whole list.\<close>

definition palette_section :: "string \<Rightarrow> (entry \<Rightarrow> bool) \<Rightarrow> int \<Rightarrow> (nat \<times> entry) list \<Rightarrow> pal_act node list" where
  "palette_section title P sel ies = (let mine = filter (\<lambda>(i, e). P e) ies in
     if mine = [] then []
     else [Elem ''div'' [] [] (Elem ''div'' [(''className'', AStr ''mono'')] [] [Text title] # map (palette_item sel) mine)])"

definition palette_page :: "ui_message list \<Rightarrow> palette \<Rightarrow> pal_act node" where
  "palette_page messages p =
     (let flat = palette_entries messages (pl_q p); ies = enumerate 0 flat in
      Elem ''div'' [] [on ''onClick'' (\<lambda>_. [Dismiss])]
        [Elem ''div'' [] [stopping ''onClick'']
           [Elem ''div'' [] [] [mono_text ''>'',
              Elem ''input'' [(''value'', AStr (pl_q p)), (''placeholder'', AStr (''search or type a command'' @ ellipsis)), (''className'', AStr ''mono'')]
                [on ''onChange'' (\<lambda>v. [Query v])] [],
              Elem ''span'' [(''className'', AStr ''kbd'')] [] [Text ''esc'']],
            Elem ''div'' [] [] [icon ''I.Sparkle'', Elem ''span'' [(''className'', AStr ''mono'')] []
              [Text (''AI search ready'' @ middot @ ''press ''), Elem ''span'' [(''className'', AStr ''kbd'')] [] [Text enter_key],
               Text '' to ask about delivery'']],
            Elem ''div'' [] []
              (palette_section ''Navigate'' is_nav (pl_sel p) ies @ palette_section ''Actions'' is_action (pl_sel p) ies @
               palette_section ''Messages'' is_msg (pl_sel p) ies @
               (if flat = [] then [Elem ''div'' [(''className'', AStr ''mono'')] [] [Text ''no results for \"'', Text (pl_q p), Text ''\"'']] else []))]])"

section \<open>The top bar\<close>

datatype bar_act = ToggleSidebar | ToggleTheme | ShowPalette | ToggleMenu | Entry menu_entry

definition menu_item :: "string \<Rightarrow> string \<Rightarrow> menu_entry \<Rightarrow> bool \<Rightarrow> bar_act node" where
  "menu_item ic label e danger = Elem ''button'' [(''className'', AStr ''mono''),
      (''color'', AStr (if danger then ''var(--accent-danger)'' else ''var(--fg-1)''))] [on ''onClick'' (\<lambda>_. [Entry e])] [icon ic, Text label]"

definition menu_role :: "(string \<times> string \<times> string) option \<Rightarrow> string" where
  "menu_role op = (case op of None \<Rightarrow> ''operator'' | Some (u, r, i) \<Rightarrow> if r = [] then ''operator'' else r)"

definition UserMenu :: "(string \<times> string \<times> string) option \<Rightarrow> bool \<Rightarrow> bar_act node" where
  "UserMenu op shown = Elem ''div'' [] []
     (Elem ''button'' [(''title'', AStr (menu_name op)), (''background'', AStr (if shown then ''var(--bg-2)'' else ''transparent'')),
         (''borderColor'', AStr (if shown then ''var(--line-strong)'' else ''transparent''))] [on ''onClick'' (\<lambda>_. [ToggleMenu])]
        [mono_text (menu_initial op), mono_text (menu_name op), icon ''I.ChevronD''] #
      (if shown then
         [Elem ''div'' [] []
           [Elem ''div'' [] [] [Elem ''div'' [] [] [Text (menu_name op)], Elem ''div'' [(''className'', AStr ''mono'')] [] [Text (menu_role op)]],
            menu_item ''I.Users'' ''Profile'' MenuProfile False, menu_item ''I.Lock'' ''Change password'' MenuPassword False,
            Elem ''div'' [] [] [], menu_item ''I.ArrowRight'' ''Log out'' MenuLogout True]]
       else []))"

definition TopBar :: "string \<Rightarrow> string \<Rightarrow> (string \<times> string \<times> string) option \<Rightarrow> bool \<Rightarrow> bar_act node" where
  "TopBar route theme op shown = Elem ''div'' [] []
     [Elem ''div'' [] []
        [IconBtn (''Toggle sidebar ('' @ command_key @ ''B)'') [ToggleSidebar] False 28 [icon ''I.PanelLeft''],
         Elem ''div'' [(''className'', AStr ''mono'')] [] [Elem ''span'' [] [] [Text ''relay-kw''], Elem ''span'' [] [] [Text ''/''],
           Elem ''span'' [] [] (case map_of ROUTE_TITLE route of None \<Rightarrow> [] | Some t \<Rightarrow> [Text t])]],
      Elem ''button'' [(''className'', AStr ''mono'')] [on ''onClick'' (\<lambda>_. [ShowPalette])]
        [icon ''I.Search'', Elem ''span'' [] [] [Text (''search or run a command'' @ ellipsis)],
         Elem ''span'' [(''className'', AStr ''kbd'')] [] [Text (command_key @ ''K'')]],
      Elem ''div'' [] []
        [IconBtn ''Toggle theme'' [ToggleTheme] False 28 [icon (if theme = ''dark'' then ''I.Sun'' else ''I.Moon'')], UserMenu op shown]]"

end
