(* ===== verification/UiProps.thy ===== *)
theory UiProps
  imports UiForms
begin

text \<open>
  What the rendered dialogs owe their user: a refused submission is explained, what looks the same
  sends the same, and what can be done on the page is an edit of the form. The contract is the
  locale \<open>honest_form\<close>, which every form interprets.
\<close>

section \<open>Reading a page\<close>

text \<open>The error texts of a page, and what is left of it for the eye: neither handlers nor React's keys.\<close>

primrec errors :: "'a node \<Rightarrow> string list" where
  "errors (Text s) = []"
| "errors (Number x) = []"
| "errors (Elem t xs es cs) =
     (if t = ''span'' \<and> map_of xs ''color'' = Some (AStr ''var(--accent-danger)'')
      then concat (map (\<lambda>c. case c of Text s \<Rightarrow> [s] | _ \<Rightarrow> []) cs) else []) @ concat (map errors cs)"

primrec look :: "'a node \<Rightarrow> unit node" where
  "look (Text s) = Text s"
| "look (Number x) = Number x"
| "look (Elem t xs es cs) = Elem t (filter (\<lambda>(k, v). k \<noteq> ''key'') xs) [] (map look cs)"

lemma btn_simps [simp]:
  "bt_kind btn = ''ghost''" "bt_size btn = ''md''" "\<not> bt_danger btn" "bt_type btn = None" "bt_icon btn = []" "bt_click btn = []"
  by (simp_all add: btn_def)

lemma errors_simps [simp]:
  "errors (icon name) = []"
  "errors (FText v h p b) = []"
  "errors (FSelect v h opts) = []"
  "errors (FNumber r h2 l) = []"
  "errors (FToggle t h3 s) = []"
  "errors (IconBtn s acts b k cs) = concat (map errors cs)"
  "errors (Btn bt cs) = concat (map errors (bt_icon bt @ cs))"
  "errors (stack cs) = concat (map errors cs)"
  "errors (ModalShell eyebrow title ic acts width footer cs) = errors ic @ concat (map errors (cs @ footer))"
  by (simp_all add: icon_def FText_def FSelect_def FNumber_def FToggle_def Toggle_def IconBtn_def Btn_def stack_def ModalShell_def
      given_node_def comp_def split_beta)

lemma errors_given [simp]: "concat (map errors (given_node v (\<lambda>s. Elem t xs es [Text s]))) =
    (if given v \<and> t = ''span'' \<and> map_of xs ''color'' = Some (AStr ''var(--accent-danger)'') then [the v] else [])"
  by (simp add: given_node_def)

lemma errors_FRow [simp]: "errors (FRow label hint error cs) = (if given error then [the error] else []) @ concat (map errors cs)"
  by (simp add: FRow_def)

lemma errors_FChips [simp]: "errors (FChips vals h placeholder d h2) = []"
  by (simp add: FChips_def Let_def comp_def icon_def)

lemma errors_ChainPicker [simp]: "errors (ChainPicker providers chain h) = []"
  by (auto simp: ChainPicker_def Let_def comp_def chain_buttons_def chain_row_def icon_def)

lemma given_err [simp]: "given (err b m) \<longleftrightarrow> b \<and> m \<noteq> []" "given (Some m) \<longleftrightarrow> m \<noteq> []" "\<not> given None"
  by (auto simp: given_def err_def)

lemma the_err [simp]: "b \<Longrightarrow> the (err b m) = m"
  by (simp add: err_def)

lemma email_like_str [simp]: "\<not> email_like []"
  by simp

section \<open>What looks the same\<close>

lemma look_FText [simp]: "look (FText v h p b) = look (FText v' h' p b') \<longleftrightarrow> v = v' \<and> b = b'"
  by (auto simp: FText_def split: option.splits)

lemma look_FSelect [simp]: "look (FSelect v h opts) = look (FSelect v' h' opts) \<longleftrightarrow> v = v'"
  by (auto simp: FSelect_def)

lemma look_FSelectD: "look (FSelect v h opts) = look (FSelect v' h' opts') \<Longrightarrow> v = v'"
  by (auto simp: FSelect_def)

lemma look_FNumber [simp]: "look (FNumber v h2 l) = look (FNumber v' h2' l) \<longleftrightarrow> v = v'"
  by (auto simp: FNumber_def)

lemma look_FToggle [simp]: "look (FToggle v h3 l) = look (FToggle v' h3' l) \<longleftrightarrow> v = v'"
  by (auto simp: FToggle_def Toggle_def Let_def px_def)

lemma look_FChips [simp]: "look (FChips vals h p d h2) = look (FChips vals' h' p d' h2') \<longleftrightarrow> vals = vals' \<and> d = d'"
proof -
  have chips: "map (look \<circ> (\<lambda>v. Elem ''span'' [(''key'', AStr v), (''className'', AStr ''mono'')] []
        [Text v, Elem ''button'' [] [on ''onClick'' (g v)] [icon ''I.X'']])) xs =
      map (\<lambda>v. Elem ''span'' [(''className'', AStr ''mono'')] [] [Text v, Elem ''button'' [] [] [icon ''I.X'']]) xs"
    for g :: "string \<Rightarrow> string \<Rightarrow> 'c list" and xs
    by (simp add: icon_def)
  have inj: "inj (\<lambda>v. Elem ''span'' [(''className'', AStr ''mono'')] [] [Text v, Elem ''button'' [] [] [icon ''I.X'']] :: unit node)"
    by (simp add: inj_def)
  show ?thesis by (simp add: FChips_def Let_def chips) (auto dest: map_injective [OF _ inj])
qed

lemma look_stack [simp]: "look (stack cs) = look (stack cs') \<longleftrightarrow> map look cs = map look cs'"
  by (simp add: stack_def)

lemma look_FRow [dest]: "look (FRow l h e cs) = look (FRow l' h' e' cs') \<Longrightarrow> map look cs = map look cs'"
  by (simp add: FRow_def)

lemma look_ModalShell [dest]:
  "look (ModalShell y t i a w footer cs) = look (ModalShell y' t' i' a' w' footer' cs') \<Longrightarrow> map look cs = map look cs'"
  by (simp add: ModalShell_def)

text \<open>The names of a chain's providers determine it when the names of the providers do.\<close>

definition names_ok :: "ui_provider list \<Rightarrow> bool" where
  "names_ok providers \<longleftrightarrow> distinct (map up_name providers) \<and> distinct (map up_id providers) \<and> [] \<notin> set (map up_name providers)"

lemma chain_name_inj: "names_ok providers \<Longrightarrow> inj_on (chain_name providers) (up_id ` set providers)"
proof (rule inj_onI)
  fix x y
  assume ok: "names_ok providers" and "x \<in> up_id ` set providers" "y \<in> up_id ` set providers"
    and eq: "chain_name providers x = chain_name providers y"
  then obtain p q where p: "p \<in> set providers" "x = up_id p" and q: "q \<in> set providers" "y = up_id q" by blast
  have name: "chain_name providers (up_id r) = up_name r" if r: "r \<in> set providers" for r
  proof -
    obtain r' where f: "find (\<lambda>p. up_id p = up_id r) providers = Some r'"
      using r by (cases "find (\<lambda>p. up_id p = up_id r) providers") (auto simp: find_None_iff)
    then have "r' \<in> set providers" "up_id r' = up_id r" by (auto simp: find_Some_iff)
    then have "r' = r" using ok r by (auto simp: names_ok_def distinct_map dest: inj_onD)
    moreover have "up_name r \<noteq> []" using ok r by (force simp: names_ok_def)
    ultimately show ?thesis using f by (simp add: chain_name_def)
  qed
  have "up_name p = up_name q" using eq p q name by simp
  then have "p = q" using ok p q by (auto simp: names_ok_def distinct_map dest: inj_onD)
  then show "x = y" using p q by simp
qed

lemma look_chain_row: "look (chain_row providers chain h r) = look (chain_row providers [] (\<lambda>_. [()]) r)"
  by (cases r) (simp add: chain_row_def chain_buttons_def IconBtn_def icon_def Let_def)

lemma look_chain_row_eq: "look (chain_row providers chain h (i, v)) = look (chain_row providers chain' h' (i, w)) \<longleftrightarrow>
    chain_name providers v = chain_name providers w"
  by (simp add: chain_row_def chain_buttons_def IconBtn_def icon_def Let_def)

lemma look_chain_rows:
  "map (look \<circ> chain_row providers chain h) (enumerate n xs) = map (look \<circ> chain_row providers chain' h') (enumerate n ys) \<Longrightarrow>
     map (chain_name providers) xs = map (chain_name providers) ys"
  by (induction xs arbitrary: ys n; case_tac ys) (auto simp: look_chain_row_eq)

lemma look_ChainPicker:
  assumes same: "look (ChainPicker providers chain h) = look (ChainPicker providers chain' h')"
    and "names_ok providers" and "set chain \<subseteq> up_id ` set providers" and "set chain' \<subseteq> up_id ` set providers"
  shows "chain = chain'"
proof -
  have "map (look \<circ> chain_row providers chain h) (enumerate 0 chain) =
      map (look \<circ> chain_row providers chain' h') (enumerate 0 chain')"
    using same by (cases chain; cases chain') (auto simp: ChainPicker_def Let_def chain_row_def split: if_splits)
  then have "map (chain_name providers) chain = map (chain_name providers) chain'" by (rule look_chain_rows)
  with chain_name_inj [OF assms(2)] assms(3,4) show ?thesis
    by (metis inj_on_map_eq_map inj_on_subset Un_least)
qed

section \<open>The contract of a form\<close>

text \<open>
  \<open>result\<close> is what submitting does: the request, the toast, whether the dialog closes; \<open>(None, None,
  False)\<close> is a refusal. The law \<open>determined\<close> holds for the forms that satisfy \<open>ok\<close>.
\<close>

locale honest_form =
  fixes view :: "'f editor \<Rightarrow> 'a node"
    and result :: "'f \<Rightarrow> http_request option \<times> (string \<times> string) option \<times> bool"
    and ok :: "'f \<Rightarrow> bool"
  assumes explained: "errors (view s) \<noteq> [] \<longleftrightarrow> ed_tried s \<and> result (ed_form s) = (None, None, False)"
    and determined: "ok (ed_form s) \<Longrightarrow> ok (ed_form s') \<Longrightarrow> look (view s) = look (view s') \<Longrightarrow>
      result (ed_form s) = result (ed_form s')"
begin

lemma fresh_quiet: "errors (view (editor_init f)) = []"
  using explained [of "editor_init f"] by (auto simp: editor_init_def)

lemma tried_stays: "ed_tried s \<Longrightarrow> ed_tried (fold perform acts s)"
proof (induction acts arbitrary: s)
  case (Cons a acts)
  then show ?case by (cases a) simp_all
qed simp

text \<open>After an attempt the page complains exactly as long as submitting would be refused.\<close>

lemma complains_iff:
  "errors (view (fold perform acts (perform Save s))) = [] \<longleftrightarrow>
     result (ed_form (fold perform acts (perform Save s))) \<noteq> (None, None, False)"
  using explained tried_stays [of "perform Save s" acts] by auto

end

text \<open>What submitting does, for the dialogs whose result has another shape.\<close>

lemma submit_refuses [simp]: "submit api invalid f item msg = (None, None, False) \<longleftrightarrow> invalid"
  by (auto simp: submit_def split: option.splits)

lemma given_item [simp]: "item \<noteq> None \<longleftrightarrow> (\<exists>i. item = Some i)"
  by auto

lemma provider_look:
  "look (provider_view c s) = look (provider_view c s') \<Longrightarrow>
     pf_name (ed_form s) = pf_name (ed_form s') \<and> pf_type (ed_form s) = pf_type (ed_form s') \<and>
     pf_auth_mode (ed_form s) = pf_auth_mode (ed_form s') \<and> pf_enabled (ed_form s) = pf_enabled (ed_form s') \<and>
     (pf_type (ed_form s) = ''direct'' \<or>
       pf_endpoint (ed_form s) = pf_endpoint (ed_form s') \<and> pf_secret_ref (ed_form s) = pf_secret_ref (ed_form s'))"
  by (cases "pf_type (ed_form s) = ''direct''"; cases "pf_type (ed_form s') = ''direct''")
     (auto simp: provider_view_def Let_def dest!: look_ModalShell look_FRow look_FSelectD)

lemma rate_look:
  "look (rate_view c s) = look (rate_view c s') \<Longrightarrow>
     tf_direction (ed_form s) = tf_direction (ed_form s') \<and> tf_scope (ed_form s) = tf_scope (ed_form s') \<and>
     tf_per_second (ed_form s) = tf_per_second (ed_form s') \<and> tf_burst (ed_form s) = tf_burst (ed_form s') \<and>
     tf_enabled (ed_form s) = tf_enabled (ed_form s') \<and>
     (tf_scope (ed_form s) = ''global'' \<or> tf_domain (ed_form s) = tf_domain (ed_form s'))"
  by (cases "tf_scope (ed_form s) = ''global''"; cases "tf_scope (ed_form s') = ''global''")
     (auto simp: rate_view_def Let_def dest!: look_ModalShell look_FRow look_FSelectD)

interpretation provider_ui: honest_form "provider_view (item = None)" "\<lambda>f. provider_submit api f item" "\<lambda>_. True"
proof unfold_locales
  show "errors (provider_view (item = None) s) \<noteq> [] \<longleftrightarrow>
      ed_tried s \<and> provider_submit api (ed_form s) item = (None, None, False)" for s
    by (auto simp: provider_view_def Let_def form_footer_def provider_submit_def provider_invalid_def)
  show "look (provider_view (item = None) s) = look (provider_view (item = None) s') \<Longrightarrow>
      provider_submit api (ed_form s) item = provider_submit api (ed_form s') item" for s s'
    by (drule provider_look, cases "pf_type (ed_form s) = ''direct''")
       (simp_all add: provider_submit_def provider_invalid_def provider_body_def submit_def)
qed

interpretation rule_ui: honest_form "rule_view providers (item = None)" "\<lambda>f. rule_submit api f item"
    "\<lambda>f. names_ok providers \<and> set (rf_chain f) \<subseteq> up_id ` set providers" for providers
proof unfold_locales
  show "errors (rule_view providers (item = None) s) \<noteq> [] \<longleftrightarrow>
      ed_tried s \<and> rule_submit api (ed_form s) item = (None, None, False)" for s
    by (auto simp: rule_view_def Let_def form_footer_def rule_submit_def rule_invalid_def)
  show "names_ok providers \<and> set (rf_chain (ed_form s)) \<subseteq> up_id ` set providers \<Longrightarrow>
      names_ok providers \<and> set (rf_chain (ed_form s')) \<subseteq> up_id ` set providers \<Longrightarrow>
      look (rule_view providers (item = None) s) = look (rule_view providers (item = None) s') \<Longrightarrow>
      rule_submit api (ed_form s) item = rule_submit api (ed_form s') item" for s s'
    by (auto simp: rule_view_def Let_def rule_submit_def rule_invalid_def
        dest!: look_ModalShell look_FRow look_ChainPicker)
qed

interpretation domain_ui: honest_form "domain_view (item = None)"
    "\<lambda>f. domain_submit api (domain_form.truncate f) item" "\<lambda>f. df_enabled f = None"
proof unfold_locales
  show "errors (domain_view (item = None) s) \<noteq> [] \<longleftrightarrow>
      ed_tried s \<and> domain_submit api (domain_form.truncate (ed_form s)) item = (None, None, False)" for s
    by (auto simp: domain_view_def Let_def form_footer_def domain_submit_def domain_form.truncate_def)
  show "df_enabled (ed_form s) = None \<Longrightarrow> df_enabled (ed_form s') = None \<Longrightarrow>
      look (domain_view (item = None) s) = look (domain_view (item = None) s') \<Longrightarrow>
      domain_submit api (domain_form.truncate (ed_form s)) item = domain_submit api (domain_form.truncate (ed_form s')) item" for s s'
    by (auto simp: domain_view_def Let_def domain_submit_def domain_form.truncate_def dest!: look_ModalShell look_FRow)
qed

interpretation rate_ui: honest_form "rate_view (item = None)" "\<lambda>f. rate_submit api f item" "\<lambda>_. True"
proof unfold_locales
  show "errors (rate_view (item = None) s) \<noteq> [] \<longleftrightarrow>
      ed_tried s \<and> rate_submit api (ed_form s) item = (None, None, False)" for s
    by (auto simp: rate_view_def Let_def form_footer_def rate_submit_def rate_invalid_def)
  show "look (rate_view (item = None) s) = look (rate_view (item = None) s') \<Longrightarrow>
      rate_submit api (ed_form s) item = rate_submit api (ed_form s') item" for s s'
    by (drule rate_look, cases "tf_scope (ed_form s) = ''global''") (simp_all add: rate_submit_def rate_invalid_def)
qed

interpretation client_ui: honest_form "client_view (item = None)" "\<lambda>f. client_submit api f item" "\<lambda>_. True"
proof unfold_locales
  show "errors (client_view (item = None) s) \<noteq> [] \<longleftrightarrow>
      ed_tried s \<and> client_submit api (ed_form s) item = (None, None, False)" for s
    by (auto simp: client_view_def Let_def form_footer_def client_submit_def)
  show "look (client_view (item = None) s) = look (client_view (item = None) s') \<Longrightarrow>
      client_submit api (ed_form s) item = client_submit api (ed_form s') item" for s s'
    by (auto simp: client_view_def Let_def client_submit_def dest!: look_ModalShell look_FRow)
qed

interpretation suppression_ui: honest_form suppression_view
    "\<lambda>f. suppression_submit api (sf_address f) (sf_reason f)" "\<lambda>_. True"
proof unfold_locales
  show "errors (suppression_view s) \<noteq> [] \<longleftrightarrow>
      ed_tried s \<and> suppression_submit api (sf_address (ed_form s)) (sf_reason (ed_form s)) = (None, None, False)" for s
    by (auto simp: suppression_view_def Let_def suppression_submit_def)
  show "look (suppression_view s) = look (suppression_view s') \<Longrightarrow>
      suppression_submit api (sf_address (ed_form s)) (sf_reason (ed_form s)) =
      suppression_submit api (sf_address (ed_form s')) (sf_reason (ed_form s'))" for s s'
    by (auto simp: suppression_view_def Let_def dest!: look_ModalShell look_FRow)
qed

interpretation operator_ui: honest_form operator_view
    "\<lambda>f. operator_submit api (of_username f) (of_password f) (of_role f)" "\<lambda>_. True"
proof unfold_locales
  show "errors (operator_view s) \<noteq> [] \<longleftrightarrow>
      ed_tried s \<and> operator_submit api (of_username (ed_form s)) (of_password (ed_form s)) (of_role (ed_form s)) = (None, None, False)" for s
    by (auto simp: operator_view_def Let_def form_footer_def operator_submit_def)
  show "look (operator_view s) = look (operator_view s') \<Longrightarrow>
      operator_submit api (of_username (ed_form s)) (of_password (ed_form s)) (of_role (ed_form s)) =
      operator_submit api (of_username (ed_form s')) (of_password (ed_form s')) (of_role (ed_form s'))" for s s'
    by (auto simp: operator_view_def Let_def dest!: look_ModalShell look_FRow)
qed

interpretation account_ui: honest_form "account_dialog (item = None)" "\<lambda>f. account_submit api f item" "\<lambda>_. True"
proof unfold_locales
  show "errors (account_dialog (item = None) s) \<noteq> [] \<longleftrightarrow>
      ed_tried s \<and> account_submit api (ed_form s) item = (None, None, False)" for s
    by (auto simp: account_dialog_def Let_def form_footer_def account_submit_def)
  show "look (account_dialog (item = None) s) = look (account_dialog (item = None) s') \<Longrightarrow>
      account_submit api (ed_form s) item = account_submit api (ed_form s') item" for s s'
    by (auto simp: account_dialog_def Let_def account_submit_def dest!: look_ModalShell look_FRow)
qed

definition dkim_result :: "(http_request \<Rightarrow> string option) \<Rightarrow> dkim_form \<Rightarrow> http_request option \<times> (string \<times> string) option \<times> bool" where
  "dkim_result api f = (case dkim_submit api (kf_domain f) (kf_selector f) of (q, t) \<Rightarrow> (q, t, False))"

interpretation dkim_ui: honest_form "dkim_view None waiting" "dkim_result api" "\<lambda>_. True"
proof unfold_locales
  show "errors (dkim_view None waiting s) \<noteq> [] \<longleftrightarrow> ed_tried s \<and> dkim_result api (ed_form s) = (None, None, False)" for s
    by (auto simp: dkim_view_def dkim_fields_def Let_def dkim_result_def dkim_submit_def)
  show "look (dkim_view None waiting s) = look (dkim_view None waiting s') \<Longrightarrow>
      dkim_result api (ed_form s) = dkim_result api (ed_form s')" for s s'
    by (auto simp: dkim_view_def dkim_fields_def Let_def dkim_result_def dest!: look_ModalShell look_FRow)
qed

interpretation password_ui: honest_form "password_view waiting"
    "\<lambda>f. password_submit api (wf_current f) (wf_next f) (wf_confirm f)" "\<lambda>_. True"
proof unfold_locales
  show "errors (password_view waiting s) \<noteq> [] \<longleftrightarrow>
      ed_tried s \<and> password_submit api (wf_current (ed_form s)) (wf_next (ed_form s)) (wf_confirm (ed_form s)) = (None, None, False)" for s
    by (auto simp: password_view_def Let_def form_footer_def password_submit_def split: option.splits)
  show "look (password_view waiting s) = look (password_view waiting s') \<Longrightarrow>
      password_submit api (wf_current (ed_form s)) (wf_next (ed_form s)) (wf_confirm (ed_form s)) =
      password_submit api (wf_current (ed_form s')) (wf_next (ed_form s')) (wf_confirm (ed_form s'))" for s s'
    by (auto simp: password_view_def Let_def dest!: look_ModalShell look_FRow)
qed

section \<open>What can be done on a page\<close>

text \<open>The handlers of a page with their nodes. A select delivers the value of one of its options.\<close>

primrec controls :: "'a node \<Rightarrow> ('a node \<times> (string \<Rightarrow> 'a list)) list" where
  "controls (Text s) = []"
| "controls (Number x) = []"
| "controls (Elem t xs es cs) = map (\<lambda>(ev, st, h). (Elem t xs es cs, h)) es @ concat (map controls cs)"

definition offered :: "'a node \<Rightarrow> string \<Rightarrow> bool" where
  "offered n v \<longleftrightarrow> (tag n = ''select'' \<longrightarrow> (\<exists>c \<in> set (kids n). attr_of ''value'' c = Some (AStr v)))"

text \<open>One handler runs; the dialog is rendered again from the new state.\<close>

inductive page_step :: "('f editor \<Rightarrow> 'f act node) \<Rightarrow> 'f editor \<Rightarrow> 'f editor \<Rightarrow> bool" for view where
  page_event: "(n, h) \<in> set (controls (view s)) \<Longrightarrow> offered n v \<Longrightarrow> page_step view s (fold perform (h v) s)"

inductive_cases page_stepE: "page_step view s s'"

lemma controls_given [simp]: "concat (map controls (given_node v (\<lambda>s. Elem t xs [] [Text s]))) = []"
  by (simp add: given_node_def)

lemma controls_simps [simp]:
  "controls (icon name) = []"
  "controls (FText v h p b) = [(FText v h p b, h)]"
  "controls (FSelect v h opts) = [(FSelect v h opts, h)]"
  "controls (FNumber r h2 l) = [(FNumber r h2 l, as_number h2)]"
  "controls (Toggle t h3 z) = [(Toggle t h3 z, \<lambda>_. h3 (\<not> t))]"
  "controls (FToggle t h3 cap) = [(Toggle t h3 ''sm'', \<lambda>_. h3 (\<not> t))]"
  "controls (IconBtn cap acts b k cs) = (IconBtn cap acts b k cs, \<lambda>_. acts) # concat (map controls cs)"
  "controls (Btn bt cs) = (Btn bt cs, \<lambda>_. bt_click bt) # concat (map controls (bt_icon bt @ cs))"
  "controls (stack cs) = concat (map controls cs)"
  "controls (FRow cap hint e cs) = concat (map controls cs)"
  by (simp_all add: icon_def FText_def FSelect_def FNumber_def FToggle_def Toggle_def IconBtn_def Btn_def stack_def FRow_def
      on_def comp_def split_beta Let_def)

lemma controls_ModalShell: "set (controls (ModalShell eyebrow title ic acts width footer cs)) \<subseteq>
    {(n, h). h = (\<lambda>_. acts) \<or> h = (\<lambda>_. [])} \<union> set (controls ic) \<union> set (concat (map controls (cs @ footer)))"
  by (auto simp: ModalShell_def on_def stopping_def)

lemma offered_FSelect [simp]: "offered (FSelect v h opts) x \<longleftrightarrow> x \<in> fst ` set opts"
  by (force simp: offered_def FSelect_def tag_def kids_def attr_of_def)

lemma provider_edits [simp]:
  "provider_edit\<^sup>*\<^sup>* f (f\<lparr>pf_name := v\<rparr>)" "provider_edit\<^sup>*\<^sup>* f (f\<lparr>pf_endpoint := v\<rparr>)"
  "provider_edit\<^sup>*\<^sup>* f (f\<lparr>pf_secret_ref := v\<rparr>)" "provider_edit\<^sup>*\<^sup>* f (f\<lparr>pf_enabled := b\<rparr>)"
  by (rule r_into_rtranclp, rule provider_edit.intros)+

lemma provider_edits_type [simp]:
  "v \<in> fst ` set AUTH_BY_TYPE \<Longrightarrow> provider_edit\<^sup>*\<^sup>* f (f\<lparr>pf_type := v, pf_auth_mode := hd (the (map_of AUTH_BY_TYPE v))\<rparr>)"
  using edit_type [of v f] by (auto simp: provider_set_type_def)

lemma provider_edits_auth [simp]:
  "provider_form_ok f \<Longrightarrow> pf_type f = t \<Longrightarrow> v \<in> set (the (map_of AUTH_BY_TYPE t)) \<Longrightarrow> provider_edit\<^sup>*\<^sup>* f (f\<lparr>pf_auth_mode := v\<rparr>)"
  using edit_auth [of f] by (force simp: provider_form_ok_def)

lemma provider_page_edits:
  assumes "page_step (provider_view create) s s'" and "provider_form_ok (ed_form s)"
  shows "provider_edit\<^sup>*\<^sup>* (ed_form s) (ed_form s')"
  using assms
  by (auto elim!: page_stepE simp: provider_view_def Let_def form_footer_def choices_def image_image
      dest!: subsetD [OF controls_ModalShell] split: if_splits)

lemma rate_edits [simp]:
  "rate_edit\<^sup>*\<^sup>* f (f\<lparr>tf_domain := v\<rparr>)" "rate_edit\<^sup>*\<^sup>* f (f\<lparr>tf_per_second := x\<rparr>)"
  "rate_edit\<^sup>*\<^sup>* f (f\<lparr>tf_burst := x\<rparr>)" "rate_edit\<^sup>*\<^sup>* f (f\<lparr>tf_enabled := b\<rparr>)"
  "v \<in> {''in'', ''out''} \<Longrightarrow> rate_edit\<^sup>*\<^sup>* f (f\<lparr>tf_direction := v, tf_scope := (if v = ''in'' then ''account'' else ''recipient_domain'')\<rparr>)"
  "v \<in> set (rate_scopes f) \<Longrightarrow> rate_edit\<^sup>*\<^sup>* f (f\<lparr>tf_scope := v\<rparr>)"
  using rate_key [of f v] rate_numbers [where f = f and x = x and y = "tf_burst f" and b = "tf_enabled f"]
    rate_numbers [where f = f and x = "tf_per_second f" and y = x and b = "tf_enabled f"]
    rate_numbers [where f = f and x = "tf_per_second f" and y = "tf_burst f" and b = b] rate_direction [of v f] rate_scope [of v f]
  by (auto simp: rate_set_direction_def)

lemma scope_labels [simp]: "(v, l) \<in> set (SCOPE_LABELS inbound) \<Longrightarrow> inbound = (tf_direction f = ''in'') \<Longrightarrow>
    rate_edit\<^sup>*\<^sup>* f (f\<lparr>tf_scope := v\<rparr>)"
  by (rule rate_edits) (auto simp: SCOPE_LABELS_def rate_scopes_def SCOPES_IN_def SCOPES_OUT_def split: if_splits)

lemma rate_page_edits:
  assumes "page_step (rate_view create) s s'"
  shows "rate_edit\<^sup>*\<^sup>* (ed_form s) (ed_form s')"
  using assms
  by (auto elim!: page_stepE simp: rate_view_def Let_def form_footer_def as_number_def
      dest!: subsetD [OF controls_ModalShell] split: if_splits jsnum.splits)

lemma chain_button_controls:
  "i < length chain \<Longrightarrow> (n, k) \<in> set (concat (map controls (chain_buttons chain h i v))) \<Longrightarrow>
     k = (\<lambda>_. []) \<or> (\<exists>chain'. chain_step providers chain chain' \<and> k = (\<lambda>_. h chain'))"
  using chain_moved [of i chain "- 1" providers] chain_moved [of i chain 1 providers] chain_removed [of providers chain v]
  by (auto simp: chain_buttons_def Let_def split: if_splits)

lemma chain_row_controls:
  "i < length chain \<Longrightarrow> (n, k) \<in> set (controls (chain_row providers chain h (i, v))) \<Longrightarrow>
     k = (\<lambda>_. []) \<or> (\<exists>chain'. chain_step providers chain chain' \<and> k = (\<lambda>_. h chain'))"
  by (rule chain_button_controls) (simp_all add: chain_row_def)

lemma chain_controls:
  assumes "(n, k) \<in> set (controls (ChainPicker providers chain h))"
  shows "k = (\<lambda>_. []) \<or> (\<exists>chain'. (chain_step providers)\<^sup>*\<^sup>* chain chain' \<and> k = (\<lambda>_. h chain'))"
proof -
  have "(\<exists>i v. i < length chain \<and> (n, k) \<in> set (controls (chain_row providers chain h (i, v)))) \<or>
      (\<exists>p \<in> set (chain_avail providers chain). k = (\<lambda>_. h (chain @ [up_id p])))"
    using assms by (fastforce simp: ChainPicker_def Let_def in_set_enumerate_eq on_def split: if_splits)
  then show ?thesis using chain_row_controls chain_added by (metis r_into_rtranclp)
qed

lemma rule_page_edits:
  assumes "page_step (rule_view providers create) s s'"
  shows "(chain_step providers)\<^sup>*\<^sup>* (rf_chain (ed_form s)) (rf_chain (ed_form s'))"
  using assms
  by (auto elim!: page_stepE simp: rule_view_def Let_def form_footer_def as_number_def
      dest!: subsetD [OF controls_ModalShell] chain_controls split: if_splits jsnum.splits)

lemma reach_rtranclp: "reach init step s \<Longrightarrow> step\<^sup>*\<^sup>* s t \<Longrightarrow> reach init step t"
  by (rotate_tac, induction rule: rtranclp_induct) (auto intro: reach_step)

interpretation provider_page: machine_invariant "\<lambda>s. s = editor_init provider_blank" "page_step (provider_view True)"
    "\<lambda>s. reach (\<lambda>f. f = provider_blank) provider_edit (ed_form s)"
proof unfold_locales
  show "s = editor_init provider_blank \<Longrightarrow> reach (\<lambda>f. f = provider_blank) provider_edit (ed_form s)" for s
    by (simp add: editor_init_def reach_init)
  show "reach (\<lambda>f. f = provider_blank) provider_edit (ed_form s) \<Longrightarrow> page_step (provider_view True) s t \<Longrightarrow>
      reach (\<lambda>f. f = provider_blank) provider_edit (ed_form t)" for s t
    by (rule reach_rtranclp) (blast intro: provider_page_edits provider_editor.reach_inv)+
qed

interpretation rule_page: machine_invariant "\<lambda>s. s = editor_init rule_blank" "page_step (rule_view providers True)"
    "\<lambda>s. chain_ok providers (rf_chain (ed_form s))" for providers
proof unfold_locales
  show "s = editor_init rule_blank \<Longrightarrow> chain_ok providers (rf_chain (ed_form s))" for s
    by (simp add: editor_init_def rule_blank_def chain_ok_def)
  show "chain_ok providers (rf_chain (ed_form s)) \<Longrightarrow> page_step (rule_view providers True) s t \<Longrightarrow>
      chain_ok providers (rf_chain (ed_form t))" for s t
    by (rule chain_editor.steps_inv [OF rule_page_edits])
qed

definition sample_provider :: "string \<Rightarrow> ui_provider" where
  "sample_provider n = \<lparr>up_id = n, up_name = n, up_type = ''ses'', up_endpoint = [], up_auth_mode = ''AWS-SIGV4'', up_secret_ref = [],
     up_enabled = True, up_status = ''idle'', up_sent24h = 0, up_lastUsed = []\<rparr>"

section \<open>Properties\<close>

text \<open>A form after an attempt to submit it and further actions.\<close>

definition attempted :: "'f act list \<Rightarrow> 'f editor \<Rightarrow> 'f editor" where
  "attempted acts s = fold perform acts (perform Save s)"

abbreviation refused :: "http_request option \<times> (string \<times> string) option \<times> bool" where
  "refused \<equiv> (None, None, False)"








section \<open>Surprises\<close>

text \<open>
  A row is a \<open>label\<close> around its field, and the first control of a chip field is the button that removes
  the first chip: a click on the caption \<open>allowed sender domains\<close> removes a domain. When it was the
  only one, the client may then send for any domain.
\<close>

lemma caption_removes_chip:
  "user_click [0, 0] (FRow caption hint error [FChips (v # vs) h placeholder d h2]) = h (chip_remove v (v # vs))"
proof -
  let ?row = "FRow caption hint error [FChips (v # vs) h placeholder d h2]"
  have "first_control ?row = Some [1, 0, 1]"
    by (simp add: first_control_def FRow_def given_node_def FChips_def Let_def labelable_def tag_def)
  then have "activated [0, 0] ?row = Some [1, 0, 1]"
    by (simp add: FRow_def given_node_def kids_def tag_def labelable_def)
  moreover have "dispatch ''onClick'' [] [0, 0] ?row = (True, [])"
    by (simp add: FRow_def given_node_def kids_def own_def)
  moreover have "dispatch ''onClick'' [] [1, 0, 1] ?row = (True, h (chip_remove v (v # vs)))"
    by (simp add: FRow_def given_node_def kids_def own_def FChips_def Let_def on_def)
  ultimately show ?thesis by (simp add: user_click_def)
qed

text \<open>In the same way a click on \<open>provider chain\<close>, while the chain is empty, adds the first provider.\<close>

lemma caption_adds_provider:
  assumes "chain_avail providers [] = p # ps"
  shows "user_click [0, 0] (FRow caption hint error [ChainPicker providers [] h]) = h [up_id p]"
proof -
  let ?row = "FRow caption hint error [ChainPicker providers [] h]"
  have "first_control ?row = Some [1, 1, 0]"
    by (simp add: first_control_def FRow_def given_node_def ChainPicker_def assms Let_def labelable_def tag_def)
  then have "activated [0, 0] ?row = Some [1, 1, 0]"
    by (simp add: FRow_def given_node_def kids_def tag_def labelable_def)
  moreover have "dispatch ''onClick'' [] [0, 0] ?row = (True, [])"
    by (simp add: FRow_def given_node_def kids_def own_def)
  moreover have "dispatch ''onClick'' [] [1, 1, 0] ?row = (True, h [up_id p])"
    by (simp add: FRow_def given_node_def kids_def own_def ChainPicker_def assms Let_def on_def)
  ultimately show ?thesis by (simp add: user_click_def)
qed

text \<open>
  The account dialog shows a switch when an account is created, and does not send it: an account
  created as disabled is enabled. When an account is edited, a changed user name is not sent, and
  the toast reports success.
\<close>

lemma account_switch_unsent:
  "account_submit api (f\<lparr>af_enabled := b\<rparr>) None = account_submit api f None"
  "fst (account_submit api (f\<lparr>af_enabled := False\<rparr>) None) = Some q \<Longrightarrow> map_of (the (hr_body q)) ''enabled'' = None"
  by (simp add: account_submit_def submit_def) (auto simp: account_submit_def submit_sends put_or_post_def split: if_splits)

lemma account_rename_unsent:
  "\<not> blank u \<Longrightarrow> \<not> blank (af_username f) \<Longrightarrow> account_submit api (f\<lparr>af_username := u\<rparr>) (Some i) = account_submit api f (Some i)"
  by (simp add: account_submit_def submit_def)

text \<open>A new relay domain needs a DKIM selector on the page; neither it nor the status nor the switch is sent.\<close>

lemma domain_fields_unsent:
  "\<not> blank (df_selector f) \<Longrightarrow> \<not> blank sel \<Longrightarrow>
     domain_submit api (domain_form.truncate (f\<lparr>df_selector := sel, dm_dkim := st, dm_verified := b\<rparr>)) item =
     domain_submit api (domain_form.truncate f) item"
  by (simp add: domain_submit_def submit_def domain_form.truncate_def)

text \<open>The button that generates a key works while a key is being generated: a second click generates a second one.\<close>

lemma dkim_button_unguarded:
  "Btn (btn\<lparr>bt_kind := ''primary'', bt_icon := [icon ''I.Shield''], bt_click := [Key Save]\<rparr>) [Text (''generating'' @ ellipsis)]
     \<in> set (nodes (dkim_view None True s))"
  by (simp add: dkim_view_def ModalShell_def Btn_def on_def)

end
