(* ===== verification/UiApp.thy ===== *)
theory UiApp
  imports UiTables UiShell UiProps
begin

text \<open>
  The rest of the console as it is rendered: the provider cards (\<open>providers.jsx\<close>), the
  deliverability screen (\<open>deliverability.jsx\<close>), the toasts (\<open>modals.jsx\<close>) and the application that puts
  bar, sidebar, page and palette together (\<open>main.jsx\<close>). The dialogs, which \<open>ModalHost\<close> renders beside
  them, are those of UiForms.
\<close>

section \<open>Providers\<close>

datatype prov_act = TestProvider string string | EditProvider ui_provider | DeleteProvider ui_provider
  | FlipProvider ui_provider | NewProvider

definition card_line :: "string \<Rightarrow> 'a node list \<Rightarrow> 'a node" where
  "card_line label cs = Elem ''div'' [] [] (mono_text label # cs)"

definition ProviderCard :: "rat list \<Rightarrow> ui_provider \<Rightarrow> prov_act node" where
  "ProviderCard series p = Elem ''div'' [(''key'', AStr (up_id p)), (''opacity'', ANum (Fin (if up_enabled p then 1 else 62 / 100)))] []
     [Elem ''div'' [] []
        [Elem ''div'' [] [] [icon ''I.Server''],
         Elem ''div'' [] []
           [Elem ''div'' [] [] [span [Text (up_name p)], StatusDot (up_status p) 6 (up_status p = ''healthy'')],
            Elem ''div'' [] [] [ProviderType (up_type p)]],
         Elem ''div'' [] [stopping ''onClick'']
           [IconBtn ''Test connection'' [TestProvider (up_id p) (up_name p)] False 26 [icon ''I.Activity''],
            IconBtn ''Edit'' [EditProvider p] False 26 [icon ''I.Edit''],
            IconBtn ''Delete'' [DeleteProvider p] False 26 [icon ''I.Trash''],
            Toggle (up_enabled p) (\<lambda>_. [FlipProvider p]) ''sm'']],
      Elem ''div'' [] []
        [card_line ''endpoint'' [mono_text (up_endpoint p)],
         card_line ''auth'' (Chip (Some ''cyan'') [Text (up_auth_mode p)] #
           (if up_secret_ref p \<noteq> mdash then [Elem ''span'' [(''className'', AStr ''mono'')] [] [icon ''I.Lock'', Text (up_secret_ref p)]] else []))],
      Elem ''div'' [] []
        (Elem ''div'' [] []
           [Elem ''div'' [] [] [span [Text (fmtNum (up_sent24h p))], mono_text (''sent'' @ middot @ ''24h'')],
            Elem ''div'' [(''className'', AStr ''mono'')] [] [Text ''last used '', Text (up_lastUsed p)]] #
         (if up_sent24h p > 0 then [Sparkline (provider_spark (up_sent24h p) series) 92 28
            (if up_status p = ''degraded'' then ''var(--accent-warn)'' else ''var(--accent)'') True] else []))]"

definition providers_page :: "nm_data \<Rightarrow> prov_act node" where
  "providers_page d = Elem ''div'' [] []
     [PageHeader (icon ''I.Server'') (Some ''routing'') ''Providers'' (Some (active_providers (nm_providers d)))
        (Some (''authenticated upstreams'' @ middot @ ''every message exits via a provider (relay-only)''))
        [Btn (btn\<lparr>bt_kind := ''primary'', bt_icon := [icon ''I.Plus''], bt_size := ''sm'', bt_click := [NewProvider]\<rparr>) [Text ''new provider'']],
      ScreenBody False 22 [Elem ''div'' [] [] (map (ProviderCard (or_else (chart_series d ''relayed'') [])) (nm_providers d))]]"

section \<open>Deliverability\<close>

datatype deliv_act = FlipCard string | CheckOne string | RecheckAll | CopyFix string

definition DelivRecord :: "RecordReport \<Rightarrow> deliv_act node" where
  "DelivRecord r = (let v = deliv_record r in
     Elem ''div'' [] []
       [Elem ''div'' [] [] [StatusDot (rv_dot v) 7 False],
        Elem ''div'' [] []
          ([Elem ''div'' [] [] [mono_text (rv_label v), Pill (snd (rv_pill v)) True [Text (fst (rv_pill v))]],
            Elem ''div'' [] [] [Text (rv_detail v)]] @
           given_node (rv_found v) (\<lambda>s. Elem ''div'' [(''className'', AStr ''mono'')] [] [Text ''found: '', Text s]) @
           given_node (rv_fix v) (\<lambda>s. Elem ''div'' [] []
             [Elem ''span'' [(''className'', AStr ''mono'')] [] [Text ''fix: '', Text s],
              Btn (btn\<lparr>bt_size := ''sm'', bt_icon := [icon ''I.Copy''], bt_click := [CopyFix s]\<rparr>) [Text ''copy'']]))])"

definition SubHead :: "string \<Rightarrow> 'a node" where
  "SubHead s = Elem ''div'' [(''className'', AStr ''mono'')] [] [Text s]"

definition DelivCard :: "bool \<Rightarrow> bool \<Rightarrow> DomainReport \<Rightarrow> deliv_act node" where
  "DelivCard is_shown checking r = (let v = deliv_card is_shown r in
     Card False False None 0 []
       (Elem ''div'' [] [on ''onClick'' (\<lambda>_. [FlipCard (dr_domain r)])]
          [StatusDot (cv_dot v) 6 (cv_pulse v), span [Text (dr_domain r)],
           Elem ''div'' [] [] (map (\<lambda>(label, tone). Pill tone True [Text label]) (cv_pills v)),
           Elem ''span'' [] [stopping ''onClick''] [IconBtn ''Check now'' [CheckOne (dr_domain r)] checking 26 [icon ''I.Refresh'']],
           Elem ''I.ChevronD'' [(''transform'', AStr (if is_shown then ''rotate(180deg)'' else ''none''))] [] []] #
        (if is_shown then [Elem ''div'' [] []
           ([SubHead ''Authentication (required)''] @ map DelivRecord (auth_records r) @
            (if hygiene_records r \<noteq> [] then [SubHead ''Hygiene & reporting''] else []) @ map DelivRecord (hygiene_records r))]
         else [])))"

definition round_mark :: string where "round_mark = [CHR 0xE2, CHR 0x97, CHR 0x8F]"
definition warn_mark :: string where "warn_mark = [CHR 0xE2, CHR 0x96, CHR 0xB2]"
definition cross_mark :: string where "cross_mark = [CHR 0xE2, CHR 0x9C, CHR 0x95]"

definition tally :: "string \<Rightarrow> nat \<Rightarrow> string \<Rightarrow> 'a node" where
  "tally mark n label = span [Text (mark @ '' ''), Number (Fin (of_nat n)), Text ('' '' @ label)]"

text \<open>\<open>time\<close> reads a date, and \<open>now\<close> is the clock; the cards have their own state.\<close>

definition deliv_page :: "(string \<Rightarrow> int option) \<Rightarrow> int \<Rightarrow> (string \<Rightarrow> bool) \<Rightarrow> deliv \<Rightarrow> deliv_act node" where
  "deliv_page time now is_shown s =
     (let rs = or_else (dv_reports s) []; lastChecked = last_checked rs in
      Elem ''div'' [] []
        [PageHeader (icon ''I.Shield'') (Some ''outgoing'') ''Deliverability''
           (Some (if dv_reports s \<noteq> None then nat_str (length rs) @ '' domains'' else ''checking'' @ ellipsis))
           (Some (if lastChecked \<noteq> []
             then ''last checked '' @ relTime (time lastChecked) now @ middot @ ''SPF'' @ middot @ ''DKIM (key match)'' @ middot @ ''DMARC + hygiene''
             else ''live DNS health'' @ middot @ ''SPF'' @ middot @ ''DKIM'' @ middot @ ''DMARC + hygiene''))
           [Btn (btn\<lparr>bt_kind := ''primary'', bt_icon := [icon ''I.Refresh''], bt_size := ''sm'', bt_click := [RecheckAll]\<rparr>)
              [Text (if dv_busy s then ''checking'' @ ellipsis else ''re-check all'')]],
         ScreenBody False 22
           (given_node (dv_err s) (\<lambda>e. Elem ''div'' [] [] [Text ''Failed to load: '', Text e]) @
            (if dv_reports s = None \<and> \<not> given (dv_err s) then [Elem ''div'' [] [] [Text (''Resolving DNS for all relay domains'' @ ellipsis)]] else []) @
            (if dv_reports s = Some [] then [Elem ''div'' [] [] [Text ''No relay domains configured.'']] else []) @
            (if rs \<noteq> [] then
              [Elem ''div'' [(''className'', AStr ''mono'')] []
                 [tally round_mark (deliv_count rs Ok) ''healthy'', tally warn_mark (deliv_count rs Warning) ''warnings'',
                  tally cross_mark (deliv_count rs Error) ''errors''],
               Elem ''div'' [] [] (map (\<lambda>r. DelivCard (is_shown (dr_domain r)) (dv_checking s (dr_domain r)) r) rs)]
             else []))])"

section \<open>Toasts\<close>

text \<open>A toast of an unknown tone throws.\<close>

definition ToastHost :: "toast list \<Rightarrow> 'a node option" where
  "ToastHost ts = map_option (\<lambda>shown_ts. Elem ''div'' [] []
     (map (\<lambda>(msg, tone). Elem ''div'' [(''className'', AStr ''mono'')] []
        [Elem ''span'' [(''color'', AStr (fst (tone_colors tone)))] [] [icon ''I.CheckCircle''], Text msg]) shown_ts)) (render_toasts ts)"

section \<open>The application\<close>

text \<open>What the components keep beside the state of \<open>App\<close>, and the clock and date formats of the browser.\<close>

record console =
  cs_data :: nm_data
  cs_server :: server_info
  cs_prefs :: prefs
  cs_login :: "string \<times> string \<times> string \<times> bool"
  cs_menu :: bool
  cs_palette :: palette
  cs_width :: nat
  cs_tile :: "summary option option"
  cs_message :: message_state
  cs_queue :: "bool \<times> (string \<times> int option) list"
  cs_deliv :: deliv
  cs_cards :: "string \<Rightarrow> bool"
  cs_channels :: "channel_view list option"
  cs_channel :: "channel_form \<times> bool"
  cs_texts :: "string \<Rightarrow> field"
  cs_nums :: "string \<Rightarrow> jsnum"
  cs_when :: "nat \<Rightarrow> string"
  cs_time :: "string \<Rightarrow> int option"
  cs_now :: int
  cs_row_id :: "string \<times> string \<times> string \<times> nat \<Rightarrow> string"

datatype app_act =
    Bar bar_act
  | Side side_act
  | Pal pal_act
  | Sign login_act
  | Dash dash_act
  | Msgs message_act
  | Queues queue_act
  | Prov prov_act
  | Listed list_act
  | Deliv deliv_act
  | Notif notif_act
  | Sett settings_act

definition some_page :: "('a \<Rightarrow> app_act) \<Rightarrow> 'a node \<Rightarrow> app_act node list option" where
  "some_page f n = Some [map_node f n]"

text \<open>\<open>main\<close>: the element of the route, nothing for a route without screen; \<open>None\<close> when rendering throws.\<close>

definition main_page :: "string \<Rightarrow> console \<Rightarrow> app_act node list option" where
  "main_page r c = (let d = cs_data c; (depth, inRate, outRate) = live_telemetry d in
     if r = ''dashboard'' then some_page Dash
       (dashboard_page (pref (cs_prefs c) ''dashboardLayout'') (cs_width c) (cs_tile c) (nat \<lfloor>depth\<rfloor>) inRate outRate d)
     else if r = ''messages'' then
       map_option (\<lambda>n. [map_node Msgs n]) (messages_page (pref (cs_prefs c) ''traceStyle'') (nm_messages d) (cs_message c))
     else if r = ''queue'' then some_page Queues (queue_page inRate outRate (fst (cs_queue c)) (snd (cs_queue c)) (nm_queues d))
     else if r = ''providers'' then some_page Prov (providers_page d)
     else if r = ''rules'' then some_page Listed (rules_page (nm_providers d) (nm_rules d))
     else if r = ''domains'' then some_page Listed (domains_page (nm_domains d))
     else if r = ''ratelimits_in'' then some_page Listed (rates_page ''in'' (nm_rates d))
     else if r = ''ratelimits_out'' then some_page Listed (rates_page ''out'' (nm_rates d))
     else if r = ''accounts'' then some_page Listed (accounts_page (nm_accounts d))
     else if r = ''relayclients'' then some_page Listed (clients_page (nm_clients d))
     else if r = ''dkim'' then some_page Listed (dkim_page (nm_dkim d))
     else if r = ''deliverability'' then some_page Deliv (deliv_page (cs_time c) (cs_now c) (cs_cards c) (cs_deliv c))
     else if r = ''notifications'' then some_page Notif
       (notifications_page (cs_channels c) (fst (cs_channel c)) (snd (cs_channel c)))
     else if r = ''suppressions'' then some_page Listed (suppressions_page (cs_when c) (nm_suppressions d))
     else if r = ''audit'' then some_page Listed (audit_page (cs_when c) (cs_row_id c) (nm_audit d))
     else if r = ''operators'' then some_page Listed (operators_page (nm_operators d))
     else if r = ''settings'' then some_page Sett
       (settings_page (cs_prefs c) (cs_server c) (nm_metrics d ''dkimSigned'') (nm_settings d) (cs_texts c) (cs_nums c))
     else Some [])"

definition app_page :: "app \<Rightarrow> console \<Rightarrow> app_act node option" where
  "app_page a c = (case app_authed a of
     None \<Rightarrow> Some (Elem ''div'' [] [] [])
   | Some False \<Rightarrow> (case cs_login c of (user, pass, complaint, waiting) \<Rightarrow>
       Some (map_node Sign (login_page (sv_version (cs_server c)) user pass complaint waiting)))
   | Some True \<Rightarrow> map_option (\<lambda>main. Elem ''div'' [] []
       ([map_node Bar (TopBar (app_route a) (pref (cs_prefs c) ''theme'') (nm_operator (cs_data c)) (cs_menu c)),
         Elem ''div'' [(''gridTemplateColumns'', AStr (if app_sidebar a then ''248px 1fr'' else ''1fr''))] []
           ((if app_sidebar a then
               [map_node Side (sidebar_page (app_route a) (cs_server c) (cs_data c) (nat \<lfloor>fst (live_telemetry (cs_data c))\<rfloor>))]
             else []) @ main)] @
        (if app_palette a then [map_node Pal (palette_page (nm_messages (cs_data c)) (cs_palette c))] else []))) (main_page (app_route a) c))"

text \<open>What the handlers do to the state of \<open>App\<close>; the others change the state of their component only.\<close>

fun effect_do :: "pal_effect \<Rightarrow> app \<Rightarrow> app" where
  "effect_do (pal_effect.Navigate r) a = navigate r a"
| "effect_do (OpenMessage i) a = open_message (Some i) a"
| "effect_do ClosePalette a = a\<lparr>app_palette := False\<rparr>"
| "effect_do e a = a"

fun app_do :: "app_act \<Rightarrow> app \<Rightarrow> app" where
  "app_do (Side (side_act.Navigate r)) a = navigate r a"
| "app_do (Side Collapse) a = a\<lparr>app_sidebar := False\<rparr>"
| "app_do (Side OpenPalette) a = a\<lparr>app_palette := True\<rparr>"
| "app_do (Bar ToggleSidebar) a = a\<lparr>app_sidebar := \<not> app_sidebar a\<rparr>"
| "app_do (Bar ShowPalette) a = a\<lparr>app_palette := True\<rparr>"
| "app_do (Bar (Entry MenuLogout)) a = set_authed False a"
| "app_do (Pal (Run e)) a = fold effect_do (palette_run (Some e)) a"
| "app_do (Pal Dismiss) a = a\<lparr>app_palette := False\<rparr>"
| "app_do (Dash (Goto r)) a = navigate r a"
| "app_do (Dash (OpenMsg i)) a = open_message (Some i) a"
| "app_do x a = a"

text \<open>
  A step of the console: a control of the page shown is used, whatever its components hold; the
  answer about the session arrives, or a sign-in succeeds; a key is pressed, which in the
  open palette may be enter or escape. No handler of a page changes the state of \<open>App\<close> in
  more than one action, so one action is one step.
\<close>

inductive console_step :: "app \<Rightarrow> app \<Rightarrow> bool" where
  console_use: "app_page a c = Some page \<Longrightarrow> (n, h) \<in> set (controls page) \<Longrightarrow> act \<in> set (h v) \<Longrightarrow> console_step a (app_do act a)"
| console_session: "app_authed a = None \<Longrightarrow> console_step a (set_authed b a)"
| console_sign_in: "app_authed a = Some False \<Longrightarrow> console_step a (set_authed True a)"
| console_key: "console_step a (on_key k a)"
| console_enter: "app_authed a = Some True \<Longrightarrow> app_palette a \<Longrightarrow>
    console_step a (fold effect_do (palette_enter (nm_messages (cs_data c)) (cs_palette (c :: console))) a)"
| console_escape: "app_authed a = Some True \<Longrightarrow> app_palette a \<Longrightarrow> console_step a (a\<lparr>app_palette := False\<rparr>)"

inductive_cases console_stepE: "console_step s s'"

end
