(* ===== verification/UiScreenFacts.thy ===== *)
theory UiScreenFacts
  imports UiScreens UiProps
begin

text \<open>
  What the rendered pages do for their user: a preference chosen is shown as chosen, the switch of
  a channel reaches its row and comes back, a message clicked is the one traced; and where the
  pages surprise.
\<close>

section \<open>Preferences\<close>

text \<open>The values of a preference the page shows as chosen: a highlighted button, the value of a select.\<close>

definition highlighted :: "'a node \<Rightarrow> bool" where
  "highlighted n \<longleftrightarrow> attr_of ''background'' n = Some (AStr ''var(--accent-soft)'') \<or> attr_of ''borderColor'' n = Some (AStr ''var(--fg)'')"

definition chosen_of :: "string \<Rightarrow> settings_act node \<times> (string \<Rightarrow> settings_act list) \<Rightarrow> string list" where
  "chosen_of k = (\<lambda>(n, h). case h [] of
     [Tweak k' v] \<Rightarrow>
       if k' \<noteq> k then []
       else if tag n = ''select'' then (case attr_of ''value'' n of Some (AStr w) \<Rightarrow> [w] | _ \<Rightarrow> [])
       else if highlighted n then [v] else []
   | _ \<Rightarrow> [])"

definition chosen :: "string \<Rightarrow> settings_act node \<Rightarrow> string list" where
  "chosen k page = concat (map (chosen_of k) (controls page))"

lemma setting_controls [simp]:
  "controls (SettingRow label desc l cs) = concat (map controls cs)"
  "controls (SettingsCard title cs) = concat (map controls cs)"
  "controls (mono_text v) = []" "controls (StatusDot st z pl) = []"
  "controls (Chip tn [Text v]) = []"
  "controls (Pill tone m cs) = concat (map controls cs)"
  by (simp_all add: SettingRow_def SettingsCard_def mono_text_def StatusDot_def Pill_def Chip_def given_node_def split_beta)

lemma controls_fields [simp]:
  "controls (save_button dirty acts) = [(save_button dirty acts, \<lambda>_. acts)]"
  "controls (node_line n) = []"
  by (simp_all add: save_button_def node_line_def)

definition page_values :: "string \<Rightarrow> string list" where
  "page_values k = or_else (map_of [(''theme'', [''dark'', ''light'']), (''accent'', map fst ACCENT_SWATCH),
     (''fontPair'', map fst FONT_PAIRS_S), (''density'', [''compact'', ''cozy'', ''comfy''])] k) []"

lemma chosen_of_other [simp]:
  "chosen_of k (n, \<lambda>v. [TypeText i v]) = []" "chosen_of k (n, \<lambda>v. [TypeNumber i (js_number v)]) = []"
  "chosen_of k (n, \<lambda>v. [SaveSetting i j]) = []"
  by (simp_all add: chosen_of_def)

lemma chosen_page: "chosen k (settings_page t sv p S texts nums) = chosen k (appearance_card t)"
  by (cases p) (simp_all add: chosen_def settings_page_def PageHeader_def ScreenBody_def given_node_def identity_card_def delivery_card_def
      security_card_def limits_card_def text_setting_def number_setting_def SettingText_def SettingNumber_def on_def comp_def)

lemma highlighted_segment [simp]:
  "highlighted (Elem ''button'' [(''key'', a), (''className'', b), (''padding'', c), (''fontSize'', d),
     (''background'', AStr (if cond then ''var(--accent-soft)'' else ''transparent'')), (''color'', e)] es cs) \<longleftrightarrow> cond"
  by (simp add: highlighted_def attr_of_def)

lemma highlighted_swatch [simp]:
  "b \<noteq> AStr ''var(--accent-soft)'' \<Longrightarrow> highlighted (Elem ''button'' [(''key'', a), (''title'', a'), (''background'', b),
     (''borderColor'', AStr (if cond then ''var(--fg)'' else ''transparent'')), (''boxShadow'', c)] es cs) \<longleftrightarrow> cond"
  by (simp add: highlighted_def attr_of_def)

lemma segment_controls: "controls (Segmented opts val h z) = concat (map (\<lambda>(v, l, ic).
    (Elem ''button'' [(''key'', AStr v), (''className'', AStr ''mono''),
            (''padding'', AStr (if z = ''sm'' then ''3px 8px'' else ''4px 11px'')), (''fontSize'', px (if z = ''sm'' then 11 else 12)),
            (''background'', AStr (if v = val then ''var(--accent-soft)'' else ''transparent'')),
            (''color'', AStr (if v = val then ''var(--accent)'' else ''var(--fg-2)''))]
          [on ''onClick'' (\<lambda>_. h v)] (ic @ [Text l]), \<lambda>_. h v) # concat (map controls ic)) opts)"
  by (induction opts) (auto simp: Segmented_def on_def)

lemma chosen_of_segment [simp]:
  "chosen_of k (Elem ''button'' [(''key'', a), (''className'', b), (''padding'', c), (''fontSize'', d),
     (''background'', AStr (if cond then ''var(--accent-soft)'' else ''transparent'')), (''color'', e)] es cs, \<lambda>_. [Tweak k' v]) =
     (if k' = k \<and> cond then [v] else [])"
  by (cases cond) (simp_all add: chosen_of_def tag_def highlighted_def attr_of_def)

lemma chosen_segments: "\<forall>(v, l, ic) \<in> set opts. concat (map controls ic) = [] \<Longrightarrow>
    concat (map (chosen_of k) (controls (Segmented opts val (\<lambda>v. [Tweak k' v]) z))) =
      (if k = k' then filter (\<lambda>v. v = val) (map fst opts) else [])"
proof (induction opts)
  case (Cons x opts)
  obtain v l ic where x: "x = (v, l, ic)" by (cases x)
  with Cons.prems have "concat (map controls ic) = []" by simp
  with x Cons show ?case by (simp add: segment_controls del: concat_eq_Nil_conv)
qed (simp add: segment_controls)

lemma chosen_of_swatch [simp]:
  "c \<noteq> ''var(--accent-soft)'' \<Longrightarrow> chosen_of k (Elem ''button'' [(''key'', a), (''title'', b), (''background'', AStr c),
     (''borderColor'', AStr (if cond then ''var(--fg)'' else ''transparent'')), (''boxShadow'', d)] es cs, \<lambda>_. [Tweak k' v]) =
     (if k' = k \<and> cond then [v] else [])"
  by (cases cond) (simp_all add: chosen_of_def tag_def highlighted_def attr_of_def)

lemma chosen_swatches: "concat (map (chosen_of k) (controls (swatches t))) =
    (if k = ''accent'' then filter (\<lambda>v. t ''accent'' = Some v) (map fst ACCENT_SWATCH) else [])"
proof -
  have "\<forall>(n, c) \<in> set xs. c \<noteq> ''var(--accent-soft)'' \<Longrightarrow>
      concat (map (chosen_of k) (concat (map (\<lambda>(name, c). controls (Elem ''button'' [(''key'', AStr name), (''title'', AStr name),
          (''background'', AStr c), (''borderColor'', AStr (if t ''accent'' = Some name then ''var(--fg)'' else ''transparent'')),
          (''boxShadow'', AStr (if t ''accent'' = Some name then ''0 0 0 2px var(--bg-1)'' else ''none''))]
        [on ''onClick'' (\<lambda>_. [Tweak ''accent'' name])] [])) xs))) =
      (if k = ''accent'' then filter (\<lambda>v. t ''accent'' = Some v) (map fst xs) else [])" for xs
    by (induction xs) (simp_all add: on_def split_beta)
  from this [of ACCENT_SWATCH] show ?thesis
    by (simp add: swatches_def comp_def split_beta ACCENT_SWATCH_def)
qed

lemma chosen_appearance: "chosen k (appearance_card t) =
     (if k = ''fontPair'' then [pref t k]
      else if k = ''accent'' then filter (\<lambda>v. t k = Some v) (page_values k)
      else filter (\<lambda>v. v = pref t k) (page_values k))"
  by (simp add: chosen_def appearance_card_def chosen_segments chosen_swatches page_values_def or_else_def on_def
      FONT_PAIRS_S_def) (simp add: chosen_of_def tag_def attr_of_def)

lemma segments_in: "(n, h') \<in> set (controls (Segmented opts val h z)) \<Longrightarrow> \<forall>(v, l, ic) \<in> set opts. concat (map controls ic) = [] \<Longrightarrow>
    \<exists>v \<in> fst ` set opts. h' = (\<lambda>_. h v)"
  by (force simp: segment_controls split del: if_split)

lemma swatches_in: "(n, h') \<in> set (controls (swatches t)) \<Longrightarrow> \<exists>v \<in> fst ` set ACCENT_SWATCH. h' = (\<lambda>_. [Tweak ''accent'' v])"
  by (force simp: swatches_def on_def split del: if_split)

lemma settings_no_tweak:
  "(n, h') \<in> set (controls (text_setting texts key ph)) \<Longrightarrow> h' x \<noteq> [Tweak k v]"
  "(n, h') \<in> set (controls (number_setting nums key val un factor)) \<Longrightarrow> h' x \<noteq> [Tweak k v]"
  by (auto simp: text_setting_def number_setting_def SettingText_def SettingNumber_def given_node_def on_def split del: if_split)

lemma tweak_offered:
  assumes c: "(c, h) \<in> set (controls (settings_page t sv p S texts nums))" and x: "offered c x" "h x = [Tweak k v]"
  shows "k \<in> {''theme'', ''accent'', ''fontPair'', ''density''} \<and> v \<in> set (page_values k)"
proof -
  have "(c, h) \<in> set (controls (appearance_card t)) \<union> set (controls (identity_card sv texts)) \<union>
      set (controls (delivery_card texts)) \<union> set (controls (security_card p)) \<union> set (controls (limits_card S nums))"
    using c by (auto simp: settings_page_def PageHeader_def ScreenBody_def given_node_def)
  moreover have "(c, h) \<notin> set (controls (identity_card sv texts))"
    using x by (auto simp: identity_card_def dest: settings_no_tweak)
  moreover have "(c, h) \<notin> set (controls (delivery_card texts))"
    using x by (auto simp: delivery_card_def dest: settings_no_tweak)
  moreover have "(c, h) \<notin> set (controls (limits_card S nums))"
    using x by (auto simp: limits_card_def dest: settings_no_tweak)
  moreover have "(c, h) \<notin> set (controls (security_card p))"
    by (cases p) (simp_all add: security_card_def)
  ultimately have "(c, h) \<in> set (controls (appearance_card t))" by blast
  then show ?thesis
    using x by (auto simp: appearance_card_def page_values_def or_else_def offered_def attr_of_def on_def kids_def tag_def
        dest!: segments_in swatches_in simp: image_iff split del: if_split) force+
qed

lemma filter_one: "distinct xs \<Longrightarrow> v \<in> set xs \<Longrightarrow> filter (\<lambda>w. w = v) xs = [v]"
  by (induction xs) (auto simp: filter_empty_conv)

lemma page_values_distinct: "distinct (page_values k)"
  by (simp add: page_values_def or_else_def ACCENT_SWATCH_def FONT_PAIRS_S_def)

text \<open>
  A preference that is chosen is shown as chosen and stays. Whatever control of the settings page
  changes a preference, the page rendered next shows exactly the value it offered, shows the other
  preferences as before, and a console started later from the stored preferences is the same.
\<close>
theorem preference_shown:
  assumes "(c, h) \<in> set (controls (settings_page t sv p S texts nums))" and "offered c x" and "h x = [Tweak k v]"
    and "t = load_prefs stored" and "set_tweak True [k \<mapsto> v] (t, stored) = (t', stored')"
  shows "chosen k (settings_page t' sv p S texts nums) = [v] \<and>
     (\<forall>k'. k' \<noteq> k \<longrightarrow> chosen k' (settings_page t' sv p S texts nums) = chosen k' (settings_page t sv p S texts nums)) \<and>
     load_prefs stored' = t'"
proof -
  from tweak_offered [OF assms(1-3)] have k: "k \<in> {''theme'', ''accent'', ''fontPair'', ''density''}" "v \<in> set (page_values k)" by auto
  have t': "t' = t(k \<mapsto> v)" "stored' = Some t'" using assms(5) by (auto simp: set_tweak_def Let_def)
  have "filter (\<lambda>w. v = w) (page_values k) = [v]" "filter (\<lambda>w. w = v) (page_values k) = [v]"
    using filter_one [OF page_values_distinct k(2)] by (simp_all add: eq_commute)
  with k(1) have "chosen k (settings_page t' sv p S texts nums) = [v]"
    by (auto simp: chosen_page chosen_appearance t' pref_def or_else_def)
  moreover have "chosen k' (settings_page t' sv p S texts nums) = chosen k' (settings_page t sv p S texts nums)" if "k' \<noteq> k" for k'
    using that by (simp add: chosen_page chosen_appearance t' pref_def)
  moreover have "load_prefs stored' = t'"
  proof -
    have "PREF_DEFAULTS ++ (PREF_DEFAULTS ++ m) = PREF_DEFAULTS ++ m" for m by (simp add: map_add_assoc [symmetric] map_add_def fun_eq_iff split: option.splits)
    moreover obtain m where "t = PREF_DEFAULTS ++ m" using assms(4) by (cases stored) (auto simp: load_prefs_def intro: that [of Map.empty])
    ultimately show ?thesis by (simp add: t' load_prefs_def map_add_upd [symmetric] del: map_add_upd)
  qed
  ultimately show ?thesis by blast
qed

theorem preference_shown_witness:
  "chosen ''accent'' (settings_page (PREF_DEFAULTS(''accent'' \<mapsto> ''rose'')) sv p S texts nums) = [''rose'']"
proof -
  let ?n = "Elem ''button'' [(''key'', AStr ''rose''), (''title'', AStr ''rose''), (''background'', AStr ''#e36d7e''),
      (''borderColor'', AStr ''transparent''), (''boxShadow'', AStr ''none'')] [on ''onClick'' (\<lambda>_. [Tweak ''accent'' ''rose''])] []"
  have c: "(?n, \<lambda>_. [Tweak ''accent'' ''rose'']) \<in> set (controls (settings_page PREF_DEFAULTS sv p S texts nums))"
    by (simp add: settings_page_def ScreenBody_def appearance_card_def swatches_def on_def ACCENT_SWATCH_def PREF_DEFAULTS_def)
  have o: "offered ?n []" by (simp add: offered_def tag_def)
  from preference_shown [OF c o refl, of None, unfolded load_prefs_def option.case, OF refl]
  show ?thesis by (simp add: set_tweak_def Let_def)
qed

section \<open>Channels and messages\<close>

lemma channel_line_switch:
  "(Toggle (cv_enabled ch) (\<lambda>_. [FlipChannel ch]) ''sm'', \<lambda>_. [FlipChannel ch]) \<in> set (controls (channel_line ch))"
  by (simp add: channel_line_def Card_def)

text \<open>
  The switch of a channel does what it shows. The page has one for every channel; the request it
  sends is answered with success, and the list read afterwards is the same with that channel
  switched over.
\<close>
theorem channel_switch_click:
  assumes "distinct (map ch_id tbl)" and "ch \<in> set (get_channels tbl)"
    and "put_channel parse enc (cv_id ch) (channel_body_of (the (hr_body (flip_channel ch)))) tbl = (tbl', code)"
  shows "(Toggle (cv_enabled ch) (\<lambda>_. [FlipChannel ch]) ''sm'', \<lambda>_. [FlipChannel ch])
       \<in> set (controls (notifications_page (Some (get_channels tbl)) f waiting)) \<and> code = 200 \<and>
     get_channels tbl' = map (\<lambda>c. if cv_id c = cv_id ch then c\<lparr>cv_enabled := \<not> cv_enabled ch\<rparr> else c) (get_channels tbl)"
proof (intro conjI)
  show "(Toggle (cv_enabled ch) (\<lambda>_. [FlipChannel ch]) ''sm'', \<lambda>_. [FlipChannel ch])
       \<in> set (controls (notifications_page (Some (get_channels tbl)) f waiting))"
    using assms(2) channel_line_switch [of ch]
    by (auto simp: notifications_page_def Let_def or_else_def ScreenBody_def)
  obtain c0 where c0: "c0 \<in> set tbl" "cv_id ch = ch_id c0" using assms(2) by (auto simp: get_channels_def)
  then have "list_ex (\<lambda>c. ch_id c = cv_id ch) tbl" by (auto simp: list_ex_iff)
  moreover have "channel_set \<lparr>cb_name = None, cb_type = None, cb_url = None, cb_target = None, cb_min_severity = None,
      cb_enabled = Some b\<rparr> None c = c\<lparr>ch_enabled := b\<rparr>" for b c
    by (simp add: channel_set_def set_field_def)
  ultimately have t: "tbl' = map (\<lambda>c. if ch_id c = cv_id ch then c\<lparr>ch_enabled := \<not> cv_enabled ch\<rparr> else c) tbl" "code = 200"
    using assms(3)
    by (auto simp: put_channel_def flip_channel_def channel_body_of_def truthy_def Let_def)
  then show "code = 200" by simp
  show "get_channels tbl' = map (\<lambda>c. if cv_id c = cv_id ch then c\<lparr>cv_enabled := \<not> cv_enabled ch\<rparr> else c) (get_channels tbl)"
    by (simp add: t(1) get_channels_def maskTarget_def)
qed

text \<open>
  A message clicked in the list is the one traced, and its row the only one highlighted, as long as
  identifiers tell messages apart.
\<close>
lemma message_click:
  assumes "distinct (map um_id messages)" and "m \<in> set (message_rows flt q messages)"
  shows "selected_message (ms_selected (message_do (Select (um_id m)) s)) messages = Some m \<and>
     filter highlighted (map (message_line (um_id m)) (message_rows flt q messages)) = [message_line (um_id m) m]"
proof
  have m: "m \<in> set messages" using assms(2) by (auto simp: message_rows_def)
  have same: "m' = m" if "m' \<in> set messages" "um_id m' = um_id m" for m'
    using assms(1) m that by (auto simp: distinct_map dest: inj_onD)
  obtain m' where f: "find (\<lambda>x. um_id x = um_id m) messages = Some m'"
    using m by (cases "find (\<lambda>x. um_id x = um_id m) messages") (auto simp: find_None_iff)
  then have "m' \<in> set messages" "um_id m' = um_id m" by (auto simp: find_Some_iff)
  with f same show "selected_message (ms_selected (message_do (Select (um_id m)) s)) messages = Some m"
    by (simp add: selected_message_def)
  have "highlighted (message_line (um_id m) x) \<longleftrightarrow> um_id x = um_id m" for x
    by (simp add: highlighted_def message_line_def attr_of_def)
  moreover have "distinct (message_rows flt q messages)"
    using assms(1) by (auto simp: message_rows_def distinct_map intro: distinct_filter)
  moreover have "filter (\<lambda>x. um_id x = um_id m) (message_rows flt q messages) = filter (\<lambda>x. x = m) (message_rows flt q messages)"
    using same by (auto simp: message_rows_def intro!: filter_cong)
  ultimately show "filter highlighted (map (message_line (um_id m)) (message_rows flt q messages)) = [message_line (um_id m) m]"
    using filter_one [of "message_rows flt q messages" m] assms(2) by (simp add: filter_map comp_def)
qed

section \<open>Surprises\<close>

text \<open>
  \<open>Btn\<close> does not read \<open>disabled\<close>: the save buttons of the settings are never disabled, and saving an
  unchanged field sends it.
\<close>

lemma save_never_disabled:
  "attr_of ''disabled'' (save_button dirty acts) = None" "user_click [] (save_button dirty acts) = acts"
  by (simp_all add: save_button_def Btn_def attr_of_def user_click_def own_def on_def tag_def)

text \<open>
  When no queue holds a message the width of every bar is \<open>NaN%\<close>, which the style ignores: a block
  without width fills its parent, so empty queues are shown as full.
\<close>

lemma idle_bars: "\<forall>q \<in> set qs. qi_depth q = 0 \<Longrightarrow> bar_width (max_depth qs) (Some 0) = NaN"
proof -
  assume z: "\<forall>q \<in> set qs. qi_depth q = 0"
  have "\<forall>x \<in> set xs. x = (0::nat) \<Longrightarrow> foldl max 0 xs = 0" for xs by (induction xs) simp_all
  with z have "foldl max 0 (map qi_depth qs) = 0" by simp
  then show ?thesis by (simp add: max_depth_def bar_width_def)
qed

text \<open>While a sign-in is running its button is disabled, but the enter key in the password field starts another.\<close>

lemma enter_signs_in_twice:
  "\<exists>n \<in> set (nodes (login_page version user pass [] True)). tag n = ''button'' \<and> own ''onClick'' [] n = (False, [])"
  "\<exists>n h. (n, h) \<in> set (controls (login_page version user pass [] True)) \<and> h ''Enter'' = [DoLogin]"
  by (auto simp: login_page_def own_def on_def tag_def mono_text_def LoginField_def)

text \<open>
  The gradient of a sparkline is named by its width and first value. Two lines of the dashboard
  that start with the same value, as idle series do, share the name, so the later is filled with
  the colour of the earlier.
\<close>

lemma gradients_clash: "hd (pad2 xs) = hd (pad2 ys) \<Longrightarrow> spark_id 84 xs = spark_id 84 ys"
  by (simp add: spark_id_def)

text \<open>The button that adds a channel works while a channel is being added: a second click adds it twice.\<close>

lemma add_unguarded:
  "\<exists>n. (n, \<lambda>_. [AddChannel]) \<in> set (controls (notifications_page chs f True))"
  by (auto simp: notifications_page_def Let_def ScreenBody_def add_card_def Card_def)

end
