(* ===== verification/UiShellFacts.thy ===== *)
theory UiShellFacts
  imports UiShell UiScreenFacts
begin

text \<open>
  The frame of the console keeps its promises: the palette shows each entry once and highlights the
  one Enter runs, and the sidebar leads to every screen and marks the current one.
\<close>

section \<open>The palette\<close>

text \<open>The entries a page runs on a click, in order, each with whether it is highlighted.\<close>

definition run_of :: "pal_act node \<times> (string \<Rightarrow> pal_act list) \<Rightarrow> (bool \<times> entry) list" where
  "run_of = (\<lambda>(n, h). case h [] of [Run e] \<Rightarrow> [(highlighted n, e)] | _ \<Rightarrow> [])"

definition run_buttons :: "pal_act node \<Rightarrow> (bool \<times> entry) list" where
  "run_buttons page = concat (map run_of (controls page))"

lemma run_of_simps [simp]:
  "run_of (n, \<lambda>_. [Run e]) = [(highlighted n, e)]" "run_of (n, \<lambda>_. [Hover i]) = []" "run_of (n, \<lambda>v. [Query v]) = []"
  "run_of (n, \<lambda>_. []) = []" "run_of (n, \<lambda>_. [Dismiss]) = []"
  by (simp_all add: run_of_def)

lemma run_buttons_item: "concat (map run_of (controls (palette_item sel (i, e)))) = [(int i = sel, e)]"
proof -
  obtain l ic hint sub where v: "entry_view e = (l, ic, hint, sub)" by (cases "entry_view e")
  show ?thesis by (simp add: palette_item_def v given_node_def on_def highlighted_def attr_of_def Let_def)
qed

lemma run_buttons_items: "concat (concat (map (\<lambda>x. map run_of (controls (palette_item sel x))) xs)) = map (\<lambda>(i, e). (int i = sel, e)) xs"
  by (induction xs) (auto simp: run_buttons_item)

lemma run_buttons_section: "concat (concat (map (\<lambda>x. map run_of (controls x)) (palette_section title P sel ies))) =
    map (\<lambda>(i, e). (int i = sel, e)) (filter (\<lambda>(i, e). P e) ies)"
  by (simp add: palette_section_def Let_def map_concat comp_def run_buttons_items)

lemma enumerate_parts:
  fixes ns :: "nav_item list" and as :: "action_item list" and ms :: "ui_message list"
  defines "flat \<equiv> map Nav ns @ map Action as @ map Msg ms"
  shows "filter (\<lambda>(i, e). is_nav e) (enumerate k flat) @ filter (\<lambda>(i, e). is_action e) (enumerate k flat) @
     filter (\<lambda>(i, e). is_msg e) (enumerate k flat) = enumerate k flat"
proof -
  have keep: "filter (\<lambda>(i, e). P e) (enumerate j xs) = enumerate j xs" if "\<forall>e \<in> set xs. P e" for P :: "entry \<Rightarrow> bool" and j xs
    using that by (induction xs arbitrary: j) auto
  have drop_all: "filter (\<lambda>(i, e). P e) (enumerate j xs) = []" if "\<forall>e \<in> set xs. \<not> P e" for P :: "entry \<Rightarrow> bool" and j xs
    using that by (induction xs arbitrary: j) auto
  show ?thesis
    by (simp add: flat_def enumerate_append_eq keep drop_all is_nav_def is_action_def is_msg_def)
qed

lemma run_buttons_page: "run_buttons (palette_page messages p) =
    map (\<lambda>(i, e). (int i = pl_sel p, e)) (enumerate 0 (palette_entries messages (pl_q p)))"
proof -
  let ?flat = "palette_entries messages (pl_q p)" and ?mark = "\<lambda>(i, e). (int i = pl_sel p, e)"
  have parts: "filter (\<lambda>(i, e). is_nav e) (enumerate 0 ?flat) @ filter (\<lambda>(i, e). is_action e) (enumerate 0 ?flat) @
      filter (\<lambda>(i, e). is_msg e) (enumerate 0 ?flat) = enumerate 0 ?flat"
    unfolding palette_entries_def Let_def by (rule enumerate_parts)
  have "run_buttons (palette_page messages p) = map ?mark (filter (\<lambda>(i, e). is_nav e) (enumerate 0 ?flat)) @
      map ?mark (filter (\<lambda>(i, e). is_action e) (enumerate 0 ?flat)) @ map ?mark (filter (\<lambda>(i, e). is_msg e) (enumerate 0 ?flat))"
    by (simp add: run_buttons_def palette_page_def Let_def on_def stopping_def mono_text_def icon_def map_concat
        run_buttons_section comp_def del: concat_eq_Nil_conv)
  also have "\<dots> = map ?mark (enumerate 0 ?flat)" unfolding map_append [symmetric] parts ..
  finally show ?thesis .
qed

lemma selected_only: "i < length xs \<Longrightarrow>
    filter fst (map (\<lambda>(j, e). (int j = int (k + i), e)) (enumerate k xs)) = [(True, xs ! i)]"
proof (induction xs arbitrary: i k)
  case (Cons x xs)
  have none: "filter fst (map (\<lambda>(j, e). (j = k, e)) (enumerate (Suc k) xs)) = []"
    by (auto simp: filter_empty_conv in_set_enumerate_eq)
  show ?case
  proof (cases i)
    case 0
    with none show ?thesis by simp
  next
    case (Suc i')
    with Cons.IH [of i' "Suc k"] Cons.prems show ?thesis by simp
  qed
qed simp



section \<open>The sidebar\<close>

text \<open>The routes of the buttons, each with whether its text has the colour of the current one.\<close>

definition route_of :: "side_act node \<times> (string \<Rightarrow> side_act list) \<Rightarrow> (bool \<times> string) list" where
  "route_of = (\<lambda>(n, h). case h [] of [Navigate r] \<Rightarrow> [(highlighted n, r)] | _ \<Rightarrow> [])"

lemma route_of_simps [simp]:
  "route_of (n, \<lambda>_. [Navigate r]) = [(highlighted n, r)]" "route_of (n, \<lambda>_. [Collapse]) = []" "route_of (n, \<lambda>_. [OpenPalette]) = []"
  by (simp_all add: route_of_def)

lemma side_row_route: "concat (map route_of (controls (side_row route d depth i))) = [(route = i, i)]"
  by (cases "SIDEBAR_ITEMS i") (simp add: side_row_def given_node_def on_def highlighted_def attr_of_def Let_def mono_text_def icon_def
      del: concat_eq_Nil_conv split: option.split)

text \<open>The sidebar has one button for each screen; the one of the current screen alone is highlighted.\<close>

lemma sidebar_routes: "concat (map route_of (controls (sidebar_page route sv d depth))) =
    map (\<lambda>i. (route = i, i)) (concat (map snd SIDEBAR))"
proof -
  have rows: "concat (concat (map (\<lambda>x. map route_of (controls (side_row route d depth x))) xs)) = map (\<lambda>i. (route = i, i)) xs" for xs
    by (induction xs) (simp_all add: side_row_route)
  have groups: "concat (concat (map (\<lambda>x. map route_of (controls (case x of (g, items) \<Rightarrow> Elem ''div'' [] []
        (given_node g (\<lambda>s. Elem ''div'' [(''className'', AStr ''mono'')] [] [Text s]) @
         [Elem ''div'' [] [] (map (side_row route d depth) items)])))) gs)) = map (\<lambda>i. (route = i, i)) (concat (map snd gs))" for gs
    by (induction gs) (auto simp: given_node_def map_concat rows comp_def split: option.split)
  show ?thesis
    using groups [of SIDEBAR]
    by (simp add: sidebar_page_def mono_text_def icon_def IconBtn_def on_def map_concat comp_def)
qed

end
