(* ===== verification/UiAppFacts.thy ===== *)
theory UiAppFacts
  imports UiApp UiShellFacts
begin

text \<open>
  The rendered application as a state machine: what a user can do with the controls it shows
  refines the session machine of WebShell, and leads to every screen.
\<close>

section \<open>The actions of a page\<close>

definition handler_acts :: "'a handlers \<Rightarrow> 'a set" where
  "handler_acts es = (\<Union>(ev, st, h) \<in> set es. \<Union>v. set (h v))"

primrec acts :: "'a node \<Rightarrow> 'a set" where
  "acts (Text s) = {}"
| "acts (Number x) = {}"
| "acts (Elem t xs es cs) = handler_acts es \<union> \<Union> (set (map acts cs))"

lemma handler_acts_simps [simp]:
  "handler_acts [] = {}" "handler_acts ((ev, st, h) # es) = (\<Union>v. set (h v)) \<union> handler_acts es"
  "handler_acts (on ev h # es) = (\<Union>v. set (h v)) \<union> handler_acts es" "handler_acts (stopping ev # es) = handler_acts es"
  by (simp_all add: handler_acts_def on_def stopping_def)

lemma controls_acts: "(n, h) \<in> set (controls p) \<Longrightarrow> a \<in> set (h v) \<Longrightarrow> a \<in> acts p"
  by (induction p) (auto simp: handler_acts_def, blast)

lemma acts_map [simp]: "acts (map_node f n) = f ` acts n"
proof (induction n)
  case (Elem t xs es cs)
  have "handler_acts (map (map_prod id (map_prod id (\<lambda>h. map f \<circ> h))) es) = f ` handler_acts es"
  proof (induction es)
    case (Cons e es)
    then show ?case by (cases e) (simp add: image_Un image_UN comp_def)
  qed simp
  with Elem show ?case by (auto simp: image_Un image_UN id_def)
qed auto

section \<open>Where the controls lead\<close>

lemma acts_parts [simp]:
  "acts (icon name) = {}" "acts (mono_text v) = {}" "acts (StatusDot st z pl) = {}" "acts (StatusBadge st d) = {}"
  "acts (IconBtn cap as b k cs) = set as \<union> \<Union> (set (map acts cs))"
  "acts (ScreenBody g p cs) = \<Union> (set (map acts cs))" "acts (Sparkline xs w h cl fl) = {}"
  by (auto simp: icon_def mono_text_def StatusDot_def StatusBadge_def IconBtn_def ScreenBody_def Sparkline_def split_beta Let_def)

lemma acts_given [simp]: "\<Union> (set (map acts (given_node v (\<lambda>s. Elem t xs [] [Text s])))) = {}"
  "\<Union> (acts ` set (given_node v (\<lambda>s. Elem t xs [] [Text s]))) = {}" "\<Union> (acts ` set (given_node v mono_text)) = {}"
  by (simp_all add: given_node_def)

lemma acts_side_row: "acts (side_row route d depth i) = {side_act.Navigate i}"
  by (cases "SIDEBAR_ITEMS i") (auto simp: side_row_def Let_def split: option.splits)

lemma acts_sidebar: "acts (sidebar_page route sv d depth) = {Collapse, OpenPalette} \<union> side_act.Navigate ` set (concat (map snd SIDEBAR))"
  by (auto simp: sidebar_page_def acts_side_row) force

lemma acts_bar: "acts (TopBar route theme op menu) \<subseteq> {ToggleSidebar, ToggleTheme, ShowPalette, ToggleMenu} \<union> range Entry"
  "ToggleSidebar \<in> acts (TopBar route theme op menu)"
  by (auto simp: TopBar_def UserMenu_def menu_item_def split: option.splits)

lemma acts_item: "acts (palette_item sel (i, e)) = {Hover i, Run e}"
  by (cases "entry_view e") (auto simp: palette_item_def Let_def)

lemma acts_section: "a \<in> acts n \<Longrightarrow> n \<in> set (palette_section title P sel ies) \<Longrightarrow> a \<in> range Hover \<union> Run ` snd ` set ies"
  by (auto simp: palette_section_def Let_def acts_item image_iff split: if_splits) force+

lemma acts_palette: "acts (palette_page messages p) \<subseteq> {Dismiss} \<union> range Query \<union> range Hover \<union> Run ` set (palette_entries messages (pl_q p))"
  by (auto simp: palette_page_def Let_def dest!: acts_section simp: in_set_enumerate_eq split: if_splits) 

lemma acts_dashboard_parts [simp]:
  "acts (ThroughputChart w height xs ys) = {}" "acts (StatCard p val) = acts val" "acts (queue_card depth ir outr) = {}"
  "acts (chart_card layout w d) = {}" "acts (ProviderHealth ps) = {Goto ''providers''}" "acts (tile_row color label k) = {}"
  "acts (DeliverabilityTile s) = {Goto ''deliverability''}"
proof -
  show chart: "acts (ThroughputChart w height xs ys) = {}" for w height xs ys
    by (simp add: ThroughputChart_def Let_def split_beta)
  show "acts (StatCard p val) = acts val"
    by (auto simp: StatCard_def given_node_def split: option.splits)
  show "acts (queue_card depth ir outr) = {}" by (simp add: queue_card_def)
  show "acts (chart_card layout w d) = {}" by (simp only: chart_card_def acts.simps list.map list.set chart) (simp add: handler_acts_def)
  show "acts (ProviderHealth ps) = {Goto ''providers''}"
    by (simp add: ProviderHealth_def link_button_def Let_def split_beta)
  show tile: "acts (tile_row color label k) = {}" for color label k by (simp add: tile_row_def)
  show "acts (DeliverabilityTile s) = {Goto ''deliverability''}"
    by (cases "tile_view s") (simp_all add: DeliverabilityTile_def link_button_def tile)
qed

lemma acts_recent: "acts (RecentActivity dense ms) \<subseteq> {Goto ''messages''} \<union> range OpenMsg"
  by (auto simp: RecentActivity_def link_button_def Let_def split_beta split: if_splits)

lemma acts_dashboard: "acts (dashboard_page layout w tile depth ir outr d) \<subseteq>
    Goto ` {''deliverability'', ''providers'', ''messages''} \<union> range OpenMsg"
  using acts_recent [of False "nm_messages d"] acts_recent [of True "nm_messages d"]
  by (simp add: dashboard_page_def Let_def stats_row_def) blast

section \<open>The console as a machine\<close>

lemma acts_controls: "a \<in> acts p \<Longrightarrow> \<exists>n h v. (n, h) \<in> set (controls p) \<and> a \<in> set (h v)"
proof (induction p)
  case (Elem t xs es cs)
  then consider "a \<in> handler_acts es" | c where "c \<in> set cs" "a \<in> acts c" by auto
  then show ?case
  proof cases
    case 1
    then show ?thesis by (force simp: handler_acts_def)
  next
    case 2
    with Elem.IH [of c] show ?thesis by auto
  qed
qed auto

text \<open>Every effect is a step of the session machine, and keeps the session.\<close>

lemma effect_do_step: "app_authed a = Some True \<Longrightarrow> app_step\<^sup>*\<^sup>* a (effect_do e a) \<and> app_authed (effect_do e a) = Some True"
  using step_navigate [of a] step_message [of a] step_palette [of a]
  by (cases e) (simp_all add: r_into_rtranclp, simp_all add: navigate_def open_message_def)

lemma effects_step: "app_authed a = Some True \<Longrightarrow> app_step\<^sup>*\<^sup>* a (fold effect_do es a)"
proof (induction es arbitrary: a)
  case (Cons e es)
  from effect_do_step [OF Cons.prems, of e] Cons.IH [of "effect_do e a"] show ?case by (auto intro: rtranclp_trans)
qed simp

lemma toggle_step: "app_step a (a\<lparr>app_sidebar := \<not> app_sidebar a\<rparr>)"
proof -
  have "lower_char CHR ''b'' = CHR ''b''" by code_simp
  with step_key [of a "Meta (CHR ''b'')"] show ?thesis by (simp add: on_key_def)
qed

lemma app_do_step:
  assumes "app_authed a = Some True"
  shows "app_step\<^sup>*\<^sup>* a (app_do act a)"
proof -
  have "app_step\<^sup>*\<^sup>* a (a\<lparr>app_sidebar := False\<rparr>)"
  proof (cases "app_sidebar a")
    case True
    with toggle_step [of a] show ?thesis by (simp add: r_into_rtranclp)
  next
    case False
    then have "a\<lparr>app_sidebar := False\<rparr> = a" by (cases a) simp
    then show ?thesis by simp
  qed
  moreover note effects_step [OF assms] r_into_rtranclp [of app_step, OF toggle_step] r_into_rtranclp [of app_step, OF step_navigate [OF assms]]
    r_into_rtranclp [of app_step, OF step_message [OF assms]] r_into_rtranclp [of app_step, OF step_palette [OF assms]]
    r_into_rtranclp [of app_step, OF step_logout [OF assms]]
  ultimately show ?thesis by (cases "(act, a)" rule: app_do.cases) simp_all
qed

lemma app_page_signed_out: "app_page a c = Some page \<Longrightarrow> app_authed a \<noteq> Some True \<Longrightarrow> acts page \<subseteq> range Sign"
  by (auto simp: app_page_def split: option.splits bool.splits prod.splits)

lemma sign_stays [simp]: "app_do (Sign x) a = a"
  by simp

lemma console_step_refines: "console_step a b \<Longrightarrow> app_step\<^sup>*\<^sup>* a b"
proof (erule console_stepE)
  fix c page n h act v
  assume u: "b = app_do act a" "app_page a c = Some page" "(n, h) \<in> set (controls page)" "act \<in> set (h v)"
  show "app_step\<^sup>*\<^sup>* a b"
  proof (cases "app_authed a = Some True")
    case True
    then show ?thesis unfolding u(1) by (rule app_do_step)
  next
    case False
    with app_page_signed_out [OF u(2)] controls_acts [OF u(3,4)] u(1) show ?thesis by auto
  qed
next
  fix k assume "b = on_key k a" then show "app_step\<^sup>*\<^sup>* a b" by (auto intro: step_key)
qed (auto intro: step_session step_sign_in step_palette effects_step)

section \<open>No dead ends but one\<close>

definition known_route :: "app \<Rightarrow> bool" where
  "known_route a \<longleftrightarrow> app_route a \<in> insert ''ratelimits'' (set SCREENS)"

lemma palette_targets: "e \<in> set (palette_entries ms q) \<Longrightarrow> known_route a \<Longrightarrow> known_route (fold effect_do (palette_run (Some e)) a)"
proof -
  assume e: "e \<in> set (palette_entries ms q)" and a: "known_route a"
  have nav: "list_all (\<lambda>n. nv_id n \<in> set (''ratelimits'' # SCREENS)) PALETTE_NAV" by code_simp
  have action: "list_all (\<lambda>n. at_nav n \<in> set (''ratelimits'' # SCREENS)) PALETTE_ACTIONS" by code_simp
  show ?thesis
  proof (cases e)
    case (Nav n)
    with e nav show ?thesis
      by (auto simp: palette_entries_def Let_def palette_run_def known_route_def navigate_def list_all_iff)
  next
    case (Action n)
    with e action show ?thesis
      by (auto simp: palette_entries_def Let_def palette_run_def known_route_def navigate_def list_all_iff split: option.splits)
  next
    case (Msg m)
    then show ?thesis by (auto simp: palette_run_def known_route_def open_message_def SCREENS_def)
  qed
qed

lemma sidebar_screens: "set (concat (map snd SIDEBAR)) = set SCREENS"
  by code_simp

text \<open>What the page of a route can ask of the application: the dashboard navigates, the others keep to themselves.\<close>

definition own_acts :: "app_act set" where
  "own_acts = range Sign \<union> range Msgs \<union> range Queues \<union> range Prov \<union> range Listed \<union> range Deliv \<union> range Notif \<union> range Sett"

definition dash_acts :: "dash_act set" where
  "dash_acts = Goto ` {''deliverability'', ''providers'', ''messages''} \<union> range OpenMsg"

lemma pred_option_pieces:
  "pred_option P (if b then x else y) \<longleftrightarrow> (if b then pred_option P x else pred_option P y)"
  "pred_option P (some_page f n) \<longleftrightarrow> P [map_node f n]"
  "pred_option P (map_option g z) \<longleftrightarrow> pred_option (\<lambda>w. P (g w)) z"
  "pred_option P (Some w) \<longleftrightarrow> P w"
  by (simp_all add: some_page_def option.pred_map comp_def)

lemma own_images: "Sign ` A \<subseteq> own_acts" "Msgs ` B \<subseteq> own_acts" "Queues ` C \<subseteq> own_acts" "Prov ` D \<subseteq> own_acts" "Listed ` E \<subseteq> own_acts"
  "Deliv ` F \<subseteq> own_acts" "Notif ` G \<subseteq> own_acts" "Sett ` H \<subseteq> own_acts"
  by (auto simp: own_acts_def)

lemma main_acts: "pred_option (\<lambda>main. \<Union> (set (map acts main)) \<subseteq> Dash ` dash_acts \<union> own_acts) (main_page r c)"
proof -
  have dash: "acts (dashboard_page layout w tile depth ir outr d) \<subseteq> dash_acts" for layout w tile depth ir outr d
    unfolding dash_acts_def by (rule acts_dashboard)
  have "pred_option (\<lambda>main. True) x" for x :: "message_act node option" by (cases x) simp_all
  then show ?thesis
    by (simp add: main_page_def Let_def split_beta pred_option_pieces le_supI1 [OF image_mono [OF dash]] le_supI2 own_images)
qed

lemma gather: "X \<subseteq> B \<union> S \<union> M \<union> P \<Longrightarrow> M \<subseteq> D \<union> R \<Longrightarrow> P \<subseteq> P' \<Longrightarrow> x \<in> X \<Longrightarrow> x \<in> S \<union> B \<union> P' \<union> D \<union> R"
  by blast

lemma app_page_acts:
  assumes "app_page a c = Some page" and "act \<in> acts page"
  shows "act \<in> Side ` ({Collapse, OpenPalette} \<union> side_act.Navigate ` set SCREENS) \<union> range Bar \<union>
     Pal ` ({Dismiss} \<union> range Query \<union> range Hover \<union> Run ` set (palette_entries (nm_messages (cs_data c)) (pl_q (cs_palette c)))) \<union>
     Dash ` dash_acts \<union> own_acts"
proof (cases "app_authed a = Some True")
  case True
  let ?bar = "map_node Bar (TopBar (app_route a) (pref (cs_prefs c) ''theme'') (nm_operator (cs_data c)) (cs_menu c))"
  let ?side = "sidebar_page (app_route a) (cs_server c) (cs_data c) (nat \<lfloor>fst (live_telemetry (cs_data c))\<rfloor>)"
  let ?pal = "palette_page (nm_messages (cs_data c)) (cs_palette c)"
  obtain main where m: "main_page (app_route a) c = Some main" and page: "page = Elem ''div'' [] [] ([?bar,
      Elem ''div'' [(''gridTemplateColumns'', AStr (if app_sidebar a then ''248px 1fr'' else ''1fr''))] []
        ((if app_sidebar a then [map_node Side ?side] else []) @ main)] @ (if app_palette a then [map_node Pal ?pal] else []))"
    using assms(1) True by (auto simp: app_page_def)
  have "acts page \<subseteq> range Bar \<union> Side ` acts ?side \<union> \<Union> (set (map acts main)) \<union> Pal ` acts ?pal"
    unfolding page by (cases "app_sidebar a"; cases "app_palette a") auto
  then have page_acts: "acts page \<subseteq> range Bar \<union> Side ` ({Collapse, OpenPalette} \<union> side_act.Navigate ` set SCREENS) \<union>
      \<Union> (set (map acts main)) \<union> Pal ` acts ?pal"
    unfolding acts_sidebar sidebar_screens .
  have "\<Union> (set (map acts main)) \<subseteq> Dash ` dash_acts \<union> own_acts"
    using main_acts [of "app_route a" c] by (simp add: m)
  then show ?thesis by (rule gather [OF page_acts _ image_mono [OF acts_palette] assms(2)])
next
  case False
  with app_page_signed_out [OF assms(1)] assms(2) show ?thesis by (auto simp: own_acts_def)
qed

lemma empty_page: "main_page r c = Some [] \<longleftrightarrow> r \<notin> set SCREENS"
proof -
  have [simp]: "map_option (\<lambda>n. [f n]) x \<noteq> Some []" for f :: "'x \<Rightarrow> 'y" and x by (cases x) simp_all
  show ?thesis by (simp add: main_page_def some_page_def split_beta Let_def SCREENS_def)
qed

text \<open>Every step leads to a screen, or to the one page that has none.\<close>

lemma known_route_simps [simp]:
  "known_route (set_authed b a) = known_route a" "known_route (on_key k a) = known_route a"
  "known_route (a\<lparr>app_palette := b\<rparr>) = known_route a" "known_route (a\<lparr>app_sidebar := b\<rparr>) = known_route a"
  "known_route (open_message i a)" "known_route (navigate r a) \<longleftrightarrow> r \<in> insert ''ratelimits'' (set SCREENS)"
  by (simp_all add: known_route_def set_authed_def on_key_def open_message_def navigate_def SCREENS_def split: key.split)

lemma app_do_route:
  assumes a: "known_route a" and "app_page a c = Some page" and "act \<in> acts page"
  shows "known_route (app_do act a)"
proof -
  have own: "x \<in> own_acts \<Longrightarrow> app_do x a = a" for x by (auto simp: own_acts_def)
  have dash: "x \<in> dash_acts \<Longrightarrow> known_route (app_do (Dash x) a)" for x by (auto simp: dash_acts_def SCREENS_def)
  have bar: "known_route (app_do (Bar x) a)" for x
    using a by (cases "(Bar x, a)" rule: app_do.cases) simp_all
  from app_page_acts [OF assms(2,3)] consider "act = Side Collapse" | "act = Side OpenPalette"
    | r where "act = Side (side_act.Navigate r)" "r \<in> set SCREENS" | x where "act = Bar x"
    | "act = Pal Dismiss" | q where "act = Pal (Query q)" | i where "act = Pal (Hover i)"
    | e where "act = Pal (Run e)" "e \<in> set (palette_entries (nm_messages (cs_data c)) (pl_q (cs_palette c)))"
    | x where "act = Dash x" "x \<in> dash_acts" | "act \<in> own_acts"
    by blast
  then show ?thesis
    by cases (use a bar dash own palette_targets [OF _ a] in simp_all)
qed

lemma console_step_route: "known_route a \<Longrightarrow> console_step a b \<Longrightarrow> known_route b"
proof (elim console_stepE)
  fix c assume a: "known_route a" and b: "b = fold effect_do (palette_enter (nm_messages (cs_data c)) (cs_palette c)) a"
  let ?flat = "palette_entries (nm_messages (cs_data c)) (pl_q (cs_palette c))" and ?i = "pl_sel (cs_palette c)"
  show "known_route b"
  proof (cases "0 \<le> ?i \<and> ?i < int (length ?flat)")
    case True
    then have "?flat ! nat ?i \<in> set ?flat" by (intro nth_mem) (simp add: nat_less_iff)
    from palette_targets [OF this a] True show ?thesis by (simp add: b palette_enter_def Let_def)
  next
    case False
    then have "b = a" by (simp only: b palette_enter_def Let_def if_False) (simp add: palette_run_def)
    with a show ?thesis by simp
  qed
qed (auto intro: app_do_route dest: controls_acts)

interpretation console_machine: machine_invariant "\<lambda>a. a = app_init" console_step known_route
  by unfold_locales (simp add: known_route_def app_init_def SCREENS_def, rule console_step_route)

lemma console_reaches: "reach (\<lambda>a. a = app_init) console_step a \<Longrightarrow> reach (\<lambda>a. a = app_init) app_step a"
proof (induction rule: reach.induct)
  case (reach_step s t)
  from console_step_refines [OF reach_step.hyps(2)] reach_step.IH show ?case
    by (induction rule: rtranclp_induct) (auto intro: reach.reach_step)
qed (auto intro: reach_init)



end
