(* ===== verification/Spec2Isabelle.thy ===== *)
theory Spec2Isabelle
  imports Scheduler Auth Crud Dkim Feedback Messages Accounts Telemetry WebStore WebForms WebShell WebViews Db SystemProps WebEdit UiTableFacts UiAppFacts
begin

text \<open>
  NovaMail is a mail relay. Its Go daemons accept and deliver mail; the admin API
  (\<open>services/admin-api/src\<close>, TypeScript on Fastify, PostgreSQL and RabbitMQ) stores their
  configuration, announces changes to them over the bus, checks the DNS records of the relay
  domains and raises alerts; the console (\<open>web/src\<close>, React) is a client of that API. This
  development models the admin API, as one system, and the console, down to the elements it renders.

  \<^bold>\<open>How the parts interact.\<close> A request passes the hook \<open>onRequest\<close> (Auth), then a handler. A
  handler that writes configuration changes its tables, takes the next epoch (Db) and publishes
  the slice it changed (Bus); the hook \<open>onResponse\<close> writes an audit row. The scheduler checks
  every domain on its cadence: \<open>refreshAll\<close> runs \<open>checkDomain\<close> on a pool of four workers, persists each
  report in a transaction, and hands the reports to the alert detector, whose firings go to the
  alert channels, by mail as a relay job on the bus or by a guarded POST. The console loads all
  tables into one cache, shows them, and sends a write per dialog, followed by a reload.
  System composes the API: one state, one constructor per endpoint, requests, ticks, bus events
  and restarts as steps. UiApp composes the console: one element tree per state, whose handlers
  are the steps.

  \<^bold>\<open>Theories and sources\<close> (paths under \<open>services/admin-api/src\<close>, or \<open>web/src/proto\<close> for the last two groups):
  \<^item> Prelude: strings and arrays of JavaScript on \<open>string\<close> and lists, decimal numbers, reachability
    (\<open>reach\<close>) and the locale \<open>machine_invariant\<close>. Regex: the source's regular expressions with
    backtracking order, and their declarative reading. Values: JSON values, \<open>Number\<close>, URI components.
  \<^item> NetAddr: both copies of \<open>isPrivateAddr\<close>, \<open>hostnameRe\<close>, \<open>withTimeout\<close>. Fetch: resolver wrappers and
    \<open>safeFetchText\<close>. Grading, SpfDmarc: the graders of \<open>deliverability.ts\<close> and what their verdicts mean.
    Checks: \<open>routedProviderTypes\<close> and \<open>checkDomain\<close>. MapLimit: the worker pool. DnsStore:
    \<open>persistCheck\<close>, \<open>readCachedMap\<close>, \<open>refreshAll\<close> and the deliverability endpoints. Scheduler: \<open>intervalHours\<close>, \<open>tick\<close>.
  \<^item> Alerts: \<open>evalTransition\<close>, the texts, \<open>injectEmail\<close>, \<open>postJSON\<close> with its lookup guard, \<open>dispatchAlerts\<close>
    (\<open>alerts.ts\<close>). AlertChannels: the channel endpoints and their table.
  \<^item> Secrets: \<open>secrets.ts\<close>. Bus: \<open>bus.ts\<close>. Db: \<open>db.ts\<close>. Auth: \<open>server.ts\<close> and \<open>betterauth.ts\<close>.
  \<^item> \<open>routes.ts\<close> by endpoint: Crud (resources), Accounts (accounts, settings, provider test), Dkim
    (secrets and key generation), Feedback (suppressions), Messages (messages, requeue, audit).
    Telemetry: \<open>telemetry.ts\<close>.
  \<^item> System, SystemFacts, SystemProps: the API as a whole, \<open>call\<close> for the endpoints, \<open>handle\<close> for the
    hooks around them, \<open>sys_step\<close>; the tables a request can change, the invariant, the properties.
  \<^item> WebStore: \<open>store.jsx\<close>, the cache and the requests of each write. WebForms: \<open>modals.jsx\<close>, each form's
    state, edits, validation and submission. WebShell: \<open>api.ts\<close>, \<open>main.jsx\<close>, \<open>login.jsx\<close>, \<open>sidebar.jsx\<close>,
    \<open>palette.jsx\<close>. WebScreens, WebViews: what the screens compute and send. WebTables: the list screens of
    \<open>tables.jsx\<close> and \<open>screens2.jsx\<close>, and the path of a click to the table behind a list. WebHome: \<open>dashboard.jsx\<close>, \<open>providers.jsx\<close>, the
    user menu and the one-off actions of \<open>store.jsx\<close>. WebEdit: opening a row and saving it untouched.
  \<^item> Ui: elements, event propagation (\<open>dispatch\<close>) and the primitives of \<open>ui.jsx\<close>. UiForms: the dialogs of
    \<open>modals.jsx\<close>; UiProps: what they owe their user. UiScreens: settings, queue, messages, channels,
    sign-in; UiScreenFacts. UiShell: dashboard, sidebar, palette, bar; UiShellFacts. UiTables: the list
    screens; UiTableFacts. UiApp: providers, deliverability, toasts, the \<open>App\<close> of \<open>main.jsx\<close> and
    \<open>console_step\<close>; UiAppFacts. Each renders, over the state of its Web theory, the tree its component returns.

  \<^bold>\<open>Modelling conventions.\<close> Strings are byte sequences (a literal is its UTF-8 encoding). A row is a
  record, a table a list of rows in insertion order. A function that may throw or reject returns
  an option or a sum. What the sources call and do not define is an argument: the resolver, the
  URL parser, \<open>fetch\<close>, the cipher, bcrypt, the broker's API, the clock, identifiers. A failing
  database is a predicate \<open>up k\<close>, whether statement \<open>k\<close> of the operation succeeds, so a theorem over
  all \<open>up\<close> covers every failure point. Handlers return the new table, the status and what
  was published. The hypotheses on an argument are its documented laws: decryption inverts
  encryption under the same key, JSON text parses back, the URL parser lowers the scheme, the
  router runs a handler only on a request that fits its route (\<open>addressed\<close>). In System a request
  and a tick are one step each; a transaction nobody awaits (\<open>run_persist\<close>) is a step of its own.
  A React component is a function to an element tree; of its attributes those are kept that
  carry behaviour or text, and of a style the entries that depend on the properties.

  \<^bold>\<open>State machines.\<close> The pool (\<open>pool_step\<close>: any worker moves), the bus (\<open>bus_step\<close>: generations of
  connections, close events of stale ones included), the alert rows, the alert channels, the keys of a
  domain, the suppression list, the scheduler, the whole API (\<open>sys_step\<close>), the console's session,
  palette and editors, its dialogs (\<open>page_step\<close>: a control of the tree shown is used) and the console as
  rendered (\<open>console_step\<close>) are step relations; each interprets \<open>machine_invariant\<close>, whose \<open>reach_inv\<close>
  carries its invariant to all reachable states.

  \<^bold>\<open>Interfaces.\<close> \<open>config_write\<close> (Crud) states what every configuration write promises: while
  the bus is up, a write answered with success is published and a refused one changes nothing and
  publishes nothing. It is
  interpreted on the generic handlers and on those for accounts, settings, secrets and suppressions,
  and SystemFacts puts these together to the contract of the whole API.
  \<open>report_contract\<close> and \<open>hygiene_contract\<close> (Grading) state what the callers of a grader rely on; every
  grader interprets one of them. \<open>row_screen\<close> and its extension \<open>switch_screen\<close> (WebTables) state what a
  list screen owes the generic handlers; five screens interpret them. \<open>honest_form\<close> (UiProps) states
  what a dialog owes its user, \<open>list_view\<close> (UiTableFacts) that a rendered list is its model; every
  dialog and every list but the rules, whose rows differ, interprets it.

  \<^bold>\<open>What the lemmas show.\<close>
  \<^item> Deliverability: which records put a domain in error; the suggested SPF and DKIM fixes repair the
    verdict; the address filter is the union of six CIDR ranges of the 32-bit address; the
    guarded fetch contacts a host only if every address it resolved to is public, and returns a
    complete body or nothing.
  \<^item> Concurrency: the pool terminates under every interleaving, never runs more than its limit,
    and returns the results in order; the bus always has exactly one of a channel, an armed timer
    and a dial, and recovers; a tick keeps the cache and the alert state of a domain in step.
  \<^item> Failure: persisting a report is atomic; a failing statement anywhere leaves the other domains'
    rows alone; a write that fails is not published.
  \<^item> Security: nothing behind an authenticated path runs without a session or the key; updates set
    whitelisted columns only; password hashes never leave; every alert goes to a public
    address; mail headers are those of the template; audit rows are complete.
  \<^item> The API as a whole: its invariant; an unprivileged request changes nothing; every accepted
    configuration change is announced and audited; the check interval and the table of relay domains
    drive the background job; a deleted domain is gone.
  \<^item> Cryptography and keys: envelopes decrypt to what was encrypted; a domain has at most one active
    key; the record shown after key generation verifies.
  \<^item> Console: what a form submits the API accepts; a rule, a settings row and a cached report read
    back as they were written; a row opened and saved untouched changes only if the console could not have
    written it; the screens' totals agree with the API's.
  \<^item> The page: a refused dialog explains itself; what looks the same sends the same; whatever
    controls are used, a provider is accepted and a chain is free of repetitions; a list shows its rows and a
    click does what its model says, by the rules of event propagation; the palette highlights what
    Enter runs; the console refines the session machine and every screen can be reached.

  \<^bold>\<open>Bounds and fuel.\<close> No definition uses fuel: every recursion is structural or has a measure (the
  length of the input in \<open>isPrivateAddr\<close>, \<open>js_split_ws\<close> and \<open>like\<close>). The pool's
  termination is a bound on the length of its runs. Timers follow Node: a delay outside
  1 to 2147483647 milliseconds becomes one millisecond.

  \<^bold>\<open>Not modelled.\<close> The Go daemons, the SQL planner and the wire protocols (SMTP, AMQP, TLS) are outside this
  development; SQL statements are modelled by what they do to the rows. JSON text, beyond the laws
  of its parser, and non-ASCII case mapping are arguments or not covered. Of the
  console, the drawings of \<open>icons.jsx\<close> and the globals of \<open>main.tsx\<close>, fixed styles, hover effects, focus and
  animation have no logic and are left out, and so is the place where \<open>ModalHost\<close> puts a dialog. Of the API,
  the list of secret names and the connection pool with its ping are
  left out: their results are arguments of what uses them. The better-auth package is an argument.
\<close>

end
